(* ===== verification/Go_Prelude.thy ===== *)
theory Go_Prelude
  imports Main "HOL-Library.AList"
begin

text \<open>
  What every component of the development shares: Go's error values, panics, 64-bit
  arithmetic, times and durations, byte strings with the formatting verbs the error messages
  use, string maps, and contexts. Strings and byte slices are both \<^typ>\<open>string\<close>: a Go
  string is a sequence of bytes and a \<^typ>\<open>char\<close> is a byte. An instant
  (\<open>time.Time\<close>) is the number of nanoseconds since Go's zero time, so \<open>IsZero\<close> is
  \<open>t = 0\<close> and \<open>UTC()\<close> is the identity.
\<close>

named_theorems validate "unfolding rules of the validating constructors"
named_theorems go_err "simplification rules for error values"

section \<open>Errors and panics\<close>

text \<open>
  The sentinel errors of the program and of the packages it calls, those some caller tells
  apart with \<open>errors.Is\<close>.
\<close>

datatype sentinel =
    ErrInvalidID | ErrUnknownCapability | ErrNoNormalizerRegistered | ErrTooManyExecutions
  | ErrReceiptNotFound | ErrReceiptAlreadyExists | ErrIdempotencyKeyConflict
  | DeadlineExceeded | Canceled | ErrChaosPersistFailure | ErrChaosProfileUnsupported
  | ErrUnsupportedAuth | ErrEmptyCommit | MaxBytesError | EOF
  | ErrLinearClient4xx | ErrLinearClient5xx

text \<open>A Go error: the text \<open>Error()\<close> gives and the sentinels in its chain.\<close>

record go_error =
  err_text :: string
  err_is :: "sentinel list"

definition errorf :: "string \<Rightarrow> go_error" where
  "errorf s = \<lparr>err_text = s, err_is = []\<rparr>"

text \<open>\<open>fmt.Errorf("pre: %w", e)\<close>: the text is prefixed, the chain kept.\<close>

definition wrapf :: "string \<Rightarrow> go_error \<Rightarrow> go_error" where
  "wrapf pre e = e\<lparr>err_text := pre @ '': '' @ err_text e\<rparr>"

text \<open>A sentinel with its own text, and \<open>fmt.Errorf("%w: rest", sentinel)\<close>.\<close>

definition sentinel_error :: "sentinel \<Rightarrow> string \<Rightarrow> go_error" where
  "sentinel_error s txt = \<lparr>err_text = txt, err_is = [s]\<rparr>"

definition errors_Is :: "go_error \<Rightarrow> sentinel \<Rightarrow> bool" where
  "errors_Is e s \<longleftrightarrow> s \<in> set (err_is e)"

lemma err_text_errorf [simp, go_err]: "err_text (errorf s) = s"
  by (simp add: errorf_def)

lemma err_is_errorf [simp, go_err]: "err_is (errorf s) = []"
  by (simp add: errorf_def)

lemma err_text_wrapf [simp, go_err]: "err_text (wrapf pre e) = pre @ '': '' @ err_text e"
  by (simp add: wrapf_def)

lemma err_is_wrapf [simp, go_err]: "err_is (wrapf pre e) = err_is e"
  by (simp add: wrapf_def)

lemma err_text_sentinel_error [simp, go_err]: "err_text (sentinel_error s t) = t"
  by (simp add: sentinel_error_def)

lemma err_is_sentinel_error [simp, go_err]: "err_is (sentinel_error s t) = [s]"
  by (simp add: sentinel_error_def)

lemma errors_Is_errorf [simp, go_err]: "\<not> errors_Is (errorf t) s"
  by (simp add: errors_Is_def)

lemma errors_Is_wrapf [simp, go_err]: "errors_Is (wrapf p e) s = errors_Is e s"
  by (simp add: errors_Is_def)

lemma errors_Is_sentinel [simp, go_err]: "errors_Is (sentinel_error s t) s' \<longleftrightarrow> s' = s"
  by (auto simp: errors_Is_def)

text \<open>A call that returns a value or panics with a value (kept as its printed form).\<close>

datatype 'a outcome = Ret 'a | Panic string

text \<open>The error of a context: \<open>context.DeadlineExceeded\<close> or \<open>context.Canceled\<close>.\<close>

definition deadline_exceeded :: go_error where
  "deadline_exceeded = sentinel_error DeadlineExceeded ''context deadline exceeded''"

definition context_canceled :: go_error where
  "context_canceled = sentinel_error Canceled ''context canceled''"

text \<open>
  A context as one operation sees it: \<open>ctx_at n\<close> is what the operation's n-th call of
  \<open>ctx.Err()\<close> returns, \<open>ctx_end\<close> what the caller's call after the operation returns.
\<close>

record go_ctx =
  ctx_at :: "nat \<Rightarrow> go_error option"
  ctx_end :: "go_error option"

text \<open>\<open>context.Background()\<close>, and a context nothing ever cancels.\<close>

definition background :: go_ctx where
  "background = \<lparr>ctx_at = (\<lambda>_. None), ctx_end = None\<rparr>"

text \<open>Documented behaviour of contexts: an error is one of the two, and it stays.\<close>

definition ctx_err_ok :: "go_error option \<Rightarrow> bool" where
  "ctx_err_ok e \<longleftrightarrow> e \<in> {None, Some deadline_exceeded, Some context_canceled}"

definition ctx_ok :: "go_ctx \<Rightarrow> bool" where
  "ctx_ok c \<longleftrightarrow> (\<forall>n. ctx_err_ok (ctx_at c n)) \<and> ctx_err_ok (ctx_end c) \<and>
     (\<forall>n. ctx_at c n \<noteq> None \<longrightarrow> ctx_at c (Suc n) = ctx_at c n \<and> ctx_end c = ctx_at c n)"

lemma ctx_ok_background [simp]: "ctx_ok background"
  by (simp add: ctx_ok_def background_def ctx_err_ok_def)

lemma ctx_at_background [simp]: "ctx_at background n = None"
  by (simp add: background_def)

lemma ctx_end_background [simp]: "ctx_end background = None"
  by (simp add: background_def)

section \<open>Integers, times, durations\<close>

type_synonym go_time = int
type_synonym duration = int

text \<open>Two's complement wrap-around of a 64-bit signed integer.\<close>

definition wrap64 :: "int \<Rightarrow> int" where
  "wrap64 x = (x + 2 ^ 63) mod 2 ^ 64 - 2 ^ 63"

definition int64_ok :: "int \<Rightarrow> bool" where
  "int64_ok x \<longleftrightarrow> - (2 ^ 63) \<le> x \<and> x < 2 ^ 63"

lemma wrap64_id [simp]: "int64_ok x \<Longrightarrow> wrap64 x = x"
  by (simp add: wrap64_def int64_ok_def)

lemma int64_ok_wrap64 [simp]: "int64_ok (wrap64 x)"
proof -
  have "0 \<le> (x + 2 ^ 63) mod 2 ^ 64 \<and> (x + 2 ^ 63) mod 2 ^ 64 < (2 ^ 64 :: int)"
    by (simp add: pos_mod_bound)
  then show ?thesis by (simp add: wrap64_def int64_ok_def)
qed

lemma wrap64_bounds: "- (2 ^ 63) \<le> wrap64 x" "wrap64 x < 2 ^ 63"
  using int64_ok_wrap64 [of x] by (simp_all add: int64_ok_def)

text \<open>Go's integer division truncates towards zero.\<close>

definition go_quot :: "int \<Rightarrow> int \<Rightarrow> int" where
  "go_quot a b = sgn a * sgn b * (\<bar>a\<bar> div \<bar>b\<bar>)"

lemma go_quot_nonneg [simp]: "0 \<le> a \<Longrightarrow> 0 < b \<Longrightarrow> go_quot a b = a div b"
  by (cases "a = 0") (simp_all add: go_quot_def)

lemma go_quot_neg: "a < 0 \<Longrightarrow> 0 < b \<Longrightarrow> go_quot a b \<le> 0"
  by (simp add: go_quot_def pos_imp_zdiv_nonneg_iff)

definition Millisecond :: duration where "Millisecond = 1000000"
definition Second :: duration where "Second = 1000000000"
definition Minute :: duration where "Minute = 60 * Second"

lemmas duration_units = Millisecond_def Second_def Minute_def

text \<open>\<open>time.Duration(ms) * time.Millisecond\<close> and \<open>d.Milliseconds()\<close>.\<close>

definition msToDuration :: "int \<Rightarrow> duration" where
  "msToDuration ms = wrap64 (ms * Millisecond)"

definition Milliseconds :: "duration \<Rightarrow> int" where
  "Milliseconds d = go_quot d Millisecond"

text \<open>The largest number of milliseconds a duration holds: beyond it the product wraps.\<close>

definition max_ms :: int where "max_ms = 9223372036854"

lemma msToDuration_exact [simp]:
  "0 \<le> ms \<Longrightarrow> ms \<le> max_ms \<Longrightarrow> msToDuration ms = ms * 1000000"
  unfolding msToDuration_def Millisecond_def max_ms_def
  by (rule wrap64_id) (simp add: int64_ok_def)

lemma Milliseconds_mult [simp]: "0 \<le> ms \<Longrightarrow> Milliseconds (ms * 1000000) = ms"
  by (simp add: Milliseconds_def Millisecond_def)

lemma Milliseconds_msToDuration:
  "0 \<le> ms \<Longrightarrow> ms \<le> max_ms \<Longrightarrow> Milliseconds (msToDuration ms) = ms"
  by simp

lemma Milliseconds_nonneg: "0 \<le> d \<Longrightarrow> 0 \<le> Milliseconds d"
  by (simp add: Milliseconds_def Millisecond_def pos_imp_zdiv_nonneg_iff)

lemma Milliseconds_le_max: "0 \<le> d \<Longrightarrow> d < 2 ^ 63 \<Longrightarrow> Milliseconds d \<le> max_ms"
  by (simp add: Milliseconds_def Millisecond_def max_ms_def)

text \<open>\<open>t.Sub(u)\<close> saturates at the ends of the duration range.\<close>

definition Sub :: "go_time \<Rightarrow> go_time \<Rightarrow> duration" where
  "Sub t u = max (- (2 ^ 63)) (min (2 ^ 63 - 1) (t - u))"

lemma int64_ok_Sub [simp]: "int64_ok (Sub t u)"
  by (auto simp: Sub_def int64_ok_def)

lemma Sub_nonneg: "u \<le> t \<Longrightarrow> 0 \<le> Sub t u"
  by (simp add: Sub_def)

section \<open>Formatting\<close>

definition digit :: "nat \<Rightarrow> char" where
  "digit n = char_of (48 + n)"

fun nat_dec :: "nat \<Rightarrow> string" where
  "nat_dec n = (if n < 10 then [digit n] else nat_dec (n div 10) @ [digit (n mod 10)])"

declare nat_dec.simps [simp del]

text \<open>\<open>%d\<close> of a signed integer.\<close>

definition int_dec :: "int \<Rightarrow> string" where
  "int_dec n = (if n < 0 then ''-'' @ nat_dec (nat (- n)) else nat_dec (nat n))"

lemma nat_dec_nonempty [simp]: "nat_dec n \<noteq> []"
  by (subst nat_dec.simps) simp

lemma int_dec_nonempty [simp]: "int_dec n \<noteq> []"
  by (simp add: int_dec_def)

text \<open>\<open>%v\<close> of a duration (\<open>Duration.String\<close>): the fraction without its trailing zeros.\<close>

definition frac_str :: "nat \<Rightarrow> nat \<Rightarrow> string" where
  "frac_str prec r =
     (let ds = nat_dec r;
          padded = replicate (prec - length ds) (CHR ''0'') @ ds;
          kept = rev (dropWhile (\<lambda>c. c = CHR ''0'') (rev padded))
      in if kept = [] then [] else ''.'' @ kept)"

definition duration_str :: "duration \<Rightarrow> string" where
  "duration_str d =
     (let u = nat \<bar>d\<bar>;
          secs = u div 1000000000;
          body =
            (if u = 0 then ''0s''
             else if u < 1000 then nat_dec u @ ''ns''
             else if u < 1000000 then nat_dec (u div 1000) @ frac_str 3 (u mod 1000) @ [CHR 0xC2, CHR 0xB5] @ ''s''
             else if u < 1000000000 then nat_dec (u div 1000000) @ frac_str 6 (u mod 1000000) @ ''ms''
             else
               (if secs div 3600 > 0 then nat_dec (secs div 3600) @ ''h'' else []) @
               (if secs div 60 > 0 then nat_dec (secs div 60 mod 60) @ ''m'' else []) @
               nat_dec (secs mod 60) @ frac_str 9 (u mod 1000000000) @ ''s'')
      in if d < 0 then ''-'' @ body else body)"

text \<open>\<open>%t\<close> of a boolean.\<close>

definition bool_str :: "bool \<Rightarrow> string" where
  "bool_str b = (if b then ''true'' else ''false'')"

text \<open>
  \<open>%q\<close> of a string: ASCII control bytes are escaped, bytes from 0x80 on are kept (the
  form \<open>strconv.Quote\<close> gives for printable UTF-8).
\<close>

definition hex_digit :: "nat \<Rightarrow> char" where
  "hex_digit n = (if n < 10 then char_of (48 + n) else char_of (87 + n))"

definition hex_byte :: "char \<Rightarrow> string" where
  "hex_byte c = [hex_digit (of_char c div 16), hex_digit (of_char c mod 16)]"

definition quote_char :: "char \<Rightarrow> string" where
  "quote_char c =
     (let n = (of_char c :: nat) in
      if n = 34 then [CHR 0x5C, CHR 0x22]
      else if n = 92 then [CHR 0x5C, CHR 0x5C]
      else if n = 7 then [CHR 0x5C, CHR ''a''] else if n = 8 then [CHR 0x5C, CHR ''b'']
      else if n = 12 then [CHR 0x5C, CHR ''f''] else if n = 10 then [CHR 0x5C, CHR ''n'']
      else if n = 13 then [CHR 0x5C, CHR ''r''] else if n = 9 then [CHR 0x5C, CHR ''t'']
      else if n = 11 then [CHR 0x5C, CHR ''v'']
      else if n < 32 \<or> n = 127 then [CHR 0x5C, CHR ''x''] @ hex_byte c
      else [c])"

definition quoted :: "string \<Rightarrow> string" where
  "quoted s = [CHR 0x22] @ concat (map quote_char s) @ [CHR 0x22]"

lemma quoted_nonempty [simp]: "quoted s \<noteq> []"
  by (simp add: quoted_def)

text \<open>\<open>strings.Join\<close> and \<open>%v\<close> of a slice.\<close>

fun join :: "string \<Rightarrow> string list \<Rightarrow> string" where
  "join sep [] = []"
| "join sep [x] = x"
| "join sep (x # y # xs) = x @ sep @ join sep (y # xs)"

definition slice_str :: "string list \<Rightarrow> string" where
  "slice_str xs = ''['' @ join '' '' xs @ '']''"

text \<open>
  \<open>%v\<close> of a UTC instant without a monotonic reading (\<open>Time.String\<close>): the date by the
  usual era computation on the days since the first of January of year 1.
\<close>

definition civil_of_days :: "nat \<Rightarrow> nat \<times> nat \<times> nat" where
  "civil_of_days n =
     (let z = n + 306; era = z div 146097; doe = z mod 146097;
          yoe = (doe + doe div 36524 - doe div 1460 - doe div 146096) div 365;
          doy = doe - (365 * yoe + yoe div 4 - yoe div 100);
          mp = (5 * doy + 2) div 153;
          d = doy - (153 * mp + 2) div 5 + 1;
          m = (if mp < 10 then mp + 3 else mp - 9);
          y = yoe + era * 400 + (if m \<le> 2 then 1 else 0)
      in (y, m, d))"

definition pad :: "nat \<Rightarrow> nat \<Rightarrow> string" where
  "pad w n = replicate (w - length (nat_dec n)) (CHR ''0'') @ nat_dec n"

definition time_str :: "go_time \<Rightarrow> string" where
  "time_str t =
     (let ns = nat t; secs = ns div 1000000000; sod = secs mod 86400;
          (y, m, d) = civil_of_days (secs div 86400)
      in pad 4 y @ ''-'' @ pad 2 m @ ''-'' @ pad 2 d @ '' '' @
         pad 2 (sod div 3600) @ '':'' @ pad 2 (sod div 60 mod 60) @ '':'' @ pad 2 (sod mod 60) @
         frac_str 9 (ns mod 1000000000) @ '' +0000 UTC'')"

text \<open>The sign of a lower bound in several messages, in UTF-8.\<close>

definition ge_sign :: string where
  "ge_sign = [CHR 0xE2, CHR 0x89, CHR 0xA5]"

text \<open>The em dash of several messages, in UTF-8.\<close>

definition em_dash :: string where
  "em_dash = [CHR 0xE2, CHR 0x80, CHR 0x94]"

section \<open>Character classes of the validating expressions\<close>

definition between :: "nat \<Rightarrow> nat \<Rightarrow> char \<Rightarrow> bool" where
  "between lo hi c \<longleftrightarrow> lo \<le> of_char c \<and> of_char c \<le> hi"

definition is_lower :: "char \<Rightarrow> bool" where "is_lower = between 97 122"
definition is_upper :: "char \<Rightarrow> bool" where "is_upper = between 65 90"
definition is_digit :: "char \<Rightarrow> bool" where "is_digit = between 48 57"

lemmas char_classes = between_def is_lower_def is_upper_def is_digit_def

section \<open>String maps\<close>

text \<open>
  A \<open>map[string]string\<close> is an association list with distinct keys; Go's iteration order
  over it is unspecified and no definition depends on the list's order. A missing key reads
  as the empty string.
\<close>

type_synonym smap = "(string \<times> string) list"

definition map_get :: "smap \<Rightarrow> string \<Rightarrow> string" where
  "map_get m k = (case map_of m k of None \<Rightarrow> [] | Some v \<Rightarrow> v)"

definition value_bytes :: "smap \<Rightarrow> nat" where
  "value_bytes m = (\<Sum>(k, v) \<leftarrow> m. length v)"

lemma value_bytes_Nil [simp]: "value_bytes [] = 0"
  by (simp add: value_bytes_def)

lemma value_bytes_Cons [simp]: "value_bytes ((k, v) # m) = length v + value_bytes m"
  by (simp add: value_bytes_def)

lemma fold_keys:
  fixes f :: "'a \<Rightarrow> ('k \<times> 'v) list \<Rightarrow> ('k \<times> 'v) list"
  assumes "\<And>x m. fst ` set (f x m) \<subseteq> insert (g x) (fst ` set m)"
  shows "fst ` set (fold f xs m) \<subseteq> fst ` set m \<union> g ` set xs"
proof (induction xs arbitrary: m)
  case (Cons x xs)
  have "fst ` set (fold f xs (f x m)) \<subseteq> fst ` set (f x m) \<union> g ` set xs" by (rule Cons)
  also have "\<dots> \<subseteq> insert (g x) (fst ` set m) \<union> g ` set xs" using assms [of x m] by blast
  finally show ?case by (simp add: Un_commute)
qed simp

section \<open>Generic lemmas\<close>

lemma Inr_case_sum_iff:
  "(case x of Inl e \<Rightarrow> Inl e | Inr y \<Rightarrow> f y) = Inr z \<longleftrightarrow> (\<exists>y. x = Inr y \<and> f y = Inr z)"
  by (cases x) auto

lemma Inl_case_sum_iff:
  "(case x of Inl e \<Rightarrow> Inl e | Inr y \<Rightarrow> f y) = Inl e \<longleftrightarrow>
     x = Inl e \<or> (\<exists>y. x = Inr y \<and> f y = Inl e)"
  by (cases x) auto

lemma map_sum_Inr: "map_sum f g x = Inr y \<longleftrightarrow> (\<exists>z. x = Inr z \<and> y = g z)"
  by (cases x) auto

lemma if_Inl_eq_Inr_iff: "((if c then Inl e else x) = Inr y) \<longleftrightarrow> \<not> c \<and> x = Inr y"
  by simp

lemmas error_cases = Inr_case_sum_iff if_Inl_eq_Inr_iff

lemma isl_case_sum_iff:
  "isl (case x of Inl e \<Rightarrow> Inl (g e) | Inr y \<Rightarrow> f y) \<longleftrightarrow> isl x \<or> isl (f (projr x))"
  by (cases x) auto

lemma takeWhile_append_stop:
  assumes "\<forall>x \<in> set xs. P x" and "\<not> P y"
  shows "takeWhile P (xs @ y # ys) = xs" and "dropWhile P (xs @ y # ys) = y # ys"
  using assms by (induction xs) auto

end
