(* ===== verification/Ids.thy ===== *)
theory Ids
  imports Go_Prelude
begin

text \<open>
  The identifiers of \<open>internal/domain/shared/ids.go\<close> and the adapter identifier of
  \<open>valueobjects/adapter_id.go\<close>: wrapped strings whose constructors check a regular
  expression. Each expression is anchored at both ends and its classes are ASCII, so a match
  is a predicate on the bytes: a list of classes (\<open>match_seq\<close>), or a head class and a
  bounded tail (\<open>head_tail\<close>). The zero value of each type wraps the empty string.
\<close>

datatype ReceiptID = ReceiptID (ReceiptID_String: string)
datatype HandleID = HandleID (HandleID_String: string)
datatype CorrelationID = CorrelationID (CorrelationID_String: string)
datatype IdempotencyKey = IdempotencyKey (IdempotencyKey_String: string)
datatype AdapterID = AdapterID (AdapterID_String: string)

definition match_seq :: "(char \<Rightarrow> bool) list \<Rightarrow> string \<Rightarrow> bool" where
  "match_seq ps s \<longleftrightarrow> list_all2 (\<lambda>p c. p c) ps s"

definition head_tail :: "(char \<Rightarrow> bool) \<Rightarrow> (char \<Rightarrow> bool) \<Rightarrow> nat \<Rightarrow> nat \<Rightarrow> string \<Rightarrow> bool" where
  "head_tail h t lo hi s \<longleftrightarrow>
     (case s of [] \<Rightarrow> False
      | c # cs \<Rightarrow> h c \<and> lo \<le> length cs \<and> length cs \<le> hi \<and> list_all t cs)"

definition ulid_char :: "char \<Rightarrow> bool" where
  "ulid_char c \<longleftrightarrow> is_digit c \<or> between 65 72 c \<or> c = CHR ''J'' \<or> c = CHR ''K'' \<or>
     c = CHR ''M'' \<or> c = CHR ''N'' \<or> between 80 84 c \<or> between 86 90 c"

definition hex_char :: "char \<Rightarrow> bool" where
  "hex_char c \<longleftrightarrow> is_digit c \<or> between 97 102 c \<or> between 65 70 c"

definition hyphen :: "char \<Rightarrow> bool" where
  "hyphen c \<longleftrightarrow> c = CHR ''-''"

definition ulidRegex :: "string \<Rightarrow> bool" where
  "ulidRegex = match_seq (replicate 26 ulid_char)"

definition uuidRegex :: "string \<Rightarrow> bool" where
  "uuidRegex = match_seq (replicate 8 hex_char @ [hyphen] @ replicate 4 hex_char @ [hyphen] @
     replicate 4 hex_char @ [hyphen] @ replicate 4 hex_char @ [hyphen] @ replicate 12 hex_char)"

definition validateULID :: "string \<Rightarrow> go_error option" where
  "validateULID s =
     (if \<not> ulidRegex s
      then Some (sentinel_error ErrInvalidID (''invalid id: expected 26-char ULID, got '' @ quoted s))
      else None)"

definition NewReceiptID :: "string \<Rightarrow> go_error + ReceiptID" where
  "NewReceiptID s = (case validateULID s of Some e \<Rightarrow> Inl e | None \<Rightarrow> Inr (ReceiptID s))"

definition NewHandleID :: "string \<Rightarrow> go_error + HandleID" where
  "NewHandleID s = (case validateULID s of Some e \<Rightarrow> Inl e | None \<Rightarrow> Inr (HandleID s))"

definition NewCorrelationID :: "string \<Rightarrow> go_error + CorrelationID" where
  "NewCorrelationID s = (case validateULID s of Some e \<Rightarrow> Inl e | None \<Rightarrow> Inr (CorrelationID s))"

definition NewIdempotencyKey :: "string \<Rightarrow> go_error + IdempotencyKey" where
  "NewIdempotencyKey s =
     (if ulidRegex s \<or> uuidRegex s then Inr (IdempotencyKey s)
      else Inl (sentinel_error ErrInvalidID
             (''invalid id: idempotency_key must be ULID or UUID: '' @ quoted s)))"

definition adapterIDRegex :: "string \<Rightarrow> bool" where
  "adapterIDRegex =
     head_tail is_lower (\<lambda>c. is_lower c \<or> is_digit c \<or> c = CHR ''_'') 1 31"

definition NewAdapterID :: "string \<Rightarrow> go_error + AdapterID" where
  "NewAdapterID s =
     (if \<not> adapterIDRegex s
      then Inl (errorf (''invalid adapter_id '' @ quoted s @ '': must match ^[a-z][a-z0-9_]{1,31}$''))
      else Inr (AdapterID s))"

lemma NewReceiptID_Inr [validate]: "NewReceiptID s = Inr r \<longleftrightarrow> ulidRegex s \<and> r = ReceiptID s"
  by (auto simp: NewReceiptID_def validateULID_def)

lemma NewHandleID_Inr [validate]: "NewHandleID s = Inr r \<longleftrightarrow> ulidRegex s \<and> r = HandleID s"
  by (auto simp: NewHandleID_def validateULID_def)

lemma NewCorrelationID_Inr [validate]:
  "NewCorrelationID s = Inr r \<longleftrightarrow> ulidRegex s \<and> r = CorrelationID s"
  by (auto simp: NewCorrelationID_def validateULID_def)

lemma NewIdempotencyKey_Inr [validate]:
  "NewIdempotencyKey s = Inr r \<longleftrightarrow> (ulidRegex s \<or> uuidRegex s) \<and> r = IdempotencyKey s"
  by (auto simp: NewIdempotencyKey_def)

lemma NewAdapterID_Inr [validate]: "NewAdapterID s = Inr a \<longleftrightarrow> adapterIDRegex s \<and> a = AdapterID s"
  by (auto simp: NewAdapterID_def)

lemma match_seq_length: "match_seq ps s \<Longrightarrow> length s = length ps"
  by (auto simp: match_seq_def dest: list_all2_lengthD)

lemma ulid_length: "ulidRegex s \<Longrightarrow> length s = 26"
  by (auto simp: ulidRegex_def dest: match_seq_length)

lemma ulid_nonempty [simp]: "\<not> ulidRegex []"
  by (auto dest: ulid_length)

lemma uuid_length: "uuidRegex s \<Longrightarrow> length s = 36"
  by (auto simp: uuidRegex_def dest: match_seq_length)

text \<open>No identifier the constructors accept contains the separators of a canonical name.\<close>

lemma head_tail_set: "head_tail h t lo hi s \<Longrightarrow> c \<in> set s \<Longrightarrow> h c \<or> t c"
  by (auto simp: head_tail_def list_all_iff split: list.splits)

lemma head_tail_length: "head_tail h t lo hi s \<Longrightarrow> lo < length s \<and> length s \<le> Suc hi"
  by (auto simp: head_tail_def split: list.splits)

lemma adapterIDRegex_chars:
  assumes "adapterIDRegex s"
  shows "CHR ''.'' \<notin> set s" and "CHR ''@'' \<notin> set s" and "s \<noteq> []"
proof -
  have cls: "is_lower c \<or> is_digit c \<or> c = CHR ''_''" if "c \<in> set s" for c
    using head_tail_set [of _ _ _ _ s c] assms that unfolding adapterIDRegex_def by blast
  show "CHR ''.'' \<notin> set s" using cls [of "CHR ''.''"] by (auto simp: char_classes)
  show "CHR ''@'' \<notin> set s" using cls [of "CHR ''@''"] by (auto simp: char_classes)
  show "s \<noteq> []" using assms by (auto simp: adapterIDRegex_def head_tail_def)
qed

end
