(* ===== verification/Value_Objects.thy ===== *)
theory Value_Objects
  imports Ids "HOL-Library.List_Lexorder" "HOL-Library.Char_ord" "HOL-Library.Multiset"
begin

text \<open>
  The value objects of \<open>internal/domain/execution/valueobjects\<close>: the closed enums, the
  timeout budget, the payload with the syntax check \<open>json.Valid\<close> does, capabilities, the
  capability registry and the catalog of the first phase. A Go string enum is a string: the
  type of the code admits any, and the parsers are what closes it.
\<close>

section \<open>Closed enums\<close>

type_synonym ErrorClass = string
type_synonym ExecutionStatus = string
type_synonym RetryHint = string

abbreviation (input) ErrValidationFailure :: ErrorClass where "ErrValidationFailure \<equiv> ''validation_failure''"
abbreviation (input) ErrCapabilityUnknown :: ErrorClass where "ErrCapabilityUnknown \<equiv> ''capability_unknown''"
abbreviation (input) ErrPayloadSchemaFailure :: ErrorClass where "ErrPayloadSchemaFailure \<equiv> ''payload_schema_failure''"
abbreviation (input) ErrPreconditionFailure :: ErrorClass where "ErrPreconditionFailure \<equiv> ''precondition_failure''"
abbreviation (input) ErrExternalFailure :: ErrorClass where "ErrExternalFailure \<equiv> ''external_failure''"
abbreviation (input) ErrTimeout :: ErrorClass where "ErrTimeout \<equiv> ''timeout''"
abbreviation (input) ErrCancelled :: ErrorClass where "ErrCancelled \<equiv> ''cancelled''"
abbreviation (input) ErrInterrupted :: ErrorClass where "ErrInterrupted \<equiv> ''interrupted''"
abbreviation (input) ErrNormalizationFailure :: ErrorClass where "ErrNormalizationFailure \<equiv> ''normalization_failure''"
abbreviation (input) ErrAdapterInternalError :: ErrorClass where "ErrAdapterInternalError \<equiv> ''adapter_internal_error''"

abbreviation (input) StatusSuccess :: ExecutionStatus where "StatusSuccess \<equiv> ''success''"
abbreviation (input) StatusFailure :: ExecutionStatus where "StatusFailure \<equiv> ''failure''"
abbreviation (input) StatusTimeout :: ExecutionStatus where "StatusTimeout \<equiv> ''timeout''"
abbreviation (input) StatusCancelled :: ExecutionStatus where "StatusCancelled \<equiv> ''cancelled''"
abbreviation (input) StatusPartial :: ExecutionStatus where "StatusPartial \<equiv> ''partial''"

abbreviation (input) HintRetryable :: RetryHint where "HintRetryable \<equiv> ''retryable''"
abbreviation (input) HintNonRetryable :: RetryHint where "HintNonRetryable \<equiv> ''non_retryable''"
abbreviation (input) HintUnknown :: RetryHint where "HintUnknown \<equiv> ''unknown''"

definition allErrorClasses :: "ErrorClass list" where
  "allErrorClasses = [ErrValidationFailure, ErrCapabilityUnknown, ErrPayloadSchemaFailure,
     ErrPreconditionFailure, ErrExternalFailure, ErrTimeout, ErrCancelled, ErrInterrupted,
     ErrNormalizationFailure, ErrAdapterInternalError]"

definition allStatuses :: "ExecutionStatus list" where
  "allStatuses = [StatusSuccess, StatusFailure, StatusTimeout, StatusCancelled, StatusPartial]"

definition allRetryHints :: "RetryHint list" where
  "allRetryHints = [HintRetryable, HintNonRetryable, HintUnknown]"

definition ParseErrorClass :: "string \<Rightarrow> go_error + ErrorClass" where
  "ParseErrorClass s =
     (if s \<notin> set allErrorClasses then Inl (errorf (''invalid error_class '' @ quoted s)) else Inr s)"

definition ParseExecutionStatus :: "string \<Rightarrow> go_error + ExecutionStatus" where
  "ParseExecutionStatus s =
     (if s \<notin> set allStatuses then Inl (errorf (''invalid execution_status '' @ quoted s)) else Inr s)"

definition ParseRetryHint :: "string \<Rightarrow> go_error + RetryHint" where
  "ParseRetryHint s =
     (if s \<notin> set allRetryHints then Inl (errorf (''invalid retry_hint '' @ quoted s)) else Inr s)"

definition DefaultRetryHint :: "ErrorClass \<Rightarrow> RetryHint" where
  "DefaultRetryHint e =
     (if e \<in> set [ErrTimeout, ErrInterrupted] then HintRetryable
      else if e = ErrExternalFailure then HintUnknown
      else if e \<in> set [ErrValidationFailure, ErrCapabilityUnknown, ErrPayloadSchemaFailure,
                   ErrPreconditionFailure, ErrCancelled, ErrNormalizationFailure,
                   ErrAdapterInternalError] then HintNonRetryable
      else HintUnknown)"

lemmas enum_defs = allErrorClasses_def allStatuses_def allRetryHints_def

lemma ParseErrorClass_Inr [validate]: "ParseErrorClass s = Inr e \<longleftrightarrow> s \<in> set allErrorClasses \<and> e = s"
  by (auto simp: ParseErrorClass_def)

lemma ParseExecutionStatus_Inr [validate]:
  "ParseExecutionStatus s = Inr e \<longleftrightarrow> s \<in> set allStatuses \<and> e = s"
  by (auto simp: ParseExecutionStatus_def)

lemma ParseRetryHint_Inr [validate]: "ParseRetryHint s = Inr e \<longleftrightarrow> s \<in> set allRetryHints \<and> e = s"
  by (auto simp: ParseRetryHint_def)

lemma DefaultRetryHint_valid: "DefaultRetryHint e \<in> set allRetryHints"
  by (simp add: DefaultRetryHint_def allRetryHints_def)

section \<open>Timeout budget\<close>

text \<open>\<open>TimeoutBudget\<close> wraps a duration; the multiplication by a millisecond is Go's, modulo \<open>2 ^ 64\<close>.\<close>

datatype TimeoutBudget = TimeoutBudget (tb_Duration: duration)

definition NewTimeoutBudget :: "int \<Rightarrow> duration \<Rightarrow> go_error + TimeoutBudget" where
  "NewTimeoutBudget ms mx =
     (if ms \<le> 0 then Inl (errorf (''timeout_budget_ms must be > 0, got '' @ int_dec ms))
      else let d = msToDuration ms in
        if mx > 0 \<and> d > mx
        then Inl (errorf (''timeout_budget '' @ duration_str d @ '' exceeds max '' @ duration_str mx))
        else Inr (TimeoutBudget d))"

definition tb_Milliseconds :: "TimeoutBudget \<Rightarrow> int" where
  "tb_Milliseconds b = Milliseconds (tb_Duration b)"

definition TimeoutBudget_UnmarshalJSON :: "int \<Rightarrow> go_error + TimeoutBudget" where
  "TimeoutBudget_UnmarshalJSON ms =
     (if ms \<le> 0 then Inl (errorf (''timeout_budget_ms must be > 0, got '' @ int_dec ms))
      else Inr (TimeoutBudget (msToDuration ms)))"

lemma NewTimeoutBudget_Inr [validate]:
  "NewTimeoutBudget ms mx = Inr b \<longleftrightarrow>
     0 < ms \<and> (0 < mx \<longrightarrow> msToDuration ms \<le> mx) \<and> b = TimeoutBudget (msToDuration ms)"
  by (auto simp: NewTimeoutBudget_def Let_def)

lemma NewTimeoutBudget_in_range:
  assumes "NewTimeoutBudget ms mx = Inr b" and "ms \<le> max_ms"
  shows "0 < tb_Duration b" and "0 < mx \<Longrightarrow> tb_Duration b \<le> mx" and "tb_Milliseconds b = ms"
  using assms by (auto simp: validate tb_Milliseconds_def)

section \<open>Payload\<close>

text \<open>
  \<open>json.Valid\<close> is the byte-driven scanner of \<open>encoding/json\<close>: a state, and the stack
  of the composite values that are open, at most 10000 of them.
\<close>

datatype parse_state = ParseObjectKey | ParseObjectValue | ParseArrayValue

datatype scan_state =
    SBeginValueOrEmpty | SBeginValue | SBeginStringOrEmpty | SBeginString | SEndValue | SEndTop
  | SInString | SInStringEsc | SInStringEscU | SInStringEscU1 | SInStringEscU12 | SInStringEscU123
  | SNeg | S1 | S0 | SDot | SDot0 | SE | SESign | SE0
  | ST | STr | STru | SF | SFa | SFal | SFals | SN | SNu | SNul | SError

type_synonym scanner = "scan_state \<times> parse_state list"

definition isSpace :: "char \<Rightarrow> bool" where
  "isSpace c \<longleftrightarrow> c = CHR '' '' \<or> c = CHR 0x09 \<or> c = CHR 0x0D \<or> c = CHR 0x0A"

definition maxNestingDepth :: nat where "maxNestingDepth = 10000"

definition scan_error :: scanner where "scan_error = (SError, [])"

definition pushParseState :: "scan_state \<Rightarrow> parse_state \<Rightarrow> parse_state list \<Rightarrow> scanner" where
  "pushParseState next p ps = (if Suc (length ps) \<le> maxNestingDepth then (next, p # ps) else scan_error)"

definition popParseState :: "parse_state list \<Rightarrow> scanner" where
  "popParseState ps = (if tl ps = [] then (SEndTop, []) else (SEndValue, tl ps))"

definition stateEndTop :: "parse_state list \<Rightarrow> char \<Rightarrow> scanner" where
  "stateEndTop ps c = (if isSpace c then (SEndTop, ps) else scan_error)"

fun stateEndValue :: "parse_state list \<Rightarrow> char \<Rightarrow> scanner" where
  "stateEndValue [] c = stateEndTop [] c"
| "stateEndValue (p # ps) c =
     (if isSpace c then (SEndValue, p # ps)
      else case p of
        ParseObjectKey \<Rightarrow> if c = CHR '':'' then (SBeginValue, ParseObjectValue # ps) else scan_error
      | ParseObjectValue \<Rightarrow>
          if c = CHR '','' then (SBeginString, ParseObjectKey # ps)
          else if c = CHR ''}'' then popParseState (p # ps) else scan_error
      | ParseArrayValue \<Rightarrow>
          if c = CHR '','' then (SBeginValue, p # ps)
          else if c = CHR '']'' then popParseState (p # ps) else scan_error)"

definition stateBeginValue :: "parse_state list \<Rightarrow> char \<Rightarrow> scanner" where
  "stateBeginValue ps c =
     (if isSpace c then (SBeginValue, ps)
      else if c = CHR ''{'' then pushParseState SBeginStringOrEmpty ParseObjectKey ps
      else if c = CHR ''['' then pushParseState SBeginValueOrEmpty ParseArrayValue ps
      else if c = CHR 0x22 then (SInString, ps)
      else if c = CHR ''-'' then (SNeg, ps)
      else if c = CHR ''0'' then (S0, ps)
      else if c = CHR ''t'' then (ST, ps)
      else if c = CHR ''f'' then (SF, ps)
      else if c = CHR ''n'' then (SN, ps)
      else if is_digit c then (S1, ps)
      else scan_error)"

definition stateBeginString :: "parse_state list \<Rightarrow> char \<Rightarrow> scanner" where
  "stateBeginString ps c =
     (if isSpace c then (SBeginString, ps)
      else if c = CHR 0x22 then (SInString, ps) else scan_error)"

definition state0 :: "parse_state list \<Rightarrow> char \<Rightarrow> scanner" where
  "state0 ps c =
     (if c = CHR ''.'' then (SDot, ps)
      else if c = CHR ''e'' \<or> c = CHR ''E'' then (SE, ps)
      else stateEndValue ps c)"

definition stateESign :: "parse_state list \<Rightarrow> char \<Rightarrow> scanner" where
  "stateESign ps c = (if is_digit c then (SE0, ps) else scan_error)"

definition expect_char :: "char \<Rightarrow> scan_state \<Rightarrow> parse_state list \<Rightarrow> char \<Rightarrow> scanner" where
  "expect_char x next ps c = (if c = x then (next, ps) else scan_error)"

definition expect_hex :: "scan_state \<Rightarrow> parse_state list \<Rightarrow> char \<Rightarrow> scanner" where
  "expect_hex next ps c = (if hex_char c then (next, ps) else scan_error)"

fun scan_step :: "scanner \<Rightarrow> char \<Rightarrow> scanner" where
  "scan_step (SBeginValueOrEmpty, ps) c =
     (if isSpace c then (SBeginValueOrEmpty, ps)
      else if c = CHR '']'' then stateEndValue ps c else stateBeginValue ps c)"
| "scan_step (SBeginValue, ps) c = stateBeginValue ps c"
| "scan_step (SBeginStringOrEmpty, ps) c =
     (if isSpace c then (SBeginStringOrEmpty, ps)
      else if c = CHR ''}'' then stateEndValue (ParseObjectValue # tl ps) c
      else stateBeginString ps c)"
| "scan_step (SBeginString, ps) c = stateBeginString ps c"
| "scan_step (SEndValue, ps) c = stateEndValue ps c"
| "scan_step (SEndTop, ps) c = stateEndTop ps c"
| "scan_step (SInString, ps) c =
     (if c = CHR 0x22 then (SEndValue, ps)
      else if c = CHR 0x5C then (SInStringEsc, ps)
      else if of_char c < (32::nat) then scan_error
      else (SInString, ps))"
| "scan_step (SInStringEsc, ps) c =
     (if c \<in> set (''bfnrt/'' @ [CHR 0x5C, CHR 0x22]) then (SInString, ps)
      else if c = CHR ''u'' then (SInStringEscU, ps) else scan_error)"
| "scan_step (SInStringEscU, ps) c = expect_hex SInStringEscU1 ps c"
| "scan_step (SInStringEscU1, ps) c = expect_hex SInStringEscU12 ps c"
| "scan_step (SInStringEscU12, ps) c = expect_hex SInStringEscU123 ps c"
| "scan_step (SInStringEscU123, ps) c = expect_hex SInString ps c"
| "scan_step (SNeg, ps) c =
     (if c = CHR ''0'' then (S0, ps) else if is_digit c then (S1, ps) else scan_error)"
| "scan_step (S1, ps) c = (if is_digit c then (S1, ps) else state0 ps c)"
| "scan_step (S0, ps) c = state0 ps c"
| "scan_step (SDot, ps) c = (if is_digit c then (SDot0, ps) else scan_error)"
| "scan_step (SDot0, ps) c =
     (if is_digit c then (SDot0, ps)
      else if c = CHR ''e'' \<or> c = CHR ''E'' then (SE, ps) else stateEndValue ps c)"
| "scan_step (SE, ps) c =
     (if c = CHR ''+'' \<or> c = CHR ''-'' then (SESign, ps) else stateESign ps c)"
| "scan_step (SESign, ps) c = stateESign ps c"
| "scan_step (SE0, ps) c = (if is_digit c then (SE0, ps) else stateEndValue ps c)"
| "scan_step (ST, ps) c = expect_char (CHR ''r'') STr ps c"
| "scan_step (STr, ps) c = expect_char (CHR ''u'') STru ps c"
| "scan_step (STru, ps) c = expect_char (CHR ''e'') SEndValue ps c"
| "scan_step (SF, ps) c = expect_char (CHR ''a'') SFa ps c"
| "scan_step (SFa, ps) c = expect_char (CHR ''l'') SFal ps c"
| "scan_step (SFal, ps) c = expect_char (CHR ''s'') SFals ps c"
| "scan_step (SFals, ps) c = expect_char (CHR ''e'') SEndValue ps c"
| "scan_step (SN, ps) c = expect_char (CHR ''u'') SNu ps c"
| "scan_step (SNu, ps) c = expect_char (CHR ''l'') SNul ps c"
| "scan_step (SNul, ps) c = expect_char (CHR ''l'') SEndValue ps c"
| "scan_step (SError, ps) c = scan_error"

text \<open>
  \<open>checkValid\<close> stops at the first error (here the error state absorbs what follows) and
  then asks \<open>eof\<close>, which steps on one space unless the top-level value has ended.
\<close>

definition scan :: "scanner \<Rightarrow> string \<Rightarrow> scanner" where
  "scan = foldl scan_step"

definition json_valid :: "string \<Rightarrow> bool" where
  "json_valid s =
     (let st = scan (SBeginValue, []) s
      in fst st = SEndTop \<or> fst (scan_step st (CHR '' '')) = SEndTop)"

lemma scan_Nil [simp]: "scan st [] = st"
  by (simp add: scan_def)

lemma scan_Cons [simp]: "scan st (c # s) = scan (scan_step st c) s"
  by (simp add: scan_def)

lemma scan_append [simp]: "scan st (s @ t) = scan (scan st s) t"
  by (simp add: scan_def)

definition ContentTypeJSON :: string where "ContentTypeJSON = ''application/json''"

record Payload =
  pl_contentType :: string
  pl_data :: string

definition NewPayload :: "string \<Rightarrow> string \<Rightarrow> int \<Rightarrow> go_error + Payload" where
  "NewPayload contentType dat maxBytes =
     (if contentType \<noteq> ContentTypeJSON
      then Inl (errorf (''unsupported content_type '' @ quoted contentType @
                        '' (Phase 1: '' @ ContentTypeJSON @ '' only)''))
      else if length dat = 0 then Inl (errorf ''payload data is empty'')
      else if maxBytes > 0 \<and> int (length dat) > maxBytes
      then Inl (errorf (''payload exceeds max '' @ int_dec maxBytes @ '' bytes (got '' @
                        nat_dec (length dat) @ '')''))
      else if \<not> json_valid dat then Inl (errorf ''payload is not valid JSON'')
      else Inr \<lparr>pl_contentType = contentType, pl_data = dat\<rparr>)"

definition pl_Raw :: "Payload \<Rightarrow> string" where "pl_Raw p = pl_data p"

definition pl_SizeBytes :: "Payload \<Rightarrow> nat" where "pl_SizeBytes p = length (pl_data p)"

lemma NewPayload_Inr [validate]:
  "NewPayload ct dat mx = Inr p \<longleftrightarrow>
     ct = ContentTypeJSON \<and> dat \<noteq> [] \<and> (0 < mx \<longrightarrow> int (length dat) \<le> mx) \<and> json_valid dat \<and>
     p = \<lparr>pl_contentType = ct, pl_data = dat\<rparr>"
  by (auto simp: NewPayload_def)

section \<open>What the scanner accepts\<close>

text \<open>
  A reference grammar: JSON values with their printed form, an object's members and an
  array's elements separated by commas. \<open>json_valid\<close> accepts every printed value whose
  nesting stays under the scanner's limit.
\<close>

datatype json =
    JNull | JBool bool | JNat nat | JStr string | JArr "json list" | JObj "(string \<times> json) list"

definition plain_char :: "char \<Rightarrow> bool" where
  "plain_char c \<longleftrightarrow> c \<noteq> CHR 0x22 \<and> c \<noteq> CHR 0x5C \<and> (32::nat) \<le> of_char c"

definition render_str :: "string \<Rightarrow> string" where
  "render_str s = [CHR 0x22] @ s @ [CHR 0x22]"

fun render :: "json \<Rightarrow> string" and
    render_list :: "json list \<Rightarrow> string" and
    render_members :: "(string \<times> json) list \<Rightarrow> string" where
  "render JNull = ''null''"
| "render (JBool b) = bool_str b"
| "render (JNat n) = nat_dec n"
| "render (JStr s) = render_str s"
| "render (JArr xs) = ''['' @ render_list xs @ '']''"
| "render (JObj ms) = ''{'' @ render_members ms @ ''}''"
| "render_list [] = []"
| "render_list (x # xs) = render x @ (if xs = [] then [] else '','' @ render_list xs)"
| "render_members [] = []"
| "render_members ((k, v) # ms) =
     render_str k @ '':'' @ render v @ (if ms = [] then [] else '','' @ render_members ms)"

fun json_ok :: "nat \<Rightarrow> json \<Rightarrow> bool" where
  "json_ok d (JStr s) = list_all plain_char s"
| "json_ok d (JArr xs) = (0 < d \<and> list_all (json_ok (d - 1)) xs)"
| "json_ok d (JObj ms) =
     (0 < d \<and> list_all (\<lambda>(k, v). list_all plain_char k \<and> json_ok (d - 1) v) ms)"
| "json_ok d _ = True"

text \<open>
  A value has been read up to its end when the scanner would go on as from \<open>SEndValue\<close>:
  after a number it is still in a digit state, which the next byte leaves.
\<close>

definition value_read :: "parse_state list \<Rightarrow> scanner \<Rightarrow> bool" where
  "value_read ps st \<longleftrightarrow> (ps \<noteq> [] \<and> st = (SEndValue, ps)) \<or> st \<in> {(S1, ps), (S0, ps)} \<or>
     (ps = [] \<and> st \<in> {(SEndTop, []), (SEndValue, [])})"

lemma value_read_step:
  assumes "value_read ps st" and "c \<in> set '' ,]}''"
  shows "scan_step st c = stateEndValue ps c"
  using assms by (auto simp: value_read_def state0_def char_classes isSpace_def stateEndTop_def)

lemma scan_plain:
  "list_all plain_char s \<Longrightarrow> scan (SInString, ps) s = (SInString, ps)"
  by (induction s) (auto simp: plain_char_def)

lemma scan_render_str:
  assumes "list_all plain_char s" and "st \<in> {SBeginValue, SBeginValueOrEmpty, SBeginString, SBeginStringOrEmpty}"
  shows "scan (st, ps) (render_str s) = (SEndValue, ps)"
  using assms by (auto simp: render_str_def scan_plain stateBeginValue_def stateBeginString_def isSpace_def)

lemma is_digit_digit [simp]: "n < 10 \<Longrightarrow> is_digit (digit n)"
  by (simp add: digit_def char_classes)

lemma digit_eq_0 [simp]: "n < 10 \<Longrightarrow> digit n = CHR ''0'' \<longleftrightarrow> n = 0"
proof -
  assume "n < 10"
  have "digit n = CHR ''0'' \<longleftrightarrow> (of_char (digit n) :: nat) = of_char (CHR ''0'')"
    by (simp only: of_char_eq_iff)
  with \<open>n < 10\<close> show ?thesis by (simp add: digit_def)
qed

lemma is_digit_first:
  assumes "is_digit c"
  shows "\<not> isSpace c" and "c \<noteq> CHR ''{''" and "c \<noteq> CHR ''[''" and "c \<noteq> CHR '']''" and "c \<noteq> CHR 0x22"
    and "c \<noteq> CHR ''-''" and "c \<noteq> CHR ''t''" and "c \<noteq> CHR ''f''" and "c \<noteq> CHR ''n''"
  using assms by (auto simp: isSpace_def char_classes)

lemma scan_nat_dec:
  assumes "st \<in> {SBeginValue, SBeginValueOrEmpty}"
  shows "scan (st, ps) (nat_dec n) = (if n = 0 then (S0, ps) else (S1, ps))"
proof (induction n rule: nat_dec.induct)
  case (1 n)
  show ?case
  proof (cases "n < 10")
    case True
    then show ?thesis using assms
      by (subst nat_dec.simps) (auto simp: stateBeginValue_def is_digit_first)
  next
    case False
    then have "n div 10 \<noteq> 0" by simp
    with False 1 show ?thesis by (subst nat_dec.simps) simp
  qed
qed

lemma scan_word:
  assumes "st \<in> {SBeginValue, SBeginValueOrEmpty}"
  shows "scan (st, ps) ''null'' = (SEndValue, ps)" and "scan (st, ps) (bool_str b) = (SEndValue, ps)"
  using assms
  by (auto simp: stateBeginValue_def isSpace_def expect_char_def bool_str_def char_classes)

lemma value_read_EndValue [simp]: "value_read ps (SEndValue, ps)"
  by (cases ps) (simp_all add: value_read_def)

lemma value_read_EndTop [simp]: "value_read [] (SEndTop, [])"
  by (simp add: value_read_def)

lemma value_read_pop: "value_read ps (popParseState (p # ps))"
  by (cases ps) (simp_all add: popParseState_def)

lemmas begin_composite = stateBeginValue_def isSpace_def pushParseState_def

lemma scan_render:
  "json_ok d x \<Longrightarrow> length ps + d \<le> maxNestingDepth \<Longrightarrow> st \<in> {SBeginValue, SBeginValueOrEmpty} \<Longrightarrow>
     value_read ps (scan (st, ps) (render x))"
  "list_all (json_ok d) xs \<Longrightarrow> xs \<noteq> [] \<Longrightarrow> Suc (length ps) + d \<le> maxNestingDepth \<Longrightarrow>
     st \<in> {SBeginValue, SBeginValueOrEmpty} \<Longrightarrow>
     value_read (ParseArrayValue # ps) (scan (st, ParseArrayValue # ps) (render_list xs))"
  "list_all (\<lambda>(k, v). list_all plain_char k \<and> json_ok d v) ms \<Longrightarrow> ms \<noteq> [] \<Longrightarrow>
     Suc (length ps) + d \<le> maxNestingDepth \<Longrightarrow> st \<in> {SBeginString, SBeginStringOrEmpty} \<Longrightarrow>
     value_read (ParseObjectValue # ps) (scan (st, ParseObjectKey # ps) (render_members ms))"
proof (induction x and xs and ms arbitrary: d ps st and d ps st and d ps st
    rule: render_render_list_render_members.induct)
  case 1
  then show ?case by (simp only: render.simps scan_word value_read_EndValue)
next
  case (2 b)
  then show ?case by (simp only: render.simps scan_word value_read_EndValue)
next
  case (3 n)
  then show ?case by (simp only: render.simps scan_nat_dec) (simp add: value_read_def)
next
  case (4 s)
  then show ?case by (auto simp: scan_render_str)
next
  case (5 xs)
  have op: "scan (st, ps) ''['' = (SBeginValueOrEmpty, ParseArrayValue # ps)"
    using 5 by (auto simp: begin_composite)
  show ?case
  proof (cases "xs = []")
    case True
    then show ?thesis using op
      by (simp add: value_read_pop isSpace_def)
  next
    case False
    have "value_read (ParseArrayValue # ps)
        (scan (SBeginValueOrEmpty, ParseArrayValue # ps) (render_list xs))"
      using 5 False by (intro "5.IH" [where d = "d - 1"]) auto
    from value_read_step [OF this, of "CHR '']''"] show ?thesis
      using op by (simp add: value_read_pop isSpace_def)
  qed
next
  case (6 ms)
  have op: "scan (st, ps) ''{'' = (SBeginStringOrEmpty, ParseObjectKey # ps)"
    using 6 by (auto simp: begin_composite)
  show ?case
  proof (cases "ms = []")
    case True
    then show ?thesis using op
      by (simp add: value_read_pop isSpace_def)
  next
    case False
    have "value_read (ParseObjectValue # ps)
        (scan (SBeginStringOrEmpty, ParseObjectKey # ps) (render_members ms))"
      using 6 False by (intro "6.IH" [where d = "d - 1"]) auto
    from value_read_step [OF this, of "CHR ''}''"] show ?thesis
      using op by (simp add: value_read_pop isSpace_def)
  qed
next
  case 7
  then show ?case by simp
next
  case (8 x xs)
  have x: "value_read (ParseArrayValue # ps) (scan (st, ParseArrayValue # ps) (render x))"
    using 8 by (intro "8.IH"(1)) auto
  show ?case
  proof (cases "xs = []")
    case True
    then show ?thesis using x by simp
  next
    case False
    have "value_read (ParseArrayValue # ps) (scan (SBeginValue, ParseArrayValue # ps) (render_list xs))"
      using 8 False by (intro "8.IH"(2)) auto
    with value_read_step [OF x, of "CHR '',''"] show ?thesis
      using False by (simp add: isSpace_def)
  qed
next
  case 9
  then show ?case by simp
next
  case (10 k v ms)
  have k: "scan (st, ParseObjectKey # ps) (render_str k @ '':'') = (SBeginValue, ParseObjectValue # ps)"
    using 10 by (auto simp: scan_render_str isSpace_def)
  have v: "value_read (ParseObjectValue # ps) (scan (SBeginValue, ParseObjectValue # ps) (render v))"
    using 10 by (intro "10.IH"(1)) auto
  show ?case
  proof (cases "ms = []")
    case True
    then show ?thesis using k v by simp
  next
    case False
    have "value_read (ParseObjectValue # ps) (scan (SBeginString, ParseObjectKey # ps) (render_members ms))"
      using 10 False by (intro "10.IH"(2)) auto
    with value_read_step [OF v, of "CHR '',''"] show ?thesis
      using False k by (simp add: isSpace_def)
  qed
qed

lemma json_valid_render: "json_ok maxNestingDepth x \<Longrightarrow> json_valid (render x)"
  using scan_render(1) [of maxNestingDepth x "[]" SBeginValue] value_read_step [of "[]" _ "CHR '' ''"]
  by (fastforce simp: json_valid_def Let_def stateEndTop_def isSpace_def)

section \<open>Capabilities\<close>

definition cap_name_char :: "char \<Rightarrow> bool" where
  "cap_name_char c \<longleftrightarrow> is_lower c \<or> is_digit c \<or> c = CHR ''_'' \<or> c = CHR ''.''"

definition capNameRegex :: "string \<Rightarrow> bool" where
  "capNameRegex = head_tail is_lower cap_name_char 1 63"

definition capVerRegex :: "string \<Rightarrow> bool" where
  "capVerRegex s \<longleftrightarrow> (case s of [] \<Rightarrow> False | c # ds \<Rightarrow> c = CHR ''v'' \<and> ds \<noteq> [] \<and> list_all is_digit ds)"

record Capability =
  cap_adapterID :: AdapterID
  cap_name :: string
  cap_version :: string
  cap_allowsPartial :: bool
  cap_defaultTimeout :: duration

definition NewCapability ::
  "AdapterID \<Rightarrow> string \<Rightarrow> string \<Rightarrow> bool \<Rightarrow> duration \<Rightarrow> go_error + Capability" where
  "NewCapability aid name version allowsPartial def =
     (if \<not> capNameRegex name then Inl (errorf (''invalid capability name '' @ quoted name))
      else if \<not> capVerRegex version then Inl (errorf (''invalid capability version '' @ quoted version))
      else if def \<le> 0
      then Inl (errorf (''capability default timeout must be > 0, got '' @ duration_str def))
      else Inr \<lparr>cap_adapterID = aid, cap_name = name, cap_version = version,
                cap_allowsPartial = allowsPartial, cap_defaultTimeout = def\<rparr>)"

definition canonical_of :: "string \<Rightarrow> string \<Rightarrow> string \<Rightarrow> string" where
  "canonical_of a n v = a @ ''.'' @ n @ ''@'' @ v"

definition Canonical :: "Capability \<Rightarrow> string" where
  "Canonical c = canonical_of (AdapterID_String (cap_adapterID c)) (cap_name c) (cap_version c)"

text \<open>A capability the constructors build: what the registry and the wire form rely on.\<close>

definition cap_ok :: "Capability \<Rightarrow> bool" where
  "cap_ok c \<longleftrightarrow> adapterIDRegex (AdapterID_String (cap_adapterID c)) \<and> capNameRegex (cap_name c) \<and>
     capVerRegex (cap_version c) \<and> 0 < cap_defaultTimeout c"

lemma NewCapability_Inr [validate]:
  "NewCapability aid n v ap d = Inr c \<longleftrightarrow>
     capNameRegex n \<and> capVerRegex v \<and> 0 < d \<and>
     c = \<lparr>cap_adapterID = aid, cap_name = n, cap_version = v, cap_allowsPartial = ap,
          cap_defaultTimeout = d\<rparr>"
  by (auto simp: NewCapability_def)

lemma NewCapability_ok:
  "NewAdapterID a = Inr aid \<Longrightarrow> NewCapability aid n v ap d = Inr c \<Longrightarrow> cap_ok c"
  by (auto simp: validate cap_ok_def)

lemma capName_chars:
  assumes "capNameRegex s"
  shows "CHR ''@'' \<notin> set s" and "s \<noteq> []"
  using assms head_tail_set [of is_lower cap_name_char 1 63 s "CHR ''@''"]
  by (auto simp: capNameRegex_def cap_name_char_def char_classes head_tail_def)

lemma capVer_chars:
  assumes "capVerRegex s"
  shows "CHR ''@'' \<notin> set s" and "s \<noteq> []"
  using assms by (auto simp: capVerRegex_def list_all_iff char_classes split: list.splits)

lemma append_sep_inject:
  assumes "x \<notin> set as" and "x \<notin> set bs" and "as @ x # cs = bs @ x # ds"
  shows "as = bs \<and> cs = ds"
  using assms
proof (induction as arbitrary: bs)
  case Nil
  then show ?case by (cases bs) auto
next
  case (Cons a as)
  then show ?case by (cases bs) auto
qed

lemma canonical_of_inject:
  assumes "adapterIDRegex a" "adapterIDRegex a'" "capNameRegex n" "capNameRegex n'"
    and "canonical_of a n v = canonical_of a' n' v'"
  shows "a = a' \<and> n = n' \<and> v = v'"
proof -
  from assms(5) have "a @ CHR ''.'' # (n @ CHR ''@'' # v) = a' @ CHR ''.'' # (n' @ CHR ''@'' # v')"
    by (simp add: canonical_of_def)
  from append_sep_inject [OF adapterIDRegex_chars(1) [OF assms(1)] adapterIDRegex_chars(1) [OF assms(2)] this]
  have "a = a'" and nv: "n @ CHR ''@'' # v = n' @ CHR ''@'' # v'" by simp_all
  with append_sep_inject [OF capName_chars(1) [OF assms(3)] capName_chars(1) [OF assms(4)] nv]
  show ?thesis by simp
qed

lemma Canonical_inject:
  assumes "cap_ok c" and "cap_ok c'" and "Canonical c = Canonical c'"
  shows "cap_adapterID c = cap_adapterID c' \<and> cap_name c = cap_name c' \<and> cap_version c = cap_version c'"
  using assms canonical_of_inject
    [of "AdapterID_String (cap_adapterID c)" "AdapterID_String (cap_adapterID c')"
        "cap_name c" "cap_name c'" "cap_version c" "cap_version c'"]
  by (auto simp: cap_ok_def Canonical_def intro: AdapterID.expand)

section \<open>Capability registry\<close>

text \<open>The map \<open>byCanon\<close> is an association list; a key never occurs twice in it.\<close>

record CapabilityRegistry =
  byCanon :: "(string \<times> Capability) list"

fun addCapabilities :: "Capability list \<Rightarrow> CapabilityRegistry \<Rightarrow> go_error + CapabilityRegistry" where
  "addCapabilities [] r = Inr r"
| "addCapabilities (c # cs) r =
     (let canon = Canonical c in
      if map_of (byCanon r) canon \<noteq> None
      then Inl (errorf (''duplicate capability: '' @ canon))
      else addCapabilities cs (r\<lparr>byCanon := byCanon r @ [(canon, c)]\<rparr>))"

definition NewCapabilityRegistry :: "Capability list \<Rightarrow> go_error + CapabilityRegistry" where
  "NewCapabilityRegistry caps = addCapabilities caps \<lparr>byCanon = []\<rparr>"

definition reg_Lookup :: "CapabilityRegistry \<Rightarrow> string \<Rightarrow> go_error + Capability" where
  "reg_Lookup r canonical =
     (case map_of (byCanon r) canonical of
        None \<Rightarrow> Inl (sentinel_error ErrUnknownCapability (''capability unknown: '' @ canonical))
      | Some c \<Rightarrow> Inr c)"

definition reg_List :: "CapabilityRegistry \<Rightarrow> Capability list" where
  "reg_List r = sort_key Canonical (map snd (byCanon r))"

definition FilterByAdapter :: "CapabilityRegistry \<Rightarrow> AdapterID \<Rightarrow> Capability list" where
  "FilterByAdapter r aid =
     sort_key Canonical (filter (\<lambda>c. cap_adapterID c = aid) (map snd (byCanon r)))"

lemma map_of_canonical:
  "map_of (map (\<lambda>c. (Canonical c, c)) cs) k = find (\<lambda>c. Canonical c = k) cs"
  by (induction cs) auto

lemma addCapabilities_Inr:
  "addCapabilities cs r = Inr r' \<longleftrightarrow>
     distinct (map Canonical cs) \<and> fst ` set (byCanon r) \<inter> Canonical ` set cs = {} \<and>
     r' = r\<lparr>byCanon := byCanon r @ map (\<lambda>c. (Canonical c, c)) cs\<rparr>"
  by (induction cs arbitrary: r) (auto simp: Let_def map_of_eq_None_iff)

lemma NewCapabilityRegistry_Inr [validate]:
  "NewCapabilityRegistry cs = Inr r \<longleftrightarrow>
     distinct (map Canonical cs) \<and> r = \<lparr>byCanon = map (\<lambda>c. (Canonical c, c)) cs\<rparr>"
  by (auto simp: NewCapabilityRegistry_def addCapabilities_Inr)

lemma reg_Lookup_Inr:
  assumes "NewCapabilityRegistry cs = Inr r"
  shows "reg_Lookup r k = Inr c \<longleftrightarrow> c \<in> set cs \<and> Canonical c = k"
proof -
  from assms have d: "distinct (map Canonical cs)" and r: "byCanon r = map (\<lambda>c. (Canonical c, c)) cs"
    by (auto simp: validate)
  have "map_of (byCanon r) k = Some c \<longleftrightarrow> (k, c) \<in> set (byCanon r)"
    using d by (intro map_of_eq_Some_iff) (simp add: r comp_def)
  then show ?thesis by (auto simp: reg_Lookup_def r split: option.splits)
qed

lemma sort_key_canonical_unique:
  assumes "mset cs = mset cs'" and "distinct (map Canonical cs)"
  shows "sort_key Canonical cs = sort_key Canonical cs'"
proof -
  have "inj_on Canonical (set cs)"
    using assms(2) by (simp add: distinct_map)
  then show ?thesis
    using assms(1) by (intro sort_key_inj_key_eq) (auto dest: mset_eq_setD)
qed

section \<open>The catalog of the first phase\<close>

definition catalog_entries :: "(string \<times> string \<times> string \<times> bool \<times> duration) list" where
  "catalog_entries =
     [(''shell'', ''exec'', ''v1'', False, 10 * Minute),
      (''git'', ''status'', ''v1'', False, 10 * Second),
      (''git'', ''clone'', ''v1'', True, 120 * Second),
      (''git'', ''diff'', ''v1'', False, 15 * Second),
      (''git'', ''commit'', ''v1'', False, 15 * Second),
      (''git'', ''worktree.create'', ''v1'', False, 60 * Second),
      (''filesystem'', ''read_file'', ''v1'', False, 5 * Second),
      (''filesystem'', ''write_file'', ''v1'', False, 10 * Second),
      (''http'', ''request'', ''v1'', False, 15 * Second)]"

definition catalog_mk ::
  "string \<times> string \<times> string \<times> bool \<times> duration \<Rightarrow> go_error + Capability" where
  "catalog_mk e =
     (case e of (aid, name, version, allowsPartial, def) \<Rightarrow>
      case NewAdapterID aid of
        Inl err \<Rightarrow> Inl (wrapf (''adapter_id '' @ quoted aid) err)
      | Inr adapter \<Rightarrow>
          (case NewCapability adapter name version allowsPartial def of
             Inl err \<Rightarrow> Inl (wrapf (''capability '' @ canonical_of aid name version) err)
           | Inr c \<Rightarrow> Inr c))"

fun mk_all :: "(string \<times> string \<times> string \<times> bool \<times> duration) list \<Rightarrow> go_error + Capability list" where
  "mk_all [] = Inr []"
| "mk_all (e # es) =
     (case catalog_mk e of Inl err \<Rightarrow> Inl err
      | Inr c \<Rightarrow> (case mk_all es of Inl err \<Rightarrow> Inl err | Inr cs \<Rightarrow> Inr (c # cs)))"

definition NewPhase1Capabilities :: "go_error + Capability list" where
  "NewPhase1Capabilities = mk_all catalog_entries"

definition MustNewPhase1Capabilities :: "Capability list outcome" where
  "MustNewPhase1Capabilities =
     (case NewPhase1Capabilities of
        Inl err \<Rightarrow> Panic (''NewPhase1Capabilities: '' @ err_text err)
      | Inr caps \<Rightarrow> Ret caps)"

definition catalog_cap :: "string \<times> string \<times> string \<times> bool \<times> duration \<Rightarrow> Capability" where
  "catalog_cap e = (case e of (aid, name, version, ap, def) \<Rightarrow>
     \<lparr>cap_adapterID = AdapterID aid, cap_name = name, cap_version = version,
      cap_allowsPartial = ap, cap_defaultTimeout = def\<rparr>)"

definition catalog :: "Capability list" where
  "catalog = map catalog_cap catalog_entries"

lemmas identifier_regexes = adapterIDRegex_def capNameRegex_def capVerRegex_def head_tail_def
  cap_name_char_def char_classes

lemma catalog_regexes:
  "\<forall>(a, n, v, ap, d) \<in> set catalog_entries. adapterIDRegex a \<and> capNameRegex n \<and> capVerRegex v \<and> 0 < d"
  by (simp add: catalog_entries_def identifier_regexes duration_units)

lemma mk_all_Inr:
  assumes "\<forall>(a, n, v, ap, d) \<in> set es. adapterIDRegex a \<and> capNameRegex n \<and> capVerRegex v \<and> 0 < d"
  shows "mk_all es = Inr (map catalog_cap es)"
  using assms
  by (induction es) (auto simp: catalog_mk_def catalog_cap_def NewAdapterID_def NewCapability_def)

lemma NewPhase1Capabilities_eq: "NewPhase1Capabilities = Inr catalog"
  unfolding NewPhase1Capabilities_def catalog_def
  using catalog_regexes by (rule mk_all_Inr)

lemma catalog_ok: "\<forall>c \<in> set catalog. cap_ok c"
  using catalog_regexes by (auto simp: catalog_def catalog_cap_def cap_ok_def)

lemma catalog_canonicals:
  "map Canonical catalog =
     [''shell.exec@v1'', ''git.status@v1'', ''git.clone@v1'', ''git.diff@v1'', ''git.commit@v1'',
      ''git.worktree.create@v1'', ''filesystem.read_file@v1'', ''filesystem.write_file@v1'',
      ''http.request@v1'']"
  by (simp add: catalog_def catalog_cap_def catalog_entries_def Canonical_def canonical_of_def)

lemma catalog_distinct: "distinct (map Canonical catalog)"
  unfolding catalog_canonicals by simp

end
