(* ===== verification/Entities.thy ===== *)
theory Entities
  imports Value_Objects
begin

text \<open>
  The aggregate of \<open>internal/domain/execution/entities\<close>: artifacts, stream references,
  timings and their builder, provenance, the partial rule, the normalized result, the
  request, the handle and the receipt, each with its validating constructor. A clock or a
  generator argument is the value its next call gives, \<open>None\<close> for a nil interface. A nil
  map or slice and an empty one are the same value here, as they are for every reader of
  the code.
\<close>

section \<open>Artifacts\<close>

type_synonym ArtifactType = string

abbreviation (input) ArtifactFile :: ArtifactType where "ArtifactFile \<equiv> ''file''"
abbreviation (input) ArtifactDirectory :: ArtifactType where "ArtifactDirectory \<equiv> ''directory''"
abbreviation (input) ArtifactGitRef :: ArtifactType where "ArtifactGitRef \<equiv> ''git_ref''"
abbreviation (input) ArtifactGitCommit :: ArtifactType where "ArtifactGitCommit \<equiv> ''git_commit''"
abbreviation (input) ArtifactHTTPResponseSnapshot :: ArtifactType where
  "ArtifactHTTPResponseSnapshot \<equiv> ''http_response_snapshot''"

definition allArtifactTypes :: "ArtifactType list" where
  "allArtifactTypes = [ArtifactFile, ArtifactDirectory, ArtifactGitRef, ArtifactGitCommit,
     ArtifactHTTPResponseSnapshot]"

definition ParseArtifactType :: "string \<Rightarrow> go_error + ArtifactType" where
  "ParseArtifactType s =
     (if s \<notin> set allArtifactTypes then Inl (errorf (''invalid artifact_type '' @ quoted s)) else Inr s)"

definition MaxArtifactAttributesBytes :: nat where "MaxArtifactAttributesBytes = 2 * 1024"

record Artifact =
  art_Type :: ArtifactType
  art_URI :: string
  art_SizeBytes :: int
  art_Checksum :: string
  art_Attributes :: smap

definition NewArtifact ::
  "ArtifactType \<Rightarrow> string \<Rightarrow> int \<Rightarrow> string \<Rightarrow> smap \<Rightarrow> go_error + Artifact" where
  "NewArtifact t uri sizeBytes checksum attrs =
     (if t \<notin> set allArtifactTypes then Inl (errorf (''invalid artifact_type '' @ quoted t))
      else if uri = [] then Inl (errorf ''artifact uri must not be empty'')
      else if sizeBytes < 0
      then Inl (errorf (''artifact size_bytes must be '' @ ge_sign @ '' 0, got '' @ int_dec sizeBytes))
      else if value_bytes attrs > MaxArtifactAttributesBytes
      then Inl (errorf (''artifact attributes exceed '' @ nat_dec MaxArtifactAttributesBytes @
                        '' bytes (got '' @ nat_dec (value_bytes attrs) @ '')''))
      else Inr \<lparr>art_Type = t, art_URI = uri, art_SizeBytes = sizeBytes, art_Checksum = checksum,
                art_Attributes = attrs\<rparr>)"

lemma ParseArtifactType_Inr [validate]:
  "ParseArtifactType s = Inr t \<longleftrightarrow> s \<in> set allArtifactTypes \<and> t = s"
  by (auto simp: ParseArtifactType_def)

lemma NewArtifact_Inr [validate]:
  "NewArtifact t uri sz cs attrs = Inr a \<longleftrightarrow>
     t \<in> set allArtifactTypes \<and> uri \<noteq> [] \<and> 0 \<le> sz \<and> value_bytes attrs \<le> MaxArtifactAttributesBytes \<and>
     a = \<lparr>art_Type = t, art_URI = uri, art_SizeBytes = sz, art_Checksum = cs, art_Attributes = attrs\<rparr>"
  by (auto simp: NewArtifact_def)

definition artifact_ok :: "Artifact \<Rightarrow> bool" where
  "artifact_ok a \<longleftrightarrow> art_Type a \<in> set allArtifactTypes \<and> art_URI a \<noteq> [] \<and> 0 \<le> art_SizeBytes a \<and>
     value_bytes (art_Attributes a) \<le> MaxArtifactAttributesBytes"

lemma NewArtifact_ok: "NewArtifact t uri sz cs attrs = Inr a \<Longrightarrow> artifact_ok a"
  by (simp add: validate artifact_ok_def)

section \<open>Stream references\<close>

type_synonym StreamMode = string

abbreviation (input) StreamInline :: StreamMode where "StreamInline \<equiv> ''inline''"
abbreviation (input) StreamTruncated :: StreamMode where "StreamTruncated \<equiv> ''truncated''"

record StreamRef =
  sr_Mode :: StreamMode
  sr_Data :: string
  sr_SizeBytes :: int
  sr_TruncatedAtByte :: int

definition zero_StreamRef :: StreamRef where
  "zero_StreamRef = \<lparr>sr_Mode = [], sr_Data = [], sr_SizeBytes = 0, sr_TruncatedAtByte = 0\<rparr>"

definition NewStreamRef :: "string \<Rightarrow> int \<Rightarrow> int \<Rightarrow> go_error + StreamRef" where
  "NewStreamRef dat totalSize inlineLimit =
     (if inlineLimit \<le> 0 then Inl (errorf (''inlineLimit must be > 0, got '' @ int_dec inlineLimit))
      else if totalSize < 0
      then Inl (errorf (''totalSize must be '' @ ge_sign @ '' 0, got '' @ int_dec totalSize))
      else if int (length dat) > totalSize
      then Inl (errorf (''data length '' @ nat_dec (length dat) @ '' exceeds totalSize '' @ int_dec totalSize))
      else if totalSize = 0 \<and> length dat = 0
      then Inr \<lparr>sr_Mode = StreamInline, sr_Data = [], sr_SizeBytes = 0, sr_TruncatedAtByte = 0\<rparr>
      else if totalSize \<le> inlineLimit
      then Inr \<lparr>sr_Mode = StreamInline, sr_Data = dat, sr_SizeBytes = totalSize, sr_TruncatedAtByte = 0\<rparr>
      else let n = (if int (length dat) < inlineLimit then length dat else nat inlineLimit) in
        Inr \<lparr>sr_Mode = StreamTruncated, sr_Data = take n dat, sr_SizeBytes = totalSize,
             sr_TruncatedAtByte = int n\<rparr>)"

text \<open>What a stream reference promises its reader, for the inline limit it was built with.\<close>

definition stream_ok :: "int \<Rightarrow> StreamRef \<Rightarrow> bool" where
  "stream_ok lim s \<longleftrightarrow>
     int (length (sr_Data s)) \<le> lim \<and> int (length (sr_Data s)) \<le> sr_SizeBytes s \<and>
     (if sr_SizeBytes s \<le> lim
      then sr_Mode s = StreamInline \<and> sr_TruncatedAtByte s = 0
      else sr_Mode s = StreamTruncated \<and> sr_TruncatedAtByte s = int (length (sr_Data s)))"

lemma NewStreamRef_Inr [validate]:
  "NewStreamRef dat tot lim = Inr s \<longleftrightarrow>
     0 < lim \<and> int (length dat) \<le> tot \<and> sr_SizeBytes s = tot \<and> sr_Data s = take (nat lim) dat \<and>
     stream_ok lim s"
proof
  assume "NewStreamRef dat tot lim = Inr s"
  then show "0 < lim \<and> int (length dat) \<le> tot \<and> sr_SizeBytes s = tot \<and>
      sr_Data s = take (nat lim) dat \<and> stream_ok lim s"
    by (auto simp: NewStreamRef_def stream_ok_def Let_def min_def split: if_splits)
next
  assume "0 < lim \<and> int (length dat) \<le> tot \<and> sr_SizeBytes s = tot \<and>
      sr_Data s = take (nat lim) dat \<and> stream_ok lim s"
  then show "NewStreamRef dat tot lim = Inr s"
    by (cases s) (auto simp: NewStreamRef_def stream_ok_def Let_def min_def split: if_splits)
qed

lemma NewStreamRef_total:
  assumes "0 < lim" and "int (length dat) \<le> tot"
  shows "\<exists>s. NewStreamRef dat tot lim = Inr s"
  using assms by (auto simp: NewStreamRef_def Let_def)

section \<open>Timings\<close>

record Timings =
  tm_SubmittedAt :: go_time
  tm_StartedAt :: go_time
  tm_CompletedAt :: go_time
  tm_PersistedAt :: "go_time option"

text \<open>The builder's state is the timings so far; each \<open>Mark\<close> is given what the clock reads.\<close>

definition NewTimingsBuilder :: Timings where
  "NewTimingsBuilder = \<lparr>tm_SubmittedAt = 0, tm_StartedAt = 0, tm_CompletedAt = 0, tm_PersistedAt = None\<rparr>"

definition MarkSubmitted :: "go_time \<Rightarrow> Timings \<Rightarrow> Timings" where
  "MarkSubmitted now b = b\<lparr>tm_SubmittedAt := now\<rparr>"

definition MarkStarted :: "go_time \<Rightarrow> Timings \<Rightarrow> Timings" where
  "MarkStarted now b = b\<lparr>tm_StartedAt := now\<rparr>"

definition MarkCompleted :: "go_time \<Rightarrow> Timings \<Rightarrow> Timings" where
  "MarkCompleted now b = b\<lparr>tm_CompletedAt := now\<rparr>"

definition MarkPersisted :: "go_time \<Rightarrow> Timings \<Rightarrow> Timings" where
  "MarkPersisted now b = b\<lparr>tm_PersistedAt := Some now\<rparr>"

definition tm_Build :: "Timings \<Rightarrow> go_error + Timings" where
  "tm_Build t =
     (if tm_SubmittedAt t = 0 then Inl (errorf ''timings: submitted_at not set'')
      else if tm_StartedAt t = 0 then Inl (errorf ''timings: started_at not set'')
      else if tm_CompletedAt t = 0 then Inl (errorf ''timings: completed_at not set'')
      else if tm_SubmittedAt t > tm_StartedAt t
      then Inl (errorf (''timings invariant: submitted_at ('' @ time_str (tm_SubmittedAt t) @
             '') > started_at ('' @ time_str (tm_StartedAt t) @ '')''))
      else if tm_StartedAt t > tm_CompletedAt t
      then Inl (errorf (''timings invariant: started_at ('' @ time_str (tm_StartedAt t) @
             '') > completed_at ('' @ time_str (tm_CompletedAt t) @ '')''))
      else case tm_PersistedAt t of
        Some p \<Rightarrow>
          if p < tm_CompletedAt t
          then Inl (errorf (''timings invariant: persisted_at ('' @ time_str p @
                 '') < completed_at ('' @ time_str (tm_CompletedAt t) @ '')''))
          else Inr t
      | None \<Rightarrow> Inr t)"

definition timings_ok :: "Timings \<Rightarrow> bool" where
  "timings_ok t \<longleftrightarrow>
     tm_SubmittedAt t \<noteq> 0 \<and> tm_StartedAt t \<noteq> 0 \<and> tm_CompletedAt t \<noteq> 0 \<and>
     tm_SubmittedAt t \<le> tm_StartedAt t \<and> tm_StartedAt t \<le> tm_CompletedAt t \<and>
     (case tm_PersistedAt t of None \<Rightarrow> True | Some p \<Rightarrow> tm_CompletedAt t \<le> p)"

lemma tm_Build_Inr [validate]: "tm_Build b = Inr t \<longleftrightarrow> timings_ok b \<and> t = b"
  by (auto simp: tm_Build_def timings_ok_def split: option.splits)

lemmas mark_defs = NewTimingsBuilder_def MarkSubmitted_def MarkStarted_def MarkCompleted_def
  MarkPersisted_def

section \<open>Provenance\<close>

type_synonym ProvenanceSource = string

abbreviation (input) ProvGovernance :: ProvenanceSource where "ProvGovernance \<equiv> ''governance''"
abbreviation (input) ProvSDK :: ProvenanceSource where "ProvSDK \<equiv> ''sdk''"
abbreviation (input) ProvHTTP :: ProvenanceSource where "ProvHTTP \<equiv> ''http''"
abbreviation (input) ProvCLI :: ProvenanceSource where "ProvCLI \<equiv> ''cli''"
abbreviation (input) ProvTest :: ProvenanceSource where "ProvTest \<equiv> ''test''"

definition allProvenanceSources :: "ProvenanceSource list" where
  "allProvenanceSources = [ProvGovernance, ProvSDK, ProvHTTP, ProvCLI, ProvTest]"

definition ParseProvenanceSource :: "string \<Rightarrow> go_error + ProvenanceSource" where
  "ParseProvenanceSource s =
     (if s \<notin> set allProvenanceSources
      then Inl (errorf (''invalid provenance.source '' @ quoted s)) else Inr s)"

record Provenance =
  prov_Source :: ProvenanceSource
  prov_SourceVersion :: string
  prov_Host :: string
  prov_RuntimeVersion :: string
  prov_InvocationID :: string

definition NewProvenance ::
  "ProvenanceSource \<Rightarrow> string \<Rightarrow> string \<Rightarrow> string \<Rightarrow> string \<Rightarrow> go_error + Provenance" where
  "NewProvenance source sourceVersion host runtimeVersion invocationID =
     (if source \<notin> set allProvenanceSources
      then Inl (errorf (''invalid provenance.source '' @ quoted source))
      else if sourceVersion = [] then Inl (errorf ''provenance.source_version must not be empty'')
      else if host = [] then Inl (errorf ''provenance.host must not be empty'')
      else if runtimeVersion = [] then Inl (errorf ''provenance.runtime_version must not be empty'')
      else Inr \<lparr>prov_Source = source, prov_SourceVersion = sourceVersion, prov_Host = host,
                prov_RuntimeVersion = runtimeVersion, prov_InvocationID = invocationID\<rparr>)"

lemma ParseProvenanceSource_Inr [validate]:
  "ParseProvenanceSource s = Inr p \<longleftrightarrow> s \<in> set allProvenanceSources \<and> p = s"
  by (auto simp: ParseProvenanceSource_def)

lemma NewProvenance_Inr [validate]:
  "NewProvenance src sv h rv iid = Inr p \<longleftrightarrow>
     src \<in> set allProvenanceSources \<and> sv \<noteq> [] \<and> h \<noteq> [] \<and> rv \<noteq> [] \<and>
     p = \<lparr>prov_Source = src, prov_SourceVersion = sv, prov_Host = h, prov_RuntimeVersion = rv,
          prov_InvocationID = iid\<rparr>"
  by (auto simp: NewProvenance_def)

section \<open>The partial rule\<close>

record PartialClassification =
  pc_AllowsPartial :: bool
  pc_HasArtifacts :: bool
  pc_HasUncompletedStep :: bool
  pc_Reverted :: bool

definition Classify :: "PartialClassification \<Rightarrow> ExecutionStatus" where
  "Classify p =
     (if \<not> pc_AllowsPartial p then StatusFailure
      else if \<not> pc_HasUncompletedStep p then StatusSuccess
      else if \<not> pc_HasArtifacts p then StatusFailure
      else if pc_Reverted p then StatusFailure
      else StatusPartial)"

lemma Classify_partial:
  "Classify p = StatusPartial \<longleftrightarrow>
     pc_AllowsPartial p \<and> pc_HasArtifacts p \<and> pc_HasUncompletedStep p \<and> \<not> pc_Reverted p"
  by (simp add: Classify_def)

lemma Classify_range: "Classify p \<in> {StatusSuccess, StatusFailure, StatusPartial}"
  by (simp add: Classify_def)

section \<open>The normalized result\<close>

definition MaxErrorMessageBytes :: nat where "MaxErrorMessageBytes = 4 * 1024"
definition MaxAdapterMetaBytes :: nat where "MaxAdapterMetaBytes = 8 * 1024"

record ExecutionResult =
  res_Status :: ExecutionStatus
  res_Retryable :: RetryHint
  res_ErrorClass :: ErrorClass
  res_ErrorMessage :: string
  res_StdoutRef :: "StreamRef option"
  res_StderrRef :: "StreamRef option"
  res_ExitCode :: "int option"
  res_Artifacts :: "Artifact list"
  res_AdapterMeta :: smap
  res_BytesRead :: int
  res_BytesWritten :: int
  res_DurationMs :: int
  res_CompletedAt :: go_time

definition result_status_check :: "ExecutionStatus \<Rightarrow> ErrorClass \<Rightarrow> string \<Rightarrow> go_error option" where
  "result_status_check status errClass errMsg =
     (if status = StatusSuccess then
        (if errClass \<noteq> [] \<or> errMsg \<noteq> []
         then Some (errorf (''status=success must not carry error_class ('' @ quoted errClass @
                            '') or error_message'')) else None)
      else if status = StatusTimeout then
        (if errClass \<noteq> ErrTimeout
         then Some (errorf (''status=timeout must carry error_class=timeout, got '' @ quoted errClass))
         else None)
      else if status = StatusCancelled then
        (if errClass \<noteq> ErrCancelled
         then Some (errorf (''status=cancelled must carry error_class=cancelled, got '' @ quoted errClass))
         else None)
      else if status = StatusFailure \<or> status = StatusPartial then
        (if errClass = [] then Some (errorf (''status='' @ status @ '' must carry a non-empty error_class''))
         else if errMsg = [] then Some (errorf (''status='' @ status @ '' must carry a non-empty error_message''))
         else None)
      else Some (errorf (''invalid execution_status '' @ quoted status)))"

definition NewExecutionResult ::
  "ExecutionStatus \<Rightarrow> RetryHint \<Rightarrow> ErrorClass \<Rightarrow> string \<Rightarrow> StreamRef option \<Rightarrow> StreamRef option \<Rightarrow>
   int option \<Rightarrow> Artifact list \<Rightarrow> smap \<Rightarrow> int \<Rightarrow> int \<Rightarrow> duration \<Rightarrow> go_time \<Rightarrow>
   go_error + ExecutionResult" where
  "NewExecutionResult status retry errClass errMsg stdoutRef stderrRef exitCode artifacts adapterMeta
     bytesRead bytesWritten duration completedAt =
     (case result_status_check status errClass errMsg of
        Some e \<Rightarrow> Inl e
      | None \<Rightarrow>
        if retry \<noteq> HintRetryable \<and> retry \<noteq> HintNonRetryable \<and> retry \<noteq> HintUnknown
        then Inl (errorf (''invalid retry_hint '' @ quoted retry))
        else let errMsg' = (if length errMsg > MaxErrorMessageBytes
                            then take MaxErrorMessageBytes errMsg else errMsg);
                 total = value_bytes adapterMeta in
        if total > MaxAdapterMetaBytes
        then Inl (errorf (''adapter_meta total value bytes '' @ nat_dec total @ '' exceeds max '' @
                          nat_dec MaxAdapterMetaBytes))
        else if bytesRead < 0
        then Inl (errorf (''bytes_read must be '' @ ge_sign @ '' 0, got '' @ int_dec bytesRead))
        else if bytesWritten < 0
        then Inl (errorf (''bytes_written must be '' @ ge_sign @ '' 0, got '' @ int_dec bytesWritten))
        else if duration < 0
        then Inl (errorf (''duration must be '' @ ge_sign @ '' 0, got '' @ duration_str duration))
        else Inr \<lparr>res_Status = status, res_Retryable = retry, res_ErrorClass = errClass,
                  res_ErrorMessage = errMsg', res_StdoutRef = stdoutRef, res_StderrRef = stderrRef,
                  res_ExitCode = exitCode, res_Artifacts = artifacts, res_AdapterMeta = adapterMeta,
                  res_BytesRead = bytesRead, res_BytesWritten = bytesWritten,
                  res_DurationMs = Milliseconds duration, res_CompletedAt = completedAt\<rparr>)"

definition res_StripStreams :: "ExecutionResult \<Rightarrow> ExecutionResult" where
  "res_StripStreams r = r\<lparr>res_StdoutRef := None, res_StderrRef := None\<rparr>"

text \<open>The consistency of status, error class and message (section 5.9 of the specification).\<close>

definition status_consistent :: "ExecutionStatus \<Rightarrow> ErrorClass \<Rightarrow> string \<Rightarrow> bool" where
  "status_consistent st ec msg \<longleftrightarrow>
     st \<in> set allStatuses \<and>
     (st = StatusSuccess \<longleftrightarrow> ec = [] \<and> msg = []) \<and>
     (st = StatusTimeout \<longrightarrow> ec = ErrTimeout) \<and> (st = StatusCancelled \<longrightarrow> ec = ErrCancelled) \<and>
     (st \<in> {StatusFailure, StatusPartial} \<longrightarrow> ec \<noteq> [] \<and> msg \<noteq> [])"

definition result_ok :: "ExecutionResult \<Rightarrow> bool" where
  "result_ok r \<longleftrightarrow>
     status_consistent (res_Status r) (res_ErrorClass r) (res_ErrorMessage r) \<and>
     res_Retryable r \<in> set allRetryHints \<and> length (res_ErrorMessage r) \<le> MaxErrorMessageBytes \<and>
     value_bytes (res_AdapterMeta r) \<le> MaxAdapterMetaBytes \<and>
     0 \<le> res_BytesRead r \<and> 0 \<le> res_BytesWritten r \<and> 0 \<le> res_DurationMs r"

lemma result_status_check_None: "result_status_check st ec msg = None \<longleftrightarrow> status_consistent st ec msg"
  by (auto simp: result_status_check_def status_consistent_def enum_defs)

lemma NewExecutionResult_Inr [validate]:
  "NewExecutionResult st hint ec msg so se x arts meta br bw d t = Inr r \<longleftrightarrow>
     status_consistent st ec msg \<and> hint \<in> set allRetryHints \<and>
     value_bytes meta \<le> MaxAdapterMetaBytes \<and> 0 \<le> br \<and> 0 \<le> bw \<and> 0 \<le> d \<and>
     r = \<lparr>res_Status = st, res_Retryable = hint, res_ErrorClass = ec,
          res_ErrorMessage = take MaxErrorMessageBytes msg, res_StdoutRef = so, res_StderrRef = se,
          res_ExitCode = x, res_Artifacts = arts, res_AdapterMeta = meta, res_BytesRead = br,
          res_BytesWritten = bw, res_DurationMs = Milliseconds d, res_CompletedAt = t\<rparr>"
  by (auto simp: NewExecutionResult_def Let_def allRetryHints_def
      simp flip: result_status_check_None split: option.splits)

lemma status_consistent_take [simp]:
  "status_consistent st ec msg \<Longrightarrow> status_consistent st ec (take MaxErrorMessageBytes msg)"
  by (auto simp: status_consistent_def MaxErrorMessageBytes_def)

lemma NewExecutionResult_ok:
  "NewExecutionResult st hint ec msg so se x arts meta br bw d t = Inr r \<Longrightarrow> result_ok r"
  by (auto simp: validate result_ok_def Milliseconds_nonneg)

lemma result_ok_StripStreams [simp]: "result_ok (res_StripStreams r) = result_ok r"
  by (simp add: result_ok_def res_StripStreams_def)

section \<open>The request\<close>

record ExecutionRequestInput =
  in_CorrelationID :: CorrelationID
  in_AdapterID :: AdapterID
  in_CapabilityName :: string
  in_CapabilityVersion :: string
  in_Payload :: Payload
  in_TimeoutBudget :: TimeoutBudget
  in_IdempotencyKey :: "IdempotencyKey option"
  in_ActorID :: string
  in_TaskID :: string
  in_WorkflowRunID :: string
  in_RetryAttempt :: int

record ExecutionRequest =
  req_correlationID :: CorrelationID
  req_adapterID :: AdapterID
  req_capabilityName :: string
  req_capabilityVersion :: string
  req_payload :: Payload
  req_timeoutBudget :: TimeoutBudget
  req_idempotencyKey :: "IdempotencyKey option"
  req_actorID :: string
  req_taskID :: string
  req_workflowRunID :: string
  req_retryAttempt :: int
  req_submittedAt :: go_time

definition metadataIDMaxLen :: nat where "metadataIDMaxLen = 128"

definition capabilityNameRE_text :: string where
  "capabilityNameRE_text = ''^[a-z][a-z0-9_.]{1,63}$''"

definition capabilityVersionRE_text :: string where
  "capabilityVersionRE_text = ''^v[0-9]+$''"

definition checkMetadataID :: "string \<Rightarrow> string \<Rightarrow> go_error option" where
  "checkMetadataID field v =
     (if length v > metadataIDMaxLen
      then Some (errorf (field @ '' exceeds '' @ nat_dec metadataIDMaxLen @ '' chars (got '' @
                         nat_dec (length v) @ '')''))
      else None)"

definition NewExecutionRequest :: "ExecutionRequestInput \<Rightarrow> go_time \<Rightarrow> go_error + ExecutionRequest" where
  "NewExecutionRequest inp now =
     (if CorrelationID_String (in_CorrelationID inp) = [] then Inl (errorf ''correlation_id is required'')
      else if AdapterID_String (in_AdapterID inp) = [] then Inl (errorf ''adapter_id is required'')
      else if \<not> capNameRegex (in_CapabilityName inp)
      then Inl (errorf (''invalid capability_name '' @ quoted (in_CapabilityName inp) @
                        '' (must match '' @ capabilityNameRE_text @ '')''))
      else if \<not> capVerRegex (in_CapabilityVersion inp)
      then Inl (errorf (''invalid capability_version '' @ quoted (in_CapabilityVersion inp) @
                        '' (must match '' @ capabilityVersionRE_text @ '')''))
      else if pl_SizeBytes (in_Payload inp) = 0 then Inl (errorf ''payload is required'')
      else if tb_Milliseconds (in_TimeoutBudget inp) \<le> 0 then Inl (errorf ''timeout_budget must be > 0'')
      else case checkMetadataID ''actor_id'' (in_ActorID inp) of Some e \<Rightarrow> Inl e
      | None \<Rightarrow> (case checkMetadataID ''task_id'' (in_TaskID inp) of Some e \<Rightarrow> Inl e
      | None \<Rightarrow> (case checkMetadataID ''workflow_run_id'' (in_WorkflowRunID inp) of Some e \<Rightarrow> Inl e
      | None \<Rightarrow>
        if in_RetryAttempt inp < 0
        then Inl (errorf (''retry_attempt must be '' @ ge_sign @ '' 0, got '' @ int_dec (in_RetryAttempt inp)))
        else Inr \<lparr>req_correlationID = in_CorrelationID inp, req_adapterID = in_AdapterID inp,
                  req_capabilityName = in_CapabilityName inp,
                  req_capabilityVersion = in_CapabilityVersion inp,
                  req_payload = in_Payload inp, req_timeoutBudget = in_TimeoutBudget inp,
                  req_idempotencyKey = in_IdempotencyKey inp, req_actorID = in_ActorID inp,
                  req_taskID = in_TaskID inp, req_workflowRunID = in_WorkflowRunID inp,
                  req_retryAttempt = in_RetryAttempt inp, req_submittedAt = now\<rparr>)))"

definition CapabilityCanonical :: "ExecutionRequest \<Rightarrow> string" where
  "CapabilityCanonical r =
     canonical_of (AdapterID_String (req_adapterID r)) (req_capabilityName r) (req_capabilityVersion r)"

text \<open>What the constructor checks, as a predicate on requests.\<close>

definition request_ok :: "ExecutionRequest \<Rightarrow> bool" where
  "request_ok r \<longleftrightarrow>
     CorrelationID_String (req_correlationID r) \<noteq> [] \<and> AdapterID_String (req_adapterID r) \<noteq> [] \<and>
     capNameRegex (req_capabilityName r) \<and> capVerRegex (req_capabilityVersion r) \<and>
     pl_SizeBytes (req_payload r) \<noteq> 0 \<and> 0 < tb_Milliseconds (req_timeoutBudget r) \<and>
     length (req_actorID r) \<le> metadataIDMaxLen \<and> length (req_taskID r) \<le> metadataIDMaxLen \<and>
     length (req_workflowRunID r) \<le> metadataIDMaxLen \<and> 0 \<le> req_retryAttempt r"

definition request_of :: "ExecutionRequestInput \<Rightarrow> go_time \<Rightarrow> ExecutionRequest" where
  "request_of inp now =
     \<lparr>req_correlationID = in_CorrelationID inp, req_adapterID = in_AdapterID inp,
      req_capabilityName = in_CapabilityName inp, req_capabilityVersion = in_CapabilityVersion inp,
      req_payload = in_Payload inp, req_timeoutBudget = in_TimeoutBudget inp,
      req_idempotencyKey = in_IdempotencyKey inp, req_actorID = in_ActorID inp,
      req_taskID = in_TaskID inp, req_workflowRunID = in_WorkflowRunID inp,
      req_retryAttempt = in_RetryAttempt inp, req_submittedAt = now\<rparr>"

lemma checkMetadataID_None: "checkMetadataID f v = None \<longleftrightarrow> length v \<le> metadataIDMaxLen"
  by (auto simp: checkMetadataID_def)

lemma NewExecutionRequest_Inr [validate]:
  "NewExecutionRequest inp now = Inr r \<longleftrightarrow> r = request_of inp now \<and> request_ok r"
  by (auto simp: NewExecutionRequest_def request_ok_def request_of_def checkMetadataID_def
      split: option.splits if_splits)

section \<open>Identifier generators, the handle\<close>

text \<open>\<open>FakeIDGen\<close>: the identifiers left and how many were given.\<close>

record FakeIDGen =
  gen_IDs :: "string list"
  gen_n :: nat

definition FakeIDGen_New :: "FakeIDGen \<Rightarrow> string outcome \<times> FakeIDGen" where
  "FakeIDGen_New g =
     (if gen_n g \<ge> length (gen_IDs g)
      then (Panic (''FakeIDGen exhausted after '' @ nat_dec (gen_n g) @ '' calls''), g)
      else (Ret (gen_IDs g ! gen_n g), g\<lparr>gen_n := Suc (gen_n g)\<rparr>))"

record ExecutionHandle =
  h_handleID :: HandleID
  h_correlationID :: CorrelationID
  h_adapterID :: AdapterID
  h_capability :: Capability
  h_startedAt :: go_time

definition NewExecutionHandle ::
  "string option \<Rightarrow> CorrelationID \<Rightarrow> Capability \<Rightarrow> go_time option \<Rightarrow> go_error + ExecutionHandle" where
  "NewExecutionHandle gen cid cap clk =
     (case gen of None \<Rightarrow> Inl (errorf ''IDGenerator is required'')
      | Some new \<Rightarrow> (case clk of None \<Rightarrow> Inl (errorf ''clock is required'')
      | Some now \<Rightarrow> (case NewHandleID new of Inl e \<Rightarrow> Inl (wrapf ''generate handle_id'' e)
      | Inr hid \<Rightarrow>
        if CorrelationID_String cid = [] then Inl (errorf ''correlation_id is required'')
        else if AdapterID_String (cap_adapterID cap) = []
        then Inl (errorf ''capability is required (zero value)'')
        else Inr \<lparr>h_handleID = hid, h_correlationID = cid, h_adapterID = cap_adapterID cap,
                  h_capability = cap, h_startedAt = now\<rparr>)))"

lemma NewExecutionHandle_Inr [validate]:
  "NewExecutionHandle gen cid cap clk = Inr h \<longleftrightarrow>
     (\<exists>new now. gen = Some new \<and> clk = Some now \<and> ulidRegex new \<and>
        CorrelationID_String cid \<noteq> [] \<and> AdapterID_String (cap_adapterID cap) \<noteq> [] \<and>
        h = \<lparr>h_handleID = HandleID new, h_correlationID = cid, h_adapterID = cap_adapterID cap,
             h_capability = cap, h_startedAt = now\<rparr>)"
  by (auto simp: NewExecutionHandle_def NewHandleID_def validateULID_def split: option.splits)

section \<open>The receipt\<close>

definition SchemaVersionV1 :: string where "SchemaVersionV1 = ''v1''"

record ExecutionReceipt =
  rc_receiptID :: ReceiptID
  rc_schemaVersion :: string
  rc_request :: ExecutionRequest
  rc_handle :: ExecutionHandle
  rc_result :: ExecutionResult
  rc_provenance :: Provenance
  rc_timings :: Timings
  rc_createdAt :: go_time
  rc_persistedAt :: "go_time option"

definition NewExecutionReceipt ::
  "string option \<Rightarrow> ExecutionRequest \<Rightarrow> ExecutionHandle \<Rightarrow> ExecutionResult \<Rightarrow> Provenance \<Rightarrow> Timings \<Rightarrow>
   go_time option \<Rightarrow> go_error + ExecutionReceipt" where
  "NewExecutionReceipt gen req h res prov timings clk =
     (case gen of None \<Rightarrow> Inl (errorf ''IDGenerator is required'')
      | Some new \<Rightarrow> (case clk of None \<Rightarrow> Inl (errorf ''clock is required'')
      | Some now \<Rightarrow> (case NewReceiptID new of Inl e \<Rightarrow> Inl (wrapf ''generate receipt_id'' e)
      | Inr rid \<Rightarrow>
        if CorrelationID_String (req_correlationID req) = []
        then Inl (errorf ''request.correlation_id is required (zero request)'')
        else if HandleID_String (h_handleID h) = []
        then Inl (errorf ''handle.handle_id is required (zero handle)'')
        else if prov_Source prov = [] then Inl (errorf ''provenance.source is required (zero provenance)'')
        else if tm_SubmittedAt timings = 0
        then Inl (errorf ''timings.submitted_at is required (zero timings)'')
        else Inr \<lparr>rc_receiptID = rid, rc_schemaVersion = SchemaVersionV1, rc_request = req,
                  rc_handle = h, rc_result = res, rc_provenance = prov, rc_timings = timings,
                  rc_createdAt = now, rc_persistedAt = None\<rparr>)))"

definition WithPersistedAt :: "go_time \<Rightarrow> ExecutionReceipt \<Rightarrow> ExecutionReceipt" where
  "WithPersistedAt t r = r\<lparr>rc_persistedAt := Some t\<rparr>"

definition rc_StripStreams :: "ExecutionReceipt \<Rightarrow> ExecutionReceipt" where
  "rc_StripStreams r = r\<lparr>rc_result := res_StripStreams (rc_result r)\<rparr>"

lemma NewExecutionReceipt_Inr [validate]:
  "NewExecutionReceipt gen req h res prov tm clk = Inr r \<longleftrightarrow>
     (\<exists>new now. gen = Some new \<and> clk = Some now \<and> ulidRegex new \<and>
        CorrelationID_String (req_correlationID req) \<noteq> [] \<and> HandleID_String (h_handleID h) \<noteq> [] \<and>
        prov_Source prov \<noteq> [] \<and> tm_SubmittedAt tm \<noteq> 0 \<and>
        r = \<lparr>rc_receiptID = ReceiptID new, rc_schemaVersion = SchemaVersionV1, rc_request = req,
             rc_handle = h, rc_result = res, rc_provenance = prov, rc_timings = tm,
             rc_createdAt = now, rc_persistedAt = None\<rparr>)"
  by (auto simp: NewExecutionReceipt_def NewReceiptID_def validateULID_def split: option.splits)

end
