(* ===== verification/Raw_Outcomes.thy ===== *)
theory Raw_Outcomes
  imports Entities
begin

text \<open>
  The raw outcomes of the adapters (\<open>types.go\<close> of the packages under
  \<open>internal/adapters/outbound\<close>) and of the application layer (\<open>structural.go\<close>), and
  the domain service that dispatches them to their normalizers
  (\<open>internal/domain/execution/services/result_normalizer.go\<close>). The Go interface
  \<open>AdapterRawOutcome\<close> is closed here over the types that implement it; a nil interface
  value is \<open>None\<close>.
\<close>

section \<open>Raw outcomes\<close>

record execRaw =
  xr_exitCode :: int
  xr_stdout :: string
  xr_stderr :: string
  xr_durationMs :: int
  xr_ctxErr :: "go_error option"
  xr_runErr :: "go_error option"
  xr_exitSuccess :: "int list"
  xr_validation :: string
  xr_payloadDecoded :: bool

definition zero_execRaw :: execRaw where
  "zero_execRaw = \<lparr>xr_exitCode = 0, xr_stdout = [], xr_stderr = [], xr_durationMs = 0,
     xr_ctxErr = None, xr_runErr = None, xr_exitSuccess = [], xr_validation = [],
     xr_payloadDecoded = False\<rparr>"

record statusEntry =
  se_Path :: string
  se_Staging :: char
  se_Worktree :: char

record statusRaw =
  sw_validation :: string
  sw_clean :: bool
  sw_branch :: string
  sw_head :: string
  sw_entries :: "statusEntry list"
  sw_durationMs :: int
  sw_ctxErr :: "go_error option"
  sw_runErr :: "go_error option"

definition zero_statusRaw :: statusRaw where
  "zero_statusRaw = \<lparr>sw_validation = [], sw_clean = False, sw_branch = [], sw_head = [],
     sw_entries = [], sw_durationMs = 0, sw_ctxErr = None, sw_runErr = None\<rparr>"

record cloneRaw =
  cr_validation :: string
  cr_fetchOK :: bool
  cr_checkoutOK :: bool
  cr_repoPath :: string
  cr_headSHA :: string
  cr_refResolved :: string
  cr_durationMs :: int
  cr_ctxErr :: "go_error option"
  cr_runErr :: "go_error option"

definition zero_cloneRaw :: cloneRaw where
  "zero_cloneRaw = \<lparr>cr_validation = [], cr_fetchOK = False, cr_checkoutOK = False, cr_repoPath = [],
     cr_headSHA = [], cr_refResolved = [], cr_durationMs = 0, cr_ctxErr = None, cr_runErr = None\<rparr>"

record diffRaw =
  dr_validation :: string
  dr_patch :: string
  dr_truncated :: bool
  dr_totalBytes :: int
  dr_durationMs :: int
  dr_ctxErr :: "go_error option"
  dr_runErr :: "go_error option"

definition zero_diffRaw :: diffRaw where
  "zero_diffRaw = \<lparr>dr_validation = [], dr_patch = [], dr_truncated = False, dr_totalBytes = 0,
     dr_durationMs = 0, dr_ctxErr = None, dr_runErr = None\<rparr>"

record commitRaw =
  mr_validation :: string
  mr_commitSHA :: string
  mr_branch :: string
  mr_durationMs :: int
  mr_ctxErr :: "go_error option"
  mr_runErr :: "go_error option"

definition zero_commitRaw :: commitRaw where
  "zero_commitRaw = \<lparr>mr_validation = [], mr_commitSHA = [], mr_branch = [], mr_durationMs = 0,
     mr_ctxErr = None, mr_runErr = None\<rparr>"

record worktreeCreateRaw =
  wr_validation :: string
  wr_worktreePath :: string
  wr_branch :: string
  wr_headSHA :: string
  wr_durationMs :: int
  wr_ctxErr :: "go_error option"
  wr_runErr :: "go_error option"

definition zero_worktreeCreateRaw :: worktreeCreateRaw where
  "zero_worktreeCreateRaw = \<lparr>wr_validation = [], wr_worktreePath = [], wr_branch = [], wr_headSHA = [],
     wr_durationMs = 0, wr_ctxErr = None, wr_runErr = None\<rparr>"

record readRaw =
  rr_validation :: string
  rr_data :: string
  rr_totalBytes :: int
  rr_truncated :: bool
  rr_durationMs :: int
  rr_ctxErr :: "go_error option"
  rr_runErr :: "go_error option"

definition zero_readRaw :: readRaw where
  "zero_readRaw = \<lparr>rr_validation = [], rr_data = [], rr_totalBytes = 0, rr_truncated = False,
     rr_durationMs = 0, rr_ctxErr = None, rr_runErr = None\<rparr>"

record writeRaw =
  ww_validation :: string
  ww_resolvedPath :: string
  ww_bytesWritten :: int
  ww_checksumHex :: string
  ww_mode :: nat
  ww_durationMs :: int
  ww_ctxErr :: "go_error option"
  ww_runErr :: "go_error option"

definition zero_writeRaw :: writeRaw where
  "zero_writeRaw = \<lparr>ww_validation = [], ww_resolvedPath = [], ww_bytesWritten = 0, ww_checksumHex = [],
     ww_mode = 0, ww_durationMs = 0, ww_ctxErr = None, ww_runErr = None\<rparr>"

record httpRaw =
  hr_validation :: string
  hr_statusCode :: int
  hr_headers :: smap
  hr_body :: string
  hr_bodyTruncated :: bool
  hr_totalBytes :: int
  hr_redirectCount :: int
  hr_durationMs :: int
  hr_ctxErr :: "go_error option"
  hr_runErr :: "go_error option"
  hr_expectedStatus :: "int list"

definition zero_httpRaw :: httpRaw where
  "zero_httpRaw = \<lparr>hr_validation = [], hr_statusCode = 0, hr_headers = [], hr_body = [],
     hr_bodyTruncated = False, hr_totalBytes = 0, hr_redirectCount = 0, hr_durationMs = 0,
     hr_ctxErr = None, hr_runErr = None, hr_expectedStatus = []\<rparr>"

text \<open>A recovered panic value is kept as its printed form.\<close>

record panicRaw =
  pr_recoveredValue :: string
  pr_stack :: string
  pr_structuralErr :: "go_error option"

datatype ctxKind = ctxKindTimeout | ctxKindCancelled

record ctxRaw =
  cx_kind :: ctxKind
  cx_ctxErr :: go_error

datatype AdapterRawOutcome =
    ExecRaw execRaw | StatusRaw statusRaw | CloneRaw cloneRaw | DiffRaw diffRaw
  | CommitRaw commitRaw | WorktreeCreateRaw worktreeCreateRaw | ReadRaw readRaw
  | WriteRaw writeRaw | HttpRaw httpRaw | PanicRaw panicRaw | CtxRaw ctxRaw

text \<open>The dynamic type \<open>%T\<close> prints.\<close>

fun raw_type :: "AdapterRawOutcome option \<Rightarrow> string" where
  "raw_type None = ''<nil>''"
| "raw_type (Some (ExecRaw _)) = ''*shell.execRaw''"
| "raw_type (Some (StatusRaw _)) = ''*git.statusRaw''"
| "raw_type (Some (CloneRaw _)) = ''*git.cloneRaw''"
| "raw_type (Some (DiffRaw _)) = ''*git.diffRaw''"
| "raw_type (Some (CommitRaw _)) = ''*git.commitRaw''"
| "raw_type (Some (WorktreeCreateRaw _)) = ''*git.worktreeCreateRaw''"
| "raw_type (Some (ReadRaw _)) = ''*filesystem.readRaw''"
| "raw_type (Some (WriteRaw _)) = ''*filesystem.writeRaw''"
| "raw_type (Some (HttpRaw _)) = ''*httpreq.httpRaw''"
| "raw_type (Some (PanicRaw _)) = ''*services.panicRaw''"
| "raw_type (Some (CtxRaw _)) = ''*services.ctxRaw''"

section \<open>The result normalizer\<close>

text \<open>
  An adapter normalizer reads the clock once, after its type assertion; the reading is its
  last argument. The clone's looks at the file system, so a normalizer is also given the
  state of the world outside the process. It may panic.
\<close>

type_synonym 'w AdapterNormalizer =
  "Capability \<Rightarrow> AdapterRawOutcome option \<Rightarrow> 'w \<Rightarrow> go_time \<Rightarrow> (go_error + ExecutionResult) outcome"

record 'w ResultNormalizer =
  rn_inlineLimit :: int
  rn_byCanonical :: "(string \<times> 'w AdapterNormalizer) list"

definition NewResultNormalizer :: "int \<Rightarrow> 'w ResultNormalizer outcome" where
  "NewResultNormalizer inlineLimit =
     (if inlineLimit \<le> 0
      then Panic (''ResultNormalizer inlineLimit must be > 0, got '' @ int_dec inlineLimit)
      else Ret \<lparr>rn_inlineLimit = inlineLimit, rn_byCanonical = []\<rparr>)"

definition rn_Register ::
  "string \<Rightarrow> 'w AdapterNormalizer option \<Rightarrow> 'w ResultNormalizer \<Rightarrow> go_error option \<times> 'w ResultNormalizer" where
  "rn_Register canonical fn n =
     (if canonical = [] then (Some (errorf ''canonical must not be empty''), n)
      else case fn of None \<Rightarrow> (Some (errorf ''AdapterNormalizer must not be nil''), n)
      | Some f \<Rightarrow>
        if map_of (rn_byCanonical n) canonical \<noteq> None
        then (Some (errorf (''duplicate normalizer registration for '' @ quoted canonical)), n)
        else (None, n\<lparr>rn_byCanonical := (canonical, f) # rn_byCanonical n\<rparr>))"

definition rn_Normalize ::
  "'w ResultNormalizer \<Rightarrow> Capability \<Rightarrow> AdapterRawOutcome option \<Rightarrow> 'w \<Rightarrow> go_time option \<Rightarrow>
   (go_error + ExecutionResult) outcome" where
  "rn_Normalize n cap raw w clk =
     (case clk of None \<Rightarrow> Ret (Inl (errorf ''clock is required''))
      | Some now \<Rightarrow> (case map_of (rn_byCanonical n) (Canonical cap) of
          None \<Rightarrow> Ret (Inl (sentinel_error ErrNoNormalizerRegistered
                    (''no normalizer registered: '' @ Canonical cap)))
        | Some fn \<Rightarrow> fn cap raw w now))"

definition rn_Registered :: "'w ResultNormalizer \<Rightarrow> string list" where
  "rn_Registered n = sort (map fst (rn_byCanonical n))"

definition rn_ok :: "'w ResultNormalizer \<Rightarrow> bool" where
  "rn_ok n \<longleftrightarrow> distinct (map fst (rn_byCanonical n)) \<and> [] \<notin> set (map fst (rn_byCanonical n))"

text \<open>Registration: it either fails and changes nothing, or adds exactly one binding.\<close>

lemma rn_Register_cases:
  "(\<exists>e. rn_Register c fn n = (Some e, n)) \<or>
   (\<exists>f. fn = Some f \<and> c \<noteq> [] \<and> map_of (rn_byCanonical n) c = None \<and>
        rn_Register c fn n = (None, n\<lparr>rn_byCanonical := (c, f) # rn_byCanonical n\<rparr>))"
  by (auto simp: rn_Register_def split: option.splits)

lemma rn_Register_ok: "rn_ok n \<Longrightarrow> rn_Register c fn n = (e, n') \<Longrightarrow> rn_ok n'"
  by (auto simp: rn_Register_def rn_ok_def map_of_eq_None_iff split: if_splits option.splits)

lemma rn_Normalize_registered:
  assumes "rn_Register (Canonical cap) (Some f) n = (None, n')"
  shows "rn_Normalize n' cap raw w (Some now) = f cap raw w now"
  using assms by (auto simp: rn_Register_def rn_Normalize_def split: if_splits)

lemma rn_Register_other:
  assumes "rn_Register c fn n = (e, n')" and "Canonical cap \<noteq> c"
  shows "rn_Normalize n' cap raw w clk = rn_Normalize n cap raw w clk"
  using assms by (auto simp: rn_Register_def rn_Normalize_def split: if_splits option.splits)

section \<open>What the adapters' normalizers share\<close>

text \<open>
  Every normalizer classifies a context error first, then a validation message, then (all
  but the shell's and the clone's) an external error, with the same calls of
  \<open>NewExecutionResult\<close>. The results carry no streams, artifacts or metadata.
\<close>

definition ctx_result :: "go_error \<Rightarrow> int \<Rightarrow> go_time \<Rightarrow> go_error + ExecutionResult" where
  "ctx_result e ms now =
     (if errors_Is e DeadlineExceeded
      then NewExecutionResult StatusTimeout HintRetryable ErrTimeout (err_text e) None None None [] []
             0 0 (msToDuration ms) now
      else NewExecutionResult StatusCancelled HintNonRetryable ErrCancelled (err_text e) None None None [] []
             0 0 (msToDuration ms) now)"

definition validation_result :: "string \<Rightarrow> int \<Rightarrow> go_time \<Rightarrow> go_error + ExecutionResult" where
  "validation_result v ms now =
     NewExecutionResult StatusFailure HintNonRetryable ErrValidationFailure v None None None [] [] 0 0
       (msToDuration ms) now"

definition external_result :: "go_error \<Rightarrow> int \<Rightarrow> go_time \<Rightarrow> go_error + ExecutionResult" where
  "external_result e ms now =
     NewExecutionResult StatusFailure HintUnknown ErrExternalFailure (err_text e) None None None [] [] 0 0
       (msToDuration ms) now"

text \<open>\<open>stdout, _ := entities.NewStreamRef(...)\<close>: the zero value when the constructor fails.\<close>

definition streamRef_or_zero :: "string \<Rightarrow> int \<Rightarrow> int \<Rightarrow> StreamRef" where
  "streamRef_or_zero dat tot lim =
     (case NewStreamRef dat tot lim of Inl _ \<Rightarrow> zero_StreamRef | Inr s \<Rightarrow> s)"

text \<open>\<open>if art, err := entities.NewArtifact(...); err == nil { append }\<close>.\<close>

definition artifact_if_ok :: "ArtifactType \<Rightarrow> string \<Rightarrow> int \<Rightarrow> string \<Rightarrow> smap \<Rightarrow> Artifact list" where
  "artifact_if_ok t uri sizeBytes checksum attrs =
     (case NewArtifact t uri sizeBytes checksum attrs of Inl _ \<Rightarrow> [] | Inr a \<Rightarrow> [a])"

definition duration_ms_ok :: "int \<Rightarrow> bool" where
  "duration_ms_ok ms \<longleftrightarrow> 0 \<le> ms \<and> ms \<le> max_ms"

lemma msToDuration_nonneg: "duration_ms_ok ms \<Longrightarrow> 0 \<le> msToDuration ms"
  by (simp add: duration_ms_ok_def)

lemma artifact_if_ok_set: "a \<in> set (artifact_if_ok t uri sz cs at) \<Longrightarrow> artifact_ok a"
  by (auto simp: artifact_if_ok_def NewArtifact_ok split: sum.splits)

lemma artifact_if_ok_type: "a \<in> set (artifact_if_ok t uri sz cs at) \<Longrightarrow> art_Type a = t"
  by (cases "NewArtifact t uri sz cs at") (auto simp: artifact_if_ok_def validate)

lemmas status_simps = status_consistent_def enum_defs

lemma ctx_result_Inr:
  assumes "duration_ms_ok ms"
  shows "\<exists>r. ctx_result e ms now = Inr r \<and>
     res_Status r = (if errors_Is e DeadlineExceeded then StatusTimeout else StatusCancelled)"
  using assms by (auto simp: ctx_result_def validate status_simps msToDuration_nonneg)

lemma validation_result_Inr:
  assumes "duration_ms_ok ms" and "v \<noteq> []"
  shows "\<exists>r. validation_result v ms now = Inr r \<and> res_Status r = StatusFailure \<and>
     res_ErrorClass r = ErrValidationFailure"
  using assms by (auto simp: validation_result_def validate status_simps msToDuration_nonneg)

lemma external_result_Inr:
  assumes "duration_ms_ok ms" and "err_text e \<noteq> []"
  shows "\<exists>r. external_result e ms now = Inr r \<and> res_Status r = StatusFailure \<and>
     res_ErrorClass r = ErrExternalFailure"
  using assms by (auto simp: external_result_def validate status_simps msToDuration_nonneg)

end
