(* ===== verification/Go_Path.thy ===== *)
theory Go_Path
  imports Go_Prelude "HOL-Library.Sublist"
begin

text \<open>
  The part of \<open>path/filepath\<close> (on Unix) the adapters' path checks use, and the fact those
  checks rest on: the string prefix test of the adapters' \<open>safety.go\<close> files, on cleaned
  absolute paths, is containment of the component lists, so neither a dot-dot component nor
  a sibling directory with a common name prefix passes it.
\<close>

section \<open>Splitting, cleaning, joining\<close>

abbreviation (input) sep :: char where "sep \<equiv> CHR ''/''"

fun split_path :: "string \<Rightarrow> string list" where
  "split_path [] = [[]]"
| "split_path (c # s) =
     (if c = sep then [] # split_path s
      else (case split_path s of [] \<Rightarrow> [[c]] | x # xs \<Rightarrow> (c # x) # xs))"

definition IsAbs :: "string \<Rightarrow> bool" where
  "IsAbs p \<longleftrightarrow> (case p of [] \<Rightarrow> False | c # _ \<Rightarrow> c = sep)"

text \<open>
  The stack of kept components, last first: a dot and an empty component are dropped, a
  dot-dot removes the last one, is dropped at the root and kept at the start of a relative
  path.
\<close>

fun clean_step :: "bool \<Rightarrow> string list \<Rightarrow> string \<Rightarrow> string list" where
  "clean_step rooted st c =
     (if c = [] \<or> c = ''.'' then st
      else if c = ''..'' then
        (case st of [] \<Rightarrow> if rooted then [] else [''..'']
         | x # xs \<Rightarrow> if x = ''..'' then ''..'' # st else xs)
      else c # st)"

definition clean_comps :: "bool \<Rightarrow> string list \<Rightarrow> string list" where
  "clean_comps rooted cs = rev (foldl (clean_step rooted) [] cs)"

definition abs_path :: "string list \<Rightarrow> string" where
  "abs_path cs = ''/'' @ join ''/'' cs"

definition Clean :: "string \<Rightarrow> string" where
  "Clean p =
     (if IsAbs p then abs_path (clean_comps True (split_path p))
      else let cs = clean_comps False (split_path p) in if cs = [] then ''.'' else join ''/'' cs)"

definition filepath_Join :: "string \<Rightarrow> string \<Rightarrow> string" where
  "filepath_Join a b =
     (if a = [] \<and> b = [] then []
      else if a = [] then Clean b else if b = [] then Clean a else Clean (a @ ''/'' @ b))"

text \<open>\<open>Abs\<close> is given what \<open>os.Getwd\<close> returns.\<close>

definition filepath_Abs :: "go_error + string \<Rightarrow> string \<Rightarrow> go_error + string" where
  "filepath_Abs wd p =
     (if IsAbs p then Inr (Clean p)
      else case wd of Inl e \<Rightarrow> Inl e | Inr d \<Rightarrow> Inr (filepath_Join d p))"

definition filepath_Dir :: "string \<Rightarrow> string" where
  "filepath_Dir p = Clean (rev (dropWhile (\<lambda>c. c \<noteq> sep) (rev p)))"

definition filepath_Base :: "string \<Rightarrow> string" where
  "filepath_Base p =
     (if p = [] then ''.''
      else let q = rev (dropWhile (\<lambda>c. c = sep) (rev p));
               b = rev (takeWhile (\<lambda>c. c \<noteq> sep) (rev q))
           in if b = [] then ''/'' else b)"

text \<open>The test all three \<open>safety.go\<close> files make on two cleaned paths.\<close>

definition within :: "string \<Rightarrow> string \<Rightarrow> bool" where
  "within p root \<longleftrightarrow> p = root \<or> prefix (root @ ''/'') p"

section \<open>Cleaned absolute paths\<close>

definition normal_comp :: "string \<Rightarrow> bool" where
  "normal_comp c \<longleftrightarrow> c \<noteq> [] \<and> c \<noteq> ''.'' \<and> c \<noteq> ''..'' \<and> sep \<notin> set c"

definition clean_abs :: "string \<Rightarrow> bool" where
  "clean_abs p \<longleftrightarrow> (\<exists>cs. list_all normal_comp cs \<and> p = abs_path cs)"

lemma split_path_no_sep: "c \<in> set (split_path s) \<Longrightarrow> sep \<notin> set c"
  by (induction s arbitrary: c) (auto split: if_splits list.splits)

lemma clean_step_normal:
  assumes "list_all normal_comp st" and "sep \<notin> set c"
  shows "list_all normal_comp (clean_step True st c)"
  using assms by (auto simp: normal_comp_def split: list.splits)

lemma foldl_clean_normal:
  "list_all normal_comp st \<Longrightarrow> \<forall>c \<in> set cs. sep \<notin> set c \<Longrightarrow>
     list_all normal_comp (foldl (clean_step True) st cs)"
proof (induction cs arbitrary: st)
  case (Cons c cs)
  then have "list_all normal_comp (clean_step True st c)" by (intro clean_step_normal) auto
  with Cons show ?case by auto
qed simp

lemma clean_comps_normal: "list_all normal_comp (clean_comps True (split_path p))"
  unfolding clean_comps_def
  using foldl_clean_normal [of "[]" "split_path p"] split_path_no_sep by auto

lemma Clean_clean_abs: "IsAbs p \<Longrightarrow> clean_abs (Clean p)"
  using clean_comps_normal by (auto simp: Clean_def clean_abs_def)

lemma filepath_Abs_clean:
  assumes "filepath_Abs wd p = Inr q" and "\<And>d. wd = Inr d \<Longrightarrow> IsAbs d"
  shows "clean_abs q"
proof (cases "IsAbs p")
  case True
  with assms(1) show ?thesis by (auto simp: filepath_Abs_def Clean_clean_abs)
next
  case False
  with assms obtain d where d: "wd = Inr d" "IsAbs d" "q = filepath_Join d p"
    by (auto simp: filepath_Abs_def split: sum.splits)
  then have "d \<noteq> []" and "IsAbs (d @ ''/'' @ p)" by (auto simp: IsAbs_def split: list.splits)
  with d show ?thesis by (auto simp: filepath_Join_def Clean_clean_abs)
qed

text \<open>Components are recovered from a joined path.\<close>

lemma split_path_append_sep:
  "sep \<notin> set c \<Longrightarrow> split_path (c @ sep # s) = c # split_path s"
  by (induction c) auto

lemma split_path_no_sep_single: "sep \<notin> set c \<Longrightarrow> split_path c = [c]"
  by (induction c) auto

lemma split_path_join:
  "cs \<noteq> [] \<Longrightarrow> \<forall>c \<in> set cs. sep \<notin> set c \<Longrightarrow> split_path (join ''/'' cs) = cs"
proof (induction "''/''" cs rule: join.induct)
  case (3 x y xs)
  then show ?case by (simp add: split_path_append_sep)
qed (simp_all add: split_path_no_sep_single)

lemma join_nonempty: "cs \<noteq> [] \<Longrightarrow> list_all normal_comp cs \<Longrightarrow> join s cs \<noteq> []"
  by (cases "(s, cs)" rule: join.cases) (auto simp: normal_comp_def)

lemma normal_sep: "list_all normal_comp cs \<Longrightarrow> \<forall>c \<in> set cs. sep \<notin> set c"
  by (auto simp: list_all_iff normal_comp_def)

lemma abs_path_inject:
  assumes "list_all normal_comp as" and "list_all normal_comp bs" and "abs_path as = abs_path bs"
  shows "as = bs"
proof -
  have eq: "join ''/'' as = join ''/'' bs" using assms(3) by (simp add: abs_path_def)
  show ?thesis
  proof (cases "as = [] \<or> bs = []")
    case True
    then show ?thesis using eq assms join_nonempty by (metis join.simps(1))
  next
    case False
    then show ?thesis using eq assms split_path_join normal_sep by metis
  qed
qed

lemma join_append:
  "as \<noteq> [] \<Longrightarrow> bs \<noteq> [] \<Longrightarrow> join s (as @ bs) = join s as @ s @ join s bs"
proof (induction as rule: list_nonempty_induct)
  case (single x)
  then show ?case by (cases bs) auto
next
  case (cons x xs)
  then show ?case by (cases xs) auto
qed

lemma within_components:
  assumes "list_all normal_comp as" and "list_all normal_comp rs" and "rs \<noteq> []"
  shows "within (abs_path as) (abs_path rs) \<longleftrightarrow> prefix rs as"
proof
  assume w: "within (abs_path as) (abs_path rs)"
  show "prefix rs as"
  proof (cases "abs_path as = abs_path rs")
    case True
    then show ?thesis using abs_path_inject [OF assms(1,2) True] by simp
  next
    case False
    with w obtain t where t: "join ''/'' as = join ''/'' rs @ ''/'' @ t"
      by (auto simp: within_def abs_path_def prefix_def)
    then have "as \<noteq> []" by auto
    then have "as = split_path (join ''/'' rs @ ''/'' @ t)"
      using split_path_join [of as] normal_sep [OF assms(1)] by (simp add: t)
    also have "split_path (join ''/'' rs @ ''/'' @ t) = rs @ split_path t"
      using assms(3) normal_sep [OF assms(2)]
      by (induction "''/''" rs rule: join.induct) (simp_all add: split_path_append_sep)
    finally show ?thesis by (simp add: prefix_def)
  qed
next
  assume "prefix rs as"
  then obtain ts where "as = rs @ ts" by (auto simp: prefix_def)
  then show "within (abs_path as) (abs_path rs)"
    using assms(3) by (cases "ts = []") (auto simp: within_def abs_path_def join_append prefix_def)
qed

lemma within_root: "list_all normal_comp as \<Longrightarrow> within (abs_path as) ''/'' \<longleftrightarrow> as = []"
  by (cases "(''/'', as)" rule: join.cases)
    (auto simp: within_def abs_path_def normal_comp_def prefix_def neq_Nil_conv Cons_eq_append_conv)

end
