(* ===== verification/Adapter_Port.thy ===== *)
theory Adapter_Port
  imports Raw_Outcomes Go_Path
begin

text \<open>
  The outbound adapter port (\<open>internal/ports/outbound/adapter.go\<close>): an adapter's
  identifier, its capabilities and its \<open>Execute\<close>, a state transformer on the world outside
  the process, and the contract the application relies on. \<open>'w\<close> is that world; what an
  adapter asks of it (files, processes, go-git, the network) is a record of functions on it.
\<close>

type_synonym 'w execute_fn =
  "go_ctx \<Rightarrow> Capability \<Rightarrow> Payload \<Rightarrow> 'w \<Rightarrow>
   (AdapterRawOutcome option \<times> go_error option) outcome \<times> 'w"

record 'w Adapter =
  ad_ID :: AdapterID
  ad_Capabilities :: "Capability list"
  ad_Execute :: "'w execute_fn"

text \<open>\<open>return raw, nil\<close>: the only way the adapters of the first phase return.\<close>

definition raw_ok :: "AdapterRawOutcome \<Rightarrow> 'w \<Rightarrow> (AdapterRawOutcome option \<times> go_error option) outcome \<times> 'w" where
  "raw_ok r w = (Ret (Some r, None), w)"

lemma fst_raw_ok [simp]: "fst (raw_ok r w) = Ret (Some r, None)"
  by (simp add: raw_ok_def)

lemma snd_raw_ok [simp]: "snd (raw_ok r w) = w"
  by (simp add: raw_ok_def)

text \<open>\<open>elapsedMs\<close> of two readings of the adapter's clock.\<close>

definition elapsedMs :: "go_time \<Rightarrow> go_time \<Rightarrow> int" where
  "elapsedMs t0 t1 = Milliseconds (Sub t1 t0)"

lemma elapsedMs_ok: "t0 \<le> t1 \<Longrightarrow> duration_ms_ok (elapsedMs t0 t1)"
  unfolding elapsedMs_def duration_ms_ok_def
  using Sub_nonneg [of t0 t1] int64_ok_Sub [of t1 t0]
  by (simp add: Milliseconds_nonneg Milliseconds_le_max int64_ok_def)

text \<open>
  The contract: an adapter never panics and never returns a structural error, whatever the
  context, the payload and the world; its capabilities carry its own identifier; and the
  raw outcome of a capability is of the type its registered normalizer asserts.
\<close>

locale adapter_contract =
  fixes adapter :: "'w Adapter"
    and normalizer :: "string \<Rightarrow> 'w AdapterNormalizer"
    and accepts :: "string \<Rightarrow> AdapterRawOutcome \<Rightarrow> bool"
  assumes execute_returns:
      "cap \<in> set (ad_Capabilities adapter) \<Longrightarrow>
       \<exists>raw. fst (ad_Execute adapter ctx cap p w) = Ret (Some raw, None) \<and> accepts (Canonical cap) raw"
    and normalizer_returns:
      "cap \<in> set (ad_Capabilities adapter) \<Longrightarrow> accepts (Canonical cap) raw \<Longrightarrow>
       \<exists>x. normalizer (Canonical cap) cap (Some raw) w now = Ret x"
    and capability_owner:
      "cap \<in> set (ad_Capabilities adapter) \<Longrightarrow> cap_adapterID cap = ad_ID adapter"
begin

text \<open>Dispatch and normalization compose without a panic, for every capability.\<close>

lemma dispatch_no_panic:
  assumes "cap \<in> set (ad_Capabilities adapter)"
  shows "\<exists>raw x. fst (ad_Execute adapter ctx cap p w) = Ret (Some raw, None) \<and>
    normalizer (Canonical cap) cap (Some raw) (snd (ad_Execute adapter ctx cap p w)) now = Ret x"
  using execute_returns [OF assms] normalizer_returns [OF assms] by metis

end

end
