(* ===== verification/Shell_Adapter.thy ===== *)
theory Shell_Adapter
  imports Adapter_Port
begin

text \<open>
  The shell adapter (\<open>internal/adapters/outbound/shell\<close>): command and working-directory
  resolution, the child's environment, \<open>Execute\<close> and the normalizer. The payload decoder
  and the process runner are given by the environment: the runner is \<open>cmd.Run\<close> with what
  the code reads of the command afterwards.
\<close>

section \<open>Types\<close>

record ShellConfig =
  sc_AllowedCommandsPath :: "string list"
  sc_AllowedWorkingDirs :: "string list"
  sc_InlineStreamLimit :: int

record ExecPayload =
  ep_Command :: string
  ep_Args :: "string list"
  ep_Env :: smap
  ep_WorkingDir :: string
  ep_Stdin :: string
  ep_ExitSuccess :: "int list"

definition baseEnvKeys :: "string list" where
  "baseEnvKeys = [''PATH'', ''HOME'', ''LANG'', ''LC_ALL'', ''TZ'']"

text \<open>The command as built, and what is read of it after \<open>Run\<close>; no exit code without a process state.\<close>

record exec_cmd =
  cmd_Path :: string
  cmd_Args :: "string list"
  cmd_Dir :: string
  cmd_Env :: "string list"
  cmd_Stdin :: "string option"

record run_outcome =
  ro_exit :: "int option"
  ro_stdout :: string
  ro_stderr :: string
  ro_err :: "go_error option"
  ro_elapsed :: duration

record 'w shell_env =
  sh_decode :: "string \<Rightarrow> go_error + ExecPayload"
  sh_Getwd :: "'w \<Rightarrow> go_error + string"
  sh_Stat :: "'w \<Rightarrow> string \<Rightarrow> go_error option"
  sh_LookupEnv :: "'w \<Rightarrow> string \<Rightarrow> string option"
  sh_Run :: "exec_cmd \<Rightarrow> 'w \<Rightarrow> run_outcome \<times> 'w"

section \<open>Command, working directory, environment\<close>

definition resolveCommand :: "(string \<Rightarrow> go_error option) \<Rightarrow> ShellConfig \<Rightarrow> string \<Rightarrow> go_error + string" where
  "resolveCommand stat c command =
     (if command = [] then Inl (errorf ''command is empty'')
      else if IsAbs command then
        (case stat command of
           Some e \<Rightarrow> Inl (wrapf (''absolute command '' @ quoted command @ '' not found'') e)
         | None \<Rightarrow> Inr command)
      else case find (\<lambda>cand. stat cand = None)
                  (map (\<lambda>dir. filepath_Join dir command) (sc_AllowedCommandsPath c)) of
        Some cand \<Rightarrow> Inr cand
      | None \<Rightarrow> Inl (errorf (''command '' @ quoted command @ '' not found in AllowedCommandsPath '' @
                  slice_str (sc_AllowedCommandsPath c))))"

text \<open>The loop over the allowed roots; a root whose \<open>Abs\<close> fails is skipped.\<close>

fun in_roots :: "go_error + string \<Rightarrow> string list \<Rightarrow> string \<Rightarrow> bool" where
  "in_roots wd [] p = False"
| "in_roots wd (root # roots) p =
     (case filepath_Abs wd root of
        Inl _ \<Rightarrow> in_roots wd roots p
      | Inr absRoot \<Rightarrow> within p absRoot \<or> in_roots wd roots p)"

definition resolveWorkingDir :: "go_error + string \<Rightarrow> ShellConfig \<Rightarrow> string \<Rightarrow> go_error + string" where
  "resolveWorkingDir wd c dir =
     (if dir = [] then Inr []
      else if \<not> IsAbs dir then Inl (errorf (''working_dir must be absolute, got '' @ quoted dir))
      else case filepath_Abs wd dir of Inl e \<Rightarrow> Inl (wrapf ''working_dir abs'' e)
      | Inr p \<Rightarrow>
          if in_roots wd (sc_AllowedWorkingDirs c) p then Inr p
          else Inl (errorf (''working_dir '' @ quoted p @ '' not within AllowedWorkingDirs '' @
                 slice_str (sc_AllowedWorkingDirs c))))"

definition merged_env :: "(string \<Rightarrow> string option) \<Rightarrow> smap \<Rightarrow> smap" where
  "merged_env lookup callerEnv =
     fold (\<lambda>(k, v) m. AList.update k v m) callerEnv
       (fold (\<lambda>k m. case lookup k of None \<Rightarrow> m | Some v \<Rightarrow> AList.update k v m) baseEnvKeys [])"

definition buildEnv :: "(string \<Rightarrow> string option) \<Rightarrow> smap \<Rightarrow> string list" where
  "buildEnv lookup callerEnv = map (\<lambda>(k, v). k @ ''='' @ v) (merged_env lookup callerEnv)"

section \<open>The adapter\<close>

definition exitCodeFrom :: "int option \<Rightarrow> go_error option \<Rightarrow> int" where
  "exitCodeFrom processState runErr =
     (case processState of Some code \<Rightarrow> code
      | None \<Rightarrow> (case runErr of None \<Rightarrow> 0 | Some _ \<Rightarrow> -1))"

definition shell_Execute :: "'w shell_env \<Rightarrow> ShellConfig \<Rightarrow> 'w execute_fn" where
  "shell_Execute env cfg ctx cap payload w =
     (case ctx_at ctx 0 of
        Some e \<Rightarrow> raw_ok (ExecRaw (zero_execRaw\<lparr>xr_ctxErr := Some e\<rparr>)) w
      | None \<Rightarrow>
        if Canonical cap \<noteq> ''shell.exec@v1''
        then raw_ok (ExecRaw (zero_execRaw\<lparr>xr_validation :=
               ''unknown capability for shell adapter: '' @ Canonical cap\<rparr>)) w
        else case sh_decode env (pl_Raw payload) of
          Inl e \<Rightarrow> raw_ok (ExecRaw (zero_execRaw\<lparr>xr_validation := ''decode payload: '' @ err_text e\<rparr>)) w
        | Inr p \<Rightarrow> (case resolveCommand (sh_Stat env w) cfg (ep_Command p) of
          Inl e \<Rightarrow> raw_ok (ExecRaw (zero_execRaw\<lparr>xr_validation := err_text e, xr_payloadDecoded := True\<rparr>)) w
        | Inr resolvedCmd \<Rightarrow> (case resolveWorkingDir (sh_Getwd env w) cfg (ep_WorkingDir p) of
          Inl e \<Rightarrow> raw_ok (ExecRaw (zero_execRaw\<lparr>xr_validation := err_text e, xr_payloadDecoded := True\<rparr>)) w
        | Inr resolvedWD \<Rightarrow>
          (let cmd = \<lparr>cmd_Path = resolvedCmd, cmd_Args = ep_Args p, cmd_Dir = resolvedWD,
                      cmd_Env = buildEnv (sh_LookupEnv env w) (ep_Env p),
                      cmd_Stdin = (if ep_Stdin p = [] then None else Some (ep_Stdin p))\<rparr>;
               (out, w') = sh_Run env cmd w
           in raw_ok (ExecRaw
                \<lparr>xr_exitCode = exitCodeFrom (ro_exit out) (ro_err out), xr_stdout = ro_stdout out,
                 xr_stderr = ro_stderr out, xr_durationMs = Milliseconds (ro_elapsed out),
                 xr_ctxErr = ctx_at ctx 1, xr_runErr = ro_err out,
                 xr_exitSuccess = (if ep_ExitSuccess p = [] then [0] else ep_ExitSuccess p),
                 xr_validation = [], xr_payloadDecoded = True\<rparr>) w'))))"

definition shell_id :: AdapterID where "shell_id = AdapterID ''shell''"

definition shell_cap :: Capability where
  "shell_cap = \<lparr>cap_adapterID = shell_id, cap_name = ''exec'', cap_version = ''v1'',
     cap_allowsPartial = False, cap_defaultTimeout = 30 * Second\<rparr>"

definition shell_adapter :: "'w shell_env \<Rightarrow> ShellConfig \<Rightarrow> 'w Adapter" where
  "shell_adapter env cfg =
     \<lparr>ad_ID = shell_id, ad_Capabilities = [shell_cap], ad_Execute = shell_Execute env cfg\<rparr>"

definition shell_NewAdapter :: "'w shell_env \<Rightarrow> ShellConfig \<Rightarrow> go_error + 'w Adapter" where
  "shell_NewAdapter env cfg =
     (if sc_InlineStreamLimit cfg \<le> 0
      then Inl (errorf (''shell.Config.InlineStreamLimit must be > 0, got '' @
                        int_dec (sc_InlineStreamLimit cfg)))
      else case NewAdapterID ''shell'' of Inl e \<Rightarrow> Inl (wrapf ''construct AdapterID'' e)
      | Inr aid \<Rightarrow> (case NewCapability aid ''exec'' ''v1'' False (30 * Second) of
          Inl e \<Rightarrow> Inl (wrapf ''construct shell.exec@v1 capability'' e)
        | Inr cap \<Rightarrow> Inr \<lparr>ad_ID = aid, ad_Capabilities = [cap], ad_Execute = shell_Execute env cfg\<rparr>))"

section \<open>The normalizer\<close>

definition streamRefOrNil :: "string \<Rightarrow> int \<Rightarrow> StreamRef option" where
  "streamRefOrNil dat limit =
     (if limit \<le> 0 then None
      else if dat = [] then Some (streamRef_or_zero [] 0 limit)
      else case NewStreamRef dat (int (length dat)) limit of Inl _ \<Rightarrow> None | Inr s \<Rightarrow> Some s)"

definition shell_normalize :: "ShellConfig \<Rightarrow> execRaw \<Rightarrow> go_time \<Rightarrow> go_error + ExecutionResult" where
  "shell_normalize cfg r now =
     (let lim = sc_InlineStreamLimit cfg;
          stdout = streamRefOrNil (xr_stdout r) lim;
          stderr = streamRefOrNil (xr_stderr r) lim;
          nout = int (length (xr_stdout r));
          nerr = int (length (xr_stderr r));
          d = msToDuration (xr_durationMs r)
      in case xr_ctxErr r of
        Some e \<Rightarrow>
          if errors_Is e DeadlineExceeded
          then NewExecutionResult StatusTimeout HintRetryable ErrTimeout (err_text e) stdout stderr
                 (Some (xr_exitCode r)) [] [] nout nerr d now
          else NewExecutionResult StatusCancelled HintNonRetryable ErrCancelled (err_text e) stdout stderr
                 (Some (xr_exitCode r)) [] [] nout nerr d now
      | None \<Rightarrow>
          if xr_validation r \<noteq> [] then validation_result (xr_validation r) (xr_durationMs r) now
          else if xr_exitCode r \<in> set (xr_exitSuccess r)
          then NewExecutionResult StatusSuccess HintNonRetryable [] [] stdout stderr
                 (Some (xr_exitCode r)) [] [] nout nerr d now
          else NewExecutionResult StatusFailure HintUnknown ErrExternalFailure
                 (''exit code '' @ int_dec (xr_exitCode r) @ '' not in exit_success list '' @
                  slice_str (map int_dec (xr_exitSuccess r)))
                 stdout stderr (Some (xr_exitCode r)) [] [] nout nerr d now)"

definition shell_Normalize :: "ShellConfig \<Rightarrow> 'w AdapterNormalizer" where
  "shell_Normalize cfg cap raw w now =
     (case raw of
        Some (ExecRaw r) \<Rightarrow> Ret (shell_normalize cfg r now)
      | _ \<Rightarrow> Ret (Inl (errorf (''shell.Normalize: unexpected raw type '' @ raw_type raw))))"

section \<open>Properties\<close>

text \<open>Containment: an accepted working directory lies under an allowed root, by components.\<close>

lemma in_roots_iff:
  "in_roots wd roots p \<longleftrightarrow> (\<exists>root \<in> set roots. \<exists>r. filepath_Abs wd root = Inr r \<and> within p r)"
  by (induction roots) (auto split: sum.splits)

lemma resolveWorkingDir_Inr:
  "resolveWorkingDir wd c dir = Inr p \<longleftrightarrow>
     (dir = [] \<and> p = []) \<or>
     (IsAbs dir \<and> p = Clean dir \<and> in_roots wd (sc_AllowedWorkingDirs c) p)"
  by (auto simp: resolveWorkingDir_def filepath_Abs_def IsAbs_def split: if_splits list.splits)

lemma in_roots_components:
  assumes "in_roots wd roots (abs_path as)" and "list_all normal_comp as"
    and "\<And>d. wd = Inr d \<Longrightarrow> IsAbs d"
  shows "\<exists>root \<in> set roots. \<exists>rs. list_all normal_comp rs \<and> filepath_Abs wd root = Inr (abs_path rs) \<and>
    prefix rs as"
proof -
  from assms(1) obtain root r where root: "root \<in> set roots" and r: "filepath_Abs wd root = Inr r"
    and w: "within (abs_path as) r"
    by (auto simp: in_roots_iff)
  obtain rs where rs: "list_all normal_comp rs" "r = abs_path rs"
    using filepath_Abs_clean [OF r assms(3)] by (auto simp: clean_abs_def)
  have "prefix rs as"
  proof (cases "rs = []")
    case False
    then show ?thesis using w rs within_components [OF assms(2) rs(1) False] by simp
  qed simp
  with root r rs show ?thesis by blast
qed

lemma merged_env_keys:
  "fst ` set (merged_env lookup ce) \<subseteq> set baseEnvKeys \<union> fst ` set ce"
proof -
  let ?base = "fold (\<lambda>k m. case lookup k of None \<Rightarrow> m | Some v \<Rightarrow> AList.update k v m) baseEnvKeys []"
  have "fst ` set ?base \<subseteq> fst ` set ([] :: smap) \<union> id ` set baseEnvKeys"
    by (rule fold_keys) (simp add: dom_update subset_insertI split: option.splits)
  moreover have "fst ` set (merged_env lookup ce) \<subseteq> fst ` set ?base \<union> fst ` set ce"
    unfolding merged_env_def by (rule fold_keys) (simp add: dom_update split: prod.splits)
  ultimately show ?thesis by (simp add: subset_iff) blast
qed

lemma shell_Execute_returns:
  "\<exists>r. fst (shell_Execute env cfg ctx cap p w) = Ret (Some (ExecRaw r), None)"
  by (auto simp: shell_Execute_def Let_def split: option.splits sum.splits prod.splits)

lemma shell_NewAdapter_Inr [validate]:
  "shell_NewAdapter env cfg = Inr a \<longleftrightarrow> 0 < sc_InlineStreamLimit cfg \<and>
     a = shell_adapter env cfg"
  by (auto simp: shell_NewAdapter_def shell_adapter_def shell_cap_def NewAdapterID_def NewCapability_def shell_id_def
      identifier_regexes duration_units)

lemma shell_normalize_no_artifacts: "shell_normalize cfg r now = Inr res \<Longrightarrow> res_Artifacts res = []"
  by (auto simp: shell_normalize_def Let_def validation_result_def validate split: option.splits if_splits)

lemma shell_normalize_total:
  assumes "duration_ms_ok (xr_durationMs r)"
  shows "\<exists>res. shell_normalize cfg r now = Inr res \<and> result_ok res"
proof -
  have "\<exists>res. shell_normalize cfg r now = Inr res"
    using assms
    by (auto simp: shell_normalize_def Let_def validation_result_def validate status_simps
        msToDuration_nonneg split: option.splits)
  moreover have "result_ok res" if "shell_normalize cfg r now = Inr res" for res
    using that by (auto simp: shell_normalize_def Let_def validation_result_def split: option.splits if_splits
        dest: NewExecutionResult_ok)
  ultimately show ?thesis by blast
qed

text \<open>The adapter meets the port's contract.\<close>

interpretation shell_port: adapter_contract "shell_adapter env cfg" "\<lambda>_. shell_Normalize cfg"
  "\<lambda>_ raw. \<exists>r. raw = ExecRaw r" for env cfg
proof
  show "\<exists>raw. fst (ad_Execute (shell_adapter env cfg) ctx cap p w) = Ret (Some raw, None) \<and>
      (\<exists>r. raw = ExecRaw r)" for cap ctx p w
    using shell_Execute_returns [of env cfg ctx cap p w] by (auto simp: shell_adapter_def)
qed (auto simp: shell_Normalize_def shell_adapter_def shell_cap_def)

end
