(* ===== verification/Filesystem_Adapter.thy ===== *)
theory Filesystem_Adapter
  imports Adapter_Port
begin

text \<open>
  The filesystem adapter (\<open>internal/adapters/outbound/filesystem\<close>): path resolution under
  the allowed roots, \<open>read_file\<close>, the atomic \<open>write_file\<close>, and both normalizers. The
  file system is a map from cleaned absolute paths to nodes; each system call first consults
  a script of faults, so every error path of the code can be taken, and a failed write
  leaves an arbitrary prefix. Symbolic links are the resolution function \<open>fs_eval\<close>.
\<close>

section \<open>The file system\<close>

datatype fs_node = DirNode | FileNode string nat

record fs_state =
  fs_nodes :: "string \<rightharpoonup> fs_node"
  fs_eval :: "string \<Rightarrow> go_error + string"
  fs_wd :: "go_error + string"
  fs_fault :: "nat \<Rightarrow> go_error option"
  fs_short :: "nat \<Rightarrow> nat"
  fs_calls :: nat
  fs_suffix :: "nat \<Rightarrow> string"
  fs_clock :: "nat \<Rightarrow> go_time"
  fs_tick :: nat

definition enoent :: go_error where "enoent = errorf ''no such file or directory''"
definition eexist :: go_error where "eexist = errorf ''file exists''"
definition enotdir :: go_error where "enotdir = errorf ''not a directory''"

definition next_call :: "'z fs_state_scheme \<Rightarrow> 'z fs_state_scheme" where
  "next_call w = w\<lparr>fs_calls := Suc (fs_calls w)\<rparr>"

text \<open>A call that fails with the scripted error, or else does what \<open>f\<close> says.\<close>

definition sys_call ::
  "('z fs_state_scheme \<Rightarrow> go_error option \<times> 'z fs_state_scheme) \<Rightarrow> 'z fs_state_scheme \<Rightarrow>
   go_error option \<times> 'z fs_state_scheme" where
  "sys_call f w =
     (case fs_fault w (fs_calls w) of Some e \<Rightarrow> (Some e, next_call w)
      | None \<Rightarrow> (case f w of (r, w') \<Rightarrow> (r, next_call w')))"

definition os_Stat :: "string \<Rightarrow> 'z fs_state_scheme \<Rightarrow> go_error option \<times> 'z fs_state_scheme" where
  "os_Stat p = sys_call (\<lambda>w. (case fs_nodes w p of None \<Rightarrow> Some enoent | Some _ \<Rightarrow> None, w))"

text \<open>\<open>os.Open\<close> for reading, and \<open>Stat\<close> on the open handle.\<close>

definition os_Open :: "string \<Rightarrow> 'z fs_state_scheme \<Rightarrow> go_error option \<times> 'z fs_state_scheme" where
  "os_Open p = sys_call (\<lambda>w. (case fs_nodes w p of None \<Rightarrow> Some enoent | Some _ \<Rightarrow> None, w))"

definition os_FStat :: "'z fs_state_scheme \<Rightarrow> go_error option \<times> 'z fs_state_scheme" where
  "os_FStat = sys_call (\<lambda>w. (None, w))"

fun ancestors :: "string list \<Rightarrow> string list list" where
  "ancestors [] = [[]]"
| "ancestors (c # cs) = [] # map ((#) c) (ancestors cs)"

fun mkdirs :: "string list \<Rightarrow> (string \<rightharpoonup> fs_node) \<Rightarrow> go_error option \<times> (string \<rightharpoonup> fs_node)" where
  "mkdirs [] m = (None, m)"
| "mkdirs (p # ps) m =
     (case m p of
        None \<Rightarrow> mkdirs ps (m(p \<mapsto> DirNode))
      | Some DirNode \<Rightarrow> mkdirs ps m
      | Some (FileNode _ _) \<Rightarrow> (Some enotdir, m))"

definition os_MkdirAll :: "string \<Rightarrow> 'z fs_state_scheme \<Rightarrow> go_error option \<times> 'z fs_state_scheme" where
  "os_MkdirAll dir = sys_call (\<lambda>w.
     (case mkdirs (map abs_path (ancestors (clean_comps True (split_path dir)))) (fs_nodes w) of
        (r, m) \<Rightarrow> (r, w\<lparr>fs_nodes := m\<rparr>)))"

definition os_OpenExcl :: "string \<Rightarrow> nat \<Rightarrow> 'z fs_state_scheme \<Rightarrow> go_error option \<times> 'z fs_state_scheme" where
  "os_OpenExcl p mode = sys_call (\<lambda>w.
     if fs_nodes w p \<noteq> None then (Some eexist, w)
     else if fs_nodes w (filepath_Dir p) \<noteq> Some DirNode then (Some enoent, w)
     else (None, w\<lparr>fs_nodes := (fs_nodes w)(p \<mapsto> FileNode [] mode)\<rparr>))"

definition os_Write :: "string \<Rightarrow> nat \<Rightarrow> string \<Rightarrow> 'z fs_state_scheme \<Rightarrow> go_error option \<times> 'z fs_state_scheme" where
  "os_Write p mode dat w =
     (case fs_fault w (fs_calls w) of
        Some e \<Rightarrow> (Some e, next_call (w\<lparr>fs_nodes :=
          (fs_nodes w)(p \<mapsto> FileNode (take (fs_short w (fs_calls w)) dat) mode)\<rparr>))
      | None \<Rightarrow> (None, next_call (w\<lparr>fs_nodes := (fs_nodes w)(p \<mapsto> FileNode dat mode)\<rparr>)))"

definition os_Sync :: "'z fs_state_scheme \<Rightarrow> go_error option \<times> 'z fs_state_scheme" where
  "os_Sync = sys_call (\<lambda>w. (None, w))"

definition os_Close :: "'z fs_state_scheme \<Rightarrow> go_error option \<times> 'z fs_state_scheme" where
  "os_Close = sys_call (\<lambda>w. (None, w))"

definition os_Remove :: "string \<Rightarrow> 'z fs_state_scheme \<Rightarrow> go_error option \<times> 'z fs_state_scheme" where
  "os_Remove p = sys_call (\<lambda>w.
     if fs_nodes w p = None then (Some enoent, w) else (None, w\<lparr>fs_nodes := (fs_nodes w)(p := None)\<rparr>))"

definition os_Rename :: "string \<Rightarrow> string \<Rightarrow> 'z fs_state_scheme \<Rightarrow> go_error option \<times> 'z fs_state_scheme" where
  "os_Rename a b = sys_call (\<lambda>w.
     case fs_nodes w a of None \<Rightarrow> (Some enoent, w)
     | Some n \<Rightarrow>
         if fs_nodes w b = Some DirNode then (Some eexist, w)
         else (None, w\<lparr>fs_nodes := (fs_nodes w)(a := None, b \<mapsto> n)\<rparr>))"

section \<open>Configuration, payloads, path resolution\<close>

record FsConfig =
  fc_AllowedFilesystemRoots :: "string list"
  fc_InlineStreamLimit :: int

record ReadFilePayload =
  rf_Path :: string
  rf_MaxBytes :: int

record WriteFilePayload =
  wf_Path :: string
  wf_Data :: string
  wf_Overwrite :: bool
  wf_CreateDirs :: bool
  wf_Mode :: nat

text \<open>The decoders of the two payloads and the digest are given.\<close>

record fs_lib =
  fl_decodeRead :: "string \<Rightarrow> go_error + ReadFilePayload"
  fl_decodeWrite :: "string \<Rightarrow> go_error + WriteFilePayload"
  fl_sha256hex :: "string \<Rightarrow> string"

fun checkInRoots_loop ::
  "go_error + string \<Rightarrow> (string \<Rightarrow> go_error + string) \<Rightarrow> string list \<Rightarrow> string \<Rightarrow> bool" where
  "checkInRoots_loop wd eval [] p = False"
| "checkInRoots_loop wd eval (root # roots) p =
     (case filepath_Abs wd root of
        Inl _ \<Rightarrow> checkInRoots_loop wd eval roots p
      | Inr absRoot \<Rightarrow>
          (let realRoot = (case eval absRoot of Inl _ \<Rightarrow> absRoot | Inr r \<Rightarrow> r)
           in within p realRoot \<or> checkInRoots_loop wd eval roots p))"

definition checkInRoots :: "FsConfig \<Rightarrow> 'z fs_state_scheme \<Rightarrow> string \<Rightarrow> go_error + string" where
  "checkInRoots c w p =
     (if checkInRoots_loop (fs_wd w) (fs_eval w) (fc_AllowedFilesystemRoots c) p then Inr p
      else Inl (errorf (''path '' @ quoted p @ '' not within AllowedFilesystemRoots '' @
             slice_str (fc_AllowedFilesystemRoots c))))"

definition resolveExistingPath :: "FsConfig \<Rightarrow> 'z fs_state_scheme \<Rightarrow> string \<Rightarrow> go_error + string" where
  "resolveExistingPath c w p =
     (if p = [] then Inl (errorf ''path is empty'')
      else if \<not> IsAbs p then Inl (errorf (''path must be absolute, got '' @ quoted p))
      else case filepath_Abs (fs_wd w) p of Inl e \<Rightarrow> Inl (wrapf ''path abs'' e)
      | Inr a \<Rightarrow> (case fs_eval w a of Inl e \<Rightarrow> Inl (wrapf ''eval symlinks'' e)
        | Inr resolved \<Rightarrow> checkInRoots c w resolved))"

definition resolveTargetPath :: "FsConfig \<Rightarrow> 'z fs_state_scheme \<Rightarrow> string \<Rightarrow> go_error + string" where
  "resolveTargetPath c w p =
     (if p = [] then Inl (errorf ''path is empty'')
      else if \<not> IsAbs p then Inl (errorf (''path must be absolute, got '' @ quoted p))
      else case filepath_Abs (fs_wd w) p of Inl e \<Rightarrow> Inl (wrapf ''path abs'' e)
      | Inr a \<Rightarrow>
        (let dir = filepath_Dir a; base = filepath_Base a;
             resolvedDir = (case fs_eval w dir of Inl _ \<Rightarrow> dir | Inr r \<Rightarrow> r)
         in case checkInRoots c w resolvedDir of Inl e \<Rightarrow> Inl e
            | Inr _ \<Rightarrow> Inr (filepath_Join resolvedDir base)))"

section \<open>read\_file\<close>

definition fs_elapsed :: "'z fs_state_scheme \<Rightarrow> int" where
  "fs_elapsed w = elapsedMs (fs_clock w (fs_tick w)) (fs_clock w (Suc (fs_tick w)))"

definition fs_done :: "'z fs_state_scheme \<Rightarrow> 'z fs_state_scheme" where
  "fs_done w = w\<lparr>fs_tick := fs_tick w + 2\<rparr>"

definition read_default_max :: int where "read_default_max = 1048576"

text \<open>
  Opening, \<open>Stat\<close> on the handle and reading each may fail by script. The limit of the
  reader is computed on 64 bits; a limit that is not positive reads nothing.
\<close>

definition readFile ::
  "fs_lib \<Rightarrow> FsConfig \<Rightarrow> go_ctx \<Rightarrow> Payload \<Rightarrow> 'z fs_state_scheme \<Rightarrow> readRaw \<times> 'z fs_state_scheme" where
  "readFile lib cfg ctx payload w =
     (let ms = fs_elapsed w; z = zero_readRaw\<lparr>rr_durationMs := ms\<rparr> in
      case fl_decodeRead lib (pl_Raw payload) of
        Inl e \<Rightarrow> (z\<lparr>rr_validation := ''decode payload: '' @ err_text e\<rparr>, fs_done w)
      | Inr p \<Rightarrow>
        if rf_Path p = [] then (z\<lparr>rr_validation := ''path is required''\<rparr>, fs_done w)
        else case resolveExistingPath cfg w (rf_Path p) of
          Inl e \<Rightarrow> (z\<lparr>rr_validation := err_text e\<rparr>, fs_done w)
        | Inr resolved \<Rightarrow>
          (let maxBytes = (if rf_MaxBytes p \<le> 0 then read_default_max else rf_MaxBytes p) in
           case ctx_at ctx 1 of Some e \<Rightarrow> (z\<lparr>rr_ctxErr := Some e\<rparr>, fs_done w)
           | None \<Rightarrow>
             (case os_Open resolved w of
                (Some e, w1) \<Rightarrow> (z\<lparr>rr_runErr := Some (wrapf ''open'' e)\<rparr>, fs_done w1)
              | (None, w1) \<Rightarrow>
                (case os_FStat w1 of
                   (Some e, w2) \<Rightarrow> (z\<lparr>rr_runErr := Some (wrapf ''stat'' e)\<rparr>, fs_done w2)
                 | (None, w2) \<Rightarrow>
                   (case (fs_fault w2 (fs_calls w2), fs_nodes w2 resolved) of
                      (None, Some (FileNode content _)) \<Rightarrow>
                        (let limit = wrap64 (maxBytes + 1);
                             dat = take (nat limit) content;
                             truncated = int (length dat) > maxBytes
                         in (z\<lparr>rr_data := (if truncated then take (nat maxBytes) dat else dat),
                              rr_totalBytes := int (length content), rr_truncated := truncated\<rparr>,
                             fs_done (next_call w2)))
                    | (Some e, _) \<Rightarrow> (z\<lparr>rr_runErr := Some (wrapf ''read'' e)\<rparr>, fs_done (next_call w2))
                    | (None, _) \<Rightarrow> (z\<lparr>rr_runErr := Some (wrapf ''read'' (errorf ''is a directory''))\<rparr>,
                                  fs_done (next_call w2)))))))"

section \<open>write\_file\<close>

definition write_fail :: "int \<Rightarrow> string \<Rightarrow> go_error \<Rightarrow> writeRaw" where
  "write_fail ms op e = zero_writeRaw\<lparr>ww_durationMs := ms, ww_runErr := Some (wrapf op e)\<rparr>"

text \<open>Create the temporary file, write, sync, close, rename; remove it on any failure.\<close>

definition write_tmp ::
  "string \<Rightarrow> string \<Rightarrow> nat \<Rightarrow> string \<Rightarrow> 'z fs_state_scheme \<Rightarrow>
   (string \<times> go_error) option \<times> 'z fs_state_scheme" where
  "write_tmp tmp target mode dat w =
     (case os_OpenExcl tmp mode w of
        (Some e, w1) \<Rightarrow> (Some (''create tmp'', e), w1)
      | (None, w1) \<Rightarrow> (case os_Write tmp mode dat w1 of
        (Some e, w2) \<Rightarrow> (Some (''write tmp'', e), snd (os_Remove tmp (snd (os_Close w2))))
      | (None, w2) \<Rightarrow> (case os_Sync w2 of
        (Some e, w3) \<Rightarrow> (Some (''fsync tmp'', e), snd (os_Remove tmp (snd (os_Close w3))))
      | (None, w3) \<Rightarrow> (case os_Close w3 of
        (Some e, w4) \<Rightarrow> (Some (''close tmp'', e), snd (os_Remove tmp w4))
      | (None, w4) \<Rightarrow> (case os_Rename tmp target w4 of
        (Some e, w5) \<Rightarrow> (Some (''rename'', e), snd (os_Remove tmp w5))
      | (None, w5) \<Rightarrow> (None, w5))))))"

definition mkdir_parents :: "WriteFilePayload \<Rightarrow> 'z fs_state_scheme \<Rightarrow> go_error option \<times> 'z fs_state_scheme" where
  "mkdir_parents p w =
     (if wf_CreateDirs p then os_MkdirAll (filepath_Dir (wf_Path p)) w else (None, w))"

text \<open>Without overwrite, \<open>Stat\<close> on the target: its success means the target exists.\<close>

definition stat_target ::
  "WriteFilePayload \<Rightarrow> string \<Rightarrow> 'z fs_state_scheme \<Rightarrow> go_error option \<times> 'z fs_state_scheme" where
  "stat_target p resolved w = (if wf_Overwrite p then (Some enoent, w) else os_Stat resolved w)"

text \<open>The checks before the write: the failed outcome, or the payload and the resolved target.\<close>

definition write_checks ::
  "fs_lib \<Rightarrow> FsConfig \<Rightarrow> go_ctx \<Rightarrow> Payload \<Rightarrow> 'z fs_state_scheme \<Rightarrow>
   (writeRaw + WriteFilePayload \<times> string) \<times> 'z fs_state_scheme" where
  "write_checks lib cfg ctx payload w =
     (let ms = fs_elapsed w; z = zero_writeRaw\<lparr>ww_durationMs := ms\<rparr> in
      case fl_decodeWrite lib (pl_Raw payload) of
        Inl e \<Rightarrow> (Inl (z\<lparr>ww_validation := ''decode payload: '' @ err_text e\<rparr>), w)
      | Inr p \<Rightarrow>
        if wf_Path p = [] then (Inl (z\<lparr>ww_validation := ''path is required''\<rparr>), w)
        else case mkdir_parents p w of
          (Some e, w1) \<Rightarrow> (Inl (write_fail ms ''mkdir parents'' e), w1)
        | (None, w1) \<Rightarrow>
        (case resolveTargetPath cfg w1 (wf_Path p) of
          Inl e \<Rightarrow> (Inl (z\<lparr>ww_validation := err_text e\<rparr>), w1)
        | Inr resolved \<Rightarrow>
        (case stat_target p resolved w1 of
          (None, w2) \<Rightarrow>
            (Inl (z\<lparr>ww_validation := ''target '' @ quoted resolved @ '' exists and overwrite=false''\<rparr>), w2)
        | (Some _, w2) \<Rightarrow>
        (case ctx_at ctx 1 of Some e \<Rightarrow> (Inl (z\<lparr>ww_ctxErr := Some e\<rparr>), w2)
         | None \<Rightarrow> (Inr (p, resolved), w2)))))"

definition write_mode :: "WriteFilePayload \<Rightarrow> nat" where
  "write_mode p = (if wf_Mode p = 0 then 384 else wf_Mode p)"

definition writeFile ::
  "fs_lib \<Rightarrow> FsConfig \<Rightarrow> go_ctx \<Rightarrow> Payload \<Rightarrow> 'z fs_state_scheme \<Rightarrow> writeRaw \<times> 'z fs_state_scheme" where
  "writeFile lib cfg ctx payload w =
     (let ms = fs_elapsed w in
      case write_checks lib cfg ctx payload w of
        (Inl raw, w2) \<Rightarrow> (raw, fs_done w2)
      | (Inr (p, resolved), w2) \<Rightarrow>
          (let tmp = resolved @ ''.tmp.'' @ fs_suffix w2 (fs_tick w2) in
           case write_tmp tmp resolved (write_mode p) (wf_Data p) w2 of
             (Some (op, e), w3) \<Rightarrow> (write_fail ms op e, fs_done w3)
           | (None, w3) \<Rightarrow>
               (zero_writeRaw\<lparr>ww_durationMs := ms, ww_resolvedPath := resolved,
                 ww_bytesWritten := int (length (wf_Data p)),
                 ww_checksumHex := fl_sha256hex lib (wf_Data p), ww_mode := write_mode p\<rparr>, fs_done w3)))"

section \<open>The adapter\<close>

definition fs_Execute :: "fs_lib \<Rightarrow> FsConfig \<Rightarrow> 'z fs_state_scheme execute_fn" where
  "fs_Execute lib cfg ctx cap payload w =
     (case ctx_at ctx 0 of
        Some e \<Rightarrow>
          if cap_name cap = ''read_file'' then raw_ok (ReadRaw (zero_readRaw\<lparr>rr_ctxErr := Some e\<rparr>)) w
          else if cap_name cap = ''write_file'' then raw_ok (WriteRaw (zero_writeRaw\<lparr>ww_ctxErr := Some e\<rparr>)) w
          else raw_ok (ReadRaw (zero_readRaw\<lparr>rr_ctxErr := Some e\<rparr>)) w
      | None \<Rightarrow>
          if cap_name cap = ''read_file'' then
            (case readFile lib cfg ctx payload w of (r, w') \<Rightarrow> raw_ok (ReadRaw r) w')
          else if cap_name cap = ''write_file'' then
            (case writeFile lib cfg ctx payload w of (r, w') \<Rightarrow> raw_ok (WriteRaw r) w')
          else raw_ok (ReadRaw (zero_readRaw\<lparr>rr_validation :=
                 ''unknown capability for filesystem adapter: '' @ Canonical cap\<rparr>)) w)"

definition fs_id :: AdapterID where "fs_id = AdapterID ''filesystem''"

definition fs_cap :: "string \<Rightarrow> duration \<Rightarrow> Capability" where
  "fs_cap n d = \<lparr>cap_adapterID = fs_id, cap_name = n, cap_version = ''v1'', cap_allowsPartial = False,
     cap_defaultTimeout = d\<rparr>"

definition fs_adapter :: "fs_lib \<Rightarrow> FsConfig \<Rightarrow> 'z fs_state_scheme Adapter" where
  "fs_adapter lib cfg =
     \<lparr>ad_ID = fs_id, ad_Capabilities = [fs_cap ''read_file'' (5 * Second), fs_cap ''write_file'' (10 * Second)],
      ad_Execute = fs_Execute lib cfg\<rparr>"

definition fs_NewAdapter :: "fs_lib \<Rightarrow> FsConfig \<Rightarrow> bool \<Rightarrow> go_error + 'z fs_state_scheme Adapter" where
  "fs_NewAdapter lib cfg clk =
     (if fc_InlineStreamLimit cfg \<le> 0
      then Inl (errorf ''filesystem.Config.InlineStreamLimit must be > 0'')
      else if fc_AllowedFilesystemRoots cfg = []
      then Inl (errorf ''filesystem.Config.AllowedFilesystemRoots must be non-empty'')
      else if \<not> clk then Inl (errorf ''filesystem.NewAdapter: Clock is required'')
      else case NewAdapterID ''filesystem'' of Inl e \<Rightarrow> Inl (wrapf ''AdapterID'' e)
      | Inr aid \<Rightarrow> (case NewCapability aid ''read_file'' ''v1'' False (5 * Second) of
          Inl e \<Rightarrow> Inl (wrapf ''read_file capability'' e)
      | Inr rc \<Rightarrow> (case NewCapability aid ''write_file'' ''v1'' False (10 * Second) of
          Inl e \<Rightarrow> Inl (wrapf ''write_file capability'' e)
      | Inr wc \<Rightarrow> Inr \<lparr>ad_ID = aid, ad_Capabilities = [rc, wc], ad_Execute = fs_Execute lib cfg\<rparr>)))"

section \<open>The normalizers\<close>

definition normalize_read :: "FsConfig \<Rightarrow> readRaw \<Rightarrow> go_time \<Rightarrow> go_error + ExecutionResult" where
  "normalize_read cfg r now =
     (case rr_ctxErr r of Some e \<Rightarrow> ctx_result e (rr_durationMs r) now
      | None \<Rightarrow>
        if rr_validation r \<noteq> [] then validation_result (rr_validation r) (rr_durationMs r) now
        else case rr_runErr r of Some e \<Rightarrow> external_result e (rr_durationMs r) now
        | None \<Rightarrow>
          NewExecutionResult StatusSuccess HintNonRetryable [] []
            (Some (streamRef_or_zero (rr_data r) (rr_totalBytes r) (fc_InlineStreamLimit cfg))) None None []
            [(''truncated'', bool_str (rr_truncated r)), (''total_bytes'', int_dec (rr_totalBytes r))]
            (rr_totalBytes r) 0 (msToDuration (rr_durationMs r)) now)"

text \<open>\<open>%o\<close> of the mode.\<close>

fun nat_oct :: "nat \<Rightarrow> string" where
  "nat_oct n = (if n < 8 then [digit n] else nat_oct (n div 8) @ [digit (n mod 8)])"

declare nat_oct.simps [simp del]

definition normalize_write :: "writeRaw \<Rightarrow> go_time \<Rightarrow> go_error + ExecutionResult" where
  "normalize_write r now =
     (case ww_ctxErr r of Some e \<Rightarrow> ctx_result e (ww_durationMs r) now
      | None \<Rightarrow>
        if ww_validation r \<noteq> [] then validation_result (ww_validation r) (ww_durationMs r) now
        else case ww_runErr r of Some e \<Rightarrow> external_result e (ww_durationMs r) now
        | None \<Rightarrow>
          NewExecutionResult StatusSuccess HintNonRetryable [] [] None None None
            (artifact_if_ok ArtifactFile (''file://'' @ ww_resolvedPath r) (ww_bytesWritten r) (ww_checksumHex r)
               [(''mode'', nat_oct (ww_mode r)), (''path'', ww_resolvedPath r)])
            [(''path'', ww_resolvedPath r), (''bytes_written'', int_dec (ww_bytesWritten r))]
            0 (ww_bytesWritten r) (msToDuration (ww_durationMs r)) now)"

definition NormalizeRead :: "FsConfig \<Rightarrow> 'w AdapterNormalizer" where
  "NormalizeRead cfg cap raw w now =
     (case raw of Some (ReadRaw r) \<Rightarrow> Ret (normalize_read cfg r now)
      | _ \<Rightarrow> Ret (Inl (errorf (''filesystem.NormalizeRead: unexpected raw type '' @ raw_type raw))))"

definition NormalizeWrite :: "'w AdapterNormalizer" where
  "NormalizeWrite cap raw w now =
     (case raw of Some (WriteRaw r) \<Rightarrow> Ret (normalize_write r now)
      | _ \<Rightarrow> Ret (Inl (errorf (''filesystem.NormalizeWrite: unexpected raw type '' @ raw_type raw))))"

section \<open>Path containment\<close>

lemma checkInRoots_loop_iff:
  "checkInRoots_loop wd ev roots p \<longleftrightarrow>
     (\<exists>root \<in> set roots. \<exists>r. filepath_Abs wd root = Inr r \<and>
        within p (case ev r of Inl _ \<Rightarrow> r | Inr r' \<Rightarrow> r'))"
  by (induction roots) (auto simp: Let_def split: sum.splits)

lemma checkInRoots_Inr:
  "checkInRoots c w p = Inr q \<longleftrightarrow>
     q = p \<and> checkInRoots_loop (fs_wd w) (fs_eval w) (fc_AllowedFilesystemRoots c) p"
  by (auto simp: checkInRoots_def)

lemma resolveExistingPath_Inr:
  "resolveExistingPath c w p = Inr q \<longleftrightarrow>
     IsAbs p \<and> fs_eval w (Clean p) = Inr q \<and>
     checkInRoots_loop (fs_wd w) (fs_eval w) (fc_AllowedFilesystemRoots c) q"
  by (auto simp: resolveExistingPath_def filepath_Abs_def checkInRoots_Inr IsAbs_def
      split: sum.splits list.splits if_splits)

section \<open>Effect of the system calls\<close>

lemma nodes_next_call [simp]: "fs_nodes (next_call w) = fs_nodes w"
  by (simp add: next_call_def)

lemma nodes_done [simp]: "fs_nodes (fs_done w) = fs_nodes w"
  by (simp add: fs_done_def)

lemma nodes_Stat: "fs_nodes (snd (os_Stat p w)) = fs_nodes w"
  by (simp add: os_Stat_def sys_call_def split: option.splits)

lemma nodes_Sync: "fs_nodes (snd (os_Sync w)) = fs_nodes w"
  by (simp add: os_Sync_def sys_call_def split: option.splits)

lemma nodes_Close: "fs_nodes (snd (os_Close w)) = fs_nodes w"
  by (simp add: os_Close_def sys_call_def split: option.splits)

lemma nodes_Remove_other: "q \<noteq> p \<Longrightarrow> fs_nodes (snd (os_Remove p w)) q = fs_nodes w q"
  by (simp add: os_Remove_def sys_call_def split: option.splits)

lemma OpenExcl_None:
  "os_OpenExcl p mode w = (None, w') \<Longrightarrow>
     fs_nodes w p = None \<and> fs_nodes w' = (fs_nodes w)(p \<mapsto> FileNode [] mode)"
  by (auto simp: os_OpenExcl_def sys_call_def split: option.splits if_splits)

lemma OpenExcl_Some: "os_OpenExcl p mode w = (Some e, w') \<Longrightarrow> fs_nodes w' = fs_nodes w"
  by (auto simp: os_OpenExcl_def sys_call_def split: option.splits if_splits)

lemma nodes_Write:
  "os_Write p mode dat w = (r, w') \<Longrightarrow> q \<noteq> p \<Longrightarrow> fs_nodes w' q = fs_nodes w q"
  by (auto simp: os_Write_def split: option.splits)

lemma Write_None:
  "os_Write p mode dat w = (None, w') \<Longrightarrow> fs_nodes w' = (fs_nodes w)(p \<mapsto> FileNode dat mode)"
  by (auto simp: os_Write_def split: option.splits)

lemma Rename_None:
  "os_Rename a b w = (None, w') \<Longrightarrow>
     (\<exists>n. fs_nodes w a = Some n \<and> fs_nodes w' = (fs_nodes w)(a := None, b \<mapsto> n)) \<and>
     fs_nodes w b \<noteq> Some DirNode"
  by (auto simp: os_Rename_def sys_call_def split: option.splits if_splits)

lemma Rename_Some: "os_Rename a b w = (Some e, w') \<Longrightarrow> fs_nodes w' = fs_nodes w"
  by (auto simp: os_Rename_def sys_call_def split: option.splits if_splits)

lemma Stat_exists:
  "os_Stat p w = (Some e, w') \<Longrightarrow> fs_fault w (fs_calls w) = None \<Longrightarrow> fs_nodes w p = None"
  by (auto simp: os_Stat_def sys_call_def split: option.splits)

text \<open>Creating directories keeps every node and adds only directories.\<close>

lemma mkdirs_nodes: "mkdirs ps m = (r, m') \<Longrightarrow> m' q = m q \<or> (m q = None \<and> m' q = Some DirNode)"
proof (induction ps arbitrary: m)
  case (Cons p ps)
  show ?case
  proof (cases "m p")
    case None
    then have "mkdirs ps (m(p \<mapsto> DirNode)) = (r, m')" using Cons.prems by simp
    from Cons.IH [OF this] None show ?thesis by (cases "q = p") auto
  next
    case (Some n)
    with Cons.prems Cons.IH [of m] show ?thesis by (cases n) auto
  qed
qed simp

lemma MkdirAll_nodes:
  assumes "os_MkdirAll d w = (r, w')"
  shows "fs_nodes w' q = fs_nodes w q \<or> (fs_nodes w q = None \<and> fs_nodes w' q = Some DirNode)"
proof (cases "fs_fault w (fs_calls w)")
  case None
  with assms obtain m' where m: "w' = next_call (w\<lparr>fs_nodes := m'\<rparr>)"
    "mkdirs (map abs_path (ancestors (clean_comps True (split_path d)))) (fs_nodes w) = (r, m')"
    by (auto simp: os_MkdirAll_def sys_call_def split: prod.splits)
  from mkdirs_nodes [OF m(2), of q] m(1) show ?thesis by simp
qed (use assms in \<open>auto simp: os_MkdirAll_def sys_call_def\<close>)

section \<open>Atomic write\<close>

text \<open>
  Success replaces the target's node and nothing else, and the temporary name was free;
  failure can only leave something at the temporary name, and only if it was free.
\<close>

lemma write_tmp_None:
  assumes "write_tmp tmp target mode dat w = (None, w')" and "tmp \<noteq> target"
  shows "fs_nodes w tmp = None \<and> fs_nodes w' = (fs_nodes w)(target \<mapsto> FileNode dat mode) \<and>
    fs_nodes w target \<noteq> Some DirNode"
proof -
  from assms(1) obtain w1 w2 w3 w4 where s:
    "os_OpenExcl tmp mode w = (None, w1)" "os_Write tmp mode dat w1 = (None, w2)"
    "os_Sync w2 = (None, w3)" "os_Close w3 = (None, w4)" "os_Rename tmp target w4 = (None, w')"
    by (auto simp: write_tmp_def split: prod.splits option.splits)
  have n: "fs_nodes w tmp = None" "fs_nodes w1 = (fs_nodes w)(tmp \<mapsto> FileNode [] mode)"
    using OpenExcl_None [OF s(1)] by auto
  moreover have "fs_nodes w4 = (fs_nodes w1)(tmp \<mapsto> FileNode dat mode)"
    using Write_None [OF s(2)] nodes_Sync [of w2] nodes_Close [of w3] s(3,4) by simp
  ultimately show ?thesis
    using Rename_None [OF s(5)] assms(2) by (auto simp: fun_eq_iff)
qed

lemma write_tmp_Some:
  assumes "write_tmp tmp target mode dat w = (Some x, w')"
  shows "q \<noteq> tmp \<Longrightarrow> fs_nodes w' q = fs_nodes w q"
    and "fs_nodes w tmp \<noteq> None \<Longrightarrow> fs_nodes w' = fs_nodes w"
proof -
  show "fs_nodes w' = fs_nodes w" if "fs_nodes w tmp \<noteq> None"
    using assms that
    by (auto simp: write_tmp_def dest!: OpenExcl_None OpenExcl_Some split: prod.splits option.splits)
  show "fs_nodes w' q = fs_nodes w q" if "q \<noteq> tmp"
  proof (cases "os_OpenExcl tmp mode w")
    case (Pair r w1)
    show ?thesis
    proof (cases r)
      case (Some e)
      then show ?thesis using assms Pair by (auto simp: write_tmp_def dest!: OpenExcl_Some)
    next
      case None
      obtain r2 w2 where w2: "os_Write tmp mode dat w1 = (r2, w2)" by fastforce
      obtain r3 w3 where w3: "os_Sync w2 = (r3, w3)" by fastforce
      obtain r4 w4 where w4: "os_Close w3 = (r4, w4)" by fastforce
      obtain r5 w5 where w5: "os_Rename tmp target w4 = (r5, w5)" by fastforce
      have "fs_nodes w1 q = fs_nodes w q" using OpenExcl_None Pair None that by fastforce
      moreover have "fs_nodes w2 q = fs_nodes w1 q" using nodes_Write [OF w2 that] .
      moreover have "fs_nodes w3 = fs_nodes w2" "fs_nodes w4 = fs_nodes w3"
        using nodes_Sync [of w2] nodes_Close [of w3] w3 w4 by simp_all
      ultimately show ?thesis
        using assms Pair None w2 w3 w4 w5 that
        by (auto simp: write_tmp_def nodes_Remove_other nodes_Close dest!: Rename_Some split: option.splits)
    qed
  qed
qed

definition write_ok :: "writeRaw \<Rightarrow> bool" where
  "write_ok r \<longleftrightarrow> ww_validation r = [] \<and> ww_ctxErr r = None \<and> ww_runErr r = None"

text \<open>Two states that differ by new directories only.\<close>

definition only_dirs_added :: "'z fs_state_scheme \<Rightarrow> 'z fs_state_scheme \<Rightarrow> bool" where
  "only_dirs_added w w' \<longleftrightarrow>
     (\<forall>q. fs_nodes w' q = fs_nodes w q \<or> (fs_nodes w q = None \<and> fs_nodes w' q = Some DirNode))"

lemma only_dirs_added_file:
  "only_dirs_added w w' \<Longrightarrow> fs_nodes w q = Some n \<Longrightarrow> fs_nodes w' q = Some n"
  by (metis only_dirs_added_def option.distinct(1))

lemma resolveTargetPath_text: "resolveTargetPath c w p = Inl e \<Longrightarrow> err_text e \<noteq> []"
  by (auto simp: resolveTargetPath_def checkInRoots_def filepath_Abs_def Let_def
      split: if_splits sum.splits)

lemma mkdir_parents_dirs: "mkdir_parents p w = (r, w1) \<Longrightarrow> only_dirs_added w w1"
  using MkdirAll_nodes by (fastforce simp: mkdir_parents_def only_dirs_added_def split: if_splits)

lemma mkdir_parents_fault: "mkdir_parents p w = (r, w1) \<Longrightarrow> fs_fault w1 = fs_fault w"
  by (auto simp: mkdir_parents_def os_MkdirAll_def sys_call_def next_call_def
      split: if_splits option.splits prod.splits)

lemma stat_target_nodes: "stat_target p t w = (r, w2) \<Longrightarrow> fs_nodes w2 = fs_nodes w"
  using nodes_Stat [of t w] by (auto simp: stat_target_def split: if_splits)

lemma stat_target_absent:
  "stat_target p t w = (Some e, w2) \<Longrightarrow> \<not> wf_Overwrite p \<Longrightarrow> fs_fault w (fs_calls w) = None \<Longrightarrow>
     fs_nodes w t = None"
  using Stat_exists by (auto simp: stat_target_def)

lemma only_dirs_added_trans:
  "only_dirs_added w w1 \<Longrightarrow> fs_nodes w2 = fs_nodes w1 \<Longrightarrow> only_dirs_added w w2"
  by (simp add: only_dirs_added_def)

lemma only_dirs_added_refl [simp]: "only_dirs_added w w"
  by (simp add: only_dirs_added_def)

lemma write_ok_simps [simp]:
  "v \<noteq> [] \<Longrightarrow> \<not> write_ok (r\<lparr>ww_validation := v\<rparr>)" "\<not> write_ok (r\<lparr>ww_ctxErr := Some e\<rparr>)"
  "\<not> write_ok (write_fail ms op e)"
  by (simp_all add: write_ok_def write_fail_def)

text \<open>A failed check reports a failure and adds at most directories.\<close>

lemma write_checks_dirs: "write_checks lib cfg ctx payload w = (x, w2) \<Longrightarrow> only_dirs_added w w2"
  by (auto simp: write_checks_def Let_def intro: only_dirs_added_trans
      dest: mkdir_parents_dirs stat_target_nodes split: sum.splits if_splits prod.splits option.splits)

lemma write_checks_Inl: "write_checks lib cfg ctx payload w = (Inl raw, w2) \<Longrightarrow> \<not> write_ok raw"
  by (auto simp: write_checks_def Let_def resolveTargetPath_text
      split: sum.splits if_splits prod.splits option.splits)

lemma write_checks_Inr:
  assumes "write_checks lib cfg ctx payload w = (Inr (p, t), w2)"
  shows "fl_decodeWrite lib (pl_Raw payload) = Inr p \<and> ctx_at ctx 1 = None \<and>
    (\<exists>w1. only_dirs_added w w1 \<and> fs_fault w1 = fs_fault w \<and> fs_nodes w2 = fs_nodes w1 \<and>
      resolveTargetPath cfg w1 (wf_Path p) = Inr t \<and>
      (\<not> wf_Overwrite p \<longrightarrow> fs_fault w1 (fs_calls w1) = None \<longrightarrow> fs_nodes w1 t = None))"
  using assms
  by (auto simp: write_checks_def Let_def split: sum.splits if_splits prod.splits option.splits
      intro!: exI dest: mkdir_parents_dirs mkdir_parents_fault stat_target_nodes stat_target_absent)

lemma writeFile_phases:
  assumes "writeFile lib cfg ctx payload w = (raw, w')"
  obtains (failed) "\<not> write_ok raw" "only_dirs_added w w'"
    | (tmp_failed) p t w2 tmp x w3 where "write_checks lib cfg ctx payload w = (Inr (p, t), w2)" "tmp \<noteq> t"
        "write_tmp tmp t (write_mode p) (wf_Data p) w2 = (Some x, w3)" "fs_nodes w' = fs_nodes w3" "\<not> write_ok raw"
    | (written) p t w2 tmp w3 where "write_checks lib cfg ctx payload w = (Inr (p, t), w2)" "tmp \<noteq> t"
        "write_tmp tmp t (write_mode p) (wf_Data p) w2 = (None, w3)" "fs_nodes w' = fs_nodes w3"
        "write_ok raw" "ww_resolvedPath raw = t" "ww_mode raw = write_mode p"
        "ww_bytesWritten raw = int (length (wf_Data p))"
proof (cases "write_checks lib cfg ctx payload w")
  case (Pair x w2)
  show ?thesis
  proof (cases x)
    case (Inl r)
    then show ?thesis using assms Pair write_checks_Inl write_checks_dirs
      by (intro failed) (fastforce simp: writeFile_def Let_def only_dirs_added_def)+
  next
    case (Inr y)
    obtain p t where y: "y = (p, t)" by fastforce
    let ?tmp = "t @ ''.tmp.'' @ fs_suffix w2 (fs_tick w2)"
    obtain z w3 where wt: "write_tmp ?tmp t (write_mode p) (wf_Data p) w2 = (z, w3)" by fastforce
    show ?thesis
    proof (cases z)
      case None
      show ?thesis
        by (rule written [of p t w2 ?tmp w3])
          (use assms Pair Inr y wt None in
            \<open>auto simp: writeFile_def Let_def write_ok_def zero_writeRaw_def\<close>)
    next
      case (Some e)
      show ?thesis
        by (rule tmp_failed [of p t w2 ?tmp e w3])
          (use assms Pair Inr y wt Some in \<open>auto simp: writeFile_def Let_def split: prod.splits\<close>)
    qed
  qed
qed

lemma failed_write_keeps:
  assumes "write_checks lib cfg ctx payload w = (y, w2)"
    and "write_tmp tmp t m dat w2 = (Some x, w3)" and "fs_nodes w q = Some n"
  shows "fs_nodes w3 q = Some n"
proof -
  have "fs_nodes w2 q = Some n" using only_dirs_added_file [OF write_checks_dirs [OF assms(1)] assms(3)] .
  then show ?thesis
    using write_tmp_Some(1) [OF assms(2), of q] write_tmp_Some(2) [OF assms(2)] by (cases "q = tmp") auto
qed

text \<open>A path that held a file holds the same file after the call, or it is the target of a successful call.\<close>

lemma writeFile_atomic:
  assumes run: "writeFile lib cfg ctx payload w = (raw, w')"
    and held: "fs_nodes w q = Some (FileNode content mode)"
  shows "fs_nodes w' q = Some (FileNode content mode) \<or>
    (\<exists>p. fl_decodeWrite lib (pl_Raw payload) = Inr p \<and> write_ok raw \<and> q = ww_resolvedPath raw \<and>
       fs_nodes w' q = Some (FileNode (wf_Data p) (write_mode p)))"
  using run
proof (cases rule: writeFile_phases)
  case failed
  then show ?thesis using only_dirs_added_file held by blast
next
  case (tmp_failed p t w2 tmp x w3)
  then show ?thesis using failed_write_keeps [OF tmp_failed(1,3) held] by simp
next
  case (written p t w2 tmp w3)
  have q2: "fs_nodes w2 q = Some (FileNode content mode)"
    using only_dirs_added_file [OF write_checks_dirs [OF written(1)] held] .
  have "fs_nodes w' = (fs_nodes w2)(t \<mapsto> FileNode (wf_Data p) (write_mode p))"
    using write_tmp_None [OF written(3,2)] written(4) by simp
  then show ?thesis using q2 written write_checks_Inr [OF written(1)] by (cases "q = t") auto
qed

text \<open>A successful call reports what it did, and without \<open>overwrite\<close> nothing is replaced.\<close>

lemma writeFile_success:
  assumes run: "writeFile lib cfg ctx payload w = (raw, w')" and dec: "fl_decodeWrite lib (pl_Raw payload) = Inr p"
  shows "(write_ok raw \<longrightarrow> ww_bytesWritten raw = int (length (wf_Data p)) \<and>
      fs_nodes w' (ww_resolvedPath raw) = Some (FileNode (wf_Data p) (write_mode p))) \<and>
    (\<not> wf_Overwrite p \<and> (\<forall>n. fs_fault w n = None) \<and> fs_nodes w q = Some (FileNode content mode) \<longrightarrow>
       fs_nodes w' q = Some (FileNode content mode))"
  using run
proof (cases rule: writeFile_phases)
  case failed
  then show ?thesis using only_dirs_added_file by blast
next
  case (tmp_failed p' t w2 tmp x w3)
  then show ?thesis using failed_write_keeps [OF tmp_failed(1,3), of q "FileNode content mode"] by auto
next
  case (written p' t w2 tmp w3)
  have p: "p' = p" using write_checks_Inr [OF written(1)] dec by simp
  have n: "fs_nodes w' = (fs_nodes w2)(t \<mapsto> FileNode (wf_Data p) (write_mode p))"
    using write_tmp_None [OF written(3,2)] written(4) p by simp
  have "fs_nodes w' q = Some (FileNode content mode)"
    if "\<not> wf_Overwrite p" "\<forall>n. fs_fault w n = None" "fs_nodes w q = Some (FileNode content mode)"
  proof -
    have "fs_nodes w2 t = None" using write_checks_Inr [OF written(1)] that p by auto
    moreover have "fs_nodes w2 q = Some (FileNode content mode)"
      using only_dirs_added_file [OF write_checks_dirs [OF written(1)] that(3)] .
    ultimately show ?thesis using n by auto
  qed
  with n written p show ?thesis by simp
qed


section \<open>Containment and bounded reads\<close>

text \<open>Documented behaviour of \<open>EvalSymlinks\<close>: on an absolute path its result is absolute and cleaned.\<close>

definition eval_clean :: "'z fs_state_scheme \<Rightarrow> bool" where
  "eval_clean w \<longleftrightarrow> (\<forall>p q. clean_abs p \<and> fs_eval w p = Inr q \<longrightarrow> clean_abs q) \<and>
     (\<forall>d. fs_wd w = Inr d \<longrightarrow> IsAbs d)"

definition real_root :: "'z fs_state_scheme \<Rightarrow> string \<Rightarrow> string list \<Rightarrow> bool" where
  "real_root w root rs \<longleftrightarrow> list_all normal_comp rs \<and>
     (\<exists>r. filepath_Abs (fs_wd w) root = Inr r \<and> abs_path rs = (case fs_eval w r of Inl _ \<Rightarrow> r | Inr r' \<Rightarrow> r'))"

lemma checkInRoots_components:
  assumes "checkInRoots_loop (fs_wd w) (fs_eval w) roots (abs_path as)" and "list_all normal_comp as"
    and "eval_clean w"
  shows "\<exists>root \<in> set roots. \<exists>rs. real_root w root rs \<and> prefix rs as"
proof -
  from assms(1) obtain root r where root: "root \<in> set roots" and r: "filepath_Abs (fs_wd w) root = Inr r"
    and w: "within (abs_path as) (case fs_eval w r of Inl _ \<Rightarrow> r | Inr r' \<Rightarrow> r')"
    by (auto simp: checkInRoots_loop_iff)
  have "clean_abs r" using filepath_Abs_clean [OF r] assms(3) by (auto simp: eval_clean_def)
  then have "clean_abs (case fs_eval w r of Inl _ \<Rightarrow> r | Inr r' \<Rightarrow> r')"
    using assms(3) by (auto simp: eval_clean_def split: sum.splits)
  then obtain rs where rs: "list_all normal_comp rs" "(case fs_eval w r of Inl _ \<Rightarrow> r | Inr r' \<Rightarrow> r') = abs_path rs"
    by (auto simp: clean_abs_def)
  have "prefix rs as"
    using w rs within_components [OF assms(2) rs(1)] by (cases "rs = []") auto
  moreover have "real_root w root rs" using r rs by (simp add: real_root_def)
  ultimately show ?thesis using root by blast
qed

text \<open>
  C11: No path outside the allowed roots is read. A path the adapter resolves for reading is,
  after symbolic links are followed, a cleaned absolute path whose components extend the
  components of the real path of one of the configured roots; dot-dot components and
  directories that merely share a name prefix with a root do not pass.
\<close>

theorem resolveExistingPath_contained:
  assumes "resolveExistingPath cfg w p = Inr q" and "eval_clean w"
  shows "\<exists>as. list_all normal_comp as \<and> q = abs_path as \<and>
    (\<exists>root \<in> set (fc_AllowedFilesystemRoots cfg). \<exists>rs. real_root w root rs \<and> prefix rs as)"
proof -
  have q: "IsAbs p" "fs_eval w (Clean p) = Inr q"
    "checkInRoots_loop (fs_wd w) (fs_eval w) (fc_AllowedFilesystemRoots cfg) q"
    using assms(1) by (auto simp: resolveExistingPath_Inr)
  have "clean_abs q" using assms(2) Clean_clean_abs [OF q(1)] q(2) unfolding eval_clean_def by blast
  then obtain as where as: "list_all normal_comp as" "q = abs_path as" by (auto simp: clean_abs_def)
  with checkInRoots_components [of w _ as] q(3) assms(2) show ?thesis by blast
qed

definition read_max :: "ReadFilePayload \<Rightarrow> int" where
  "read_max p = (if rf_MaxBytes p \<le> 0 then read_default_max else rf_MaxBytes p)"

lemma nodes_Open: "fs_nodes (snd (os_Open p w)) = fs_nodes w"
  by (simp add: os_Open_def sys_call_def split: option.splits)

lemma nodes_FStat: "fs_nodes (snd (os_FStat w)) = fs_nodes w"
  by (simp add: os_FStat_def sys_call_def split: option.splits)

text \<open>
  C12: A successful \<open>read_file\<close> returns the first \<open>max_bytes\<close> bytes of a file the
  allowlist accepts, reports the file's size, sets the truncated flag exactly when the file
  is longer than the bound, and changes no file. The bound must be below the largest 64-bit
  integer, where the code's \<open>maxBytes + 1\<close> would wrap.
\<close>

theorem readFile_bounded:
  assumes run: "readFile lib cfg ctx payload w = (raw, w')" and dec: "fl_decodeRead lib (pl_Raw payload) = Inr p"
    and ok: "rr_validation raw = []" "rr_ctxErr raw = None" "rr_runErr raw = None"
    and bound: "read_max p < 2 ^ 63 - 1"
  shows "\<exists>path content mode. resolveExistingPath cfg w (rf_Path p) = Inr path \<and>
    fs_nodes w path = Some (FileNode content mode) \<and> rr_data raw = take (nat (read_max p)) content \<and>
    (rr_truncated raw \<longleftrightarrow> read_max p < int (length content)) \<and>
    rr_totalBytes raw = int (length content) \<and> fs_nodes w' = fs_nodes w"
proof -
  have pos: "0 < read_max p" by (simp add: read_max_def read_default_max_def)
  then have lim: "wrap64 (read_max p + 1) = read_max p + 1"
    using bound by (intro wrap64_id) (simp add: int64_ok_def)
  obtain path where path: "resolveExistingPath cfg w (rf_Path p) = Inr path"
    using run dec ok by (auto simp: readFile_def Let_def resolveExistingPath_def checkInRoots_def
        filepath_Abs_def split: if_splits sum.splits)
  obtain r1 w1 where o1: "os_Open path w = (r1, w1)" by fastforce
  obtain r2 w2 where o2: "os_FStat w1 = (r2, w2)" by fastforce
  have n: "fs_nodes w2 = fs_nodes w" using nodes_Open [of path w] nodes_FStat [of w1] o1 o2 by simp
  show ?thesis
    using run dec ok path o1 o2 n pos lim
    by (auto simp: readFile_def Let_def simp flip: read_max_def
        split: if_splits option.splits fs_node.splits)
qed

text \<open>With the largest bound the limit wraps to a negative number and nothing is read.\<close>

lemma read_limit_wraps: "wrap64 ((2 ^ 63 - 1) + 1) = - (2 ^ 63)"
  by (simp add: wrap64_def)

section \<open>The port's contract\<close>

lemma fs_NewAdapter_Inr [validate]:
  "fs_NewAdapter lib cfg clk = Inr a \<longleftrightarrow>
     0 < fc_InlineStreamLimit cfg \<and> fc_AllowedFilesystemRoots cfg \<noteq> [] \<and> clk \<and> a = fs_adapter lib cfg"
  by (auto simp: fs_NewAdapter_def fs_adapter_def fs_cap_def fs_id_def NewAdapterID_def NewCapability_def
      identifier_regexes duration_units)

definition fs_normalizer :: "FsConfig \<Rightarrow> string \<Rightarrow> 'w AdapterNormalizer" where
  "fs_normalizer cfg canonical =
     (if canonical = ''filesystem.read_file@v1'' then NormalizeRead cfg else NormalizeWrite)"

definition fs_accepts :: "string \<Rightarrow> AdapterRawOutcome \<Rightarrow> bool" where
  "fs_accepts canonical raw \<longleftrightarrow>
     (case raw of ReadRaw _ \<Rightarrow> canonical = ''filesystem.read_file@v1''
      | WriteRaw _ \<Rightarrow> canonical = ''filesystem.write_file@v1'' | _ \<Rightarrow> False)"

interpretation fs_port: adapter_contract "fs_adapter lib cfg" "fs_normalizer cfg" fs_accepts for lib cfg
proof
  fix cap assume cap: "cap \<in> set (ad_Capabilities (fs_adapter lib cfg))"
  then show "\<exists>raw. fst (ad_Execute (fs_adapter lib cfg) ctx cap p w) = Ret (Some raw, None) \<and>
      fs_accepts (Canonical cap) raw" for ctx p and w :: "'a fs_state_scheme"
    by (auto simp: fs_adapter_def fs_cap_def fs_id_def fs_Execute_def fs_accepts_def Canonical_def
        canonical_of_def split: option.splits prod.splits)
  show "\<exists>x. fs_normalizer cfg (Canonical cap) cap (Some raw) w now = Ret x" for raw now and w :: "'a fs_state_scheme"
    by (simp add: fs_normalizer_def NormalizeRead_def NormalizeWrite_def split: AdapterRawOutcome.splits)
  show "cap_adapterID cap = ad_ID (fs_adapter lib cfg)"
    using cap by (auto simp: fs_adapter_def fs_cap_def)
qed

section \<open>A concrete run\<close>

definition sample_fs :: fs_state where
  "sample_fs = \<lparr>fs_nodes = [''/'' \<mapsto> DirNode, ''/data'' \<mapsto> DirNode, ''/data/a'' \<mapsto> FileNode ''old'' 384],
     fs_eval = Inr, fs_wd = Inr ''/'', fs_fault = (\<lambda>_. None), fs_short = (\<lambda>_. 0), fs_calls = 0,
     fs_suffix = (\<lambda>_. ''0123456789ab''), fs_clock = int, fs_tick = 0\<rparr>"

definition sample_fs_lib :: fs_lib where
  "sample_fs_lib = \<lparr>fl_decodeRead = (\<lambda>_. Inr \<lparr>rf_Path = ''/data/a'', rf_MaxBytes = 2\<rparr>),
     fl_decodeWrite = (\<lambda>_. Inr \<lparr>wf_Path = ''/data/a'', wf_Data = ''new'', wf_Overwrite = True,
       wf_CreateDirs = False, wf_Mode = 0\<rparr>), fl_sha256hex = (\<lambda>_. ''00'')\<rparr>"

definition sample_fs_cfg :: FsConfig where
  "sample_fs_cfg = \<lparr>fc_AllowedFilesystemRoots = [''/data''], fc_InlineStreamLimit = 16\<rparr>"

definition sample_payload :: Payload where
  "sample_payload = \<lparr>pl_contentType = ContentTypeJSON, pl_data = ''{}''\<rparr>"

lemmas fs_eval_simps = sample_fs_def sample_fs_lib_def sample_fs_cfg_def sample_payload_def
  resolveExistingPath_def resolveTargetPath_def checkInRoots_def filepath_Abs_def IsAbs_def Clean_def
  clean_comps_def abs_path_def within_def filepath_Dir_def filepath_Base_def filepath_Join_def
  Let_def prefix_def

lemma sample_clean: "Clean ''/data/a'' = ''/data/a''" "Clean ''/data'' = ''/data''"
  by (simp_all add: Clean_def IsAbs_def clean_comps_def abs_path_def)

lemma sample_eval_clean: "eval_clean sample_fs"
  by (auto simp: eval_clean_def sample_fs_def IsAbs_def)

lemma sample_resolve: "resolveExistingPath sample_fs_cfg sample_fs ''/data/a'' = Inr ''/data/a''"
  by (simp add: resolveExistingPath_def checkInRoots_def filepath_Abs_def sample_clean IsAbs_def
      within_def sample_fs_def sample_fs_cfg_def)

lemma sample_fs_sel:
  "fs_fault sample_fs = (\<lambda>_. None)" "fs_calls sample_fs = 0" "fs_clock sample_fs = int" "fs_tick sample_fs = 0"
  "fs_nodes sample_fs ''/data/a'' = Some (FileNode ''old'' 384)"
  by (simp_all add: sample_fs_def)

lemma sample_read:
  "fst (readFile sample_fs_lib sample_fs_cfg background sample_payload sample_fs) =
     zero_readRaw\<lparr>rr_data := ''ol'', rr_totalBytes := 3, rr_truncated := True\<rparr>"
  by (simp add: readFile_def sample_fs_lib_def os_Open_def os_FStat_def sys_call_def next_call_def Let_def
      wrap64_def fs_elapsed_def elapsedMs_def Sub_def Milliseconds_def Millisecond_def zero_readRaw_def
      sample_resolve sample_fs_sel)



theorem resolveExistingPath_contained_witness:
  "\<exists>as. list_all normal_comp as \<and> ''/data/a'' = abs_path as \<and>
    (\<exists>root \<in> set (fc_AllowedFilesystemRoots sample_fs_cfg). \<exists>rs. real_root sample_fs root rs \<and> prefix rs as)"
  using resolveExistingPath_contained [OF sample_resolve sample_eval_clean] .

theorem readFile_bounded_witness:
  "\<exists>path content mode. resolveExistingPath sample_fs_cfg sample_fs ''/data/a'' = Inr path \<and>
    fs_nodes sample_fs path = Some (FileNode content mode) \<and> ''ol'' = take 2 content"
  using readFile_bounded [OF surjective_pairing, of sample_fs_lib sample_payload
      "\<lparr>rf_Path = ''/data/a'', rf_MaxBytes = 2\<rparr>" sample_fs_cfg background sample_fs]
  by (simp add: sample_read) (auto simp: sample_fs_lib_def zero_readRaw_def read_max_def)

end
