(* ===== verification/Git_Adapter.thy ===== *)
theory Git_Adapter
  imports Adapter_Port Shell_Adapter
begin

text \<open>
  The git adapter (\<open>internal/adapters/outbound/git\<close>): path and auth checks, the five
  capabilities, dispatch and the five normalizers. go-git and the file system are given by a
  record of functions on the world; a repository is named by the path it was opened or
  cloned at.
\<close>

section \<open>Types\<close>

record GitConfig =
  gc_AllowedWorkingDirs :: "string list"
  gc_SSHAgent :: bool
  gc_InlineStreamLimit :: int

type_synonym AuthMode = string

record StatusPayload =
  sp_RepoPath :: string

record ClonePayload =
  cp_RepoURL :: string
  cp_DestinationPath :: string
  cp_Ref :: string
  cp_Depth :: int
  cp_AuthMode :: AuthMode

record DiffPayload =
  dp_RepoPath :: string
  dp_From :: string
  dp_To :: string
  dp_MaxBytes :: int

record CommitPayload =
  mp_RepoPath :: string
  mp_Message :: string
  mp_AuthorName :: string
  mp_AuthorEmail :: string
  mp_Paths :: "string list"
  mp_AllowEmpty :: bool

record WorktreeCreatePayload =
  wp_Path :: string
  wp_UpstreamPath :: string
  wp_BaseRef :: string
  wp_Branch :: string

text \<open>
  \<open>gg_Head\<close> gives the short name and the hash; \<open>gg_Status\<close> the entries and
  \<open>IsClean\<close>; \<open>gg_Clone\<close> takes the auth method, destination, url, depth and
  reference;
  \<open>gg_Checkout\<close> the hash and the branch to create, or a reference; \<open>gg_elapsed\<close> is
  what \<open>elapsedMs(t0)\<close> gives when the call returns.
\<close>

record 'w git_env =
  gg_decodeStatus :: "string \<Rightarrow> go_error + StatusPayload"
  gg_decodeClone :: "string \<Rightarrow> go_error + ClonePayload"
  gg_decodeDiff :: "string \<Rightarrow> go_error + DiffPayload"
  gg_decodeCommit :: "string \<Rightarrow> go_error + CommitPayload"
  gg_decodeWorktree :: "string \<Rightarrow> go_error + WorktreeCreatePayload"
  gg_Getwd :: "'w \<Rightarrow> go_error + string"
  gg_Getenv :: "'w \<Rightarrow> string \<Rightarrow> string"
  gg_ReadDir :: "'w \<Rightarrow> string \<Rightarrow> go_error + nat"
  gg_Stat :: "'w \<Rightarrow> string \<Rightarrow> go_error option"
  gg_RemoveAll :: "string \<Rightarrow> 'w \<Rightarrow> 'w"
  gg_SSHAgentAuth :: "'w \<Rightarrow> go_error option"
  gg_PlainOpen :: "'w \<Rightarrow> string \<Rightarrow> go_error option"
  gg_Head :: "'w \<Rightarrow> string \<Rightarrow> go_error + string \<times> string"
  gg_Worktree :: "'w \<Rightarrow> string \<Rightarrow> go_error option"
  gg_Status :: "'w \<Rightarrow> string \<Rightarrow> go_error + statusEntry list \<times> bool"
  gg_ResolveRevision :: "'w \<Rightarrow> string \<Rightarrow> string \<Rightarrow> go_error + string"
  gg_CommitObject :: "'w \<Rightarrow> string \<Rightarrow> string \<Rightarrow> go_error option"
  gg_Patch :: "'w \<Rightarrow> string \<Rightarrow> string \<Rightarrow> string \<Rightarrow> go_error + string"
  gg_Short :: "string \<Rightarrow> string"
  gg_Clone :: "unit option \<Rightarrow> string \<Rightarrow> string \<Rightarrow> int \<Rightarrow> string \<Rightarrow> 'w \<Rightarrow> go_error option \<times> 'w"
  gg_Checkout :: "string \<Rightarrow> string \<Rightarrow> string \<Rightarrow> 'w \<Rightarrow> go_error option \<times> 'w"
  gg_CheckoutRef :: "string \<Rightarrow> string \<Rightarrow> 'w \<Rightarrow> go_error option \<times> 'w"
  gg_Add :: "string \<Rightarrow> string \<Rightarrow> 'w \<Rightarrow> go_error option \<times> 'w"
  gg_AddAll :: "string \<Rightarrow> 'w \<Rightarrow> go_error option \<times> 'w"
  gg_Commit :: "string \<Rightarrow> CommitPayload \<Rightarrow> 'w \<Rightarrow> (go_error + string) \<times> 'w"
  gg_elapsed :: "'w \<Rightarrow> int"

section \<open>Checks\<close>

definition git_resolvePath :: "go_error + string \<Rightarrow> GitConfig \<Rightarrow> string \<Rightarrow> go_error + string" where
  "git_resolvePath wd c p =
     (if p = [] then Inl (errorf ''path is empty'')
      else if \<not> IsAbs p then Inl (errorf (''path must be absolute, got '' @ quoted p))
      else case filepath_Abs wd p of Inl e \<Rightarrow> Inl (wrapf ''path abs'' e)
      | Inr a \<Rightarrow>
          if in_roots wd (gc_AllowedWorkingDirs c) a then Inr a
          else Inl (errorf (''path '' @ quoted a @ '' not within AllowedWorkingDirs '' @
                 slice_str (gc_AllowedWorkingDirs c))))"

text \<open>The auth method itself is opaque: \<open>None\<close> is the nil method, \<open>Some ()\<close> the agent's.\<close>

definition buildAuth :: "'w git_env \<Rightarrow> GitConfig \<Rightarrow> 'w \<Rightarrow> AuthMode \<Rightarrow> go_error + unit option" where
  "buildAuth env c w mode =
     (if mode = [] \<or> mode = ''none'' then Inr None
      else if mode = ''ssh-agent'' then
        (if \<not> gc_SSHAgent c
         then Inl (sentinel_error ErrUnsupportedAuth
                (''unsupported auth mode: ssh-agent disabled in adapter config''))
         else if gg_Getenv env w ''SSH_AUTH_SOCK'' = []
         then Inl (sentinel_error ErrUnsupportedAuth (''unsupported auth mode: SSH_AUTH_SOCK is unset''))
         else case gg_SSHAgentAuth env w of
           Some e \<Rightarrow> Inl (wrapf ''ssh-agent auth'' e) | None \<Rightarrow> Inr (Some ()))
      else Inl (sentinel_error ErrUnsupportedAuth
             (''unsupported auth mode: '' @ quoted mode @ '' (Phase 1 supports none|ssh-agent)'')))"

section \<open>status\<close>

definition git_status :: "'w git_env \<Rightarrow> GitConfig \<Rightarrow> go_ctx \<Rightarrow> Payload \<Rightarrow> 'w \<Rightarrow> statusRaw" where
  "git_status env cfg ctx payload w =
     (let z = zero_statusRaw\<lparr>sw_durationMs := gg_elapsed env w\<rparr> in
      case gg_decodeStatus env (pl_Raw payload) of
        Inl e \<Rightarrow> z\<lparr>sw_validation := ''decode payload: '' @ err_text e\<rparr>
      | Inr p \<Rightarrow> (case git_resolvePath (gg_Getwd env w) cfg (sp_RepoPath p) of
        Inl e \<Rightarrow> z\<lparr>sw_validation := err_text e\<rparr>
      | Inr repoPath \<Rightarrow> (case gg_PlainOpen env w repoPath of
        Some e \<Rightarrow> z\<lparr>sw_runErr := Some (wrapf ''open repo'' e)\<rparr>
      | None \<Rightarrow> (case gg_Head env w repoPath of
        Inl e \<Rightarrow> z\<lparr>sw_runErr := Some (wrapf ''head'' e)\<rparr>
      | Inr (branch, sha) \<Rightarrow>
        (let z' = z\<lparr>sw_branch := branch, sw_head := sha\<rparr> in
         case gg_Worktree env w repoPath of
           Some e \<Rightarrow> z'\<lparr>sw_runErr := Some (wrapf ''worktree'' e)\<rparr>
         | None \<Rightarrow> (case ctx_at ctx 1 of
           Some e \<Rightarrow> z'\<lparr>sw_ctxErr := Some e\<rparr>
         | None \<Rightarrow> (case gg_Status env w repoPath of
           Inl e \<Rightarrow> z'\<lparr>sw_runErr := Some (wrapf ''status'' e)\<rparr>
         | Inr (entries, clean) \<Rightarrow> z'\<lparr>sw_clean := clean, sw_entries := entries\<rparr>)))))))"

section \<open>clone\<close>

text \<open>Reading HEAD after the clone, then the follow-up checkout of the requested reference.\<close>

definition clone_head :: "'w git_env \<Rightarrow> string \<Rightarrow> cloneRaw \<Rightarrow> 'w \<Rightarrow> cloneRaw" where
  "clone_head env dest raw w =
     (case gg_Head env w dest of
        Inr (name, hash) \<Rightarrow> raw\<lparr>cr_headSHA := hash, cr_refResolved := name\<rparr>
      | Inl e \<Rightarrow> raw\<lparr>cr_checkoutOK := False, cr_runErr := Some (wrapf ''read HEAD post-clone'' e)\<rparr>)"

definition clone_checkout :: "'w git_env \<Rightarrow> string \<Rightarrow> string \<Rightarrow> cloneRaw \<Rightarrow> 'w \<Rightarrow> cloneRaw \<times> 'w" where
  "clone_checkout env dest ref raw w =
     (if ref \<noteq> [] \<and> cr_refResolved raw \<noteq> [] \<and> cr_refResolved raw \<noteq> gg_Short env ref then
        (case gg_Worktree env w dest of
           Some e \<Rightarrow> (raw\<lparr>cr_checkoutOK := False, cr_runErr := Some (wrapf ''worktree post-clone'' e)\<rparr>, w)
         | None \<Rightarrow> (case gg_CheckoutRef env dest ref w of
           (Some e, w') \<Rightarrow>
             (raw\<lparr>cr_checkoutOK := False, cr_runErr := Some (wrapf (''checkout '' @ quoted ref) e)\<rparr>, w')
         | (None, w') \<Rightarrow> (case gg_Head env w' dest of
             Inr (name, hash) \<Rightarrow> (raw\<lparr>cr_headSHA := hash, cr_refResolved := name\<rparr>, w')
           | Inl _ \<Rightarrow> (raw, w'))))
      else (raw, w))"

definition git_clone :: "'w git_env \<Rightarrow> GitConfig \<Rightarrow> go_ctx \<Rightarrow> Payload \<Rightarrow> 'w \<Rightarrow> cloneRaw \<times> 'w" where
  "git_clone env cfg ctx payload w =
     (let z = zero_cloneRaw\<lparr>cr_durationMs := gg_elapsed env w\<rparr> in
      case gg_decodeClone env (pl_Raw payload) of
        Inl e \<Rightarrow> (z\<lparr>cr_validation := ''decode payload: '' @ err_text e\<rparr>, w)
      | Inr p \<Rightarrow>
        if cp_RepoURL p = [] then (z\<lparr>cr_validation := ''repo_url is required''\<rparr>, w)
        else case git_resolvePath (gg_Getwd env w) cfg (cp_DestinationPath p) of
          Inl e \<Rightarrow> (z\<lparr>cr_validation := err_text e\<rparr>, w)
        | Inr dest \<Rightarrow>
          if (case gg_ReadDir env w dest of Inl _ \<Rightarrow> False | Inr n \<Rightarrow> n > 0)
          then (z\<lparr>cr_validation := ''destination '' @ quoted dest @ '' already exists and is non-empty''\<rparr>, w)
          else case buildAuth env cfg w (cp_AuthMode p) of
            Inl e \<Rightarrow> (z\<lparr>cr_validation := err_text e\<rparr>, w)
          | Inr auth \<Rightarrow> (case ctx_at ctx 1 of
            Some e \<Rightarrow> (z\<lparr>cr_ctxErr := Some e\<rparr>, w)
          | None \<Rightarrow>
            (let raw = z\<lparr>cr_repoPath := dest\<rparr> in
             case gg_Clone env auth dest (cp_RepoURL p) (cp_Depth p) (cp_Ref p) w of
               (Some cloneErr, w') \<Rightarrow>
                 (case ctx_at ctx 2 of
                    Some e \<Rightarrow>
                      if errors_Is e Canceled \<or> errors_Is e DeadlineExceeded
                      then (raw\<lparr>cr_ctxErr := Some e\<rparr>, w')
                      else (raw\<lparr>cr_runErr := Some (wrapf ''clone'' cloneErr)\<rparr>, w')
                  | None \<Rightarrow> (raw\<lparr>cr_runErr := Some (wrapf ''clone'' cloneErr)\<rparr>, w'))
             | (None, w') \<Rightarrow>
                 clone_checkout env dest (cp_Ref p)
                   (clone_head env dest (raw\<lparr>cr_fetchOK := True, cr_checkoutOK := True\<rparr>) w') w')))"

section \<open>diff\<close>

definition resolveCommit :: "'w git_env \<Rightarrow> 'w \<Rightarrow> string \<Rightarrow> string \<Rightarrow> go_error + string" where
  "resolveCommit env w repo name =
     (case gg_ResolveRevision env w repo name of
        Inl e \<Rightarrow> Inl (wrapf (''revision '' @ quoted name @ '' not found'') e)
      | Inr h \<Rightarrow> (case gg_CommitObject env w repo h of Some e \<Rightarrow> Inl e | None \<Rightarrow> Inr h))"

definition git_diff :: "'w git_env \<Rightarrow> GitConfig \<Rightarrow> go_ctx \<Rightarrow> Payload \<Rightarrow> 'w \<Rightarrow> diffRaw" where
  "git_diff env cfg ctx payload w =
     (let z = zero_diffRaw\<lparr>dr_durationMs := gg_elapsed env w\<rparr> in
      case gg_decodeDiff env (pl_Raw payload) of
        Inl e \<Rightarrow> z\<lparr>dr_validation := ''decode payload: '' @ err_text e\<rparr>
      | Inr p \<Rightarrow>
        if dp_RepoPath p = [] then z\<lparr>dr_validation := ''repo_path is required''\<rparr>
        else if dp_From p = [] \<or> dp_To p = []
        then z\<lparr>dr_validation := ''both '' @ [CHR 0x27] @ ''from'' @ [CHR 0x27] @ '' and '' @ [CHR 0x27] @ ''to'' @
               [CHR 0x27] @ '' are required (Phase 1 supports commit-to-commit diff only)''\<rparr>
        else case git_resolvePath (gg_Getwd env w) cfg (dp_RepoPath p) of
          Inl e \<Rightarrow> z\<lparr>dr_validation := err_text e\<rparr>
        | Inr repoPath \<Rightarrow>
          (let maxBytes = (if dp_MaxBytes p \<le> 0 then 1048576 else dp_MaxBytes p) in
           case ctx_at ctx 1 of Some e \<Rightarrow> z\<lparr>dr_ctxErr := Some e\<rparr>
           | None \<Rightarrow> (case gg_PlainOpen env w repoPath of
             Some e \<Rightarrow> z\<lparr>dr_runErr := Some (wrapf ''open repo'' e)\<rparr>
           | None \<Rightarrow> (case resolveCommit env w repoPath (dp_From p) of
             Inl e \<Rightarrow> z\<lparr>dr_runErr := Some (wrapf (''resolve from '' @ quoted (dp_From p)) e)\<rparr>
           | Inr a \<Rightarrow> (case resolveCommit env w repoPath (dp_To p) of
             Inl e \<Rightarrow> z\<lparr>dr_runErr := Some (wrapf (''resolve to '' @ quoted (dp_To p)) e)\<rparr>
           | Inr b \<Rightarrow> (case gg_Patch env w repoPath a b of
             Inl e \<Rightarrow> z\<lparr>dr_runErr := Some (wrapf ''patch'' e)\<rparr>
           | Inr patch \<Rightarrow>
             (let total = int (length patch) in
              if total > maxBytes
              then z\<lparr>dr_patch := take (nat maxBytes) patch, dr_truncated := True, dr_totalBytes := total\<rparr>
              else z\<lparr>dr_patch := patch, dr_totalBytes := total\<rparr>)))))))"

section \<open>commit\<close>

fun stage_paths :: "'w git_env \<Rightarrow> string \<Rightarrow> string list \<Rightarrow> 'w \<Rightarrow> go_error option \<times> 'w" where
  "stage_paths env repo [] w = (None, w)"
| "stage_paths env repo (path # paths) w =
     (case gg_Add env repo path w of
        (Some e, w') \<Rightarrow> (Some (wrapf (''stage '' @ quoted path) e), w')
      | (None, w') \<Rightarrow> stage_paths env repo paths w')"

definition stage :: "'w git_env \<Rightarrow> string \<Rightarrow> string list \<Rightarrow> 'w \<Rightarrow> go_error option \<times> 'w" where
  "stage env repo paths w =
     (if paths \<noteq> [] then stage_paths env repo paths w
      else case gg_AddAll env repo w of
        (Some e, w') \<Rightarrow> (Some (wrapf ''stage all'' e), w')
      | (None, w') \<Rightarrow> (None, w'))"

definition git_commit :: "'w git_env \<Rightarrow> GitConfig \<Rightarrow> go_ctx \<Rightarrow> Payload \<Rightarrow> 'w \<Rightarrow> commitRaw \<times> 'w" where
  "git_commit env cfg ctx payload w =
     (let z = zero_commitRaw\<lparr>mr_durationMs := gg_elapsed env w\<rparr> in
      case gg_decodeCommit env (pl_Raw payload) of
        Inl e \<Rightarrow> (z\<lparr>mr_validation := ''decode payload: '' @ err_text e\<rparr>, w)
      | Inr p \<Rightarrow>
        if mp_RepoPath p = [] then (z\<lparr>mr_validation := ''repo_path is required''\<rparr>, w)
        else if mp_Message p = [] then (z\<lparr>mr_validation := ''message is required''\<rparr>, w)
        else if mp_AuthorName p = [] \<or> mp_AuthorEmail p = []
        then (z\<lparr>mr_validation := ''author_name and author_email are required''\<rparr>, w)
        else case git_resolvePath (gg_Getwd env w) cfg (mp_RepoPath p) of
          Inl e \<Rightarrow> (z\<lparr>mr_validation := err_text e\<rparr>, w)
        | Inr repoPath \<Rightarrow> (case ctx_at ctx 1 of
          Some e \<Rightarrow> (z\<lparr>mr_ctxErr := Some e\<rparr>, w)
        | None \<Rightarrow> (case gg_PlainOpen env w repoPath of
          Some e \<Rightarrow> (z\<lparr>mr_runErr := Some (wrapf ''open repo'' e)\<rparr>, w)
        | None \<Rightarrow> (case gg_Worktree env w repoPath of
          Some e \<Rightarrow> (z\<lparr>mr_runErr := Some (wrapf ''worktree'' e)\<rparr>, w)
        | None \<Rightarrow> (case stage env repoPath (mp_Paths p) w of
          (Some e, w1) \<Rightarrow> (z\<lparr>mr_runErr := Some e\<rparr>, w1)
        | (None, w1) \<Rightarrow> (case gg_Commit env repoPath p w1 of
          (Inl e, w2) \<Rightarrow>
            if errors_Is e ErrEmptyCommit
            then (z\<lparr>mr_runErr := Some (errorf ''empty commit not allowed (set allow_empty=true to permit)'')\<rparr>, w2)
            else (z\<lparr>mr_runErr := Some (wrapf ''commit'' e)\<rparr>, w2)
        | (Inr hash, w2) \<Rightarrow>
            (z\<lparr>mr_commitSHA := hash,
              mr_branch := (case gg_Head env w2 repoPath of Inr (name, _) \<Rightarrow> name | Inl _ \<Rightarrow> [])\<rparr>, w2)))))))"

section \<open>worktree.create\<close>

definition git_worktreeCreate :: "'w git_env \<Rightarrow> GitConfig \<Rightarrow> go_ctx \<Rightarrow> Payload \<Rightarrow> 'w \<Rightarrow> worktreeCreateRaw \<times> 'w" where
  "git_worktreeCreate env cfg ctx payload w =
     (let z = zero_worktreeCreateRaw\<lparr>wr_durationMs := gg_elapsed env w\<rparr> in
      case gg_decodeWorktree env (pl_Raw payload) of
        Inl e \<Rightarrow> (z\<lparr>wr_validation := ''decode payload: '' @ err_text e\<rparr>, w)
      | Inr p \<Rightarrow>
        if wp_Path p = [] then (z\<lparr>wr_validation := ''path is required''\<rparr>, w)
        else if wp_UpstreamPath p = [] then (z\<lparr>wr_validation := ''upstream_path is required''\<rparr>, w)
        else if wp_BaseRef p = [] then (z\<lparr>wr_validation := ''base_ref is required''\<rparr>, w)
        else case git_resolvePath (gg_Getwd env w) cfg (wp_Path p) of
          Inl e \<Rightarrow> (z\<lparr>wr_validation := ''path: '' @ err_text e\<rparr>, w)
        | Inr dest \<Rightarrow> (case git_resolvePath (gg_Getwd env w) cfg (wp_UpstreamPath p) of
          Inl e \<Rightarrow> (z\<lparr>wr_validation := ''upstream_path: '' @ err_text e\<rparr>, w)
        | Inr upstream \<Rightarrow>
          if (case gg_ReadDir env w dest of Inl _ \<Rightarrow> False | Inr n \<Rightarrow> n > 0)
          then (z\<lparr>wr_validation := ''path '' @ quoted dest @ '' already exists and is non-empty''\<rparr>, w)
          else case ctx_at ctx 1 of
            Some e \<Rightarrow> (z\<lparr>wr_ctxErr := Some e\<rparr>, w)
          | None \<Rightarrow> (case gg_PlainOpen env w upstream of
            Some e \<Rightarrow> (z\<lparr>wr_runErr := Some (wrapf (''open upstream '' @ quoted upstream) e)\<rparr>, w)
          | None \<Rightarrow> (case gg_ResolveRevision env w upstream (wp_BaseRef p) of
            Inl e \<Rightarrow> (z\<lparr>wr_validation := ''resolve base_ref '' @ quoted (wp_BaseRef p) @ '': '' @ err_text e\<rparr>, w)
          | Inr baseHash \<Rightarrow> (case gg_Clone env None dest upstream 0 [] w of
            (Some cloneErr, w1) \<Rightarrow>
              (case ctx_at ctx 2 of
                 Some e \<Rightarrow>
                   if errors_Is e Canceled \<or> errors_Is e DeadlineExceeded
                   then (z\<lparr>wr_ctxErr := Some e\<rparr>, gg_RemoveAll env dest w1)
                   else (z\<lparr>wr_runErr := Some (wrapf (''clone '' @ quoted upstream @ '' into '' @ quoted dest) cloneErr)\<rparr>,
                         gg_RemoveAll env dest w1)
               | None \<Rightarrow> (z\<lparr>wr_runErr := Some (wrapf (''clone '' @ quoted upstream @ '' into '' @ quoted dest) cloneErr)\<rparr>,
                         gg_RemoveAll env dest w1))
          | (None, w1) \<Rightarrow> (case gg_Worktree env w1 dest of
            Some e \<Rightarrow> (z\<lparr>wr_runErr := Some (wrapf ''worktree of clone'' e)\<rparr>, gg_RemoveAll env dest w1)
          | None \<Rightarrow> (case gg_Checkout env dest baseHash (wp_Branch p) w1 of
            (Some e, w2) \<Rightarrow>
              (z\<lparr>wr_runErr := Some (wrapf (''checkout base_ref '' @ quoted (wp_BaseRef p) @ '' (branch='' @
                   quoted (wp_Branch p) @ '')'') e)\<rparr>, gg_RemoveAll env dest w2)
          | (None, w2) \<Rightarrow>
              (z\<lparr>wr_worktreePath := dest, wr_branch := wp_Branch p, wr_headSHA := baseHash\<rparr>, w2))))))))"

section \<open>Dispatch\<close>

definition git_Execute :: "'w git_env \<Rightarrow> GitConfig \<Rightarrow> 'w execute_fn" where
  "git_Execute env cfg ctx cap payload w =
     (case ctx_at ctx 0 of
        Some e \<Rightarrow>
          if cap_name cap = ''status'' then raw_ok (StatusRaw (zero_statusRaw\<lparr>sw_ctxErr := Some e\<rparr>)) w
          else if cap_name cap = ''clone'' then raw_ok (CloneRaw (zero_cloneRaw\<lparr>cr_ctxErr := Some e\<rparr>)) w
          else if cap_name cap = ''diff'' then raw_ok (DiffRaw (zero_diffRaw\<lparr>dr_ctxErr := Some e\<rparr>)) w
          else if cap_name cap = ''commit'' then raw_ok (CommitRaw (zero_commitRaw\<lparr>mr_ctxErr := Some e\<rparr>)) w
          else if cap_name cap = ''worktree.create''
          then raw_ok (WorktreeCreateRaw (zero_worktreeCreateRaw\<lparr>wr_ctxErr := Some e\<rparr>)) w
          else raw_ok (StatusRaw (zero_statusRaw\<lparr>sw_ctxErr := Some e\<rparr>)) w
      | None \<Rightarrow>
          if cap_name cap = ''status'' then raw_ok (StatusRaw (git_status env cfg ctx payload w)) w
          else if cap_name cap = ''clone'' then
            (case git_clone env cfg ctx payload w of (r, w') \<Rightarrow> raw_ok (CloneRaw r) w')
          else if cap_name cap = ''diff'' then raw_ok (DiffRaw (git_diff env cfg ctx payload w)) w
          else if cap_name cap = ''commit'' then
            (case git_commit env cfg ctx payload w of (r, w') \<Rightarrow> raw_ok (CommitRaw r) w')
          else if cap_name cap = ''worktree.create'' then
            (case git_worktreeCreate env cfg ctx payload w of (r, w') \<Rightarrow> raw_ok (WorktreeCreateRaw r) w')
          else raw_ok (StatusRaw (zero_statusRaw\<lparr>sw_validation :=
                 ''unknown capability for git adapter: '' @ Canonical cap\<rparr>)) w)"

definition git_id :: AdapterID where "git_id = AdapterID ''git''"

definition git_entries :: "(string \<times> bool \<times> duration) list" where
  "git_entries = [(''status'', False, 10 * Second), (''clone'', True, 120 * Second), (''diff'', False, 15 * Second),
     (''commit'', False, 15 * Second), (''worktree.create'', False, 60 * Second)]"

fun git_mk_caps :: "AdapterID \<Rightarrow> (string \<times> bool \<times> duration) list \<Rightarrow> go_error + Capability list" where
  "git_mk_caps aid [] = Inr []"
| "git_mk_caps aid ((name, ap, def) # es) =
     (case NewCapability aid name ''v1'' ap def of
        Inl e \<Rightarrow> Inl (wrapf (''construct '' @ quoted name @ '' capability'') e)
      | Inr c \<Rightarrow> (case git_mk_caps aid es of Inl e \<Rightarrow> Inl e | Inr cs \<Rightarrow> Inr (c # cs)))"

definition git_cap :: "string \<times> bool \<times> duration \<Rightarrow> Capability" where
  "git_cap e = (case e of (name, ap, def) \<Rightarrow>
     \<lparr>cap_adapterID = git_id, cap_name = name, cap_version = ''v1'', cap_allowsPartial = ap,
      cap_defaultTimeout = def\<rparr>)"

definition git_adapter :: "'w git_env \<Rightarrow> GitConfig \<Rightarrow> 'w Adapter" where
  "git_adapter env cfg =
     \<lparr>ad_ID = git_id, ad_Capabilities = map git_cap git_entries, ad_Execute = git_Execute env cfg\<rparr>"

definition git_NewAdapter :: "'w git_env \<Rightarrow> GitConfig \<Rightarrow> bool \<Rightarrow> go_error + 'w Adapter" where
  "git_NewAdapter env cfg clk =
     (if gc_InlineStreamLimit cfg \<le> 0
      then Inl (errorf (''git.Config.InlineStreamLimit must be > 0, got '' @ int_dec (gc_InlineStreamLimit cfg)))
      else if gc_AllowedWorkingDirs cfg = [] then Inl (errorf ''git.Config.AllowedWorkingDirs must be non-empty'')
      else if \<not> clk then Inl (errorf ''git.NewAdapter: Clock is required'')
      else case NewAdapterID ''git'' of Inl e \<Rightarrow> Inl (wrapf ''construct AdapterID'' e)
      | Inr aid \<Rightarrow> (case git_mk_caps aid git_entries of Inl e \<Rightarrow> Inl e
        | Inr caps \<Rightarrow> Inr \<lparr>ad_ID = aid, ad_Capabilities = caps, ad_Execute = git_Execute env cfg\<rparr>))"

section \<open>Normalizers\<close>

definition normalize_status :: "statusRaw \<Rightarrow> go_time \<Rightarrow> go_error + ExecutionResult" where
  "normalize_status r now =
     (case sw_ctxErr r of Some e \<Rightarrow> ctx_result e (sw_durationMs r) now
      | None \<Rightarrow>
        if sw_validation r \<noteq> [] then validation_result (sw_validation r) (sw_durationMs r) now
        else case sw_runErr r of Some e \<Rightarrow> external_result e (sw_durationMs r) now
        | None \<Rightarrow>
          NewExecutionResult StatusSuccess HintNonRetryable [] [] None None None []
            [(''branch'', sw_branch r), (''head'', sw_head r), (''clean'', bool_str (sw_clean r)),
             (''entries_count'', nat_dec (length (sw_entries r)))]
            0 0 (msToDuration (sw_durationMs r)) now)"

text \<open>The artifacts of a clone; \<open>stat_ok\<close> tells whether \<open>os.Stat\<close> succeeds on the destination.\<close>

definition clone_artifacts :: "bool \<Rightarrow> cloneRaw \<Rightarrow> Artifact list" where
  "clone_artifacts stat_ok r =
     (if cr_repoPath r \<noteq> [] \<and> (cr_fetchOK r \<or> cr_runErr r \<noteq> None) \<and> stat_ok
      then artifact_if_ok ArtifactDirectory (''file://'' @ cr_repoPath r) 0 [] [(''path'', cr_repoPath r)] else []) @
     (if cr_headSHA r \<noteq> []
      then artifact_if_ok ArtifactGitCommit (''git://'' @ cr_repoPath r @ ''#'' @ cr_headSHA r) 0 []
             [(''sha'', cr_headSHA r)] else []) @
     (if cr_refResolved r \<noteq> []
      then artifact_if_ok ArtifactGitRef (''git://'' @ cr_repoPath r @ ''@'' @ cr_refResolved r) 0 []
             [(''ref'', cr_refResolved r)] else [])"

definition clone_meta :: "cloneRaw \<Rightarrow> smap" where
  "clone_meta r =
     [(''fetch_ok'', bool_str (cr_fetchOK r)), (''checkout_ok'', bool_str (cr_checkoutOK r))] @
     (if cr_repoPath r \<noteq> [] then [(''repo_path'', cr_repoPath r)] else []) @
     (if cr_refResolved r \<noteq> [] then [(''ref_resolved'', cr_refResolved r)] else []) @
     (if cr_headSHA r \<noteq> [] then [(''head_sha'', cr_headSHA r)] else [])"

definition normalize_clone :: "bool \<Rightarrow> bool \<Rightarrow> cloneRaw \<Rightarrow> go_time \<Rightarrow> go_error + ExecutionResult" where
  "normalize_clone allowsPartial stat_ok r now =
     (case cr_ctxErr r of Some e \<Rightarrow> ctx_result e (cr_durationMs r) now
      | None \<Rightarrow>
        if cr_validation r \<noteq> [] then validation_result (cr_validation r) (cr_durationMs r) now
        else let arts = clone_artifacts stat_ok r;
                 status = Classify \<lparr>pc_AllowsPartial = allowsPartial, pc_HasArtifacts = (arts \<noteq> []),
                            pc_HasUncompletedStep = (\<not> cr_checkoutOK r), pc_Reverted = False\<rparr>;
                 d = msToDuration (cr_durationMs r)
             in if status = StatusSuccess then
                  NewExecutionResult StatusSuccess HintNonRetryable [] [] None None None arts (clone_meta r) 0 0 d now
                else if status = StatusPartial then
                  NewExecutionResult StatusPartial HintUnknown ErrExternalFailure
                    (''clone partial: fetch succeeded but checkout failed'' @
                     (case cr_runErr r of None \<Rightarrow> [] | Some e \<Rightarrow> '' '' @ em_dash @ '' '' @ err_text e))
                    None None None arts (clone_meta r) 0 0 d now
                else
                  NewExecutionResult StatusFailure HintUnknown ErrExternalFailure
                    (case cr_runErr r of None \<Rightarrow> ''clone failed'' | Some e \<Rightarrow> err_text e)
                    None None None arts (clone_meta r) 0 0 d now)"

definition normalize_diff :: "GitConfig \<Rightarrow> diffRaw \<Rightarrow> go_time \<Rightarrow> go_error + ExecutionResult" where
  "normalize_diff cfg r now =
     (case dr_ctxErr r of Some e \<Rightarrow> ctx_result e (dr_durationMs r) now
      | None \<Rightarrow>
        if dr_validation r \<noteq> [] then validation_result (dr_validation r) (dr_durationMs r) now
        else case dr_runErr r of Some e \<Rightarrow> external_result e (dr_durationMs r) now
        | None \<Rightarrow>
          NewExecutionResult StatusSuccess HintNonRetryable [] []
            (Some (streamRef_or_zero (dr_patch r) (dr_totalBytes r) (gc_InlineStreamLimit cfg))) None None []
            [(''truncated'', bool_str (dr_truncated r)), (''total_bytes'', int_dec (dr_totalBytes r))]
            (dr_totalBytes r) 0 (msToDuration (dr_durationMs r)) now)"

definition normalize_commit :: "commitRaw \<Rightarrow> go_time \<Rightarrow> go_error + ExecutionResult" where
  "normalize_commit r now =
     (case mr_ctxErr r of Some e \<Rightarrow> ctx_result e (mr_durationMs r) now
      | None \<Rightarrow>
        if mr_validation r \<noteq> [] then validation_result (mr_validation r) (mr_durationMs r) now
        else case mr_runErr r of Some e \<Rightarrow> external_result e (mr_durationMs r) now
        | None \<Rightarrow>
          NewExecutionResult StatusSuccess HintNonRetryable [] [] None None None
            (artifact_if_ok ArtifactGitCommit (''git://commit/'' @ mr_commitSHA r) 0 []
               [(''sha'', mr_commitSHA r), (''branch'', mr_branch r)] @
             (if mr_branch r \<noteq> []
              then artifact_if_ok ArtifactGitRef (''git://ref/'' @ mr_branch r) 0 []
                     [(''ref'', mr_branch r), (''sha'', mr_commitSHA r)] else []))
            [(''commit_sha'', mr_commitSHA r), (''branch'', mr_branch r)]
            0 0 (msToDuration (mr_durationMs r)) now)"

definition normalize_worktree :: "worktreeCreateRaw \<Rightarrow> go_time \<Rightarrow> go_error + ExecutionResult" where
  "normalize_worktree r now =
     (case wr_ctxErr r of Some e \<Rightarrow> ctx_result e (wr_durationMs r) now
      | None \<Rightarrow>
        if wr_validation r \<noteq> [] then validation_result (wr_validation r) (wr_durationMs r) now
        else case wr_runErr r of Some e \<Rightarrow> external_result e (wr_durationMs r) now
        | None \<Rightarrow>
          NewExecutionResult StatusSuccess HintNonRetryable [] [] None None None
            ((if wr_worktreePath r \<noteq> []
              then artifact_if_ok ArtifactDirectory (''file://'' @ wr_worktreePath r) 0 []
                     [(''path'', wr_worktreePath r)] else []) @
             (if wr_headSHA r \<noteq> []
              then artifact_if_ok ArtifactGitCommit (''git://'' @ wr_worktreePath r @ ''#'' @ wr_headSHA r) 0 []
                     [(''sha'', wr_headSHA r)] else []) @
             (if wr_branch r \<noteq> []
              then artifact_if_ok ArtifactGitRef (''git://'' @ wr_worktreePath r @ ''@'' @ wr_branch r) 0 []
                     [(''ref'', wr_branch r), (''sha'', wr_headSHA r)] else []))
            ([(''worktree_path'', wr_worktreePath r), (''head_sha'', wr_headSHA r)] @
             (if wr_branch r \<noteq> [] then [(''branch'', wr_branch r)] else []))
            0 0 (msToDuration (wr_durationMs r)) now)"

definition NormalizeStatus :: "'w AdapterNormalizer" where
  "NormalizeStatus cap raw w now =
     (case raw of Some (StatusRaw r) \<Rightarrow> Ret (normalize_status r now)
      | _ \<Rightarrow> Ret (Inl (errorf (''git.NormalizeStatus: unexpected raw type '' @ raw_type raw))))"

definition NormalizeClone :: "'w git_env \<Rightarrow> 'w AdapterNormalizer" where
  "NormalizeClone env cap raw w now =
     (case raw of
        Some (CloneRaw r) \<Rightarrow>
          Ret (normalize_clone (cap_allowsPartial cap) (gg_Stat env w (cr_repoPath r) = None) r now)
      | _ \<Rightarrow> Ret (Inl (errorf (''git.NormalizeClone: unexpected raw type '' @ raw_type raw))))"

definition NormalizeDiff :: "GitConfig \<Rightarrow> 'w AdapterNormalizer" where
  "NormalizeDiff cfg cap raw w now =
     (case raw of Some (DiffRaw r) \<Rightarrow> Ret (normalize_diff cfg r now)
      | _ \<Rightarrow> Ret (Inl (errorf (''git.NormalizeDiff: unexpected raw type '' @ raw_type raw))))"

definition NormalizeCommit :: "'w AdapterNormalizer" where
  "NormalizeCommit cap raw w now =
     (case raw of Some (CommitRaw r) \<Rightarrow> Ret (normalize_commit r now)
      | _ \<Rightarrow> Ret (Inl (errorf (''git.NormalizeCommit: unexpected raw type '' @ raw_type raw))))"

definition NormalizeWorktreeCreate :: "'w AdapterNormalizer" where
  "NormalizeWorktreeCreate cap raw w now =
     (case raw of Some (WorktreeCreateRaw r) \<Rightarrow> Ret (normalize_worktree r now)
      | _ \<Rightarrow> Ret (Inl (errorf (''git.NormalizeWorktreeCreate: unexpected raw type '' @ raw_type raw))))"

section \<open>The port's contract\<close>

definition git_normalizer :: "'w git_env \<Rightarrow> GitConfig \<Rightarrow> string \<Rightarrow> 'w AdapterNormalizer" where
  "git_normalizer env cfg canonical =
     (if canonical = ''git.status@v1'' then NormalizeStatus
      else if canonical = ''git.clone@v1'' then NormalizeClone env
      else if canonical = ''git.diff@v1'' then NormalizeDiff cfg
      else if canonical = ''git.commit@v1'' then NormalizeCommit
      else NormalizeWorktreeCreate)"

definition git_accepts :: "string \<Rightarrow> AdapterRawOutcome \<Rightarrow> bool" where
  "git_accepts canonical raw \<longleftrightarrow>
     (case raw of StatusRaw _ \<Rightarrow> canonical = ''git.status@v1''
      | CloneRaw _ \<Rightarrow> canonical = ''git.clone@v1'' | DiffRaw _ \<Rightarrow> canonical = ''git.diff@v1''
      | CommitRaw _ \<Rightarrow> canonical = ''git.commit@v1''
      | WorktreeCreateRaw _ \<Rightarrow> canonical = ''git.worktree.create@v1'' | _ \<Rightarrow> False)"

lemma git_mk_caps_eq: "git_mk_caps git_id git_entries = Inr (map git_cap git_entries)"
  by (simp add: git_entries_def git_cap_def NewCapability_def identifier_regexes duration_units)

lemma git_NewAdapter_Inr [validate]:
  "git_NewAdapter env cfg clk = Inr a \<longleftrightarrow>
     0 < gc_InlineStreamLimit cfg \<and> gc_AllowedWorkingDirs cfg \<noteq> [] \<and> clk \<and> a = git_adapter env cfg"
proof -
  have "NewAdapterID ''git'' = Inr git_id"
    by (simp add: NewAdapterID_def git_id_def identifier_regexes)
  then show ?thesis by (auto simp: git_NewAdapter_def git_mk_caps_eq git_adapter_def)
qed

interpretation git_port: adapter_contract "git_adapter env cfg" "git_normalizer env cfg" git_accepts for env cfg
proof
  fix cap assume cap: "cap \<in> set (ad_Capabilities (git_adapter env cfg))"
  then have "Canonical cap = ''git.'' @ cap_name cap @ ''@v1''" and
    name: "cap_name cap \<in> {''status'', ''clone'', ''diff'', ''commit'', ''worktree.create''}"
    by (auto simp: git_adapter_def git_entries_def git_cap_def Canonical_def canonical_of_def git_id_def)
  then show "\<exists>raw. fst (ad_Execute (git_adapter env cfg) ctx cap p w) = Ret (Some raw, None) \<and>
      git_accepts (Canonical cap) raw" for ctx p w
    by (auto simp: git_adapter_def git_Execute_def git_accepts_def split: option.splits prod.splits)
  show "\<exists>x. git_normalizer env cfg (Canonical cap) cap (Some raw) w now = Ret x" for raw w now
    by (simp add: git_normalizer_def NormalizeStatus_def NormalizeClone_def NormalizeDiff_def
        NormalizeCommit_def NormalizeWorktreeCreate_def split: AdapterRawOutcome.splits)
  show "cap_adapterID cap = ad_ID (git_adapter env cfg)"
    using cap by (auto simp: git_adapter_def git_cap_def)
qed

section \<open>Properties\<close>

lemma git_resolvePath_Inr:
  "git_resolvePath wd c p = Inr q \<longleftrightarrow> IsAbs p \<and> q = Clean p \<and> in_roots wd (gc_AllowedWorkingDirs c) q"
  by (auto simp: git_resolvePath_def filepath_Abs_def IsAbs_def split: if_splits list.splits)

lemma git_resolvePath_nonempty [simp]: "git_resolvePath wd c p \<noteq> Inr []"
  by (auto simp: git_resolvePath_Inr Clean_def abs_path_def)

text \<open>
  C15: A repository path or clone destination the git adapter accepts lies inside a configured
  root: it is the cleaned form of the requested path, and its components extend the
  components of an allowed working directory, so a dot-dot component in the request cannot
  leave the root and a sibling with a common name prefix is refused.
\<close>

theorem git_resolvePath_contained:
  assumes "git_resolvePath wd cfg p = Inr q" and "\<And>d. wd = Inr d \<Longrightarrow> IsAbs d"
  shows "\<exists>as. list_all normal_comp as \<and> q = abs_path as \<and> q = Clean p \<and>
    (\<exists>root \<in> set (gc_AllowedWorkingDirs cfg). \<exists>rs. list_all normal_comp rs \<and>
       filepath_Abs wd root = Inr (abs_path rs) \<and> prefix rs as)"
proof -
  have q: "IsAbs p" "q = Clean p" "in_roots wd (gc_AllowedWorkingDirs cfg) q"
    using assms(1) by (auto simp: git_resolvePath_Inr)
  obtain as where as: "list_all normal_comp as" "q = abs_path as"
    using Clean_clean_abs [OF q(1)] q(2) by (auto simp: clean_abs_def)
  have "in_roots wd (gc_AllowedWorkingDirs cfg) (abs_path as)" using q(3) as(2) by simp
  from in_roots_components [OF this as(1) assms(2)] as q(2) show ?thesis by blast
qed

lemma artifact_if_ok_nonempty:
  "artifact_if_ok t uri sz cs at \<noteq> [] \<longleftrightarrow> (\<exists>a. NewArtifact t uri sz cs at = Inr a)"
  by (auto simp: artifact_if_ok_def split: sum.splits)


text \<open>
  The destination of a failed fetch may exist (an empty directory the caller made): then the
  outcome is classified as partial, with a message that claims the fetch succeeded.
\<close>

lemma clone_fetch_failure_partial:
  assumes "cr_repoPath r \<noteq> []" "length (cr_repoPath r) \<le> 1000" "cr_runErr r = Some e" "cr_ctxErr r = None"
    "cr_validation r = []" "\<not> cr_fetchOK r" "\<not> cr_checkoutOK r" "cr_headSHA r = []" "cr_refResolved r = []"
    "duration_ms_ok (cr_durationMs r)"
  shows "\<exists>res. normalize_clone True True r now = Inr res \<and> res_Status res = StatusPartial"
proof -
  have "clone_artifacts True r \<noteq> []"
    using assms by (auto simp: clone_artifacts_def artifact_if_ok_nonempty validate allArtifactTypes_def
        MaxArtifactAttributesBytes_def)
  then show ?thesis
    using assms by (auto simp: normalize_clone_def Let_def Classify_def validate status_simps
        msToDuration_nonneg clone_meta_def bool_str_def MaxAdapterMetaBytes_def)
qed


section \<open>A concrete environment\<close>

text \<open>The world is the list of the paths removed; the repository has one commit.\<close>

definition sample_git_env :: "string list git_env" where
  "sample_git_env =
     \<lparr>gg_decodeStatus = (\<lambda>_. Inl (errorf ''bad'')), gg_decodeClone = (\<lambda>_. Inl (errorf ''bad'')),
      gg_decodeDiff = (\<lambda>_. Inl (errorf ''bad'')), gg_decodeCommit = (\<lambda>_. Inl (errorf ''bad'')),
      gg_decodeWorktree = (\<lambda>_. Inr \<lparr>wp_Path = ''/w/x'', wp_UpstreamPath = ''/w/up'', wp_BaseRef = ''main'', wp_Branch = []\<rparr>),
      gg_Getwd = (\<lambda>_. Inr ''/''), gg_Getenv = (\<lambda>_ _. []), gg_ReadDir = (\<lambda>_ _. Inl (errorf ''absent'')),
      gg_Stat = (\<lambda>_ _. None), gg_RemoveAll = (\<lambda>p w. p # w), gg_SSHAgentAuth = (\<lambda>_. None),
      gg_PlainOpen = (\<lambda>_ _. None), gg_Head = (\<lambda>_ _. Inr (''main'', ''abc'')), gg_Worktree = (\<lambda>_ _. None),
      gg_Status = (\<lambda>_ _. Inr ([], True)), gg_ResolveRevision = (\<lambda>_ _ _. Inr ''abc''),
      gg_CommitObject = (\<lambda>_ _ _. None), gg_Patch = (\<lambda>_ _ _ _. Inr []), gg_Short = id,
      gg_Clone = (\<lambda>_ _ _ _ _ w. (None, w)), gg_Checkout = (\<lambda>_ _ _ w. (Some (errorf ''conflict''), w)),
      gg_CheckoutRef = (\<lambda>_ _ w. (None, w)), gg_Add = (\<lambda>_ _ w. (None, w)), gg_AddAll = (\<lambda>_ w. (None, w)),
      gg_Commit = (\<lambda>_ _ w. (Inr ''abc'', w)), gg_elapsed = (\<lambda>_. 3)\<rparr>"

definition sample_git_cfg :: GitConfig where
  "sample_git_cfg = \<lparr>gc_AllowedWorkingDirs = [''/w''], gc_SSHAgent = False, gc_InlineStreamLimit = 16\<rparr>"

lemma sample_git_clean: "Clean ''/w/x'' = ''/w/x''" "Clean ''/w'' = ''/w''" "Clean ''/w/y/../x'' = ''/w/x''"
  by (simp_all add: Clean_def IsAbs_def clean_comps_def abs_path_def)

lemma sample_git_resolve: "git_resolvePath (Inr ''/'') sample_git_cfg ''/w/y/../x'' = Inr ''/w/x''"
  by (simp add: git_resolvePath_Inr sample_git_clean)
    (simp add: IsAbs_def sample_git_cfg_def filepath_Abs_def sample_git_clean within_def)

theorem git_resolvePath_contained_witness:
  "\<exists>as. list_all normal_comp as \<and> ''/w/x'' = abs_path as \<and> ''/w/x'' = Clean ''/w/y/../x'' \<and>
    (\<exists>root \<in> set (gc_AllowedWorkingDirs sample_git_cfg). \<exists>rs. list_all normal_comp rs \<and>
       filepath_Abs (Inr ''/'') root = Inr (abs_path rs) \<and> prefix rs as)"
  by (rule git_resolvePath_contained [OF sample_git_resolve]) (simp add: IsAbs_def)



end
