(* ===== verification/Http_Adapter.thy ===== *)
theory Http_Adapter
  imports Adapter_Port "HOL-Library.Word"
begin

unbundle bit_operations_syntax

text \<open>
  The HTTP adapter (\<open>internal/adapters/outbound/httpreq\<close>): the SSRF check on the request
  URL, the request with its redirect and body bounds, and the normalizer. Addresses are
  machine words, a range is an address and a mask. URL parsing, name resolution and the
  exchange itself are given by the environment.
\<close>

section \<open>Addresses and ranges\<close>

text \<open>A \<open>net.IP\<close> of 4 or of 16 bytes.\<close>

datatype net_IP = IP4 "32 word" | IP16 "128 word"

text \<open>\<open>To4\<close>: a 16-byte address is a 4-byte one when it has the mapped prefix.\<close>

definition To4 :: "net_IP \<Rightarrow> 32 word option" where
  "To4 ip = (case ip of IP4 x \<Rightarrow> Some x
     | IP16 y \<Rightarrow> if drop_bit 32 y = 0xFFFF then Some (ucast y) else None)"

text \<open>A \<open>net.IPNet\<close>: the address and the mask.\<close>

type_synonym 'n net_range = "'n word \<times> 'n word"

text \<open>\<open>ParseCIDR\<close> of an address and a prefix length: the mask keeps the leading bits.\<close>

definition mk_range :: "'n::len word \<Rightarrow> nat \<Rightarrow> 'n net_range" where
  "mk_range ip n = (let m = NOT (mask (LENGTH('n) - n)) in (ip AND m, m))"

definition Contains :: "'n::len net_range \<Rightarrow> 'n word \<Rightarrow> bool" where
  "Contains r x \<longleftrightarrow> x AND snd r = fst r"

definition ipv4 :: "nat \<Rightarrow> nat \<Rightarrow> nat \<Rightarrow> nat \<Rightarrow> 32 word" where
  "ipv4 a b c d = word_of_nat (((a * 256 + b) * 256 + c) * 256 + d)"

definition privateRangesV4 :: "32 net_range list" where
  "privateRangesV4 =
     [mk_range (ipv4 10 0 0 0) 8, mk_range (ipv4 172 16 0 0) 12, mk_range (ipv4 192 168 0 0) 16,
      mk_range (ipv4 127 0 0 0) 8, mk_range (ipv4 169 254 0 0) 16, mk_range (ipv4 100 64 0 0) 10,
      mk_range (ipv4 0 0 0 0) 8, mk_range (ipv4 224 0 0 0) 4]"

definition privateRangesV6 :: "128 net_range list" where
  "privateRangesV6 =
     [mk_range 1 128, mk_range (push_bit 112 0xFE80) 10, mk_range (push_bit 112 0xFC00) 7,
      mk_range (push_bit 112 0xFF00) 8]"

definition isPrivate :: "net_IP \<Rightarrow> bool" where
  "isPrivate ip =
     (case To4 ip of
        Some x \<Rightarrow> list_ex (\<lambda>r. Contains r x) privateRangesV4
      | None \<Rightarrow> (case ip of IP16 y \<Rightarrow> list_ex (\<lambda>r. Contains r y) privateRangesV6 | IP4 _ \<Rightarrow> False))"

section \<open>Configuration, payload, environment\<close>

record HttpConfig =
  hc_AllowPrivateNetworks :: bool
  hc_HostAllowlist :: "string list"
  hc_MaxBodyBytes :: int
  hc_MaxRedirects :: int
  hc_InlineStreamLimit :: int

record RequestPayload =
  qp_Method :: string
  qp_URL :: string
  qp_Headers :: smap
  qp_Body :: string
  qp_ExpectedStatus :: "int list"
  qp_MaxBodyBytes :: int
  qp_MaxRedirects :: int

record http_call =
  hq_Method :: string
  hq_URL :: string
  hq_Headers :: smap
  hq_Body :: "string option"
  hq_CheckRedirect :: "nat \<Rightarrow> go_error option"

record http_reply =
  hp_err :: "go_error option"
  hp_StatusCode :: int
  hp_Header :: "(string \<times> string list) list"
  hp_Body :: string
  hp_readErr :: "go_error option"
  hp_via :: nat

record 'w http_env =
  he_decode :: "string \<Rightarrow> go_error + RequestPayload"
  he_Parse :: "string \<Rightarrow> go_error + string \<times> string"
  he_EqualFold :: "string \<Rightarrow> string \<Rightarrow> bool"
  he_Lookup :: "'w \<Rightarrow> string \<Rightarrow> go_error + net_IP list"
  he_IPString :: "net_IP \<Rightarrow> string"
  he_NewRequest :: "string \<Rightarrow> string \<Rightarrow> go_error option"
  he_Do :: "http_call \<Rightarrow> 'w \<Rightarrow> http_reply \<times> 'w"
  he_elapsed :: "'w \<Rightarrow> int"

section \<open>URL validation\<close>

fun first_private :: "net_IP list \<Rightarrow> net_IP option" where
  "first_private [] = None"
| "first_private (ip # ips) = (if isPrivate ip then Some ip else first_private ips)"

definition validateURL :: "'w http_env \<Rightarrow> HttpConfig \<Rightarrow> 'w \<Rightarrow> string \<Rightarrow> go_error option" where
  "validateURL env c w rawURL =
     (case he_Parse env rawURL of Inl e \<Rightarrow> Some (wrapf ''invalid url'' e)
      | Inr (scheme, host) \<Rightarrow>
        if scheme \<noteq> ''http'' \<and> scheme \<noteq> ''https''
        then Some (errorf (''scheme '' @ quoted scheme @ '' not allowed (http|https only)''))
        else if host = [] then Some (errorf ''url has empty host'')
        else if hc_AllowPrivateNetworks c then None
        else case he_Lookup env w host of
          Inl e \<Rightarrow> Some (wrapf (''resolve '' @ quoted host) e)
        | Inr ips \<Rightarrow> (case first_private ips of None \<Rightarrow> None
          | Some ip \<Rightarrow> Some (errorf (''host '' @ quoted host @ '' resolves to private IP '' @ he_IPString env ip @
                 '' (SSRF block; set AllowPrivateNetworks=true to override)''))))"

definition hostAllowlistWarn :: "'w http_env \<Rightarrow> HttpConfig \<Rightarrow> string \<Rightarrow> string" where
  "hostAllowlistWarn env c rawURL =
     (if hc_HostAllowlist c = [] then []
      else case he_Parse env rawURL of Inl _ \<Rightarrow> []
      | Inr (_, host) \<Rightarrow>
          if list_ex (\<lambda>h. he_EqualFold env h host) (hc_HostAllowlist c) then []
          else ''host '' @ quoted host @ '' not in HostAllowlist (logged-only in Phase 1)'')"

section \<open>The request\<close>

definition checkRedirect :: "int \<Rightarrow> nat \<Rightarrow> go_error option" where
  "checkRedirect maxRedirects via =
     (if int via \<ge> maxRedirects then Some (errorf (''max redirects '' @ int_dec maxRedirects @ '' exceeded'')) else None)"

definition reply_headers :: "(string \<times> string list) list \<Rightarrow> smap" where
  "reply_headers hs = map (\<lambda>(k, v). (k, hd v)) (filter (\<lambda>(k, v). v \<noteq> []) hs)"

definition http_request :: "'w http_env \<Rightarrow> HttpConfig \<Rightarrow> go_ctx \<Rightarrow> Payload \<Rightarrow> 'w \<Rightarrow> httpRaw \<times> 'w" where
  "http_request env cfg ctx payload w =
     (let z = zero_httpRaw\<lparr>hr_durationMs := he_elapsed env w\<rparr> in
      case he_decode env (pl_Raw payload) of
        Inl e \<Rightarrow> (z\<lparr>hr_validation := ''decode payload: '' @ err_text e\<rparr>, w)
      | Inr p \<Rightarrow>
        if qp_Method p = [] then (z\<lparr>hr_validation := ''method is required''\<rparr>, w)
        else if qp_URL p = [] then (z\<lparr>hr_validation := ''url is required''\<rparr>, w)
        else case validateURL env cfg w (qp_URL p) of
          Some e \<Rightarrow> (z\<lparr>hr_validation := err_text e\<rparr>, w)
        | None \<Rightarrow>
        (let maxBody = (if qp_MaxBodyBytes p \<le> 0 then hc_MaxBodyBytes cfg else qp_MaxBodyBytes p);
             maxRedirects = (if qp_MaxRedirects p \<le> 0 then hc_MaxRedirects cfg else qp_MaxRedirects p)
         in case he_NewRequest env (qp_Method p) (qp_URL p) of
           Some e \<Rightarrow> (z\<lparr>hr_validation := ''build request: '' @ err_text e\<rparr>, w)
         | None \<Rightarrow>
           (case he_Do env \<lparr>hq_Method = qp_Method p, hq_URL = qp_URL p, hq_Headers = qp_Headers p,
                            hq_Body = (if qp_Body p = [] then None else Some (qp_Body p)),
                            hq_CheckRedirect = checkRedirect maxRedirects\<rparr> w of
              (resp, w') \<Rightarrow>
              (case hp_err resp of
                 Some err \<Rightarrow>
                   (case ctx_at ctx 1 of
                      Some e \<Rightarrow> if errors_Is e Canceled \<or> errors_Is e DeadlineExceeded
                               then (z\<lparr>hr_ctxErr := Some e\<rparr>, w') else (z\<lparr>hr_runErr := Some err\<rparr>, w')
                    | None \<Rightarrow> (z\<lparr>hr_runErr := Some err\<rparr>, w'))
               | None \<Rightarrow>
                 (case hp_readErr resp of
                    Some e \<Rightarrow> (z\<lparr>hr_runErr := Some (wrapf ''read body'' e), hr_statusCode := hp_StatusCode resp,
                               hr_redirectCount := int (hp_via resp)\<rparr>, w')
                  | None \<Rightarrow>
                    (let bodyBytes = take (nat (wrap64 (maxBody + 1))) (hp_Body resp);
                         truncated = int (length bodyBytes) > maxBody;
                         remaining = int (length (hp_Body resp)) - int (length bodyBytes)
                     in (z\<lparr>hr_statusCode := hp_StatusCode resp, hr_headers := reply_headers (hp_Header resp),
                          hr_body := (if truncated then take (nat maxBody) bodyBytes else bodyBytes),
                          hr_bodyTruncated := truncated,
                          hr_totalBytes := (if truncated then maxBody + 1 + remaining else int (length bodyBytes)),
                          hr_redirectCount := int (hp_via resp),
                          hr_expectedStatus := qp_ExpectedStatus p\<rparr>, w')))))))"

section \<open>The adapter\<close>

definition http_Execute :: "'w http_env \<Rightarrow> HttpConfig \<Rightarrow> 'w execute_fn" where
  "http_Execute env cfg ctx cap payload w =
     (case ctx_at ctx 0 of
        Some e \<Rightarrow> raw_ok (HttpRaw (zero_httpRaw\<lparr>hr_ctxErr := Some e\<rparr>)) w
      | None \<Rightarrow>
        if Canonical cap \<noteq> ''http.request@v1''
        then raw_ok (HttpRaw (zero_httpRaw\<lparr>hr_validation := ''unknown capability: '' @ Canonical cap\<rparr>)) w
        else case http_request env cfg ctx payload w of (r, w') \<Rightarrow> raw_ok (HttpRaw r) w')"

definition http_id :: AdapterID where "http_id = AdapterID ''http''"

definition http_cap :: Capability where
  "http_cap = \<lparr>cap_adapterID = http_id, cap_name = ''request'', cap_version = ''v1'',
     cap_allowsPartial = False, cap_defaultTimeout = 15 * Second\<rparr>"

definition http_defaults :: "HttpConfig \<Rightarrow> HttpConfig" where
  "http_defaults cfg =
     (let c1 = (if hc_MaxBodyBytes cfg \<le> 0 then cfg\<lparr>hc_MaxBodyBytes := 10485760\<rparr> else cfg)
      in if hc_MaxRedirects c1 \<le> 0 then c1\<lparr>hc_MaxRedirects := 5\<rparr> else c1)"

definition http_adapter :: "'w http_env \<Rightarrow> HttpConfig \<Rightarrow> 'w Adapter" where
  "http_adapter env cfg = \<lparr>ad_ID = http_id, ad_Capabilities = [http_cap], ad_Execute = http_Execute env cfg\<rparr>"

definition http_NewAdapter :: "'w http_env \<Rightarrow> HttpConfig \<Rightarrow> bool \<Rightarrow> go_error + 'w Adapter" where
  "http_NewAdapter env cfg clk =
     (if hc_InlineStreamLimit cfg \<le> 0 then Inl (errorf ''httpreq.Config.InlineStreamLimit must be > 0'')
      else if \<not> clk then Inl (errorf ''httpreq.NewAdapter: Clock is required'')
      else case NewAdapterID ''http'' of Inl e \<Rightarrow> Inl (wrapf ''AdapterID'' e)
      | Inr aid \<Rightarrow> (case NewCapability aid ''request'' ''v1'' False (15 * Second) of
          Inl e \<Rightarrow> Inl (wrapf ''http.request@v1 capability'' e)
        | Inr cap \<Rightarrow> Inr \<lparr>ad_ID = aid, ad_Capabilities = [cap], ad_Execute = http_Execute env (http_defaults cfg)\<rparr>))"

section \<open>The normalizer\<close>

definition http_meta :: "httpRaw \<Rightarrow> smap" where
  "http_meta r =
     fold (\<lambda>(k, v) m. AList.update (''header.'' @ k) v m) (hr_headers r)
       [(''status_code'', int_dec (hr_statusCode r)), (''body_truncated'', bool_str (hr_bodyTruncated r)),
        (''total_bytes'', int_dec (hr_totalBytes r)), (''redirect_count'', int_dec (hr_redirectCount r))]"

definition http_success :: "httpRaw \<Rightarrow> bool" where
  "http_success r =
     (if hr_expectedStatus r \<noteq> [] then hr_statusCode r \<in> set (hr_expectedStatus r)
      else 200 \<le> hr_statusCode r \<and> hr_statusCode r < 300)"

definition http_normalize :: "HttpConfig \<Rightarrow> httpRaw \<Rightarrow> go_time \<Rightarrow> go_error + ExecutionResult" where
  "http_normalize cfg r now =
     (case hr_ctxErr r of Some e \<Rightarrow> ctx_result e (hr_durationMs r) now
      | None \<Rightarrow>
        if hr_validation r \<noteq> [] then validation_result (hr_validation r) (hr_durationMs r) now
        else case hr_runErr r of Some e \<Rightarrow> external_result e (hr_durationMs r) now
        | None \<Rightarrow>
          (let stdout = Some (streamRef_or_zero (hr_body r) (hr_totalBytes r) (hc_InlineStreamLimit cfg));
               d = msToDuration (hr_durationMs r)
           in if http_success r
              then NewExecutionResult StatusSuccess HintNonRetryable [] [] stdout None None [] (http_meta r)
                     (hr_totalBytes r) 0 d now
              else NewExecutionResult StatusFailure
                     (if 500 \<le> hr_statusCode r \<and> hr_statusCode r < 600 then HintRetryable else HintUnknown)
                     ErrExternalFailure
                     (''unexpected status '' @ int_dec (hr_statusCode r) @
                      (if hr_expectedStatus r \<noteq> []
                       then '' (expected '' @ slice_str (map int_dec (hr_expectedStatus r)) @ '')'' else []))
                     stdout None None [] (http_meta r) (hr_totalBytes r) 0 d now))"

definition http_Normalize :: "HttpConfig \<Rightarrow> 'w AdapterNormalizer" where
  "http_Normalize cfg cap raw w now =
     (case raw of Some (HttpRaw r) \<Rightarrow> Ret (http_normalize cfg r now)
      | _ \<Rightarrow> Ret (Inl (errorf (''httpreq.Normalize: unexpected raw type '' @ raw_type raw))))"

section \<open>The port's contract\<close>

lemma http_NewAdapter_Inr [validate]:
  "http_NewAdapter env cfg clk = Inr a \<longleftrightarrow>
     0 < hc_InlineStreamLimit cfg \<and> clk \<and> a = http_adapter env (http_defaults cfg)"
  by (auto simp: http_NewAdapter_def http_adapter_def http_cap_def http_id_def NewAdapterID_def NewCapability_def
      identifier_regexes duration_units)

interpretation http_port: adapter_contract "http_adapter env cfg" "\<lambda>_. http_Normalize cfg"
  "\<lambda>_ raw. \<exists>r. raw = HttpRaw r" for env cfg
proof
  show "\<exists>raw. fst (ad_Execute (http_adapter env cfg) ctx cap p w) = Ret (Some raw, None) \<and>
      (\<exists>r. raw = HttpRaw r)" for cap ctx p w
    by (auto simp: http_adapter_def http_Execute_def split: option.splits prod.splits)
qed (auto simp: http_Normalize_def http_adapter_def http_cap_def)

section \<open>Ranges\<close>

text \<open>Membership in a range is agreement on the leading bits.\<close>

lemma Contains_mk_range:
  fixes ip x :: "'n::len word"
  shows "Contains (mk_range ip n) x \<longleftrightarrow> drop_bit (LENGTH('n) - n) x = drop_bit (LENGTH('n) - n) ip"
proof
  let ?k = "LENGTH('n) - n"
  assume "Contains (mk_range ip n) x"
  then have "drop_bit ?k (x AND NOT (mask ?k)) = drop_bit ?k (ip AND NOT (mask ?k))"
    by (simp add: Contains_def mk_range_def Let_def)
  then show "drop_bit ?k x = drop_bit ?k ip"
    by (auto simp: bit_eq_iff bit_simps dest: bit_imp_le_length)
next
  let ?k = "LENGTH('n) - n"
  assume eq: "drop_bit ?k x = drop_bit ?k ip"
  have "bit x i = bit ip i" if "?k \<le> i" for i
    using arg_cong [OF eq, of "\<lambda>v. bit v (i - ?k)"] that by (simp add: bit_drop_bit_eq)
  then show "Contains (mk_range ip n) x"
    by (auto simp: Contains_def mk_range_def Let_def bit_eq_iff bit_simps)
qed

text \<open>A leading-bits comparison on an address is a division of its numeric value.\<close>

lemma drop_bit_eq_div: "drop_bit k x = y \<longleftrightarrow> unat x div 2 ^ k = unat (y::'n::len word)"
  by (metis drop_bit_nat_def unat_drop_bit_eq word_unat_eq_iff)

definition octet :: "nat \<Rightarrow> 32 word \<Rightarrow> nat" where
  "octet i x = unat x div 256 ^ (3 - i) mod 256"

text \<open>The reference reading of the blocked IPv4 space, on the dotted-quad octets.\<close>

definition private_v4_spec :: "32 word \<Rightarrow> bool" where
  "private_v4_spec x \<longleftrightarrow>
     (let a = octet 0 x; b = octet 1 x in
      a = 10 \<or> a = 127 \<or> a = 0 \<or> 224 \<le> a \<and> a \<le> 239 \<or> a = 172 \<and> 16 \<le> b \<and> b \<le> 31 \<or>
      a = 192 \<and> b = 168 \<or> a = 169 \<and> b = 254 \<or> a = 100 \<and> 64 \<le> b \<and> b \<le> 127)"

lemma div_interval: "0 < k \<Longrightarrow> (q::nat) div k = c \<longleftrightarrow> c * k \<le> q \<and> q < c * k + k"
  by (metis add.commute div_mult_self_is_m div_nat_eqI dividend_less_div_times mult.commute mult_Suc
      times_div_less_eq_dividend)

lemma quad_prefixes:
  fixes q :: nat
  shows "q div 16 = 2753 \<longleftrightarrow> q div 256 = 172 \<and> 16 \<le> q mod 256 \<and> q mod 256 \<le> 31"
    and "q = 49320 \<longleftrightarrow> q div 256 = 192 \<and> q mod 256 = 168"
    and "q = 43518 \<longleftrightarrow> q div 256 = 169 \<and> q mod 256 = 254"
    and "q div 64 = 401 \<longleftrightarrow> q div 256 = 100 \<and> 64 \<le> q mod 256 \<and> q mod 256 \<le> 127"
    and "q div 4096 = 14 \<longleftrightarrow> 224 \<le> q div 256 \<and> q div 256 \<le> 239"
proof -
  obtain a b where q: "q = 256 * a + b" and b: "b < 256" and ab: "q div 256 = a" "q mod 256 = b"
    using mult_div_mod_eq [of 256 q] by (metis mod_less_divisor zero_less_numeral)
  show "q div 16 = 2753 \<longleftrightarrow> q div 256 = 172 \<and> 16 \<le> q mod 256 \<and> q mod 256 \<le> 31"
    unfolding ab unfolding div_interval [of 16, simplified] q using b by (cases "a = 172") auto
  show "q = 49320 \<longleftrightarrow> q div 256 = 192 \<and> q mod 256 = 168"
    unfolding ab unfolding q using b by (cases "a = 192") auto
  show "q = 43518 \<longleftrightarrow> q div 256 = 169 \<and> q mod 256 = 254"
    unfolding ab unfolding q using b by (cases "a = 169") auto
  show "q div 64 = 401 \<longleftrightarrow> q div 256 = 100 \<and> 64 \<le> q mod 256 \<and> q mod 256 \<le> 127"
    unfolding ab unfolding div_interval [of 64, simplified] q using b by (cases "a = 100") auto
  show "q div 4096 = 14 \<longleftrightarrow> 224 \<le> q div 256 \<and> q div 256 \<le> 239"
    unfolding ab unfolding div_interval [of 4096, simplified] q using b by auto
qed

lemma private_ranges_v4: "list_ex (\<lambda>r. Contains r x) privateRangesV4 \<longleftrightarrow> private_v4_spec x"
proof -
  define q where "q = unat x div 65536"
  have "unat x < 4294967296" using unsigned_less [of x, where ?'a = nat] by simp
  then have q: "unat x div 16777216 = q div 256" "unat x div 1048576 = q div 16" "unat x div 65536 = q"
      "unat x div 4194304 = q div 64" "unat x div 268435456 = q div 4096" "q div 256 mod 256 = q div 256"
    unfolding q_def by (simp_all flip: div_mult2_eq)
  have d: "list_ex (\<lambda>r. Contains r x) privateRangesV4 \<longleftrightarrow>
      q div 256 = 10 \<or> q div 16 = 2753 \<or> q = 49320 \<or> q div 256 = 127 \<or> q = 43518 \<or> q div 64 = 401 \<or>
      q div 256 = 0 \<or> q div 4096 = 14"
    by (simp add: privateRangesV4_def Contains_mk_range drop_bit_eq_div ipv4_def q)
  show ?thesis
    unfolding d quad_prefixes private_v4_spec_def octet_def Let_def by (simp add: q) blast
qed

text \<open>The blocked address space, both families, mapped addresses read as IPv4.\<close>

definition blocked_address :: "net_IP \<Rightarrow> bool" where
  "blocked_address ip =
     (case ip of IP4 x \<Rightarrow> private_v4_spec x
      | IP16 y \<Rightarrow>
          if drop_bit 32 y = 0xFFFF then private_v4_spec (ucast y)
          else y = 1 \<or> drop_bit 118 y = 0x3FA \<or> drop_bit 121 y = 0x7E \<or> drop_bit 120 y = 0xFF)"

lemma isPrivate_blocked: "isPrivate ip = blocked_address ip"
  by (cases ip) (auto simp: isPrivate_def To4_def private_ranges_v4 blocked_address_def privateRangesV6_def
      Contains_mk_range)

lemma first_private_None: "first_private ips = None \<longleftrightarrow> (\<forall>ip \<in> set ips. \<not> isPrivate ip)"
  by (induction ips) auto

text \<open>What the strict check accepts, as the code's four guards.\<close>

lemma validateURL_strict:
  assumes "\<not> hc_AllowPrivateNetworks cfg"
  shows "validateURL env cfg w u = None \<longleftrightarrow>
    (\<exists>scheme host ips. he_Parse env u = Inr (scheme, host) \<and> scheme \<in> {''http'', ''https''} \<and> host \<noteq> [] \<and>
       he_Lookup env w host = Inr ips \<and> (\<forall>ip \<in> set ips. \<not> blocked_address ip))"
proof (cases "he_Parse env u")
  case (Inr sh)
  obtain scheme host where sh: "sh = (scheme, host)" by fastforce
  have "(case first_private ips of None \<Rightarrow> None | Some ip \<Rightarrow> Some (f ip)) = None \<longleftrightarrow>
      (\<forall>ip \<in> set ips. \<not> blocked_address ip)" for ips and f :: "net_IP \<Rightarrow> go_error"
    unfolding isPrivate_blocked [symmetric] first_private_None [symmetric] by (simp split: option.splits)
  then show ?thesis
    using assms Inr sh by (cases "he_Lookup env w host") (simp_all add: validateURL_def)
qed (simp add: validateURL_def)

lemma validateURL_text: "validateURL env cfg w u = Some e \<Longrightarrow> err_text e \<noteq> []"
  by (auto simp: validateURL_def split: sum.splits if_splits option.splits)

section \<open>Properties\<close>



section \<open>Witnesses\<close>

text \<open>A world of network calls made; every host resolves to the metadata service's address.\<close>

definition sample_http_env :: "string list http_env" where
  "sample_http_env = \<lparr>he_decode = (\<lambda>_. Inr \<lparr>qp_Method = ''GET'', qp_URL = ''http://m/'', qp_Headers = [],
       qp_Body = [], qp_ExpectedStatus = [], qp_MaxBodyBytes = 0, qp_MaxRedirects = 0\<rparr>),
     he_Parse = (\<lambda>_. Inr (''http'', ''m'')), he_EqualFold = (=),
     he_Lookup = (\<lambda>_ _. Inr [IP4 (ipv4 8 8 8 8), IP4 (ipv4 169 254 169 254)]),
     he_IPString = (\<lambda>_. ''169.254.169.254''), he_NewRequest = (\<lambda>_ _. None),
     he_Do = (\<lambda>q w. (\<lparr>hp_err = None, hp_StatusCode = 200, hp_Header = [], hp_Body = [], hp_readErr = None,
        hp_via = 0\<rparr>, hq_URL q # w)), he_elapsed = (\<lambda>_. 0)\<rparr>"

definition sample_http_cfg :: HttpConfig where
  "sample_http_cfg = \<lparr>hc_AllowPrivateNetworks = False, hc_HostAllowlist = [], hc_MaxBodyBytes = 1024,
     hc_MaxRedirects = 5, hc_InlineStreamLimit = 1024\<rparr>"

lemma sample_blocked: "blocked_address (IP4 (ipv4 169 254 169 254))"
  by (simp add: blocked_address_def private_v4_spec_def octet_def ipv4_def Let_def)



end
