(* ===== verification/Registration.thy ===== *)
theory Registration
  imports Shell_Adapter Filesystem_Adapter Git_Adapter Http_Adapter
begin

text \<open>
  Wiring of the outbound adapters (\<open>internal/adapters/outbound/registration\<close>): the four
  constructors, the nine normalizer registrations, and the check that the catalog is covered.
  The adapters share one world, an extension of the explicit file system.
\<close>

section \<open>RegisterAllPhase1\<close>

record RegistrationConfig =
  rg_Shell :: ShellConfig
  rg_Git :: GitConfig
  rg_Filesystem :: FsConfig
  rg_HTTP :: HttpConfig

record 'w adapter_envs =
  ae_shell :: "'w shell_env"
  ae_git :: "'w git_env"
  ae_fs :: fs_lib
  ae_http :: "'w http_env"

definition registrations ::
  "'w adapter_envs \<Rightarrow> RegistrationConfig \<Rightarrow> (string \<times> 'w AdapterNormalizer) list" where
  "registrations env cfg =
     [(''shell.exec@v1'', shell_Normalize (rg_Shell cfg)),
      (''git.status@v1'', NormalizeStatus),
      (''git.clone@v1'', NormalizeClone (ae_git env)),
      (''git.diff@v1'', NormalizeDiff (rg_Git cfg)),
      (''git.commit@v1'', NormalizeCommit),
      (''git.worktree.create@v1'', NormalizeWorktreeCreate),
      (''filesystem.read_file@v1'', NormalizeRead (rg_Filesystem cfg)),
      (''filesystem.write_file@v1'', NormalizeWrite),
      (''http.request@v1'', http_Normalize (http_defaults (rg_HTTP cfg)))]"

fun register_all ::
  "(string \<times> 'w AdapterNormalizer) list \<Rightarrow> 'w ResultNormalizer \<Rightarrow> go_error option \<times> 'w ResultNormalizer" where
  "register_all [] n = (None, n)"
| "register_all ((c, f) # rs) n =
     (case rn_Register c (Some f) n of
        (Some e, n') \<Rightarrow> (Some (wrapf (''register '' @ quoted c) e), n')
      | (None, n') \<Rightarrow> register_all rs n')"

text \<open>The normalizer is shared and keeps what was registered before a failure.\<close>

definition RegisterAllPhase1 ::
  "'z fs_state_scheme adapter_envs \<Rightarrow> 'z fs_state_scheme ResultNormalizer option \<Rightarrow> RegistrationConfig \<Rightarrow> bool \<Rightarrow>
   (go_error + (AdapterID \<times> 'z fs_state_scheme Adapter) list) \<times> 'z fs_state_scheme ResultNormalizer option" where
  "RegisterAllPhase1 env normalizer cfg clk =
     (case normalizer of None \<Rightarrow> (Inl (errorf ''RegisterAllPhase1: normalizer is required''), None)
      | Some n \<Rightarrow>
        if \<not> clk then (Inl (errorf ''RegisterAllPhase1: clock is required''), Some n)
        else case shell_NewAdapter (ae_shell env) (rg_Shell cfg) of
          Inl e \<Rightarrow> (Inl (wrapf ''shell adapter'' e), Some n)
        | Inr sh \<Rightarrow> (case git_NewAdapter (ae_git env) (rg_Git cfg) clk of
          Inl e \<Rightarrow> (Inl (wrapf ''git adapter'' e), Some n)
        | Inr gt \<Rightarrow> (case fs_NewAdapter (ae_fs env) (rg_Filesystem cfg) clk of
          Inl e \<Rightarrow> (Inl (wrapf ''filesystem adapter'' e), Some n)
        | Inr fs \<Rightarrow> (case http_NewAdapter (ae_http env) (rg_HTTP cfg) clk of
          Inl e \<Rightarrow> (Inl (wrapf ''http adapter'' e), Some n)
        | Inr ht \<Rightarrow>
          (case register_all (registrations env cfg) n of
             (Some e, n') \<Rightarrow> (Inl e, Some n')
           | (None, n') \<Rightarrow>
               (Inr [(ad_ID sh, sh), (ad_ID gt, gt), (ad_ID fs, fs), (ad_ID ht, ht)], Some n'))))))"

definition VerifyCoversPhase1Catalog :: "'w ResultNormalizer \<Rightarrow> go_error option" where
  "VerifyCoversPhase1Catalog n =
     (case NewPhase1Capabilities of Inl e \<Rightarrow> Some (wrapf ''phase 1 catalog'' e)
      | Inr caps \<Rightarrow>
        (case List.find (\<lambda>c. Canonical c \<notin> set (rn_Registered n)) caps of
           None \<Rightarrow> None
         | Some c \<Rightarrow> Some (errorf (''phase 1 catalog mismatch: capability '' @ quoted (Canonical c) @
                               '' has no registered normalizer''))))"

section \<open>What registration yields\<close>

lemma register_all_ok:
  assumes "distinct (map fst rs)" and "[] \<notin> set (map fst rs)"
    and "set (map fst rs) \<inter> set (map fst (rn_byCanonical n)) = {}"
  shows "register_all rs n = (None, n\<lparr>rn_byCanonical := rev rs @ rn_byCanonical n\<rparr>)"
  using assms
proof (induction rs arbitrary: n)
  case (Cons r rs)
  obtain c f where r: "r = (c, f)" by fastforce
  have "rn_Register c (Some f) n = (None, n\<lparr>rn_byCanonical := (c, f) # rn_byCanonical n\<rparr>)"
    using Cons.prems by (auto simp: rn_Register_def r map_of_eq_None_iff)
  then show ?case using Cons.prems Cons.IH [of "n\<lparr>rn_byCanonical := (c, f) # rn_byCanonical n\<rparr>"] by (auto simp: r)
qed simp

lemma registrations_keys: "map fst (registrations env cfg) = map Canonical catalog"
  by (simp add: registrations_def catalog_canonicals)

lemma map_of_rev: "distinct (map fst xs) \<Longrightarrow> map_of (rev xs) = map_of xs"
proof
  fix k assume d: "distinct (map fst xs)"
  then have d': "distinct (map fst (rev xs))" by (simp add: rev_map [symmetric])
  show "map_of (rev xs) k = map_of xs k"
  proof (cases "map_of xs k")
    case None
    then have "k \<notin> fst ` set (rev xs)" by (simp add: map_of_eq_None_iff)
    then have "map_of (rev xs) k = None" by (simp only: map_of_eq_None_iff) simp
    then show ?thesis using None by simp
  next
    case (Some v)
    then show ?thesis using d d' by (simp add: map_of_eq_Some_iff)
  qed
qed

lemma RegisterAllPhase1_Inr:
  assumes "RegisterAllPhase1 env (Some n) cfg clk = (Inr ads, n')"
  shows "ads = [(shell_id, shell_adapter (ae_shell env) (rg_Shell cfg)), (git_id, git_adapter (ae_git env) (rg_Git cfg)),
      (fs_id, fs_adapter (ae_fs env) (rg_Filesystem cfg)),
      (http_id, http_adapter (ae_http env) (http_defaults (rg_HTTP cfg)))] \<and>
    (\<exists>m. n' = Some m \<and> register_all (registrations env cfg) n = (None, m))"
  using assms
  by (auto simp: RegisterAllPhase1_def validate shell_adapter_def git_adapter_def fs_adapter_def http_adapter_def
      split: if_splits sum.splits prod.splits option.splits)

lemma register_all_None:
  assumes "register_all rs n = (None, m)"
  shows "distinct (map fst rs) \<and> [] \<notin> set (map fst rs) \<and>
    set (map fst rs) \<inter> set (map fst (rn_byCanonical n)) = {} \<and>
    m = n\<lparr>rn_byCanonical := rev rs @ rn_byCanonical n\<rparr>"
  using assms
proof (induction rs arbitrary: n)
  case (Cons r rs)
  obtain c f where r: "r = (c, f)" by fastforce
  with Cons.prems have "fst (rn_Register c (Some f) n) = None"
    by (cases "rn_Register c (Some f) n") (auto split: option.splits)
  then have new: "c \<noteq> []" "c \<notin> set (map fst (rn_byCanonical n))"
    and reg: "rn_Register c (Some f) n = (None, n\<lparr>rn_byCanonical := (c, f) # rn_byCanonical n\<rparr>)"
    by (auto simp: rn_Register_def map_of_eq_None_iff split: if_splits)
  have "register_all rs (n\<lparr>rn_byCanonical := (c, f) # rn_byCanonical n\<rparr>) = (None, m)"
    using Cons.prems by (simp add: r reg)
  from Cons.IH [OF this] new show ?case by (auto simp: r)
qed simp

text \<open>The registered normalizer of a capability, whatever else the normalizer holds.\<close>

lemma registered_normalizer:
  assumes "register_all (registrations env cfg) n = (None, m)" and "(Canonical cap, f) \<in> set (registrations env cfg)"
  shows "rn_Normalize m cap raw w (Some now) = f cap raw w now"
proof -
  from register_all_None [OF assms(1)]
  have d: "distinct (map fst (registrations env cfg))"
    and m: "rn_byCanonical m = rev (registrations env cfg) @ rn_byCanonical n" by simp_all
  have "map_of (registrations env cfg) (Canonical cap) = Some f" using d assms(2) by (rule map_of_is_SomeI)
  then have "map_of (rn_byCanonical m) (Canonical cap) = Some f" by (simp add: m map_add_def map_of_rev [OF d])
  then show ?thesis by (simp add: rn_Normalize_def)
qed

lemma VerifyCovers_None:
  "VerifyCoversPhase1Catalog n = None \<longleftrightarrow> set (map Canonical catalog) \<subseteq> set (map fst (rn_byCanonical n))"
proof -
  have "VerifyCoversPhase1Catalog n = None \<longleftrightarrow> List.find (\<lambda>c. Canonical c \<notin> set (rn_Registered n)) catalog = None"
    by (simp add: VerifyCoversPhase1Catalog_def NewPhase1Capabilities_eq split: option.splits)
  then show ?thesis by (auto simp: find_None_iff rn_Registered_def)
qed

lemmas phase1_adapters = shell_adapter_def git_adapter_def fs_adapter_def http_adapter_def git_entries_def git_cap_def
  shell_cap_def fs_cap_def http_cap_def

lemmas phase1_ids = shell_id_def git_id_def fs_id_def http_id_def

lemmas phase1_capabilities = Canonical_def canonical_of_def phase1_adapters phase1_ids

text \<open>A capability is served: the adapter returns, and so does the normalizer registered for it.\<close>

definition served :: "'w Adapter \<Rightarrow> 'w ResultNormalizer \<Rightarrow> Capability \<Rightarrow> bool" where
  "served ad m cap \<longleftrightarrow>
     (\<forall>ctx p w now. \<exists>raw x. fst (ad_Execute ad ctx cap p w) = Ret (Some raw, None) \<and>
        \<not> (\<exists>r. raw = PanicRaw r) \<and> \<not> (\<exists>r. raw = CtxRaw r) \<and>
        rn_Normalize m cap (Some raw) (snd (ad_Execute ad ctx cap p w)) (Some now) = Ret x)"

context adapter_contract
begin

lemma serves:
  assumes "\<And>cap raw w now. cap \<in> set (ad_Capabilities adapter) \<Longrightarrow>
      rn_Normalize m cap raw w (Some now) = normalizer (Canonical cap) cap raw w now"
    and "\<And>c raw. accepts c raw \<Longrightarrow> \<not> (\<exists>r. raw = PanicRaw r) \<and> \<not> (\<exists>r. raw = CtxRaw r)"
    and "ad_ID adapter = aid"
  shows "\<forall>cap \<in> set (ad_Capabilities adapter). cap_adapterID cap = aid \<and> served adapter m cap"
proof (intro ballI conjI)
  fix cap assume cap: "cap \<in> set (ad_Capabilities adapter)"
  show "cap_adapterID cap = aid" using capability_owner [OF cap] assms(3) by simp
  show "served adapter m cap"
    unfolding served_def assms(1) [OF cap]
    using execute_returns [OF cap] normalizer_returns [OF cap] assms(2) by meson
qed

end

lemma phase1_ad_ID:
  "ad_ID (shell_adapter e1 c1) = shell_id" "ad_ID (git_adapter e2 c2) = git_id"
  "ad_ID (fs_adapter e3 c3) = fs_id" "ad_ID (http_adapter e4 c4) = http_id"
  by (simp_all add: phase1_adapters)

lemma phase1_canonicals:
  "Canonical ` set (ad_Capabilities (shell_adapter e1 c1)) = {''shell.exec@v1''}"
  "Canonical ` set (ad_Capabilities (git_adapter e2 c2)) =
     {''git.status@v1'', ''git.clone@v1'', ''git.diff@v1'', ''git.commit@v1'', ''git.worktree.create@v1''}"
  "Canonical ` set (ad_Capabilities (fs_adapter e3 c3)) = {''filesystem.read_file@v1'', ''filesystem.write_file@v1''}"
  "Canonical ` set (ad_Capabilities (http_adapter e4 c4)) = {''http.request@v1''}"
  by (simp_all add: phase1_capabilities)

lemma phase1_registered:
  "c \<in> Canonical ` set (ad_Capabilities (shell_adapter e1 c1)) \<Longrightarrow> (c, shell_Normalize (rg_Shell cfg)) \<in> set (registrations env cfg)"
  "c \<in> Canonical ` set (ad_Capabilities (git_adapter e2 c2)) \<Longrightarrow>
     (c, git_normalizer (ae_git env) (rg_Git cfg) c) \<in> set (registrations env cfg)"
  "c \<in> Canonical ` set (ad_Capabilities (fs_adapter e3 c3)) \<Longrightarrow>
     (c, fs_normalizer (rg_Filesystem cfg) c) \<in> set (registrations env cfg)"
  "c \<in> Canonical ` set (ad_Capabilities (http_adapter e4 c4)) \<Longrightarrow>
     (c, http_Normalize (http_defaults (rg_HTTP cfg))) \<in> set (registrations env cfg)"
  unfolding phase1_canonicals registrations_def git_normalizer_def fs_normalizer_def
  by (elim insertE emptyE; simp)+

lemma phase1_serves:
  fixes m :: "'z fs_state_scheme ResultNormalizer"
  assumes reg: "register_all (registrations env cfg) n = (None, m)"
  shows "\<forall>cap \<in> set (ad_Capabilities (shell_adapter e1 (rg_Shell cfg))).
      cap_adapterID cap = shell_id \<and> served (shell_adapter e1 (rg_Shell cfg)) m cap" (is ?shell)
    and "\<forall>cap \<in> set (ad_Capabilities (git_adapter (ae_git env) (rg_Git cfg))).
      cap_adapterID cap = git_id \<and> served (git_adapter (ae_git env) (rg_Git cfg)) m cap" (is ?git)
    and "\<forall>cap \<in> set (ad_Capabilities (fs_adapter e3 (rg_Filesystem cfg) :: 'z fs_state_scheme Adapter)).
      cap_adapterID cap = fs_id \<and> served (fs_adapter e3 (rg_Filesystem cfg)) m cap" (is ?fs)
    and "\<forall>cap \<in> set (ad_Capabilities (http_adapter e4 (http_defaults (rg_HTTP cfg)))).
      cap_adapterID cap = http_id \<and> served (http_adapter e4 (http_defaults (rg_HTTP cfg))) m cap" (is ?http)
proof -
  note returns = registered_normalizer [OF reg phase1_registered(1)] registered_normalizer [OF reg phase1_registered(2)]
    registered_normalizer [OF reg phase1_registered(3)] registered_normalizer [OF reg phase1_registered(4)]
  show ?shell
    by (rule shell_port.serves) (auto simp: phase1_ad_ID intro: returns(1) imageI)
  show ?git
    by (rule git_port.serves) (auto simp: phase1_ad_ID git_accepts_def intro: returns(2) imageI split: AdapterRawOutcome.splits)
  show ?fs
    by (rule fs_port.serves) (auto simp: phase1_ad_ID fs_accepts_def intro: returns(3) imageI split: AdapterRawOutcome.splits)
  show ?http
    by (rule http_port.serves) (auto simp: phase1_ad_ID intro: returns(4) imageI)
qed

text \<open>
  The capabilities the registry hands to the adapters are the catalog's: the adapters' own but
  for the default timeout of the shell's.
\<close>

lemma catalog_split:
  "catalog = shell_cap\<lparr>cap_defaultTimeout := 10 * Minute\<rparr> # ad_Capabilities (git_adapter e2 c2) @
     ad_Capabilities (fs_adapter e3 c3) @ ad_Capabilities (http_adapter e4 c4)"
  by (simp add: catalog_def catalog_cap_def catalog_entries_def phase1_adapters phase1_ids)

lemma phase1_catalog_served:
  fixes m :: "'z fs_state_scheme ResultNormalizer"
  assumes reg: "register_all (registrations env cfg) n = (None, m)" and c: "c \<in> set catalog"
  shows "\<exists>ad. map_of [(shell_id, shell_adapter (ae_shell env) (rg_Shell cfg)), (git_id, git_adapter (ae_git env) (rg_Git cfg)),
      (fs_id, fs_adapter (ae_fs env) (rg_Filesystem cfg)),
      (http_id, http_adapter (ae_http env) (http_defaults (rg_HTTP cfg)))] (cap_adapterID c) = Some ad \<and>
    Canonical c \<in> Canonical ` set (ad_Capabilities ad) \<and> served ad m c"
proof -
  note ids = shell_id_def git_id_def fs_id_def http_id_def
  note serves = phase1_serves [OF reg]
  have "set catalog = insert (shell_cap\<lparr>cap_defaultTimeout := 10 * Minute\<rparr>)
      (set (ad_Capabilities (git_adapter (ae_git env) (rg_Git cfg))) \<union>
       (set (ad_Capabilities (fs_adapter (ae_fs env) (rg_Filesystem cfg) :: 'z fs_state_scheme Adapter)) \<union>
        set (ad_Capabilities (http_adapter (ae_http env) (http_defaults (rg_HTTP cfg))))))"
    by (rule trans [OF arg_cong [where f = set, OF catalog_split]]) (simp only: list.set set_append)
  with c
  consider (sh) "c = shell_cap\<lparr>cap_defaultTimeout := 10 * Minute\<rparr>"
    | (gt) "c \<in> set (ad_Capabilities (git_adapter (ae_git env) (rg_Git cfg)))"
    | (fs) "c \<in> set (ad_Capabilities (fs_adapter (ae_fs env) (rg_Filesystem cfg) :: 'z fs_state_scheme Adapter))"
    | (ht) "c \<in> set (ad_Capabilities (http_adapter (ae_http env) (http_defaults (rg_HTTP cfg))))"
    by blast
  then show ?thesis
  proof cases
    case sh
    have cn: "Canonical c \<in> Canonical ` set (ad_Capabilities (shell_adapter (ae_shell env) (rg_Shell cfg)))"
      by (simp add: sh phase1_capabilities)
    have "served (shell_adapter (ae_shell env) (rg_Shell cfg)) m c"
      unfolding served_def registered_normalizer [OF reg phase1_registered(1) [OF cn]]
    proof (intro allI)
      fix ctx p w now
      obtain r where "fst (ad_Execute (shell_adapter (ae_shell env) (rg_Shell cfg)) ctx c p w) = Ret (Some (ExecRaw r), None)"
        using shell_Execute_returns [of "ae_shell env" "rg_Shell cfg" ctx c p w] by (auto simp: shell_adapter_def)
      then show "\<exists>raw x. fst (ad_Execute (shell_adapter (ae_shell env) (rg_Shell cfg)) ctx c p w) = Ret (Some raw, None) \<and>
          \<not> (\<exists>r. raw = PanicRaw r) \<and> \<not> (\<exists>r. raw = CtxRaw r) \<and>
          shell_Normalize (rg_Shell cfg) c (Some raw) (snd (ad_Execute (shell_adapter (ae_shell env) (rg_Shell cfg)) ctx c p w)) now = Ret x"
        by (simp add: shell_Normalize_def)
    qed
    with cn sh show ?thesis by (simp add: shell_cap_def)
  next
    case gt
    with serves(2) have "cap_adapterID c = git_id" "served (git_adapter (ae_git env) (rg_Git cfg)) m c" by auto
    with gt show ?thesis by (simp add: ids)
  next
    case fs
    with serves(3) have "cap_adapterID c = fs_id" "served (fs_adapter (ae_fs env) (rg_Filesystem cfg)) m c" by auto
    with fs show ?thesis by (simp add: ids)
  next
    case ht
    with serves(4) have "cap_adapterID c = http_id" "served (http_adapter (ae_http env) (http_defaults (rg_HTTP cfg))) m c" by auto
    with ht show ?thesis by (simp add: ids)
  qed
qed

lemma phase1_registers:
  fixes env :: "'z fs_state_scheme adapter_envs"
  assumes free: "set (map Canonical catalog) \<inter> set (map fst (rn_byCanonical n)) = {}"
    and "0 < sc_InlineStreamLimit (rg_Shell cfg)"
    and "0 < gc_InlineStreamLimit (rg_Git cfg)" "gc_AllowedWorkingDirs (rg_Git cfg) \<noteq> []"
    and "0 < fc_InlineStreamLimit (rg_Filesystem cfg)" "fc_AllowedFilesystemRoots (rg_Filesystem cfg) \<noteq> []"
    and "0 < hc_InlineStreamLimit (rg_HTTP cfg)"
  shows "\<exists>ads m. RegisterAllPhase1 env (Some n) cfg True = (Inr ads, Some m)"
proof -
  have "[] \<notin> set (map Canonical catalog)" unfolding catalog_canonicals by simp
  from register_all_ok [of "registrations env cfg" n, unfolded registrations_keys, OF catalog_distinct this free]
  obtain m where reg: "register_all (registrations env cfg) n = (None, m)" by blast
  from assms(2-) obtain sh gt ht and fs :: "'z fs_state_scheme Adapter" where
    "shell_NewAdapter (ae_shell env) (rg_Shell cfg) = Inr sh" "git_NewAdapter (ae_git env) (rg_Git cfg) True = Inr gt"
    "fs_NewAdapter (ae_fs env) (rg_Filesystem cfg) True = Inr fs" "http_NewAdapter (ae_http env) (rg_HTTP cfg) True = Inr ht"
    by (auto simp: validate)
  then show ?thesis by (simp add: RegisterAllPhase1_def reg)
qed

section \<open>Properties\<close>

text \<open>
  C22: What start-up relies on after a successful registration, whatever the normalizer held
  before. The catalog check passes; the adapter found under the identifier of a catalog
  capability offers that capability and serves it, as it serves every capability of its own:
  whatever the context, the payload and the world, it returns a raw outcome and no error, which
  is not one of the outcomes reserved to the service, and the normalizer registered for the
  capability returns without a panic.
\<close>

theorem RegisterAllPhase1_covers:
  assumes "RegisterAllPhase1 env (Some n) cfg clk = (Inr ads, Some m)"
  shows "VerifyCoversPhase1Catalog m = None \<and>
    (\<forall>c \<in> set catalog. \<exists>ad. map_of ads (cap_adapterID c) = Some ad \<and>
       Canonical c \<in> Canonical ` set (ad_Capabilities ad) \<and> served ad m c) \<and>
    (\<forall>(aid, ad) \<in> set ads. ad_ID ad = aid \<and> (\<forall>cap \<in> set (ad_Capabilities ad). cap_adapterID cap = aid \<and> served ad m cap))"
proof (intro conjI)
  from RegisterAllPhase1_Inr [OF assms]
  have ads: "ads = [(shell_id, shell_adapter (ae_shell env) (rg_Shell cfg)), (git_id, git_adapter (ae_git env) (rg_Git cfg)),
      (fs_id, fs_adapter (ae_fs env) (rg_Filesystem cfg)),
      (http_id, http_adapter (ae_http env) (http_defaults (rg_HTTP cfg)))]"
    and reg: "register_all (registrations env cfg) n = (None, m)" by auto
  have "rn_byCanonical m = rev (registrations env cfg) @ rn_byCanonical n"
    using register_all_None [OF reg] by simp
  then have "set (map fst (registrations env cfg)) \<subseteq> set (map fst (rn_byCanonical m))" by auto
  then show "VerifyCoversPhase1Catalog m = None"
    by (simp only: VerifyCovers_None registrations_keys)
  show "\<forall>c \<in> set catalog. \<exists>ad. map_of ads (cap_adapterID c) = Some ad \<and>
      Canonical c \<in> Canonical ` set (ad_Capabilities ad) \<and> served ad m c"
    unfolding ads using phase1_catalog_served [OF reg] by blast
  show "\<forall>(aid, ad) \<in> set ads. ad_ID ad = aid \<and> (\<forall>cap \<in> set (ad_Capabilities ad). cap_adapterID cap = aid \<and> served ad m cap)"
    by (simp add: ads phase1_ad_ID phase1_serves [OF reg])
qed

text \<open>
  Exactly when start-up may go on: there is a normalizer and a clock, every adapter's
  configuration is acceptable (positive stream limits; the git and file-system allowlists are
  not empty), and the normalizer holds none of the catalog's capabilities yet, so that
  registering twice on one normalizer always fails.
\<close>

lemma RegisterAllPhase1_iff:
  fixes env :: "'z fs_state_scheme adapter_envs"
  shows "(\<exists>ads n'. RegisterAllPhase1 env normalizer cfg clk = (Inr ads, n')) \<longleftrightarrow>
     (\<exists>n. normalizer = Some n \<and> set (map Canonical catalog) \<inter> set (map fst (rn_byCanonical n)) = {}) \<and> clk \<and>
     0 < sc_InlineStreamLimit (rg_Shell cfg) \<and>
     0 < gc_InlineStreamLimit (rg_Git cfg) \<and> gc_AllowedWorkingDirs (rg_Git cfg) \<noteq> [] \<and>
     0 < fc_InlineStreamLimit (rg_Filesystem cfg) \<and> fc_AllowedFilesystemRoots (rg_Filesystem cfg) \<noteq> [] \<and>
     0 < hc_InlineStreamLimit (rg_HTTP cfg)"
  (is "?l \<longleftrightarrow> ?r")
proof
  assume ?l
  then obtain ads n' where run: "RegisterAllPhase1 env normalizer cfg clk = (Inr ads, n')" by blast
  then obtain n where n: "normalizer = Some n" by (auto simp: RegisterAllPhase1_def split: option.splits)
  from RegisterAllPhase1_Inr [OF run [unfolded n]] obtain m where
    "register_all (registrations env cfg) n = (None, m)" by blast
  from register_all_None [OF this]
  have "set (map Canonical catalog) \<inter> set (map fst (rn_byCanonical n)) = {}"
    unfolding registrations_keys by simp
  with n run show ?r
    by (auto simp: RegisterAllPhase1_def validate split: if_splits sum.splits)
next
  assume r: ?r
  then obtain n where n: "normalizer = Some n" "set (map Canonical catalog) \<inter> set (map fst (rn_byCanonical n)) = {}" and clk
    by blast
  moreover have "\<exists>ads m. RegisterAllPhase1 env (Some n) cfg True = (Inr ads, Some m)"
    by (rule phase1_registers [OF n(2)]) (use r in simp_all)
  ultimately show ?l by auto
qed

section \<open>A concrete registration\<close>

definition sample_registration :: RegistrationConfig where
  "sample_registration =
     \<lparr>rg_Shell = \<lparr>sc_AllowedCommandsPath = [], sc_AllowedWorkingDirs = [], sc_InlineStreamLimit = 16\<rparr>,
      rg_Git = sample_git_cfg, rg_Filesystem = sample_fs_cfg, rg_HTTP = sample_http_cfg\<rparr>"

definition fresh_normalizer :: "'w ResultNormalizer" where
  "fresh_normalizer = \<lparr>rn_inlineLimit = 16, rn_byCanonical = []\<rparr>"

lemma sample_registers:
  fixes env :: "'z fs_state_scheme adapter_envs"
  shows "\<exists>ads m. RegisterAllPhase1 env (Some fresh_normalizer) sample_registration True = (Inr ads, Some m)"
  by (rule phase1_registers)
    (simp_all add: fresh_normalizer_def sample_registration_def sample_git_cfg_def sample_fs_cfg_def sample_http_cfg_def)

theorem RegisterAllPhase1_covers_witness:
  "\<forall>env. \<exists>ads m. RegisterAllPhase1 env (Some fresh_normalizer) sample_registration True = (Inr ads, Some m) \<and>
     VerifyCoversPhase1Catalog m = None"
proof
  fix env :: "'z fs_state_scheme adapter_envs"
  obtain ads m where run: "RegisterAllPhase1 env (Some fresh_normalizer) sample_registration True = (Inr ads, Some m)"
    using sample_registers by blast
  with RegisterAllPhase1_covers [OF run]
  show "\<exists>ads m. RegisterAllPhase1 env (Some fresh_normalizer) sample_registration True = (Inr ads, Some m) \<and>
      VerifyCoversPhase1Catalog m = None" by blast
qed

end
