(* ===== verification/Wire.thy ===== *)
theory Wire
  imports Entities
begin

text \<open>
  The wire forms: \<open>MarshalJSON\<close> and \<open>UnmarshalJSON\<close> of capabilities, requests, handles,
  results and receipts, which the HTTP boundary and the database both use. A wire struct is
  a record with the fields of the JSON object; what \<open>encoding/json\<close> does to a field is
  modelled where it is not the identity: a string with invalid UTF-8 gets the replacement
  character, a raw message is compacted and HTML-escaped, a timestamp is cut to the layout's
  milliseconds. A timestamp on the wire is the instant its text denotes, or the text when
  \<open>time.Parse\<close> rejects it.
\<close>

section \<open>Strings and raw messages under encoding/json\<close>

definition byte_in :: "nat \<Rightarrow> nat \<Rightarrow> char \<Rightarrow> bool" where
  "byte_in lo hi c \<longleftrightarrow> lo \<le> of_char c \<and> of_char c \<le> hi"

text \<open>The length of the UTF-8 sequence a string starts with, 0 when it starts with none.\<close>

fun utf8_len :: "string \<Rightarrow> nat" where
  "utf8_len [] = 0"
| "utf8_len (a # s) =
     (if of_char a < (128::nat) then 1
      else case s of [] \<Rightarrow> 0
      | b # s' \<Rightarrow>
        if byte_in 0xC2 0xDF a then (if byte_in 0x80 0xBF b then 2 else 0)
        else case s' of [] \<Rightarrow> 0
        | c # s'' \<Rightarrow>
          if byte_in 0xE0 0xEF a then
            (if byte_in (if of_char a = (0xE0::nat) then 0xA0 else 0x80)
                        (if of_char a = (0xED::nat) then 0x9F else 0xBF) b \<and> byte_in 0x80 0xBF c
             then 3 else 0)
          else case s'' of [] \<Rightarrow> 0
          | d # _ \<Rightarrow>
            if byte_in 0xF0 0xF4 a \<and>
               byte_in (if of_char a = (0xF0::nat) then 0x90 else 0x80)
                       (if of_char a = (0xF4::nat) then 0x8F else 0xBF) b \<and>
               byte_in 0x80 0xBF c \<and> byte_in 0x80 0xBF d
            then 4 else 0)"

declare utf8_len.simps(2) [simp del]

definition replacement_char :: string where
  "replacement_char = [CHR 0xEF, CHR 0xBF, CHR 0xBD]"

function to_valid_utf8 :: "string \<Rightarrow> string" where
  "to_valid_utf8 [] = []"
| "to_valid_utf8 (c # s) =
     (let n = utf8_len (c # s) in
      if n = 0 then replacement_char @ to_valid_utf8 s
      else take n (c # s) @ to_valid_utf8 (drop n (c # s)))"
  by pat_completeness auto
termination by (relation "measure length") auto

function utf8_valid :: "string \<Rightarrow> bool" where
  "utf8_valid [] = True"
| "utf8_valid (c # s) =
     (let n = utf8_len (c # s) in if n = 0 then False else utf8_valid (drop n (c # s)))"
  by pat_completeness auto
termination by (relation "measure length") auto

lemma to_valid_utf8_id [simp]: "utf8_valid s \<Longrightarrow> to_valid_utf8 s = s"
  by (induction s rule: utf8_valid.induct) (auto simp: Let_def split: if_splits)

lemma utf8_valid_ascii: "list_all (\<lambda>c. of_char c < (128::nat)) s \<Longrightarrow> utf8_valid s"
  by (induction s) (auto simp: Let_def utf8_len.simps)

text \<open>
  \<open>json.Marshal\<close> of a raw message: \<open>compact\<close> drops the space bytes outside strings and
  writes the bytes HTML gives a meaning, and the two line separators, as escapes.
\<close>

definition in_string :: "scanner \<Rightarrow> bool" where
  "in_string st \<longleftrightarrow> fst st = SInString"

definition html_escape :: "char \<Rightarrow> string" where
  "html_escape c =
     (if c = CHR ''<'' then CHR 0x5C # ''u003c''
      else if c = CHR ''>'' then CHR 0x5C # ''u003e''
      else if c = CHR ''&'' then CHR 0x5C # ''u0026''
      else [c])"

function compact :: "scanner \<Rightarrow> string \<Rightarrow> string" where
  "compact st [] = []"
| "compact st (c # s) =
     (if isSpace c \<and> \<not> in_string st then compact (scan_step st c) s
      else if in_string st \<and> c = CHR 0xE2 \<and> take 2 s \<in> {[CHR 0x80, CHR 0xA8], [CHR 0x80, CHR 0xA9]}
      then CHR 0x5C # ''u202'' @ (if s ! 1 = CHR 0xA8 then ''8'' else ''9'') @ compact st (drop 2 s)
      else html_escape c @ compact (scan_step st c) s)"
  by pat_completeness auto
termination by (relation "measure (\<lambda>(st, s). length s)") auto

definition marshal_raw :: "string \<Rightarrow> string" where
  "marshal_raw s = (if s = [] then ''null'' else compact (SBeginValue, []) s)"

text \<open>
  Compacting keeps validity. The scanner on the original may have left a number or a value
  by a space that the scanner on the compact form never sees: the two states then agree on
  every byte that can follow.
\<close>

definition scan_sim :: "scanner \<Rightarrow> scanner \<Rightarrow> bool" where
  "scan_sim st st' \<longleftrightarrow> st' = st \<or>
     (\<exists>ps. (if ps = [] then st = (SEndTop, []) else st = (SEndValue, ps)) \<and>
           st' \<in> {(S1, ps), (S0, ps), (SDot0, ps), (SE0, ps), (SEndValue, ps)})"

lemma scan_sim_refl [simp]: "scan_sim st st"
  by (simp add: scan_sim_def)

lemma scan_SError [simp]: "fst (scan (SError, ps) s) = SError"
proof (induction s arbitrary: ps)
  case (Cons c s)
  then show ?case by (simp add: scan_error_def)
qed simp

lemma scan_error_step: "fst (scan (scan_step st c) s) \<noteq> SError \<Longrightarrow> fst (scan_step st c) \<noteq> SError"
  by (metis prod.collapse scan_SError)

lemmas scan_states = stateBeginValue_def stateBeginString_def stateEndTop_def state0_def
  stateESign_def expect_char_def expect_hex_def hex_char_def char_classes

lemma stateEndValue_chars:
  assumes "fst (stateEndValue (p # ps) c) \<noteq> SError" and "\<not> isSpace c"
  shows "c \<in> {CHR '':'', CHR '','', CHR '']'', CHR ''}''}"
  using assms by (auto simp: scan_error_def split: parse_state.splits if_splits)

lemma scan_step_end:
  assumes "c \<in> {CHR '':'', CHR '','', CHR '']'', CHR ''}''}"
    and "st \<in> {(S1, ps), (S0, ps), (SDot0, ps), (SE0, ps), (SEndValue, ps)}"
  shows "scan_step st c = stateEndValue ps c"
proof -
  have "\<not> is_digit c \<and> c \<noteq> CHR ''.'' \<and> c \<noteq> CHR ''e'' \<and> c \<noteq> CHR ''E''"
    using assms(1) by (auto simp: char_classes)
  with assms(2) show ?thesis by (auto simp: state0_def)
qed

lemma scan_step_space:
  assumes "isSpace c"
  shows "scan_step (q, ps) c =
     (if q \<in> {SBeginValueOrEmpty, SBeginValue, SBeginStringOrEmpty, SBeginString}
      then (q, ps)
      else if q = SInString \<and> c = CHR '' '' then (q, ps)
      else if q \<in> {SEndValue, S1, S0, SDot0, SE0} then stateEndValue ps c
      else if q = SEndTop then (q, ps) else scan_error)"
proof -
  have "c = CHR '' '' \<or> c = CHR 0x09 \<or> c = CHR 0x0D \<or> c = CHR 0x0A"
    using assms by (simp add: isSpace_def)
  then show ?thesis
    by (elim disjE; simp; cases q; simp add: scan_states isSpace_def)
qed

lemma scan_step_html:
  assumes "c \<in> {CHR ''<'', CHR ''>'', CHR ''&''}" and "q \<noteq> SInString"
  shows "scan_step (q, ps) c = scan_error"
proof -
  have fin: "stateEndValue ps' c = scan_error" for ps'
    using assms(1) by (cases "(ps', c)" rule: stateEndValue.cases)
      (auto simp: stateEndTop_def isSpace_def split: parse_state.splits)
  have "\<not> isSpace c \<and> \<not> is_digit c \<and> \<not> hex_char c"
    using assms(1) by (auto simp: isSpace_def char_classes hex_char_def)
  with assms fin show ?thesis
    by (elim insertE emptyE; cases q;
        simp add: stateBeginValue_def stateBeginString_def stateEndTop_def state0_def
          stateESign_def expect_char_def expect_hex_def)
qed

lemma scan_sim_step:
  assumes "scan_sim st st'" and "fst (scan_step st c) \<noteq> SError" and "\<not> isSpace c \<or> in_string st"
  shows "scan_step st' c = scan_step st c"
proof (cases "st' = st")
  case False
  with assms(1) obtain ps where ps: "if ps = [] then st = (SEndTop, []) else st = (SEndValue, ps)"
    and st': "st' \<in> {(S1, ps), (S0, ps), (SDot0, ps), (SE0, ps), (SEndValue, ps)}"
    by (auto simp: scan_sim_def)
  from ps assms(3) have ns: "\<not> isSpace c" by (auto simp: in_string_def split: if_splits)
  with ps assms(2) have "ps \<noteq> []" by (auto simp: stateEndTop_def scan_error_def)
  then obtain p qs where pq: "ps = p # qs" by (cases ps) auto
  with ps have st: "st = (SEndValue, p # qs)" by simp
  with ns assms(2) have "c \<in> {CHR '':'', CHR '','', CHR '']'', CHR ''}''}"
    by (intro stateEndValue_chars) auto
  from scan_step_end [OF this st'] show ?thesis by (simp add: st pq)
qed simp

lemma scan_sim_space:
  assumes "scan_sim st st'" and "fst (scan_step st c) \<noteq> SError" and "isSpace c" and "\<not> in_string st"
  shows "scan_sim (scan_step st c) st'"
proof -
  obtain q ps where q: "st = (q, ps)" by (cases st)
  have "stateEndValue ps' c = (if ps' = [] then (SEndTop, []) else (SEndValue, ps'))" for ps'
    using assms(3) by (cases ps') (simp_all add: stateEndTop_def)
  with assms q show ?thesis
    by (auto simp: scan_step_space scan_sim_def in_string_def scan_error_def split: if_splits)
qed

lemma scan_html_escape:
  assumes "fst (scan_step st c) \<noteq> SError" and "scan_sim st st'" and "\<not> isSpace c \<or> in_string st"
  shows "scan st' (html_escape c) = scan_step st c"
proof (cases "c \<in> {CHR ''<'', CHR ''>'', CHR ''&''}")
  case True
  obtain q ps where q: "st = (q, ps)" by (cases st)
  have "q = SInString"
  proof (rule ccontr)
    assume "q \<noteq> SInString"
    from scan_step_html [OF True this, of ps] assms(1) q show False by (simp add: scan_error_def)
  qed
  with assms(2) q have "st' = (SInString, ps)" by (auto simp: scan_sim_def split: if_splits)
  with True q \<open>q = SInString\<close> show ?thesis
    by (auto simp: html_escape_def expect_hex_def hex_char_def char_classes)
next
  case False
  with scan_sim_step [OF assms(2,1,3)] show ?thesis by (simp add: html_escape_def)
qed

lemma scan_separator:
  assumes "in_string st" and "c = CHR 0xE2" and "take 2 s \<in> {[CHR 0x80, CHR 0xA8], [CHR 0x80, CHR 0xA9]}"
  shows "scan st (c # s) = scan st (drop 2 s)"
    and "scan st (CHR 0x5C # ''u202'' @ (if s ! 1 = CHR 0xA8 then ''8'' else ''9'')) = st"
proof -
  obtain ps where st: "st = (SInString, ps)" using assms(1) by (cases st) (auto simp: in_string_def)
  have "s = take 2 s @ drop 2 s" by simp
  with assms(3) have s: "s = [CHR 0x80, CHR 0xA8] @ drop 2 s \<or> s = [CHR 0x80, CHR 0xA9] @ drop 2 s"
    by (metis insertE singletonD)
  have "scan (SInString, ps) ([c, CHR 0x80, x] @ r) = scan (SInString, ps) r"
    if "x \<in> {CHR 0xA8, CHR 0xA9}" for x r
    using that assms(2) by auto
  with s st show "scan st (c # s) = scan st (drop 2 s)"
    by (metis append_Cons append_Nil insert_iff)
  show "scan st (CHR 0x5C # ''u202'' @ (if s ! 1 = CHR 0xA8 then ''8'' else ''9'')) = st"
    using st by (simp add: expect_hex_def hex_char_def char_classes)
qed

lemma scan_compact:
  "scan_sim st st' \<Longrightarrow> fst (scan st s) \<noteq> SError \<Longrightarrow> scan_sim (scan st s) (scan st' (compact st s))"
proof (induction st s arbitrary: st' rule: compact.induct)
  case (1 st)
  then show ?case by simp
next
  case (2 st c s)
  have ok: "fst (scan_step st c) \<noteq> SError" using "2.prems"(2) by (intro scan_error_step) simp
  show ?case
  proof (cases "isSpace c \<and> \<not> in_string st")
    case True
    then have "scan_sim (scan_step st c) st'"
      using "2.prems"(1) ok by (intro scan_sim_space) auto
    then show ?thesis using True "2.prems"(2) "2.IH"(1) by simp
  next
    case nospace: False
    show ?thesis
    proof (cases "in_string st \<and> c = CHR 0xE2 \<and> take 2 s \<in> {[CHR 0x80, CHR 0xA8], [CHR 0x80, CHR 0xA9]}")
      case True
      then have "st' = st" using "2.prems"(1)
        by (auto simp: scan_sim_def in_string_def split: if_splits)
      moreover have "fst (scan st (drop 2 s)) \<noteq> SError"
        using "2.prems"(2) by (simp only: scan_separator(1) [OF conjunct1 [OF True]
            conjunct1 [OF conjunct2 [OF True]] conjunct2 [OF conjunct2 [OF True]]] simp_thms)
      moreover have "compact st (c # s) =
          (CHR 0x5C # ''u202'' @ (if s ! 1 = CHR 0xA8 then ''8'' else ''9'')) @ compact st (drop 2 s)"
        using True nospace by simp
      ultimately show ?thesis
        using True "2.IH"(2) [OF nospace True, of st]
        by (simp only: scan_append scan_separator scan_sim_refl simp_thms)
    next
      case False
      have "scan st' (html_escape c) = scan_step st c"
        using "2.prems"(1) ok nospace by (intro scan_html_escape) auto
      moreover have "compact st (c # s) = html_escape c @ compact (scan_step st c) s"
        by (simp only: compact.simps if_not_P [OF nospace] if_not_P [OF False])
      ultimately show ?thesis
        using "2.IH"(3) [OF nospace False, of "scan_step st c"] "2.prems"(2)
        by (simp only: scan_append scan_Cons scan_sim_refl simp_thms)
    qed
  qed
qed

lemma json_valid_compact:
  assumes "json_valid s"
  shows "json_valid (compact (SBeginValue, []) s)"
proof -
  let ?X = "scan (SBeginValue, []) s" and ?Y = "scan (SBeginValue, []) (compact (SBeginValue, []) s)"
  have fin: "fst ?X = SEndTop \<or> fst (scan_step ?X (CHR '' '')) = SEndTop"
    using assms by (simp add: json_valid_def Let_def)
  then have "fst ?X \<noteq> SError"
    by (metis prod.collapse scan_step.simps(31) scan_error_def fst_conv scan_state.distinct)
  then have "scan_sim ?X ?Y" by (intro scan_compact) simp_all
  then show ?thesis
    using fin unfolding json_valid_def Let_def scan_sim_def
    by (auto simp: state0_def char_classes isSpace_def stateEndTop_def split: if_splits)
qed

section \<open>Timestamps\<close>

datatype wire_time = Stamp go_time | BadStamp string

definition format_ms :: "go_time \<Rightarrow> wire_time" where
  "format_ms t = Stamp (t div 1000000 * 1000000)"

definition time_Parse :: "wire_time \<Rightarrow> go_error + go_time" where
  "time_Parse w = (case w of Stamp t \<Rightarrow> Inr t | BadStamp s \<Rightarrow> Inl (errorf (''parsing time '' @ quoted s)))"

definition ms_precise :: "go_time \<Rightarrow> bool" where
  "ms_precise t \<longleftrightarrow> 1000000 dvd t"

definition trunc_ms :: "go_time \<Rightarrow> go_time" where
  "trunc_ms t = t div 1000000 * 1000000"

lemma time_Parse_format [simp]: "time_Parse (format_ms t) = Inr (trunc_ms t)"
  by (simp add: time_Parse_def format_ms_def trunc_ms_def)

lemma trunc_ms_id [simp]: "ms_precise t \<Longrightarrow> trunc_ms t = t"
  by (auto simp: trunc_ms_def ms_precise_def)

lemma trunc_ms_bounds: "trunc_ms t \<le> t \<and> t < trunc_ms t + 1000000"
  by (simp add: trunc_ms_def) presburger

section \<open>Capability\<close>

record capabilityWire =
  cw_Canonical :: string
  cw_AdapterID :: string
  cw_Name :: string
  cw_Version :: string
  cw_AllowsPartial :: bool
  cw_DefaultTimeoutMs :: int

definition Capability_MarshalJSON :: "Capability \<Rightarrow> capabilityWire" where
  "Capability_MarshalJSON c =
     \<lparr>cw_Canonical = Canonical c, cw_AdapterID = AdapterID_String (cap_adapterID c),
      cw_Name = cap_name c, cw_Version = cap_version c, cw_AllowsPartial = cap_allowsPartial c,
      cw_DefaultTimeoutMs = Milliseconds (cap_defaultTimeout c)\<rparr>"

definition Capability_UnmarshalJSON :: "capabilityWire \<Rightarrow> go_error + Capability" where
  "Capability_UnmarshalJSON w =
     (case NewAdapterID (cw_AdapterID w) of Inl e \<Rightarrow> Inl e
      | Inr aid \<Rightarrow> NewCapability aid (cw_Name w) (cw_Version w) (cw_AllowsPartial w)
                    (msToDuration (cw_DefaultTimeoutMs w)))"

lemma Capability_Unmarshal_Inr:
  "Capability_UnmarshalJSON w = Inr c \<longleftrightarrow>
     adapterIDRegex (cw_AdapterID w) \<and> capNameRegex (cw_Name w) \<and> capVerRegex (cw_Version w) \<and>
     0 < msToDuration (cw_DefaultTimeoutMs w) \<and>
     c = \<lparr>cap_adapterID = AdapterID (cw_AdapterID w), cap_name = cw_Name w, cap_version = cw_Version w,
          cap_allowsPartial = cw_AllowsPartial w,
          cap_defaultTimeout = msToDuration (cw_DefaultTimeoutMs w)\<rparr>"
  by (auto simp: Capability_UnmarshalJSON_def error_cases validate)

section \<open>Request\<close>

record request_wire =
  rw_CorrelationID :: string
  rw_AdapterID :: string
  rw_CapabilityName :: string
  rw_CapabilityVersion :: string
  rw_Payload :: string
  rw_TimeoutBudgetMs :: int
  rw_IdempotencyKey :: "string option"
  rw_ActorID :: string
  rw_TaskID :: string
  rw_WorkflowRunID :: string
  rw_RetryAttempt :: int
  rw_SubmittedAt :: wire_time

definition Request_MarshalJSON :: "ExecutionRequest \<Rightarrow> request_wire" where
  "Request_MarshalJSON r =
     \<lparr>rw_CorrelationID = CorrelationID_String (req_correlationID r),
      rw_AdapterID = AdapterID_String (req_adapterID r),
      rw_CapabilityName = req_capabilityName r, rw_CapabilityVersion = req_capabilityVersion r,
      rw_Payload = marshal_raw (pl_Raw (req_payload r)),
      rw_TimeoutBudgetMs = tb_Milliseconds (req_timeoutBudget r),
      rw_IdempotencyKey = map_option IdempotencyKey_String (req_idempotencyKey r),
      rw_ActorID = to_valid_utf8 (req_actorID r), rw_TaskID = to_valid_utf8 (req_taskID r),
      rw_WorkflowRunID = to_valid_utf8 (req_workflowRunID r),
      rw_RetryAttempt = req_retryAttempt r, rw_SubmittedAt = format_ms (req_submittedAt r)\<rparr>"

text \<open>\<open>frozenClock\<close> gives its fixed time, or the real one when that is zero.\<close>

definition frozenClock_Now :: "go_time \<Rightarrow> go_time \<Rightarrow> go_time" where
  "frozenClock_Now t now = (if t = 0 then now else t)"

definition optionalKey :: "string option \<Rightarrow> go_error + IdempotencyKey option" where
  "optionalKey k =
     (case k of None \<Rightarrow> Inr None
      | Some s \<Rightarrow> (case NewIdempotencyKey s of Inl e \<Rightarrow> Inl e | Inr ik \<Rightarrow> Inr (Some ik)))"

definition submittedStamp :: "wire_time \<Rightarrow> go_error + go_time" where
  "submittedStamp w =
     (if w = BadStamp [] then Inr 0
      else case time_Parse w of
        Inl e \<Rightarrow> Inl (wrapf (''invalid submitted_at '' @ (case w of BadStamp s \<Rightarrow> quoted s | Stamp _ \<Rightarrow> [])) e)
      | Inr t \<Rightarrow> Inr t)"

definition Request_UnmarshalJSON :: "go_time \<Rightarrow> request_wire \<Rightarrow> go_error + ExecutionRequest" where
  "Request_UnmarshalJSON now w =
     (case NewCorrelationID (rw_CorrelationID w) of Inl e \<Rightarrow> Inl e
      | Inr cid \<Rightarrow> (case NewAdapterID (rw_AdapterID w) of Inl e \<Rightarrow> Inl e
      | Inr aid \<Rightarrow> (case NewPayload ContentTypeJSON (rw_Payload w) 0 of Inl e \<Rightarrow> Inl e
      | Inr pl \<Rightarrow> (case NewTimeoutBudget (rw_TimeoutBudgetMs w) 0 of Inl e \<Rightarrow> Inl e
      | Inr tb \<Rightarrow> (case optionalKey (rw_IdempotencyKey w) of Inl e \<Rightarrow> Inl e
      | Inr ik \<Rightarrow> (case submittedStamp (rw_SubmittedAt w) of Inl e \<Rightarrow> Inl e
      | Inr t \<Rightarrow>
          NewExecutionRequest
            \<lparr>in_CorrelationID = cid, in_AdapterID = aid, in_CapabilityName = rw_CapabilityName w,
             in_CapabilityVersion = rw_CapabilityVersion w, in_Payload = pl, in_TimeoutBudget = tb,
             in_IdempotencyKey = ik, in_ActorID = rw_ActorID w, in_TaskID = rw_TaskID w,
             in_WorkflowRunID = rw_WorkflowRunID w, in_RetryAttempt = rw_RetryAttempt w\<rparr>
            (frozenClock_Now t now)))))))"

text \<open>A request whose parts come from their constructors, as the inbound boundary builds it.\<close>

definition request_wf :: "ExecutionRequest \<Rightarrow> bool" where
  "request_wf r \<longleftrightarrow> request_ok r \<and>
     ulidRegex (CorrelationID_String (req_correlationID r)) \<and>
     adapterIDRegex (AdapterID_String (req_adapterID r)) \<and>
     pl_contentType (req_payload r) = ContentTypeJSON \<and> json_valid (pl_data (req_payload r)) \<and>
     (case req_idempotencyKey r of None \<Rightarrow> True
      | Some k \<Rightarrow> ulidRegex (IdempotencyKey_String k) \<or> uuidRegex (IdempotencyKey_String k)) \<and>
     utf8_valid (req_actorID r) \<and> utf8_valid (req_taskID r) \<and> utf8_valid (req_workflowRunID r) \<and>
     int64_ok (tb_Duration (req_timeoutBudget r)) \<and> 1000000 \<le> req_submittedAt r"

section \<open>Handle\<close>

record handle_wire =
  hw_HandleID :: string
  hw_CorrelationID :: string
  hw_AdapterID :: string
  hw_CapabilityCan :: string
  hw_StartedAt :: wire_time

definition Handle_MarshalJSON :: "ExecutionHandle \<Rightarrow> handle_wire" where
  "Handle_MarshalJSON h =
     \<lparr>hw_HandleID = HandleID_String (h_handleID h),
      hw_CorrelationID = CorrelationID_String (h_correlationID h),
      hw_AdapterID = AdapterID_String (h_adapterID h),
      hw_CapabilityCan = Canonical (h_capability h), hw_StartedAt = format_ms (h_startedAt h)\<rparr>"

text \<open>The text before and after the first (last) occurrence of a byte, \<open>None\<close> without one.\<close>

definition cut_first :: "char \<Rightarrow> string \<Rightarrow> (string \<times> string) option" where
  "cut_first c s = (if c \<in> set s then Some (takeWhile (\<lambda>x. x \<noteq> c) s, tl (dropWhile (\<lambda>x. x \<noteq> c) s)) else None)"

definition cut_last :: "char \<Rightarrow> string \<Rightarrow> (string \<times> string) option" where
  "cut_last c s =
     (case cut_first c (rev s) of None \<Rightarrow> None | Some (b, a) \<Rightarrow> Some (rev a, rev b))"

definition Handle_UnmarshalJSON :: "handle_wire \<Rightarrow> go_error + ExecutionHandle" where
  "Handle_UnmarshalJSON w =
     (case NewHandleID (hw_HandleID w) of Inl e \<Rightarrow> Inl (wrapf ''handle_id'' e)
      | Inr hid \<Rightarrow> (case NewCorrelationID (hw_CorrelationID w) of Inl e \<Rightarrow> Inl (wrapf ''correlation_id'' e)
      | Inr cid \<Rightarrow> (case NewAdapterID (hw_AdapterID w) of Inl e \<Rightarrow> Inl (wrapf ''adapter_id'' e)
      | Inr aid \<Rightarrow> (case cut_last (CHR ''@'') (hw_CapabilityCan w) of
          None \<Rightarrow> Inl (errorf (''capability missing @version: '' @ quoted (hw_CapabilityCan w)))
      | Some (nameWithAdapter, version) \<Rightarrow> (case cut_first (CHR ''.'') nameWithAdapter of
          None \<Rightarrow> Inl (errorf (''capability missing adapter.name: '' @ quoted (hw_CapabilityCan w)))
      | Some (_, name) \<Rightarrow> (case NewCapability aid name version False Second of
          Inl e \<Rightarrow> Inl (wrapf ''capability'' e)
      | Inr cap \<Rightarrow> (case time_Parse (hw_StartedAt w) of Inl e \<Rightarrow> Inl (wrapf ''started_at'' e)
      | Inr t \<Rightarrow> Inr \<lparr>h_handleID = hid, h_correlationID = cid, h_adapterID = aid, h_capability = cap,
                     h_startedAt = t\<rparr>)))))))"

definition handle_wf :: "ExecutionHandle \<Rightarrow> bool" where
  "handle_wf h \<longleftrightarrow> ulidRegex (HandleID_String (h_handleID h)) \<and>
     ulidRegex (CorrelationID_String (h_correlationID h)) \<and> cap_ok (h_capability h) \<and>
     h_adapterID h = cap_adapterID (h_capability h)"

text \<open>
  What a rehydrated handle keeps of the original: the capability's flag and default timeout
  are not on the wire, and the start is cut to milliseconds.
\<close>

definition rehydrated_handle :: "ExecutionHandle \<Rightarrow> ExecutionHandle" where
  "rehydrated_handle h =
     h\<lparr>h_capability := (h_capability h)\<lparr>cap_allowsPartial := False, cap_defaultTimeout := Second\<rparr>,
       h_startedAt := trunc_ms (h_startedAt h)\<rparr>"

lemma cut_first_sep:
  "c \<notin> set a \<Longrightarrow> cut_first c (a @ c # b) = Some (a, b)"
  by (induction a) (auto simp: cut_first_def)

lemma cut_last_sep:
  "c \<notin> set b \<Longrightarrow> cut_last c (a @ c # b) = Some (a, b)"
  by (simp add: cut_last_def cut_first_sep)

lemma cut_Canonical:
  assumes "cap_ok c"
  shows "cut_last (CHR ''@'') (Canonical c) =
           Some (AdapterID_String (cap_adapterID c) @ ''.'' @ cap_name c, cap_version c)"
    and "cut_first (CHR ''.'') (AdapterID_String (cap_adapterID c) @ ''.'' @ cap_name c) =
           Some (AdapterID_String (cap_adapterID c), cap_name c)"
proof -
  let ?a = "AdapterID_String (cap_adapterID c)"
  have "CHR ''@'' \<notin> set (cap_version c)" and dot: "CHR ''.'' \<notin> set ?a"
    using assms capVer_chars adapterIDRegex_chars by (auto simp: cap_ok_def)
  then show "cut_last (CHR ''@'') (Canonical c) = Some (?a @ ''.'' @ cap_name c, cap_version c)"
    using cut_last_sep [of "CHR ''@''" "cap_version c" "?a @ ''.'' @ cap_name c"]
    by (simp add: Canonical_def canonical_of_def)
  show "cut_first (CHR ''.'') (?a @ ''.'' @ cap_name c) = Some (?a, cap_name c)"
    using cut_first_sep [OF dot, of "cap_name c"] by simp
qed

lemma Handle_roundtrip:
  assumes "handle_wf h"
  shows "Handle_UnmarshalJSON (Handle_MarshalJSON h) = Inr (rehydrated_handle h)"
proof -
  have ok: "cap_ok (h_capability h)" and ids: "ulidRegex (HandleID_String (h_handleID h))"
    "ulidRegex (CorrelationID_String (h_correlationID h))"
    and aid: "h_adapterID h = cap_adapterID (h_capability h)"
    using assms by (simp_all add: handle_wf_def)
  from ok have "adapterIDRegex (AdapterID_String (h_adapterID h))"
    "capNameRegex (cap_name (h_capability h))" "capVerRegex (cap_version (h_capability h))"
    by (simp_all add: cap_ok_def aid)
  with ids show ?thesis
    by (simp add: Handle_UnmarshalJSON_def Handle_MarshalJSON_def rehydrated_handle_def aid
        cut_Canonical [OF ok, unfolded append.simps] NewHandleID_def NewCorrelationID_def
        NewAdapterID_def NewCapability_def validateULID_def Second_def)
qed

section \<open>Result, provenance and timings\<close>

text \<open>
  The default encoding of \<open>ExecutionResult\<close>, \<open>Provenance\<close> and \<open>Timings\<close>: the fields
  themselves, with the enums checked by their own \<open>UnmarshalJSON\<close>. An error class that is
  empty is omitted, and an omitted field is left as it was.
\<close>

definition utf8_smap :: "smap \<Rightarrow> smap" where
  "utf8_smap m = map (\<lambda>(k, v). (to_valid_utf8 k, to_valid_utf8 v)) m"

definition Artifact_MarshalJSON :: "Artifact \<Rightarrow> Artifact" where
  "Artifact_MarshalJSON a =
     a\<lparr>art_URI := to_valid_utf8 (art_URI a), art_Checksum := to_valid_utf8 (art_Checksum a),
       art_Attributes := utf8_smap (art_Attributes a)\<rparr>"

definition Result_MarshalJSON :: "ExecutionResult \<Rightarrow> ExecutionResult" where
  "Result_MarshalJSON r =
     r\<lparr>res_ErrorMessage := to_valid_utf8 (res_ErrorMessage r),
       res_Artifacts := map Artifact_MarshalJSON (res_Artifacts r),
       res_AdapterMeta := utf8_smap (res_AdapterMeta r)\<rparr>"

fun check_artifacts :: "Artifact list \<Rightarrow> go_error option" where
  "check_artifacts [] = None"
| "check_artifacts (a # as) =
     (case ParseArtifactType (art_Type a) of Inl e \<Rightarrow> Some e | Inr _ \<Rightarrow> check_artifacts as)"

definition Result_UnmarshalJSON :: "ExecutionResult \<Rightarrow> go_error + ExecutionResult" where
  "Result_UnmarshalJSON w =
     (case ParseExecutionStatus (res_Status w) of Inl e \<Rightarrow> Inl e
      | Inr _ \<Rightarrow> (case ParseRetryHint (res_Retryable w) of Inl e \<Rightarrow> Inl e
      | Inr _ \<Rightarrow> (case (if res_ErrorClass w = [] then Inr [] else ParseErrorClass (res_ErrorClass w)) of
          Inl e \<Rightarrow> Inl e
      | Inr _ \<Rightarrow> (case check_artifacts (res_Artifacts w) of Some e \<Rightarrow> Inl e | None \<Rightarrow> Inr w))))"

definition Provenance_MarshalJSON :: "Provenance \<Rightarrow> Provenance" where
  "Provenance_MarshalJSON p =
     p\<lparr>prov_SourceVersion := to_valid_utf8 (prov_SourceVersion p), prov_Host := to_valid_utf8 (prov_Host p),
       prov_RuntimeVersion := to_valid_utf8 (prov_RuntimeVersion p),
       prov_InvocationID := to_valid_utf8 (prov_InvocationID p)\<rparr>"

definition Provenance_UnmarshalJSON :: "Provenance \<Rightarrow> go_error + Provenance" where
  "Provenance_UnmarshalJSON p =
     (case ParseProvenanceSource (prov_Source p) of Inl e \<Rightarrow> Inl e | Inr _ \<Rightarrow> Inr p)"

section \<open>Receipt\<close>

record receipt_wire =
  xw_ReceiptID :: string
  xw_SchemaVersion :: string
  xw_Request :: request_wire
  xw_Handle :: handle_wire
  xw_Result :: ExecutionResult
  xw_Provenance :: Provenance
  xw_Timings :: Timings
  xw_CreatedAt :: wire_time
  xw_PersistedAt :: "wire_time option"

definition Receipt_MarshalJSON :: "ExecutionReceipt \<Rightarrow> receipt_wire" where
  "Receipt_MarshalJSON r =
     \<lparr>xw_ReceiptID = ReceiptID_String (rc_receiptID r), xw_SchemaVersion = rc_schemaVersion r,
      xw_Request = Request_MarshalJSON (rc_request r), xw_Handle = Handle_MarshalJSON (rc_handle r),
      xw_Result = Result_MarshalJSON (rc_result r),
      xw_Provenance = Provenance_MarshalJSON (rc_provenance r), xw_Timings = rc_timings r,
      xw_CreatedAt = format_ms (rc_createdAt r),
      xw_PersistedAt = map_option format_ms (rc_persistedAt r)\<rparr>"

definition persistedStamp :: "wire_time option \<Rightarrow> go_error + go_time option" where
  "persistedStamp p =
     (case p of None \<Rightarrow> Inr None
      | Some w \<Rightarrow> (case time_Parse w of Inl e \<Rightarrow> Inl (wrapf ''persisted_at'' e) | Inr t \<Rightarrow> Inr (Some t)))"

definition Receipt_UnmarshalJSON :: "go_time \<Rightarrow> receipt_wire \<Rightarrow> go_error + ExecutionReceipt" where
  "Receipt_UnmarshalJSON now w =
     (case Request_UnmarshalJSON now (xw_Request w) of Inl e \<Rightarrow> Inl e
      | Inr req \<Rightarrow> (case Handle_UnmarshalJSON (xw_Handle w) of Inl e \<Rightarrow> Inl e
      | Inr h \<Rightarrow> (case Result_UnmarshalJSON (xw_Result w) of Inl e \<Rightarrow> Inl e
      | Inr res \<Rightarrow> (case Provenance_UnmarshalJSON (xw_Provenance w) of Inl e \<Rightarrow> Inl e
      | Inr prov \<Rightarrow> (case NewReceiptID (xw_ReceiptID w) of Inl e \<Rightarrow> Inl (wrapf ''receipt_id'' e)
      | Inr rid \<Rightarrow>
        if xw_SchemaVersion w \<noteq> SchemaVersionV1
        then Inl (errorf (''schema_version mismatch: '' @ quoted (xw_SchemaVersion w) @ '' (want '' @
                          quoted SchemaVersionV1 @ '')''))
        else (case time_Parse (xw_CreatedAt w) of Inl e \<Rightarrow> Inl (wrapf ''created_at'' e)
      | Inr created \<Rightarrow> (case persistedStamp (xw_PersistedAt w) of Inl e \<Rightarrow> Inl e
      | Inr persisted \<Rightarrow>
          Inr \<lparr>rc_receiptID = rid, rc_schemaVersion = xw_SchemaVersion w, rc_request = req,
               rc_handle = h, rc_result = res, rc_provenance = prov, rc_timings = xw_Timings w,
               rc_createdAt = created, rc_persistedAt = persisted\<rparr>)))))))"

section \<open>Round trips\<close>

definition rehydrated_request :: "ExecutionRequest \<Rightarrow> ExecutionRequest" where
  "rehydrated_request r =
     r\<lparr>req_payload := (req_payload r)\<lparr>pl_data := compact (SBeginValue, []) (pl_data (req_payload r))\<rparr>,
       req_timeoutBudget := TimeoutBudget (trunc_ms (tb_Duration (req_timeoutBudget r))),
       req_submittedAt := trunc_ms (req_submittedAt r)\<rparr>"

lemma json_valid_nonempty [simp]: "\<not> json_valid []"
  by (simp add: json_valid_def stateBeginValue_def isSpace_def)

lemma pos_Milliseconds:
  assumes "0 < Milliseconds d"
  shows "Milliseconds d = d div 1000000" and "0 < d"
proof -
  show "0 < d"
  proof (rule ccontr)
    assume "\<not> 0 < d"
    then have "Milliseconds d \<le> 0"
      by (cases "d = 0") (simp_all add: Milliseconds_def Millisecond_def go_quot_neg)
    with assms show False by simp
  qed
  then show "Milliseconds d = d div 1000000" by (simp add: Milliseconds_def Millisecond_def)
qed

lemma optionalKey_roundtrip:
  assumes "case k of None \<Rightarrow> True | Some k \<Rightarrow> ulidRegex (IdempotencyKey_String k) \<or> uuidRegex (IdempotencyKey_String k)"
  shows "optionalKey (map_option IdempotencyKey_String k) = Inr k"
  using assms by (cases k) (auto simp: optionalKey_def NewIdempotencyKey_def)

lemma Request_roundtrip:
  assumes "request_wf r"
  shows "Request_UnmarshalJSON now (Request_MarshalJSON r) = Inr (rehydrated_request r)"
proof -
  let ?d = "tb_Duration (req_timeoutBudget r)" and ?c = "compact (SBeginValue, []) (pl_data (req_payload r))"
  have ok: "request_ok r" and pl: "json_valid (pl_data (req_payload r))"
    and ct: "pl_contentType (req_payload r) = ContentTypeJSON" and d64: "int64_ok ?d"
    and sub: "1000000 \<le> req_submittedAt r"
    and ids: "ulidRegex (CorrelationID_String (req_correlationID r))"
      "adapterIDRegex (AdapterID_String (req_adapterID r))"
    and ik: "case req_idempotencyKey r of None \<Rightarrow> True
      | Some k \<Rightarrow> ulidRegex (IdempotencyKey_String k) \<or> uuidRegex (IdempotencyKey_String k)"
    and u: "utf8_valid (req_actorID r)" "utf8_valid (req_taskID r)" "utf8_valid (req_workflowRunID r)"
    using assms by (simp_all add: request_wf_def)
  have pos: "0 < Milliseconds ?d" using ok by (simp add: request_ok_def tb_Milliseconds_def)
  have ms: "tb_Milliseconds (req_timeoutBudget r) = ?d div 1000000"
    using pos_Milliseconds(1) [OF pos] by (simp add: tb_Milliseconds_def)
  have dpos: "0 < ?d div 1000000" using pos pos_Milliseconds(1) [OF pos] by simp
  have dmax: "?d div 1000000 \<le> max_ms" using d64 by (auto simp: int64_ok_def max_ms_def)
  have c: "json_valid ?c" "?c \<noteq> []" using json_valid_compact [OF pl] by auto
  have ne: "pl_data (req_payload r) \<noteq> []" using pl by auto
  have P: "NewPayload ContentTypeJSON (marshal_raw (pl_Raw (req_payload r))) 0 =
      Inr ((req_payload r)\<lparr>pl_data := ?c\<rparr>)"
    using c ne ct by (simp add: validate marshal_raw_def pl_Raw_def)
  have T: "NewTimeoutBudget (tb_Milliseconds (req_timeoutBudget r)) 0 = Inr (TimeoutBudget (trunc_ms ?d))"
    using dpos dmax by (simp add: validate ms trunc_ms_def)
  have S: "submittedStamp (format_ms (req_submittedAt r)) = Inr (trunc_ms (req_submittedAt r))"
    by (simp add: submittedStamp_def) (simp add: format_ms_def)
  have F: "frozenClock_Now (trunc_ms (req_submittedAt r)) now = trunc_ms (req_submittedAt r)"
    using sub trunc_ms_bounds [of "req_submittedAt r"] by (simp add: frozenClock_Now_def)
  have "request_ok (rehydrated_request r)"
    using ok c dpos by (simp add: request_ok_def rehydrated_request_def pl_SizeBytes_def
        tb_Milliseconds_def trunc_ms_def)
  then show ?thesis
    using ids u
    by (simp add: Request_UnmarshalJSON_def Request_MarshalJSON_def P T S F optionalKey_roundtrip [OF ik]
        NewCorrelationID_def NewAdapterID_def validateULID_def NewExecutionRequest_Inr)
      (simp add: request_of_def rehydrated_request_def)
qed

definition utf8_smap_ok :: "smap \<Rightarrow> bool" where
  "utf8_smap_ok m \<longleftrightarrow> list_all (\<lambda>(k, v). utf8_valid k \<and> utf8_valid v) m"

definition result_wire_ok :: "ExecutionResult \<Rightarrow> bool" where
  "result_wire_ok r \<longleftrightarrow> res_Status r \<in> set allStatuses \<and> res_Retryable r \<in> set allRetryHints \<and>
     (res_ErrorClass r = [] \<or> res_ErrorClass r \<in> set allErrorClasses) \<and>
     utf8_valid (res_ErrorMessage r) \<and> utf8_smap_ok (res_AdapterMeta r) \<and>
     list_all (\<lambda>a. art_Type a \<in> set allArtifactTypes \<and> utf8_valid (art_URI a) \<and>
       utf8_valid (art_Checksum a) \<and> utf8_smap_ok (art_Attributes a)) (res_Artifacts r)"

definition provenance_wire_ok :: "Provenance \<Rightarrow> bool" where
  "provenance_wire_ok p \<longleftrightarrow> prov_Source p \<in> set allProvenanceSources \<and> utf8_valid (prov_SourceVersion p) \<and>
     utf8_valid (prov_Host p) \<and> utf8_valid (prov_RuntimeVersion p) \<and> utf8_valid (prov_InvocationID p)"

definition receipt_wf :: "ExecutionReceipt \<Rightarrow> bool" where
  "receipt_wf r \<longleftrightarrow> ulidRegex (ReceiptID_String (rc_receiptID r)) \<and> rc_schemaVersion r = SchemaVersionV1 \<and>
     request_wf (rc_request r) \<and> handle_wf (rc_handle r) \<and> result_wire_ok (rc_result r) \<and>
     provenance_wire_ok (rc_provenance r)"

definition rehydrated_receipt :: "ExecutionReceipt \<Rightarrow> ExecutionReceipt" where
  "rehydrated_receipt r =
     r\<lparr>rc_request := rehydrated_request (rc_request r), rc_handle := rehydrated_handle (rc_handle r),
       rc_createdAt := trunc_ms (rc_createdAt r), rc_persistedAt := map_option trunc_ms (rc_persistedAt r)\<rparr>"

lemma utf8_smap_id [simp]: "utf8_smap_ok m \<Longrightarrow> utf8_smap m = m"
  by (induction m) (auto simp: utf8_smap_def utf8_smap_ok_def)

lemma Artifact_MarshalJSON_id:
  "utf8_valid (art_URI a) \<Longrightarrow> utf8_valid (art_Checksum a) \<Longrightarrow> utf8_smap_ok (art_Attributes a) \<Longrightarrow>
     Artifact_MarshalJSON a = a"
  by (simp add: Artifact_MarshalJSON_def)

lemma check_artifacts_None: "check_artifacts as = None \<longleftrightarrow> list_all (\<lambda>a. art_Type a \<in> set allArtifactTypes) as"
  by (induction as) (auto simp: ParseArtifactType_def)

lemma Result_roundtrip: "result_wire_ok r \<Longrightarrow> Result_UnmarshalJSON (Result_MarshalJSON r) = Inr r"
proof -
  assume ok: "result_wire_ok r"
  have "map Artifact_MarshalJSON (res_Artifacts r) = res_Artifacts r"
    using ok by (auto simp: result_wire_ok_def list_all_iff intro!: map_idI Artifact_MarshalJSON_id)
  then have "Result_MarshalJSON r = r"
    using ok by (simp add: Result_MarshalJSON_def result_wire_ok_def)
  moreover have "check_artifacts (res_Artifacts r) = None"
    using ok by (auto simp: check_artifacts_None result_wire_ok_def list_all_iff)
  ultimately show ?thesis
    using ok by (auto simp: Result_UnmarshalJSON_def result_wire_ok_def ParseExecutionStatus_def
        ParseRetryHint_def ParseErrorClass_def)
qed

lemma Provenance_roundtrip:
  "provenance_wire_ok p \<Longrightarrow> Provenance_UnmarshalJSON (Provenance_MarshalJSON p) = Inr p"
  by (simp add: Provenance_UnmarshalJSON_def Provenance_MarshalJSON_def provenance_wire_ok_def
      ParseProvenanceSource_def)

lemma persistedStamp_roundtrip:
  "persistedStamp (map_option format_ms p) = Inr (map_option trunc_ms p)"
  by (cases p) (simp_all add: persistedStamp_def)

lemma Receipt_rehydrate:
  assumes "receipt_wf r"
  shows "Receipt_UnmarshalJSON now (Receipt_MarshalJSON r) = Inr (rehydrated_receipt r)"
  using assms
  by (simp add: Receipt_UnmarshalJSON_def Receipt_MarshalJSON_def receipt_wf_def Request_roundtrip
      Handle_roundtrip Result_roundtrip Provenance_roundtrip persistedStamp_roundtrip NewReceiptID_def
      validateULID_def rehydrated_receipt_def)

end
