(* ===== verification/Stores.thy ===== *)
theory Stores
  imports Wire
begin

text \<open>
  The outbound stores: the ports for receipts and idempotency keys
  (\<open>internal/ports/outbound\<close>), their in-memory doubles
  (\<open>internal/ports/outbound/testdoubles\<close>) and the PostgreSQL implementations
  (\<open>internal/adapters/outbound/pg\<close>) over an explicit database with a fault for every
  statement. The ports' contracts are locales; every implementation interprets them.
\<close>

section \<open>The ports\<close>

text \<open>
  An implementation is a state transformer on the stored data \<open>'s\<close>. Every operation is given
  what \<open>ctx.Err()\<close> returns when it looks and what its clock reads, and it may panic.
\<close>

type_synonym 's save_fn =
  "go_error option \<Rightarrow> go_time \<Rightarrow> ExecutionReceipt \<Rightarrow> 's \<Rightarrow> (go_error + ExecutionReceipt) outcome \<times> 's"
type_synonym 's find_fn =
  "go_error option \<Rightarrow> go_time \<Rightarrow> ReceiptID \<Rightarrow> 's \<Rightarrow> (go_error + ExecutionReceipt) outcome \<times> 's"
type_synonym 's lookup_fn =
  "go_error option \<Rightarrow> go_time \<Rightarrow> IdempotencyKey \<Rightarrow> 's \<Rightarrow> (go_error + ReceiptID option) outcome \<times> 's"
type_synonym 's record_fn =
  "go_error option \<Rightarrow> go_time \<Rightarrow> IdempotencyKey \<Rightarrow> ReceiptID \<Rightarrow> duration \<Rightarrow> 's \<Rightarrow> go_error option outcome \<times> 's"

record 's ReceiptRepository =
  rr_Save :: "'s save_fn"
  rr_FindByID :: "'s find_fn"

record 's IdempotencyStore =
  is_Lookup :: "'s lookup_fn"
  is_Record :: "'s record_fn"

definition already_exists :: "string \<Rightarrow> go_error" where
  "already_exists key = sentinel_error ErrReceiptAlreadyExists (''receipt already exists: '' @ key)"

definition not_found :: "string \<Rightarrow> go_error" where
  "not_found key = sentinel_error ErrReceiptNotFound (''receipt not found: '' @ key)"

definition key_conflict :: "string \<Rightarrow> string \<Rightarrow> string \<Rightarrow> go_error" where
  "key_conflict key existing new = sentinel_error ErrIdempotencyKeyConflict
     (''idempotency key conflict: key='' @ key @ '' existing='' @ existing @ '' new='' @ new)"

section \<open>The in-memory doubles\<close>

record idempotencyEntry =
  ie_receiptID :: ReceiptID
  ie_expiresAt :: go_time

record memory =
  mm_receipts :: "(string \<times> ExecutionReceipt) list"
  mm_keys :: "(string \<times> idempotencyEntry) list"

definition empty_memory :: memory where
  "empty_memory = \<lparr>mm_receipts = [], mm_keys = []\<rparr>"

definition mem_Save :: "memory save_fn" where
  "mem_Save ctxErr now receipt s =
     (case ctxErr of Some e \<Rightarrow> (Ret (Inl e), s)
      | None \<Rightarrow>
        (let key = ReceiptID_String (rc_receiptID receipt) in
         if map_of (mm_receipts s) key \<noteq> None then (Ret (Inl (already_exists key)), s)
         else let persisted = WithPersistedAt now receipt
              in (Ret (Inr persisted), s\<lparr>mm_receipts := (key, persisted) # mm_receipts s\<rparr>)))"

definition mem_FindByID :: "memory find_fn" where
  "mem_FindByID ctxErr now rid s =
     (case ctxErr of Some e \<Rightarrow> (Ret (Inl e), s)
      | None \<Rightarrow> (case map_of (mm_receipts s) (ReceiptID_String rid) of
          None \<Rightarrow> (Ret (Inl (not_found (ReceiptID_String rid))), s)
        | Some r \<Rightarrow> (Ret (Inr r), s)))"

definition mem_Count :: "memory \<Rightarrow> nat" where
  "mem_Count s = length (mm_receipts s)"

definition mem_Lookup :: "memory lookup_fn" where
  "mem_Lookup ctxErr now key s =
     (case ctxErr of Some e \<Rightarrow> (Ret (Inl e), s)
      | None \<Rightarrow> (case map_of (mm_keys s) (IdempotencyKey_String key) of
          None \<Rightarrow> (Ret (Inr None), s)
        | Some entry \<Rightarrow>
            if \<not> now < ie_expiresAt entry then (Ret (Inr None), s)
            else (Ret (Inr (Some (ie_receiptID entry))), s)))"

definition mem_Record :: "memory record_fn" where
  "mem_Record ctxErr now key rid window s =
     (case ctxErr of Some e \<Rightarrow> (Ret (Some e), s)
      | None \<Rightarrow>
        if window \<le> 0 then (Ret (Some (errorf (''window must be > 0, got '' @ duration_str window))), s)
        else (case map_of (mm_keys s) (IdempotencyKey_String key) of
          Some existing \<Rightarrow>
            if ie_receiptID existing \<noteq> rid
            then (Ret (Some (key_conflict (IdempotencyKey_String key)
                    (ReceiptID_String (ie_receiptID existing)) (ReceiptID_String rid))), s)
            else (Ret None, s)
        | None \<Rightarrow>
            (Ret None, s\<lparr>mm_keys := (IdempotencyKey_String key,
               \<lparr>ie_receiptID = rid, ie_expiresAt = now + window\<rparr>) # mm_keys s\<rparr>)))"

definition mem_repository :: "memory ReceiptRepository" where
  "mem_repository = \<lparr>rr_Save = mem_Save, rr_FindByID = mem_FindByID\<rparr>"

definition mem_idempotency :: "memory IdempotencyStore" where
  "mem_idempotency = \<lparr>is_Lookup = mem_Lookup, is_Record = mem_Record\<rparr>"

section \<open>The database\<close>

text \<open>
  The two tables of the migrations. \<open>pg_calls\<close> counts the statements sent, so that the fault
  schedule of the environment can tell them apart.
\<close>

record receipt_row =
  row_schema_version :: string
  row_correlation_id :: string
  row_adapter_id :: string
  row_capability :: string
  row_status :: string
  row_error_class :: string
  row_retry_hint :: string
  row_submitted_at :: go_time
  row_started_at :: go_time
  row_completed_at :: go_time
  row_persisted_at :: go_time
  row_duration_ms :: int
  row_payload :: string
  row_result :: ExecutionResult
  row_provenance :: Provenance
  row_full_receipt :: receipt_wire

record pg_db =
  db_receipts :: "(string \<times> receipt_row) list"
  db_keys :: "(string \<times> string \<times> go_time) list"
  pg_calls :: nat

text \<open>A database error: the Go error and, for a server error, its SQLSTATE code.\<close>

record pg_error =
  pe_err :: go_error
  pe_code :: "string option"

text \<open>
  The server and the driver. \<open>pg_fault n c\<close> is the error the n-th statement meets, if any,
  with whether the statement took effect before it; a statement on a finished context is one
  of them. \<open>pg_jsonb\<close> is the conversion of a document to \<open>jsonb\<close> and back, which may refuse
  it; \<open>pg_timestamp\<close> the instant a \<open>timestamptz\<close> column keeps.
\<close>

record pg_env =
  pg_fault :: "nat \<Rightarrow> go_error option \<Rightarrow> (pg_error \<times> bool) option"
  pg_jsonb :: "receipt_wire \<Rightarrow> pg_error + receipt_wire"
  pg_timestamp :: "go_time \<Rightarrow> go_time"
  pg_unique :: "string \<Rightarrow> go_error"
  pg_foreign :: "string \<Rightarrow> go_error"

definition pgUniqueViolation :: string where "pgUniqueViolation = ''23505''"

definition isUniqueViolation :: "pg_error \<Rightarrow> bool" where
  "isUniqueViolation e = (case pe_code e of Some c \<Rightarrow> c = pgUniqueViolation | None \<Rightarrow> False)"

text \<open>The statements, atomic; an insertion that meets a fault may still have taken effect.\<close>

definition insert_receipt :: "string \<Rightarrow> receipt_row \<Rightarrow> pg_db \<Rightarrow> pg_db" where
  "insert_receipt k row db = db\<lparr>db_receipts := (k, row) # db_receipts db\<rparr>"

definition insert_key :: "string \<Rightarrow> string \<Rightarrow> go_time \<Rightarrow> pg_db \<Rightarrow> pg_db" where
  "insert_key k rid t db = db\<lparr>db_keys := (k, rid, t) # db_keys db\<rparr>"

definition next_stmt :: "pg_db \<Rightarrow> pg_db" where
  "next_stmt db = db\<lparr>pg_calls := Suc (pg_calls db)\<rparr>"

definition exec_insert_receipt ::
  "pg_env \<Rightarrow> go_error option \<Rightarrow> string \<Rightarrow> receipt_row \<Rightarrow> pg_db \<Rightarrow> pg_error option \<times> pg_db" where
  "exec_insert_receipt env c k row db =
     (let db1 = next_stmt db in
      case pg_jsonb env (row_full_receipt row) of Inl e \<Rightarrow> (Some e, db1)
      | Inr doc \<Rightarrow>
        (let done = insert_receipt k (row\<lparr>row_full_receipt := doc\<rparr>) db1;
             dup = map_of (db_receipts db) k \<noteq> None in
         case pg_fault env (pg_calls db) c of
           Some (e, effective) \<Rightarrow> (Some e, if effective \<and> \<not> dup then done else db1)
         | None \<Rightarrow>
             if dup then (Some \<lparr>pe_err = pg_unique env k, pe_code = Some pgUniqueViolation\<rparr>, db1)
             else (None, done)))"

text \<open>\<open>ON CONFLICT DO NOTHING\<close>: the number of rows affected. The key refers to a receipt.\<close>

definition exec_insert_key ::
  "pg_env \<Rightarrow> go_error option \<Rightarrow> string \<Rightarrow> string \<Rightarrow> go_time \<Rightarrow> pg_db \<Rightarrow> (pg_error + nat) \<times> pg_db" where
  "exec_insert_key env c k rid t db =
     (let db1 = next_stmt db; done = insert_key k rid (pg_timestamp env t) db1;
          dup = map_of (db_keys db) k \<noteq> None; foreign = map_of (db_receipts db) rid \<noteq> None in
      case pg_fault env (pg_calls db) c of
        Some (e, effective) \<Rightarrow> (Inl e, if effective \<and> \<not> dup \<and> foreign then done else db1)
      | None \<Rightarrow>
          if dup then (Inr 0, db1)
          else if \<not> foreign then (Inl \<lparr>pe_err = pg_foreign env k, pe_code = Some ''23503''\<rparr>, db1)
          else (Inr 1, done))"

text \<open>\<open>QueryRow(...).Scan\<close>: the row, \<open>ErrNoRows\<close> as no row, or an error.\<close>

definition query_row ::
  "pg_env \<Rightarrow> go_error option \<Rightarrow> (pg_db \<Rightarrow> 'a option) \<Rightarrow> pg_db \<Rightarrow> (pg_error + 'a option) \<times> pg_db" where
  "query_row env c sel db =
     (case pg_fault env (pg_calls db) c of Some (e, _) \<Rightarrow> (Inl e, next_stmt db)
      | None \<Rightarrow> (Inr (sel db), next_stmt db))"

section \<open>The PostgreSQL implementations\<close>

definition receipt_columns :: "go_time \<Rightarrow> ExecutionReceipt \<Rightarrow> receipt_row" where
  "receipt_columns now receipt =
     \<lparr>row_schema_version = rc_schemaVersion receipt,
      row_correlation_id = CorrelationID_String (req_correlationID (rc_request receipt)),
      row_adapter_id = AdapterID_String (h_adapterID (rc_handle receipt)),
      row_capability = Canonical (h_capability (rc_handle receipt)),
      row_status = res_Status (rc_result receipt), row_error_class = res_ErrorClass (rc_result receipt),
      row_retry_hint = res_Retryable (rc_result receipt),
      row_submitted_at = tm_SubmittedAt (rc_timings receipt),
      row_started_at = tm_StartedAt (rc_timings receipt),
      row_completed_at = tm_CompletedAt (rc_timings receipt), row_persisted_at = now,
      row_duration_ms = res_DurationMs (rc_result receipt),
      row_payload = marshal_raw (pl_Raw (req_payload (rc_request receipt))),
      row_result = Result_MarshalJSON (rc_result receipt),
      row_provenance = Provenance_MarshalJSON (rc_provenance receipt),
      row_full_receipt = Receipt_MarshalJSON (WithPersistedAt now receipt)\<rparr>"

definition pg_Save :: "pg_env \<Rightarrow> pg_db save_fn" where
  "pg_Save env c now receipt db =
     (let persisted = WithPersistedAt now receipt; key = ReceiptID_String (rc_receiptID receipt) in
      case exec_insert_receipt env c key (receipt_columns now receipt) db of
        (Some e, db') \<Rightarrow>
          (Ret (Inl (if isUniqueViolation e then already_exists key else wrapf ''insert receipt'' (pe_err e))), db')
      | (None, db') \<Rightarrow> (Ret (Inr persisted), db'))"

definition pg_FindByID :: "pg_env \<Rightarrow> pg_db find_fn" where
  "pg_FindByID env c now rid db =
     (case query_row env c (\<lambda>d. map_of (db_receipts d) (ReceiptID_String rid)) db of
        (Inl e, db') \<Rightarrow> (Ret (Inl (wrapf ''query receipt'' (pe_err e))), db')
      | (Inr None, db') \<Rightarrow> (Ret (Inl (not_found (ReceiptID_String rid))), db')
      | (Inr (Some row), db') \<Rightarrow>
          (case Receipt_UnmarshalJSON now (row_full_receipt row) of
             Inl e \<Rightarrow> (Ret (Inl (wrapf ''unmarshal receipt'' e)), db')
           | Inr r \<Rightarrow> (Ret (Inr r), db')))"

definition pg_Lookup :: "pg_env \<Rightarrow> pg_db lookup_fn" where
  "pg_Lookup env c now key db =
     (case query_row env c (\<lambda>d. case map_of (db_keys d) (IdempotencyKey_String key) of
             Some (rid, t) \<Rightarrow> if t > now then Some rid else None | None \<Rightarrow> None) db of
        (Inl e, db') \<Rightarrow> (Ret (Inl (wrapf ''idempotency lookup'' (pe_err e))), db')
      | (Inr None, db') \<Rightarrow> (Ret (Inr None), db')
      | (Inr (Some s), db') \<Rightarrow>
          (case NewReceiptID s of
             Inl e \<Rightarrow> (Ret (Inl (wrapf (''idempotency lookup: invalid receipt_id '' @ quoted s) e)), db')
           | Inr rid \<Rightarrow> (Ret (Inr (Some rid)), db')))"

definition pg_Record :: "pg_env \<Rightarrow> pg_db record_fn" where
  "pg_Record env c now key rid window db =
     (if window \<le> 0
      then (Ret (Some (errorf (''idempotency window must be > 0, got '' @ duration_str window))), db)
      else let k = IdempotencyKey_String key; r = ReceiptID_String rid in
      case exec_insert_key env c k r (now + window) db of
        (Inl e, db1) \<Rightarrow> (Ret (Some (wrapf ''idempotency record'' (pe_err e))), db1)
      | (Inr n, db1) \<Rightarrow>
          if n = 1 then (Ret None, db1)
          else (case query_row env c (\<lambda>d. map_option fst (map_of (db_keys d) k)) db1 of
             (Inl e, db2) \<Rightarrow> (Ret (Some (wrapf ''idempotency record follow-up'' (pe_err e))), db2)
           | (Inr None, db2) \<Rightarrow> (Ret None, db2)
           | (Inr (Some existing), db2) \<Rightarrow>
               if existing = r then (Ret None, db2) else (Ret (Some (key_conflict k existing r)), db2)))"

definition NewReceiptRepositoryPG :: "pg_env option \<Rightarrow> go_error + pg_db ReceiptRepository" where
  "NewReceiptRepositoryPG pool =
     (case pool of None \<Rightarrow> Inl (errorf ''pg.ReceiptRepositoryPG: pool is required'')
      | Some env \<Rightarrow> Inr \<lparr>rr_Save = pg_Save env, rr_FindByID = pg_FindByID env\<rparr>)"

definition NewIdempotencyStorePG :: "pg_env option \<Rightarrow> go_error + pg_db IdempotencyStore" where
  "NewIdempotencyStorePG pool =
     (case pool of None \<Rightarrow> Inl (errorf ''pg.IdempotencyStorePG: pool is required'')
      | Some env \<Rightarrow> Inr \<lparr>is_Lookup = pg_Lookup env, is_Record = pg_Record env\<rparr>)"

section \<open>The receipt port's contract\<close>

text \<open>
  A repository holds rows by identifier: \<open>enc\<close> is what a receipt is stored as (nothing when the
  store refuses the document), \<open>dec\<close> how a row is read back. A save that reports success added
  exactly the stamped receipt under a fresh identifier; one that reports an error added that
  row or nothing. Neither operation panics, and reading changes nothing.
\<close>

abbreviation receipt_key :: "ExecutionReceipt \<Rightarrow> string" where
  "receipt_key r \<equiv> ReceiptID_String (rc_receiptID r)"

locale receipt_repository =
  fixes Save :: "'s save_fn" and FindByID :: "'s find_fn"
    and rows :: "'s \<Rightarrow> string \<Rightarrow> 'v option"
    and enc :: "ExecutionReceipt \<Rightarrow> 'v option"
    and dec :: "go_time \<Rightarrow> 'v \<Rightarrow> go_error + ExecutionReceipt"
  assumes save_success:
      "Save c now r s = (Ret (Inr r'), s') \<Longrightarrow>
       r' = WithPersistedAt now r \<and> rows s (receipt_key r) = None \<and>
       (\<exists>v. enc r' = Some v \<and> rows s' = (rows s)(receipt_key r \<mapsto> v))"
    and save_failure:
      "Save c now r s = (Ret (Inl e), s') \<Longrightarrow>
       rows s' = rows s \<or>
       rows s (receipt_key r) = None \<and>
       (\<exists>v. enc (WithPersistedAt now r) = Some v \<and> rows s' = (rows s)(receipt_key r \<mapsto> v))"
    and save_returns: "\<exists>x. fst (Save c now r s) = Ret x"
    and find_success:
      "FindByID c now i s = (Ret (Inr r), s') \<Longrightarrow>
       \<exists>v. rows s (ReceiptID_String i) = Some v \<and> dec now v = Inr r"
    and find_frame: "rows (snd (FindByID c now i s)) = rows s"
    and find_returns: "\<exists>x. fst (FindByID c now i s) = Ret x"

text \<open>A run of the port: any sequence of its operations, by any callers.\<close>

datatype repo_op =
    RSave "go_error option" go_time ExecutionReceipt
  | RFind "go_error option" go_time ReceiptID

fun repo_run :: "'s save_fn \<Rightarrow> 's find_fn \<Rightarrow> repo_op list \<Rightarrow> 's \<Rightarrow> 's" where
  "repo_run sv fd [] s = s"
| "repo_run sv fd (RSave c now r # ops) s = repo_run sv fd ops (snd (sv c now r s))"
| "repo_run sv fd (RFind c now i # ops) s = repo_run sv fd ops (snd (fd c now i s))"

context receipt_repository
begin

lemma save_keeps: "rows s k = Some v \<Longrightarrow> rows (snd (Save c now r s)) k = Some v"
proof -
  assume k: "rows s k = Some v"
  obtain x s' where run: "Save c now r s = (Ret x, s')"
    using save_returns [of c now r s] by (metis prod.collapse)
  show ?thesis
  proof (cases x)
    case (Inl e)
    then show ?thesis using save_failure [of c now r s e s'] run k by auto
  next
    case (Inr r')
    then show ?thesis using save_success [of c now r s r' s'] run k by auto
  qed
qed

lemma run_keeps: "rows s k = Some v \<Longrightarrow> rows (repo_run Save FindByID ops s) k = Some v"
proof (induction ops arbitrary: s)
  case (Cons op ops)
  then show ?case by (cases op) (simp_all add: save_keeps find_frame)
qed simp

lemma saved_row:
  assumes "Save c now r s = (Ret (Inr r'), s')"
  shows "\<exists>v. enc r' = Some v \<and> rows (repo_run Save FindByID ops s') (receipt_key r) = Some v"
  using save_success [OF assms] run_keeps by (metis fun_upd_same)

lemma saved_then_found:
  assumes "Save c now r s = (Ret (Inr r'), s')"
    and "FindByID c2 t (rc_receiptID r) (repo_run Save FindByID ops s') = (Ret (Inr q), s2)"
  shows "\<exists>v. enc r' = Some v \<and> dec t v = Inr q"
  using saved_row [OF assms(1)] find_success [OF assms(2)] by (metis option.inject)

lemma no_second_save:
  assumes "rows s (receipt_key r) = Some v"
  shows "\<exists>e. fst (Save c now r s) = Ret (Inl e)"
proof -
  obtain x s' where run: "Save c now r s = (Ret x, s')"
    using save_returns [of c now r s] by (metis prod.collapse)
  then show ?thesis using save_success [of c now r s _ s'] assms by (cases x) auto
qed

end

interpretation mem_repo: receipt_repository mem_Save mem_FindByID "\<lambda>s. map_of (mm_receipts s)" Some "\<lambda>_. Inr"
  by unfold_locales
    (auto simp: mem_Save_def mem_FindByID_def Let_def split: option.splits if_splits)

text \<open>A row as the database keeps it: the document, as \<open>jsonb\<close> gives it back.\<close>

definition pg_rows :: "pg_db \<Rightarrow> string \<Rightarrow> receipt_wire option" where
  "pg_rows db k = map_option row_full_receipt (map_of (db_receipts db) k)"

definition pg_enc :: "pg_env \<Rightarrow> ExecutionReceipt \<Rightarrow> receipt_wire option" where
  "pg_enc env r = (case pg_jsonb env (Receipt_MarshalJSON r) of Inl _ \<Rightarrow> None | Inr doc \<Rightarrow> Some doc)"

lemma pg_rows_simps [simp]:
  "pg_rows (next_stmt db) = pg_rows db"
  "pg_rows (insert_key k rid t db) = pg_rows db"
  "pg_rows (insert_receipt k row db) = (pg_rows db)(k \<mapsto> row_full_receipt row)"
  by (auto simp: pg_rows_def next_stmt_def insert_key_def insert_receipt_def)

lemma pg_rows_None: "pg_rows db k = None \<longleftrightarrow> map_of (db_receipts db) k = None"
  by (simp add: pg_rows_def)

interpretation pg_repo: receipt_repository "pg_Save env" "pg_FindByID env" pg_rows "pg_enc env" Receipt_UnmarshalJSON
  for env
proof
  fix c now r s r' s'
  assume "pg_Save env c now r s = (Ret (Inr r'), s')"
  then show "r' = WithPersistedAt now r \<and> pg_rows s (receipt_key r) = None \<and>
      (\<exists>v. pg_enc env r' = Some v \<and> pg_rows s' = (pg_rows s)(receipt_key r \<mapsto> v))"
    by (auto simp: pg_Save_def exec_insert_receipt_def Let_def receipt_columns_def pg_rows_None pg_enc_def
        split: sum.splits option.splits if_splits)
next
  fix c now r s e s'
  assume "pg_Save env c now r s = (Ret (Inl e), s')"
  then show "pg_rows s' = pg_rows s \<or> pg_rows s (receipt_key r) = None \<and>
      (\<exists>v. pg_enc env (WithPersistedAt now r) = Some v \<and> pg_rows s' = (pg_rows s)(receipt_key r \<mapsto> v))"
    by (auto simp: pg_Save_def exec_insert_receipt_def Let_def receipt_columns_def pg_rows_None pg_enc_def
        split: sum.splits option.splits if_splits)
next
  show "\<exists>x. fst (pg_Save env c now r s) = Ret x" for c now r s
    by (auto simp: pg_Save_def Let_def split: prod.splits option.splits)
next
  fix c now i s r s'
  assume "pg_FindByID env c now i s = (Ret (Inr r), s')"
  then show "\<exists>v. pg_rows s (ReceiptID_String i) = Some v \<and> Receipt_UnmarshalJSON now v = Inr r"
    by (auto simp: pg_FindByID_def query_row_def pg_rows_def split: sum.splits option.splits)
next
  show "pg_rows (snd (pg_FindByID env c now i s)) = pg_rows s" for c now i s
    by (auto simp: pg_FindByID_def query_row_def split: sum.splits option.splits)
  show "\<exists>x. fst (pg_FindByID env c now i s) = Ret x" for c now i s
    by (auto simp: pg_FindByID_def query_row_def split: sum.splits option.splits)
qed

section \<open>The idempotency port's contract\<close>

text \<open>
  A store holds, per key, the receipt identifier and the expiry. A lookup that finds gives an
  entry that has not expired; one that reports a miss saw none. A record reports success only
  when the key was free and now is bound, or was bound to the same receipt already; whatever
  it reports, an existing binding stays as it is and no other key is touched.
\<close>

locale idempotency_store =
  fixes Lookup :: "'s lookup_fn" and Record :: "'s record_fn"
    and entries :: "'s \<Rightarrow> string \<Rightarrow> (string \<times> go_time) option"
    and stamp :: "go_time \<Rightarrow> go_time"
  assumes lookup_hit:
      "Lookup c now k s = (Ret (Inr (Some rid)), s') \<Longrightarrow>
       \<exists>t. entries s (IdempotencyKey_String k) = Some (ReceiptID_String rid, t) \<and> now < t"
    and lookup_miss:
      "Lookup c now k s = (Ret (Inr None), s') \<Longrightarrow> entries s (IdempotencyKey_String k) = Some (r, t) \<Longrightarrow> t \<le> now"
    and lookup_frame: "entries (snd (Lookup c now k s)) = entries s"
    and record_success:
      "Record c now k rid window s = (Ret None, s') \<Longrightarrow>
       0 < window \<and>
       (entries s (IdempotencyKey_String k) = None \<and>
          entries s' = (entries s)(IdempotencyKey_String k \<mapsto> (ReceiptID_String rid, stamp (now + window))) \<or>
        (\<exists>t. entries s (IdempotencyKey_String k) = Some (ReceiptID_String rid, t)) \<and> entries s' = entries s)"
    and record_failure:
      "Record c now k rid window s = (Ret (Some e), s') \<Longrightarrow>
       entries s' = entries s \<or>
       entries s (IdempotencyKey_String k) = None \<and>
         entries s' = (entries s)(IdempotencyKey_String k \<mapsto> (ReceiptID_String rid, stamp (now + window)))"
    and record_returns: "\<exists>x. fst (Record c now k rid window s) = Ret x"

datatype idem_op =
    ILookup "go_error option" go_time IdempotencyKey
  | IRecord "go_error option" go_time IdempotencyKey ReceiptID duration

fun idem_run :: "'s lookup_fn \<Rightarrow> 's record_fn \<Rightarrow> idem_op list \<Rightarrow> 's \<Rightarrow> 's" where
  "idem_run lk rc [] s = s"
| "idem_run lk rc (ILookup c now k # ops) s = idem_run lk rc ops (snd (lk c now k s))"
| "idem_run lk rc (IRecord c now k rid window # ops) s = idem_run lk rc ops (snd (rc c now k rid window s))"

context idempotency_store
begin

lemma record_keeps: "entries s k' = Some e \<Longrightarrow> entries (snd (Record c now k rid window s)) k' = Some e"
proof -
  assume k: "entries s k' = Some e"
  obtain x s' where run: "Record c now k rid window s = (Ret x, s')"
    using record_returns [of c now k rid window s] by (metis prod.collapse)
  then show ?thesis
    using record_failure [of c now k rid window s _ s'] record_success [of c now k rid window s s'] k
    by (cases x) auto
qed

lemma idem_run_keeps: "entries s k = Some e \<Longrightarrow> entries (idem_run Lookup Record ops s) k = Some e"
proof (induction ops arbitrary: s)
  case (Cons op ops)
  then show ?case by (cases op) (simp_all add: record_keeps lookup_frame)
qed simp

text \<open>First writer wins: after a recorded key, a hit can only be the recorded receipt.\<close>

lemma first_writer:
  assumes rec: "Record c now k rid window s = (Ret None, s')"
    and hit: "Lookup c2 t k (idem_run Lookup Record ops s') = (Ret (Inr (Some rid')), s2)"
  shows "rid' = rid"
proof -
  obtain u where "entries s' (IdempotencyKey_String k) = Some (ReceiptID_String rid, u)"
    using record_success [OF rec] by auto
  then have "entries (idem_run Lookup Record ops s') (IdempotencyKey_String k) = Some (ReceiptID_String rid, u)"
    by (rule idem_run_keeps)
  with lookup_hit [OF hit] show ?thesis by (auto intro: ReceiptID.expand)
qed

text \<open>A binding that is there blocks every other receipt for the key, for ever.\<close>

lemma second_writer_refused:
  assumes "entries s (IdempotencyKey_String k) = Some (r, t)" and "r \<noteq> ReceiptID_String rid"
  shows "\<exists>e. fst (Record c now k rid window s) = Ret (Some e)"
proof -
  obtain x s' where run: "Record c now k rid window s = (Ret x, s')"
    using record_returns [of c now k rid window s] by (metis prod.collapse)
  then show ?thesis using record_success [of c now k rid window s s'] assms by (cases x) auto
qed

end

definition mem_entries :: "memory \<Rightarrow> string \<Rightarrow> (string \<times> go_time) option" where
  "mem_entries s k = map_option (\<lambda>e. (ReceiptID_String (ie_receiptID e), ie_expiresAt e)) (map_of (mm_keys s) k)"

interpretation mem_idem: idempotency_store mem_Lookup mem_Record mem_entries "\<lambda>t. t"
  by unfold_locales
    (auto simp: mem_Lookup_def mem_Record_def mem_entries_def fun_eq_iff split: option.splits if_splits)

definition pg_entries :: "pg_db \<Rightarrow> string \<Rightarrow> (string \<times> go_time) option" where
  "pg_entries db k = map_of (db_keys db) k"

lemma pg_entries_simps [simp]:
  "pg_entries (next_stmt db) = pg_entries db"
  "pg_entries (insert_receipt k row db) = pg_entries db"
  "pg_entries (insert_key k rid t db) = (pg_entries db)(k \<mapsto> (rid, t))"
  by (auto simp: pg_entries_def next_stmt_def insert_key_def insert_receipt_def)

lemma query_row_entries [simp]: "query_row env c f db = (x, db') \<Longrightarrow> pg_entries db' = pg_entries db"
  by (auto simp: query_row_def split: option.splits)

lemma exec_insert_key_cases:
  assumes "exec_insert_key env c k rid t db = (x, db')"
  shows "(x = Inr 1 \<and> pg_entries db k = None \<and> pg_entries db' = (pg_entries db)(k \<mapsto> (rid, pg_timestamp env t))) \<or>
    (x = Inr 0 \<and> pg_entries db k \<noteq> None \<and> pg_entries db' = pg_entries db) \<or>
    (isl x \<and> (pg_entries db' = pg_entries db \<or>
       pg_entries db k = None \<and> pg_entries db' = (pg_entries db)(k \<mapsto> (rid, pg_timestamp env t))))"
proof -
  have k: "map_of (db_keys db) k = pg_entries db k" by (simp add: pg_entries_def)
  show ?thesis
  proof (cases "pg_fault env (pg_calls db) c")
    case None
    with assms show ?thesis
      by (cases "pg_entries db k"; cases "map_of (db_receipts db) rid")
        (auto simp: exec_insert_key_def Let_def k)
  next
    case (Some f)
    with assms show ?thesis
      by (cases "pg_entries db k"; cases f) (auto simp: exec_insert_key_def Let_def k split: if_splits)
  qed
qed

lemma pg_Record_cases:
  assumes run: "pg_Record env c now k rid window s = (y, s')"
  obtains (bad_window) e where "window \<le> 0" "y = Ret (Some e)" "s' = s"
  | (fresh) "0 < window" "y = Ret None" "pg_entries s (IdempotencyKey_String k) = None"
      "pg_entries s' = (pg_entries s)(IdempotencyKey_String k \<mapsto> (ReceiptID_String rid, pg_timestamp env (now + window)))"
  | (faulty) e where "y = Ret (Some e)" "pg_entries s' = pg_entries s \<or> pg_entries s (IdempotencyKey_String k) = None \<and>
      pg_entries s' = (pg_entries s)(IdempotencyKey_String k \<mapsto> (ReceiptID_String rid, pg_timestamp env (now + window)))"
  | (same) t where "0 < window" "y = Ret None" "pg_entries s (IdempotencyKey_String k) = Some (ReceiptID_String rid, t)"
      "pg_entries s' = pg_entries s"
proof (cases "0 < window")
  case False
  then show thesis using run bad_window by (auto simp: pg_Record_def)
next
  case w: True
  let ?k = "IdempotencyKey_String k" and ?r = "ReceiptID_String rid"
  obtain x db1 where ins: "exec_insert_key env c ?k ?r (now + window) s = (x, db1)" by fastforce
  from exec_insert_key_cases [OF ins] show thesis
  proof (elim disjE conjE)
    assume x: "x = Inr 0" and "pg_entries s ?k \<noteq> None" and db1: "pg_entries db1 = pg_entries s"
    then obtain r0 t0 where e: "pg_entries s ?k = Some (r0, t0)" by auto
    have m: "map_of (db_keys db1) ?k = Some (r0, t0)" using e db1 by (simp flip: pg_entries_def)
    show thesis
    proof (cases "pg_fault env (pg_calls db1) c")
      case None
      then show thesis
        using run ins x w m e db1 same [of t0] faulty by (auto simp: pg_Record_def query_row_def Let_def split: if_splits)
    next
      case (Some f)
      then show thesis
        using run ins x w db1 faulty by (auto simp: pg_Record_def query_row_def split: prod.splits)
    qed
  qed (use run ins w fresh faulty in \<open>auto simp: pg_Record_def isl_def\<close>)
qed

interpretation pg_idem: idempotency_store "pg_Lookup env" "pg_Record env" pg_entries "pg_timestamp env" for env
proof
  fix c now k s rid s'
  assume "pg_Lookup env c now k s = (Ret (Inr (Some rid)), s')"
  then show "\<exists>t. pg_entries s (IdempotencyKey_String k) = Some (ReceiptID_String rid, t) \<and> now < t"
    by (auto simp: pg_Lookup_def query_row_def pg_entries_def NewReceiptID_def
        split: sum.splits option.splits if_splits)
next
  fix c now k s s' rid t
  assume "pg_Lookup env c now k s = (Ret (Inr None), s')" "pg_entries s (IdempotencyKey_String k) = Some (rid, t)"
  then show "t \<le> now"
    by (auto simp: pg_Lookup_def query_row_def pg_entries_def split: sum.splits option.splits if_splits)
next
  show "pg_entries (snd (pg_Lookup env c now k s)) = pg_entries s" for c now k s
    by (auto simp: pg_Lookup_def query_row_def split: sum.splits option.splits)
next
  fix c now k rid window s s'
  assume "pg_Record env c now k rid window s = (Ret None, s')"
  then show "0 < window \<and>
       (pg_entries s (IdempotencyKey_String k) = None \<and>
          pg_entries s' = (pg_entries s)(IdempotencyKey_String k \<mapsto> (ReceiptID_String rid, pg_timestamp env (now + window))) \<or>
        (\<exists>t. pg_entries s (IdempotencyKey_String k) = Some (ReceiptID_String rid, t)) \<and> pg_entries s' = pg_entries s)"
    by (cases rule: pg_Record_cases) auto
next
  fix c now k rid window s e s'
  assume "pg_Record env c now k rid window s = (Ret (Some e), s')"
  then show "pg_entries s' = pg_entries s \<or> pg_entries s (IdempotencyKey_String k) = None \<and>
         pg_entries s' = (pg_entries s)(IdempotencyKey_String k \<mapsto> (ReceiptID_String rid, pg_timestamp env (now + window)))"
    by (cases rule: pg_Record_cases) auto
next
  show "\<exists>x. fst (pg_Record env c now k rid window s) = Ret x" for c now k rid window s
    by (auto simp: pg_Record_def Let_def split: sum.splits option.splits prod.splits)
qed

section \<open>Reading back a document\<close>

text \<open>\<open>jsonb\<close> keeps the document but not the spelling of the embedded payload.\<close>

lemma Request_Unmarshal_payload:
  assumes "Request_UnmarshalJSON now w = Inr r" and "json_valid p"
  shows "Request_UnmarshalJSON now (w\<lparr>rw_Payload := p\<rparr>) =
    Inr (r\<lparr>req_payload := \<lparr>pl_contentType = ContentTypeJSON, pl_data = p\<rparr>\<rparr>)"
proof -
  have p: "NewPayload ContentTypeJSON p 0 = Inr \<lparr>pl_contentType = ContentTypeJSON, pl_data = p\<rparr>"
    "p \<noteq> []" using assms(2) by (auto simp: validate)
  show ?thesis
    using assms(1) p
    by (auto simp: Request_UnmarshalJSON_def NewExecutionRequest_Inr request_of_def request_ok_def pl_SizeBytes_def
        split: sum.splits)
qed

definition respelled :: "string \<Rightarrow> receipt_wire \<Rightarrow> receipt_wire" where
  "respelled p w = w\<lparr>xw_Request := (xw_Request w)\<lparr>rw_Payload := p\<rparr>\<rparr>"

definition with_payload :: "string \<Rightarrow> ExecutionReceipt \<Rightarrow> ExecutionReceipt" where
  "with_payload p r = r\<lparr>rc_request := (rc_request r)\<lparr>req_payload := \<lparr>pl_contentType = ContentTypeJSON, pl_data = p\<rparr>\<rparr>\<rparr>"

lemma Receipt_Unmarshal_respelled:
  assumes "Receipt_UnmarshalJSON now w = Inr r" and "json_valid p"
  shows "Receipt_UnmarshalJSON now (respelled p w) = Inr (with_payload p r)"
proof -
  obtain req where req: "Request_UnmarshalJSON now (xw_Request w) = Inr req"
    using assms(1) by (auto simp: Receipt_UnmarshalJSON_def split: sum.splits)
  show ?thesis
    using assms(1) Request_Unmarshal_payload [OF req assms(2)] req
    by (auto simp: Receipt_UnmarshalJSON_def respelled_def with_payload_def split: sum.splits if_splits)
qed

section \<open>Properties\<close>

text \<open>
  C18: Receipts in PostgreSQL are durable and append-only: after a save that reported success,
  and after any further sequence of saves and reads with any faults, a read of the receipt
  whose statement meets no fault returns that receipt, with its times cut to milliseconds, the
  capability's policy fields reset and the payload as \<open>jsonb\<close> spells it; and a second save
  under the same identifier is refused.
\<close>

theorem pg_receipt_durable:
  assumes saved: "pg_Save env c now r db = (Ret (Inr r'), db')"
    and wf: "receipt_wf r"
    and jsonb: "pg_jsonb env (Receipt_MarshalJSON r') = Inr (respelled p (Receipt_MarshalJSON r'))" "json_valid p"
    and later: "db2 = repo_run (pg_Save env) (pg_FindByID env) ops db'"
    and nofault: "pg_fault env (pg_calls db2) c2 = None"
  shows "fst (pg_FindByID env c2 t (rc_receiptID r) db2) =
      Ret (Inr (with_payload p (rehydrated_receipt (WithPersistedAt now r)))) \<and>
    (\<exists>e. fst (pg_Save env c3 t3 r db2) = Ret (Inl e))"
proof -
  have r': "r' = WithPersistedAt now r" using pg_repo.save_success [OF saved] by simp
  have wf': "receipt_wf r'" using wf by (simp add: r' receipt_wf_def WithPersistedAt_def)
  obtain v where v: "pg_enc env r' = Some v" "pg_rows db2 (receipt_key r) = Some v"
    using pg_repo.saved_row [OF saved] later by blast
  then have doc: "v = respelled p (Receipt_MarshalJSON r')" by (simp add: pg_enc_def jsonb(1))
  have "Receipt_UnmarshalJSON t v = Inr (with_payload p (rehydrated_receipt r'))"
    unfolding doc by (rule Receipt_Unmarshal_respelled [OF Receipt_rehydrate [OF wf'] jsonb(2)])
  then have "fst (pg_FindByID env c2 t (rc_receiptID r) db2) = Ret (Inr (with_payload p (rehydrated_receipt r')))"
    using v(2) nofault by (auto simp: pg_FindByID_def query_row_def pg_rows_def)
  then show ?thesis using pg_repo.no_second_save [OF v(2)] by (simp add: r')
qed

text \<open>
  C19: First writer wins in the PostgreSQL idempotency store: once a key is recorded for a
  receipt, whatever lookups and records follow and whatever faults they meet, a lookup of the
  key that finds anything finds that receipt, and never after its expiry.
\<close>

theorem pg_first_writer_wins:
  assumes "pg_Record env c now k rid window db = (Ret None, db')"
    and "pg_Lookup env c2 t k (idem_run (pg_Lookup env) (pg_Record env) ops db') = (Ret (Inr (Some rid')), db2)"
  shows "rid' = rid \<and>
    (\<exists>u. pg_entries db' (IdempotencyKey_String k) = Some (ReceiptID_String rid, u) \<and> t < u)"
proof -
  obtain u where u: "pg_entries db' (IdempotencyKey_String k) = Some (ReceiptID_String rid, u)"
    using pg_idem.record_success [OF assms(1)] by auto
  show ?thesis
    using pg_idem.first_writer [OF assms] pg_idem.lookup_hit [OF assms(2)] pg_idem.idem_run_keeps [OF u] u by auto
qed

text \<open>
  An expired binding is never replaced: the insertion does nothing on a key that is there,
  expired or not, so a later execution under the key is refused its record.
\<close>

lemma pg_expired_key_stays:
  assumes "pg_entries db (IdempotencyKey_String k) = Some (r, t)" and "r \<noteq> ReceiptID_String rid" and "t \<le> now"
  shows "\<exists>e. fst (pg_Record env c now k rid window db) = Ret (Some e)"
  using pg_idem.second_writer_refused [OF assms(1,2)] .

text \<open>
  The in-memory doubles keep the same contract as the database, and the idempotency
  window is exact: a key recorded at a time is found at every later time before the window
  ends and at none after it.
\<close>

lemma mem_window_exact:
  assumes "mem_Record None now k rid window s = (Ret None, s')" and "mem_entries s (IdempotencyKey_String k) = None"
  shows "fst (mem_Lookup None t k (idem_run mem_Lookup mem_Record ops s')) =
    Ret (Inr (if t < now + window then Some rid else None))"
proof -
  have e: "mem_entries s' (IdempotencyKey_String k) = Some (ReceiptID_String rid, now + window)"
    using mem_idem.record_success [OF assms(1)] assms(2) by auto
  have "mem_entries (idem_run mem_Lookup mem_Record ops s') (IdempotencyKey_String k) =
      Some (ReceiptID_String rid, now + window)"
    by (rule mem_idem.idem_run_keeps [OF e])
  then show ?thesis
    by (auto simp: mem_Lookup_def mem_entries_def ReceiptID.expand split: option.splits)
qed

section \<open>Witnesses\<close>

definition sample_request :: ExecutionRequest where
  "sample_request = \<lparr>req_correlationID = CorrelationID ''01ARZ3NDEKTSV4RRFFQ69G5FAV'', req_adapterID = AdapterID ''shell'',
     req_capabilityName = ''exec'', req_capabilityVersion = ''v1'',
     req_payload = \<lparr>pl_contentType = ContentTypeJSON, pl_data = ''{}''\<rparr>,
     req_timeoutBudget = TimeoutBudget (5 * Second),
     req_idempotencyKey = Some (IdempotencyKey ''01ARZ3NDEKTSV4RRFFQ69G5FAV''), req_actorID = [], req_taskID = [],
     req_workflowRunID = [], req_retryAttempt = 0, req_submittedAt = 2000000\<rparr>"

definition sample_cap :: Capability where
  "sample_cap = \<lparr>cap_adapterID = AdapterID ''shell'', cap_name = ''exec'', cap_version = ''v1'',
     cap_allowsPartial = False, cap_defaultTimeout = 600 * Second\<rparr>"

definition sample_receipt :: ExecutionReceipt where
  "sample_receipt = \<lparr>rc_receiptID = ReceiptID ''01ARZ3NDEKTSV4RRFFQ69G5FAW'', rc_schemaVersion = SchemaVersionV1,
     rc_request = sample_request,
     rc_handle = \<lparr>h_handleID = HandleID ''01ARZ3NDEKTSV4RRFFQ69G5FAX'', h_correlationID = req_correlationID sample_request,
       h_adapterID = AdapterID ''shell'', h_capability = sample_cap, h_startedAt = 3000000\<rparr>,
     rc_result = \<lparr>res_Status = StatusSuccess, res_Retryable = HintNonRetryable, res_ErrorClass = [],
       res_ErrorMessage = [], res_StdoutRef = None, res_StderrRef = None, res_ExitCode = Some 0, res_Artifacts = [],
       res_AdapterMeta = [], res_BytesRead = 0, res_BytesWritten = 0, res_DurationMs = 1, res_CompletedAt = 4000000\<rparr>,
     rc_provenance = \<lparr>prov_Source = ProvSDK, prov_SourceVersion = [], prov_Host = [], prov_RuntimeVersion = [],
       prov_InvocationID = []\<rparr>,
     rc_timings = \<lparr>tm_SubmittedAt = 2000000, tm_StartedAt = 3000000, tm_CompletedAt = 4000000, tm_PersistedAt = None\<rparr>,
     rc_createdAt = 5000000, rc_persistedAt = None\<rparr>"

lemma sample_receipt_wf: "receipt_wf sample_receipt"
  by code_simp

definition sample_pg :: pg_env where
  "sample_pg = \<lparr>pg_fault = (\<lambda>n _. if n = 2 then Some (\<lparr>pe_err = errorf ''conn reset'', pe_code = None\<rparr>, True) else None),
     pg_jsonb = Inr, pg_timestamp = (\<lambda>t. t), pg_unique = errorf, pg_foreign = errorf\<rparr>"

definition sample_db :: pg_db where "sample_db = \<lparr>db_receipts = [], db_keys = [], pg_calls = 0\<rparr>"

lemma sample_saved:
  "fst (pg_Save sample_pg None 9000000 sample_receipt sample_db) = Ret (Inr (WithPersistedAt 9000000 sample_receipt))"
  "pg_calls (snd (pg_Save sample_pg None 9000000 sample_receipt sample_db)) = 1"
  by (simp_all add: pg_Save_def exec_insert_receipt_def sample_pg_def sample_db_def next_stmt_def Let_def insert_receipt_def)

lemma sample_respelled:
  "pg_jsonb sample_pg (Receipt_MarshalJSON r) =
     Inr (respelled (rw_Payload (xw_Request (Receipt_MarshalJSON r))) (Receipt_MarshalJSON r))"
  by (simp add: sample_pg_def respelled_def)

theorem pg_receipt_durable_witness:
  "let db = snd (pg_Save sample_pg None 9000000 sample_receipt sample_db) in
   fst (pg_FindByID sample_pg None 0 (rc_receiptID sample_receipt) db) =
     Ret (Inr (with_payload ''{}'' (rehydrated_receipt (WithPersistedAt 9000000 sample_receipt)))) \<and>
   (\<exists>e. fst (pg_Save sample_pg None 0 sample_receipt db) = Ret (Inl e))"
proof -
  have p: "rw_Payload (xw_Request (Receipt_MarshalJSON (WithPersistedAt 9000000 sample_receipt))) = ''{}''"
    by code_simp
  have v: "json_valid ''{}''" by code_simp
  have run: "pg_Save sample_pg None 9000000 sample_receipt sample_db =
      (Ret (Inr (WithPersistedAt 9000000 sample_receipt)), snd (pg_Save sample_pg None 9000000 sample_receipt sample_db))"
    by (simp add: sample_saved prod_eq_iff)
  have f: "pg_fault sample_pg (pg_calls (snd (pg_Save sample_pg None 9000000 sample_receipt sample_db))) None = None"
    by (simp add: sample_saved) (simp add: sample_pg_def)
  show ?thesis
    unfolding Let_def
    by (rule pg_receipt_durable [OF run sample_receipt_wf sample_respelled [of "WithPersistedAt 9000000 sample_receipt",
            unfolded p] v _ f, of "[]"]) simp
qed

definition sample_key :: IdempotencyKey where "sample_key = IdempotencyKey ''01ARZ3NDEKTSV4RRFFQ69G5FAV''"

definition sample_calm :: pg_env where "sample_calm = sample_pg\<lparr>pg_fault := \<lambda>_ _. None\<rparr>"

definition sample_db1 :: pg_db where
  "sample_db1 = snd (pg_Save sample_calm None 9000000 sample_receipt sample_db)"

lemma sample_recorded:
  "pg_Record sample_calm None 0 sample_key (rc_receiptID sample_receipt) Second sample_db1 =
     (Ret None, insert_key (IdempotencyKey_String sample_key) (receipt_key sample_receipt) Second (next_stmt sample_db1))"
  by (simp add: pg_Record_def exec_insert_key_def pg_Save_def exec_insert_receipt_def sample_pg_def sample_db_def
      sample_calm_def sample_db1_def next_stmt_def insert_receipt_def insert_key_def Let_def Second_def)

theorem pg_first_writer_wins_witness:
  "\<exists>u. pg_entries (snd (pg_Record sample_calm None 0 sample_key (rc_receiptID sample_receipt) Second sample_db1))
     (IdempotencyKey_String sample_key) = Some (receipt_key sample_receipt, u) \<and> 5 < u"
proof -
  have u: "ulidRegex (receipt_key sample_receipt)" by code_simp
  let ?db = "insert_key (IdempotencyKey_String sample_key) (receipt_key sample_receipt) Second (next_stmt sample_db1)"
  have "pg_Lookup sample_calm None 5 sample_key (idem_run (pg_Lookup sample_calm) (pg_Record sample_calm) [] ?db) =
      (Ret (Inr (Some (rc_receiptID sample_receipt))), next_stmt ?db)"
    using u by (simp add: pg_Lookup_def query_row_def sample_pg_def sample_calm_def insert_key_def Second_def
        NewReceiptID_def validateULID_def)
  from pg_first_writer_wins [OF sample_recorded this] show ?thesis by (simp add: sample_recorded)
qed

end
