(* ===== verification/Chaos.thy ===== *)
theory Chaos
  imports Registration Stores
begin

text \<open>
  Fault injection (\<open>internal/infrastructure/chaos\<close> and the adapters' \<open>chaos.go\<close> files): the
  closed set of fault kinds, profiles and their validation, the hardened loader, the decorator
  of an adapter, the decorator of the receipt repository and the fail-closed wiring. A
  \<open>FaultKind\<close> is a string, as in the code. The YAML decoder, the lenient payload decoders and
  \<open>time.ParseDuration\<close> (whose fractions are floating point) are parameters.
\<close>

section \<open>Fault kinds and profiles\<close>

type_synonym FaultKind = string
type_synonym Timing = string

definition FaultLatency :: FaultKind where "FaultLatency = ''latency''"
definition FaultConnectionReset :: FaultKind where "FaultConnectionReset = ''connection_reset''"
definition FaultHangUntilCancel :: FaultKind where "FaultHangUntilCancel = ''hang_until_cancel''"
definition FaultEIO :: FaultKind where "FaultEIO = ''eio''"
definition FaultENOSPC :: FaultKind where "FaultENOSPC = ''enospc''"
definition FaultPermissionDenied :: FaultKind where "FaultPermissionDenied = ''permission_denied''"
definition FaultRemoteUnreachable :: FaultKind where "FaultRemoteUnreachable = ''remote_unreachable''"
definition FaultAuthFailure :: FaultKind where "FaultAuthFailure = ''auth_failure''"
definition FaultInjectPanic :: FaultKind where "FaultInjectPanic = ''inject_panic''"
definition FaultProcessSignal :: FaultKind where "FaultProcessSignal = ''process_signal''"
definition FaultProcessExit :: FaultKind where "FaultProcessExit = ''process_exit''"
definition FaultSlowBody :: FaultKind where "FaultSlowBody = ''slow_body''"
definition FaultRedirectLoop :: FaultKind where "FaultRedirectLoop = ''redirect_loop''"
definition FaultTLSHandshakeFail :: FaultKind where "FaultTLSHandshakeFail = ''tls_handshake_fail''"
definition FaultPersistFailure :: FaultKind where "FaultPersistFailure = ''persist_failure''"

lemmas fault_kinds = FaultLatency_def FaultConnectionReset_def FaultHangUntilCancel_def FaultEIO_def FaultENOSPC_def
  FaultPermissionDenied_def FaultRemoteUnreachable_def FaultAuthFailure_def FaultInjectPanic_def FaultProcessSignal_def
  FaultProcessExit_def FaultSlowBody_def FaultRedirectLoop_def FaultTLSHandshakeFail_def FaultPersistFailure_def

definition AllFaultKinds :: "FaultKind list" where
  "AllFaultKinds =
     [FaultLatency, FaultConnectionReset, FaultHangUntilCancel, FaultEIO, FaultENOSPC, FaultPermissionDenied,
      FaultRemoteUnreachable, FaultAuthFailure, FaultInjectPanic, FaultProcessSignal, FaultProcessExit,
      FaultSlowBody, FaultRedirectLoop, FaultTLSHandshakeFail, FaultPersistFailure]"

definition IsValidFaultKind :: "FaultKind \<Rightarrow> bool" where
  "IsValidFaultKind k \<longleftrightarrow> k \<in> set AllFaultKinds"

definition IsDecoratorNative :: "FaultKind \<Rightarrow> bool" where
  "IsDecoratorNative k \<longleftrightarrow> k = FaultLatency \<or> k = FaultHangUntilCancel \<or> k = FaultInjectPanic"

definition TimingPreDispatch :: Timing where "TimingPreDispatch = ''pre_dispatch''"
definition TimingPostDispatch :: Timing where "TimingPostDispatch = ''post_dispatch''"

record FaultConfig =
  fk_Kind :: FaultKind
  fk_Timing :: Timing
  fk_Match :: smap

record PersistFaultConfig =
  pf_Kind :: FaultKind

record ExpectedOutcome =
  eo_Status :: string
  eo_ErrorClass :: string
  eo_RetryHint :: string

record Profile =
  pr_Version :: int
  pr_Name :: string
  pr_Description :: string
  pr_Adapters :: "(string \<times> FaultConfig) list"
  pr_Persist :: "PersistFaultConfig option"
  pr_Expected :: ExpectedOutcome

text \<open>Both methods accept a nil receiver.\<close>

definition Profile_For :: "Profile option \<Rightarrow> string \<Rightarrow> FaultConfig option" where
  "Profile_For p canonical = (case p of None \<Rightarrow> None | Some q \<Rightarrow> map_of (pr_Adapters q) canonical)"

definition PersistFault :: "Profile option \<Rightarrow> PersistFaultConfig option" where
  "PersistFault p = (case p of None \<Rightarrow> None | Some q \<Rightarrow> pr_Persist q)"

record ChaosConfig =
  ch_Enabled :: bool
  ch_Profile :: "Profile option"
  ch_Env :: string

section \<open>Parsing a profile\<close>

record rawFault =
  rf_Fault :: string
  rf_Timing :: string
  rf_Match :: smap

record rawProfile =
  rp_Version :: int
  rp_Name :: string
  rp_Description :: string
  rp_Adapters :: "(string \<times> rawFault) list"
  rp_Persist :: "string option"
  rp_Expected :: "ExpectedOutcome option"

text \<open>A catalog is the set of canonical names; \<open>Has\<close> is membership.\<close>

definition NewCatalogFromCapabilities :: "Capability list \<Rightarrow> string \<Rightarrow> bool" where
  "NewCatalogFromCapabilities caps canonical \<longleftrightarrow> canonical \<in> set (map Canonical caps)"

definition in_profile :: "string \<Rightarrow> string" where
  "in_profile name = ''chaos: profile '' @ quoted name"

fun parse_faults ::
  "string \<Rightarrow> (string \<Rightarrow> bool) \<Rightarrow> (string \<times> rawFault) list \<Rightarrow> go_error + (string \<times> FaultConfig) list" where
  "parse_faults name has [] = Inr []"
| "parse_faults name has ((canonical, rf) # fs) =
     (if \<not> has canonical
      then Inl (errorf (in_profile name @ '': capability '' @ quoted canonical @ '' not in catalog''))
      else if \<not> IsValidFaultKind (rf_Fault rf)
      then Inl (errorf (in_profile name @ '': unknown fault kind '' @ quoted (rf_Fault rf) @
             '' for capability '' @ quoted canonical))
      else if rf_Timing rf \<noteq> [] \<and> rf_Timing rf \<noteq> TimingPreDispatch \<and> rf_Timing rf \<noteq> TimingPostDispatch
      then Inl (errorf (in_profile name @ '': invalid timing '' @ quoted (rf_Timing rf) @ '' for capability '' @
             quoted canonical @ '' (want pre_dispatch or post_dispatch)''))
      else case parse_faults name has fs of Inl e \<Rightarrow> Inl e
      | Inr out \<Rightarrow> Inr ((canonical, \<lparr>fk_Kind = rf_Fault rf, fk_Timing = rf_Timing rf, fk_Match = rf_Match rf\<rparr>) # out))"

definition parseProfileBytes ::
  "(string \<Rightarrow> go_error + rawProfile) \<Rightarrow> string \<Rightarrow> (string \<Rightarrow> bool) \<Rightarrow> go_error + Profile" where
  "parseProfileBytes yaml dat has =
     (case yaml dat of Inl e \<Rightarrow> Inl (wrapf ''chaos: decode profile YAML'' e)
      | Inr raw \<Rightarrow>
        if rp_Version raw \<noteq> 1
        then Inl (errorf (in_profile (rp_Name raw) @ '': unsupported schema version '' @ int_dec (rp_Version raw) @
               '' (only v1 is supported)''))
        else if rp_Name raw = [] then Inl (errorf ''chaos: profile name is required'')
        else case rp_Expected raw of
          None \<Rightarrow> Inl (errorf (in_profile (rp_Name raw) @
                    '': expected_outcome is required (D2C3.24 stable contract)''))
        | Some ex \<Rightarrow>
          (case parse_faults (rp_Name raw) has (rp_Adapters raw) of Inl e \<Rightarrow> Inl e
           | Inr ads \<Rightarrow>
             (let out = \<lparr>pr_Version = rp_Version raw, pr_Name = rp_Name raw, pr_Description = rp_Description raw,
                         pr_Adapters = ads, pr_Persist = None, pr_Expected = ex\<rparr> in
              case rp_Persist raw of None \<Rightarrow> Inr out
              | Some k \<Rightarrow>
                if \<not> IsValidFaultKind k
                then Inl (errorf (in_profile (rp_Name raw) @ '': unknown persist fault kind '' @ quoted k))
                else Inr (out\<lparr>pr_Persist := Some \<lparr>pf_Kind = k\<rparr>\<rparr>))))"

section \<open>The loader\<close>

text \<open>What the loader asks of the operating system, and the YAML decoder.\<close>

record loader_env =
  le_Getwd :: "go_error + string"
  le_Stat :: "string \<Rightarrow> go_error option"
  le_EvalSymlinks :: "string \<Rightarrow> go_error + string"
  le_ReadFile :: "string \<Rightarrow> go_error + string"
  le_yaml :: "string \<Rightarrow> go_error + rawProfile"

definition allowlistRoots :: "string list" where
  "allowlistRoots =
     [''ops/chaos/profiles/ci'', ''ops/chaos/profiles/local'', ''internal/infrastructure/chaos/testdata'',
      ''/etc/runtime-adapters/chaos/profiles'']"

fun module_root_from :: "loader_env \<Rightarrow> nat \<Rightarrow> string \<Rightarrow> string \<Rightarrow> string" where
  "module_root_from env 0 cwd dir = cwd"
| "module_root_from env (Suc n) cwd dir =
     (if le_Stat env (filepath_Join dir ''go.mod'') = None then dir
      else let parent = filepath_Dir dir in
           if parent = dir then cwd else module_root_from env n cwd parent)"

definition findModuleRoot :: "loader_env \<Rightarrow> string \<Rightarrow> string" where
  "findModuleRoot env cwd = module_root_from env 20 cwd cwd"

text \<open>
  \<open>filepath.Rel\<close>, on components: the common leading components are dropped, one dot-dot is
  written for every component of the base that is left.
\<close>

definition rel_comps :: "string \<Rightarrow> string list" where
  "rel_comps p = (if p = [] then [] else if p = ''/'' then [[]] else split_path p)"

fun drop_common :: "string list \<Rightarrow> string list \<Rightarrow> string list \<times> string list" where
  "drop_common (b # bs) (t # ts) = (if b = t then drop_common bs ts else (b # bs, t # ts))"
| "drop_common bs ts = (bs, ts)"

definition filepath_Rel :: "string \<Rightarrow> string \<Rightarrow> go_error + string" where
  "filepath_Rel basepath targpath =
     (let base = Clean basepath; targ = Clean targpath;
          failed = Inl (errorf (''Rel: can't make '' @ targpath @ '' relative to '' @ basepath)) in
      if targ = base then Inr ''.''
      else let base' = (if base = ''.'' then [] else base) in
        if IsAbs base' \<noteq> IsAbs targ then failed
        else (case drop_common (rel_comps base') (rel_comps targ) of (bs, ts) \<Rightarrow>
          if bs \<noteq> [] \<and> ts \<noteq> [] \<and> hd bs = ''..'' then failed
          else Inr (join ''/'' (replicate (length bs) ''..'' @ ts))))"

definition hasParentTraversal :: "string \<Rightarrow> bool" where
  "hasParentTraversal cleaned \<longleftrightarrow> list_ex (\<lambda>p. p = ''..'') (split_path cleaned)"

definition allowlist_root :: "string \<Rightarrow> string \<Rightarrow> string" where
  "allowlist_root modRoot root = (if IsAbs root then root else filepath_Join modRoot root)"

definition inAllowlist :: "loader_env \<Rightarrow> string \<Rightarrow> bool" where
  "inAllowlist env absPath =
     (case le_Getwd env of Inl _ \<Rightarrow> False
      | Inr cwd \<Rightarrow>
        list_ex (\<lambda>root. case filepath_Rel (allowlist_root (findModuleRoot env cwd) root) absPath of
            Inl _ \<Rightarrow> False
          | Inr rel \<Rightarrow> rel = ''.'' \<or> \<not> prefix ''..'' rel) allowlistRoots)"

definition parseProfile :: "loader_env \<Rightarrow> string \<Rightarrow> (string \<Rightarrow> bool) \<Rightarrow> go_error + Profile" where
  "parseProfile env path has =
     (case le_ReadFile env path of Inl e \<Rightarrow> Inl (wrapf (''chaos: read profile '' @ quoted path) e)
      | Inr dat \<Rightarrow> parseProfileBytes (le_yaml env) dat has)"

definition LoadProfile :: "loader_env \<Rightarrow> string \<Rightarrow> (string \<Rightarrow> bool) \<Rightarrow> go_error + Profile" where
  "LoadProfile env path has =
     (let cleaned = Clean path in
      if hasParentTraversal cleaned
      then Inl (errorf (''chaos: profile path '' @ quoted path @ '' contains parent traversal''))
      else case (if IsAbs cleaned then Inr cleaned
                 else case le_Getwd env of
                   Inl e \<Rightarrow> Inl (wrapf ''chaos: resolve working directory'' e)
                 | Inr cwd \<Rightarrow> Inr (filepath_Join (findModuleRoot env cwd) cleaned)) of
        Inl e \<Rightarrow> Inl e
      | Inr ab \<Rightarrow>
        if \<not> inAllowlist env ab
        then Inl (errorf (''chaos: profile path '' @ quoted ab @ '' not in allowlist''))
        else case le_EvalSymlinks env ab of
          Inl e \<Rightarrow> Inl (wrapf (''chaos: resolve symlinks for '' @ quoted ab) e)
        | Inr resolved \<Rightarrow>
          if \<not> inAllowlist env resolved
          then Inl (errorf (''chaos: profile path '' @ quoted ab @ '' escapes allowlist via symlink''))
          else parseProfile env resolved has)"

record ChaosConfigEnv =
  ce_Enabled :: bool
  ce_ProfilePath :: string

definition LoadConfig ::
  "loader_env \<Rightarrow> ChaosConfigEnv \<Rightarrow> string \<Rightarrow> (string \<Rightarrow> bool) \<Rightarrow> go_error + ChaosConfig" where
  "LoadConfig env e runtimeEnv has =
     (if \<not> ce_Enabled e then Inr \<lparr>ch_Enabled = False, ch_Profile = None, ch_Env = runtimeEnv\<rparr>
      else if runtimeEnv = ''production''
      then Inl (errorf ''chaos: refuses to start with RUNTIME_ENV=production'')
      else if ce_ProfilePath e = []
      then Inl (errorf ''chaos: RUNTIME_CHAOS_PROFILE required when enabled'')
      else case LoadProfile env (ce_ProfilePath e) has of Inl err \<Rightarrow> Inl err
      | Inr p \<Rightarrow> Inr \<lparr>ch_Enabled = True, ch_Profile = Some p, ch_Env = runtimeEnv\<rparr>)"

section \<open>What a loaded profile is\<close>

definition profile_ok :: "(string \<Rightarrow> bool) \<Rightarrow> Profile \<Rightarrow> bool" where
  "profile_ok has p \<longleftrightarrow>
     pr_Version p = 1 \<and> pr_Name p \<noteq> [] \<and>
     (\<forall>(canonical, f) \<in> set (pr_Adapters p). has canonical \<and> IsValidFaultKind (fk_Kind f) \<and>
        fk_Timing f \<in> {[], TimingPreDispatch, TimingPostDispatch}) \<and>
     (\<forall>f. pr_Persist p = Some f \<longrightarrow> IsValidFaultKind (pf_Kind f))"

lemma parse_faults_ok:
  "parse_faults name has fs = Inr out \<Longrightarrow>
   \<forall>(canonical, f) \<in> set out. has canonical \<and> IsValidFaultKind (fk_Kind f) \<and>
     fk_Timing f \<in> {[], TimingPreDispatch, TimingPostDispatch}"
proof (induction name has fs arbitrary: out rule: parse_faults.induct)
  case (2 name has canonical rf fs)
  then show ?case by (auto split: if_splits sum.splits)
qed simp

lemma parseProfileBytes_ok: "parseProfileBytes yaml dat has = Inr p \<Longrightarrow> profile_ok has p"
  by (auto simp: parseProfileBytes_def profile_ok_def Let_def
      split: sum.splits if_splits option.splits dest!: parse_faults_ok)

section \<open>Containment of the loader\<close>

lemma IsAbs_Cons: "IsAbs p \<longleftrightarrow> (\<exists>t. p = sep # t)"
  by (cases p) (auto simp: IsAbs_def)

lemma IsAbs_Clean: "IsAbs p \<Longrightarrow> IsAbs (Clean p)"
  by (simp add: Clean_def abs_path_def IsAbs_Cons)

lemma IsAbs_Join: "IsAbs d \<Longrightarrow> IsAbs (filepath_Join d q)"
proof -
  assume d: "IsAbs d"
  then have "d \<noteq> []" and "IsAbs (d @ ''/'' @ q)" by (auto simp: IsAbs_Cons)
  then show ?thesis using d by (simp add: filepath_Join_def IsAbs_Clean)
qed

lemma IsAbs_Dir: "IsAbs p \<Longrightarrow> IsAbs (filepath_Dir p)"
proof -
  assume "IsAbs p"
  then obtain q where p: "p = sep # q" by (auto simp: IsAbs_Cons)
  have "\<exists>t. rev (dropWhile (\<lambda>c. c \<noteq> sep) (rev p)) = sep # t"
    unfolding p by (simp add: dropWhile_append) (metis rev_rev_ident)
  then have "IsAbs (rev (dropWhile (\<lambda>c. c \<noteq> sep) (rev p)))" unfolding IsAbs_Cons .
  then show ?thesis unfolding filepath_Dir_def by (rule IsAbs_Clean)
qed

lemma IsAbs_module_root: "IsAbs cwd \<Longrightarrow> IsAbs dir \<Longrightarrow> IsAbs (module_root_from env n cwd dir)"
  by (induction env n cwd dir rule: module_root_from.induct) (auto simp: Let_def IsAbs_Dir)

lemma IsAbs_allowlist_root:
  "IsAbs cwd \<Longrightarrow> IsAbs (allowlist_root (findModuleRoot env cwd) root)"
  by (simp add: allowlist_root_def findModuleRoot_def IsAbs_module_root IsAbs_Join)

lemma rel_comps_abs: "list_all normal_comp cs \<Longrightarrow> rel_comps (abs_path cs) = [] # cs"
proof (cases "cs = []")
  case False
  assume n: "list_all normal_comp cs"
  have "join ''/'' cs \<noteq> []" using False n by (rule join_nonempty)
  then show ?thesis using split_path_join [OF False normal_sep [OF n]] by (simp add: rel_comps_def abs_path_def)
qed (simp add: rel_comps_def abs_path_def)

lemma drop_common_split:
  "drop_common bs ts = (b, t) \<Longrightarrow> \<exists>cs. bs = cs @ b \<and> ts = cs @ t"
proof (induction bs ts rule: drop_common.induct)
  case (1 x bs y ts)
  show ?case
  proof (cases "x = y")
    case True
    with 1 obtain cs where "bs = cs @ b \<and> ts = cs @ t" by auto
    with True show ?thesis by (intro exI [of _ "x # cs"]) simp
  qed (use 1 in auto)
qed auto

lemma prefix_join_dots: "0 < n \<Longrightarrow> prefix ''..'' (join ''/'' (replicate n ''..'' @ ts))"
  by (cases n; cases "n - 1"; cases ts) (auto simp: prefix_def)

lemma filepath_Rel_inside:
  assumes base: "Clean base = abs_path bs" "list_all normal_comp bs"
    and targ: "Clean targ = abs_path ts" "list_all normal_comp ts"
    and rel: "filepath_Rel base targ = Inr rel" "rel = ''.'' \<or> \<not> prefix ''..'' rel"
  shows "prefix bs ts"
proof (cases "abs_path ts = abs_path bs")
  case True
  then show ?thesis using abs_path_inject [OF targ(2) base(2)] by simp
next
  case False
  obtain b t where d: "drop_common bs ts = (b, t)" by fastforce
  then obtain cs where cs: "bs = cs @ b" "ts = cs @ t" using drop_common_split by blast
  have nd: "abs_path bs \<noteq> ''.''" by (simp add: abs_path_def)
  have "rel = join ''/'' (replicate (length b) ''..'' @ t)"
    using rel(1) False
    by (auto simp: filepath_Rel_def Let_def base(1) targ(1) nd rel_comps_abs base(2) targ(2) d
        split: if_splits)
  moreover have "\<not> prefix ''..'' rel" using rel(2) by auto
  ultimately have "length b = 0" using prefix_join_dots [of "length b" t] by (cases "length b") simp_all
  with cs show ?thesis by simp
qed

lemma inAllowlist_contained:
  assumes "inAllowlist env p" and "le_Getwd env = Inr cwd" and "IsAbs cwd" and "IsAbs p"
  shows "\<exists>root \<in> set allowlistRoots. \<exists>rs ps. list_all normal_comp rs \<and> list_all normal_comp ps \<and>
    Clean (allowlist_root (findModuleRoot env cwd) root) = abs_path rs \<and> Clean p = abs_path ps \<and> prefix rs ps"
proof -
  from assms obtain root where root: "root \<in> set allowlistRoots"
    and found: "case filepath_Rel (allowlist_root (findModuleRoot env cwd) root) p of
      Inl _ \<Rightarrow> False | Inr rel \<Rightarrow> rel = ''.'' \<or> \<not> prefix ''..'' rel"
    by (auto simp: inAllowlist_def list_ex_iff)
  then obtain rel where
    rel: "filepath_Rel (allowlist_root (findModuleRoot env cwd) root) p = Inr rel" "rel = ''.'' \<or> \<not> prefix ''..'' rel"
    by (cases "filepath_Rel (allowlist_root (findModuleRoot env cwd) root) p") auto
  obtain rs where rs: "list_all normal_comp rs" "Clean (allowlist_root (findModuleRoot env cwd) root) = abs_path rs"
    using Clean_clean_abs [OF IsAbs_allowlist_root [OF assms(3)]] by (auto simp: clean_abs_def)
  obtain ps where ps: "list_all normal_comp ps" "Clean p = abs_path ps"
    using Clean_clean_abs [OF assms(4)] by (auto simp: clean_abs_def)
  show ?thesis using root rs ps filepath_Rel_inside [OF rs(2,1) ps(2,1) rel] by blast
qed

lemma LoadProfile_Inr:
  assumes "LoadProfile env path has = Inr p"
  shows "\<exists>ab resolved dat. inAllowlist env ab \<and> le_EvalSymlinks env ab = Inr resolved \<and> inAllowlist env resolved \<and>
    le_ReadFile env resolved = Inr dat \<and> parseProfileBytes (le_yaml env) dat has = Inr p"
  using assms by (auto simp: LoadProfile_def parseProfile_def Let_def split: if_splits sum.splits)


section \<open>A concrete profile\<close>

definition sample_raw_profile :: rawProfile where
  "sample_raw_profile = \<lparr>rp_Version = 1, rp_Name = ''p'', rp_Description = [],
     rp_Adapters = [(''shell.exec@v1'', \<lparr>rf_Fault = ''process_exit'', rf_Timing = [], rf_Match = []\<rparr>)],
     rp_Persist = None, rp_Expected = Some \<lparr>eo_Status = [], eo_ErrorClass = [], eo_RetryHint = []\<rparr>\<rparr>"

definition sample_loader :: loader_env where
  "sample_loader = \<lparr>le_Getwd = Inr ''/r'', le_Stat = (\<lambda>_. None), le_EvalSymlinks = (\<lambda>p. if IsAbs p then Inr p else Inl (errorf [])),
     le_ReadFile = (\<lambda>_. Inr []), le_yaml = (\<lambda>_. Inr sample_raw_profile)\<rparr>"

definition sample_chaos_env :: ChaosConfigEnv where
  "sample_chaos_env = \<lparr>ce_Enabled = True, ce_ProfilePath = ''ops/chaos/profiles/ci/p.yaml''\<rparr>"

definition sample_chaos_config :: "go_error + ChaosConfig" where
  "sample_chaos_config = LoadConfig sample_loader sample_chaos_env ''staging'' (NewCatalogFromCapabilities catalog)"

lemma sample_chaos_loads: "\<not> isl sample_chaos_config" "ch_Enabled (projr sample_chaos_config)"
  by code_simp+


end
