(* ===== verification/Config.thy ===== *)
theory Config
  imports Chaos Go_Strconv
begin

text \<open>
  The runtime configuration (\<open>internal/infrastructure/config\<close>): the environment lookups with
  their defaults and \<open>Validate\<close>. A finite 64-bit floating-point number is a mantissa and a binary
  exponent; \<open>time.ParseDuration\<close>, \<open>strconv.ParseFloat\<close>, the home directory and the host name are
  the environment record.
\<close>

section \<open>The configuration\<close>

datatype go_float = NaN | PosInf | NegInf | Fin int int

text \<open>\<open>x < 0\<close> and \<open>x > 1\<close>; every comparison with NaN is false.\<close>

fun float_neg :: "go_float \<Rightarrow> bool" where
  "float_neg NaN = False" | "float_neg PosInf = False" | "float_neg NegInf = True"
| "float_neg (Fin m e) = (m < 0)"

fun float_above_one :: "go_float \<Rightarrow> bool" where
  "float_above_one NaN = False" | "float_above_one PosInf = True" | "float_above_one NegInf = False"
| "float_above_one (Fin m e) = (if 0 \<le> e then m * 2 ^ nat e > 1 else m > 2 ^ nat (- e))"

text \<open>The double nearest to 0.1.\<close>

definition float_0_1 :: go_float where "float_0_1 = Fin 3602879701896397 (-55)"

record Config =
  cf_HTTPAddr :: string
  cf_MaxTimeoutBudget :: duration
  cf_MaxPayloadBytes :: int
  cf_InlineStreamLimit :: int
  cf_IdempotencyWindow :: duration
  cf_ShutdownGracePeriod :: duration
  cf_MaxConcurrentExecutions :: int
  cf_AllowedCommandsPath :: "string list"
  cf_AllowedWorkingDirs :: "string list"
  cf_AllowedFilesystemRoots :: "string list"
  cf_HTTPAllowPrivateNetworks :: bool
  cf_HTTPHostAllowlist :: "string list"
  cf_PostgresDSN :: string
  cf_RuntimeVersion :: string
  cf_Hostname :: string
  cf_ProvenanceSource :: string
  cf_OTelEnabled :: bool
  cf_OTelServiceName :: string
  cf_OTelExporterEndpoint :: string
  cf_OTelTracesSampler :: string
  cf_OTelTracesSamplerArg :: go_float
  cf_Env :: string
  cf_Chaos :: ChaosConfigEnv

definition validProvenanceSource :: "string \<Rightarrow> bool" where
  "validProvenanceSource s \<longleftrightarrow> s \<in> set [''governance'', ''sdk'', ''http'', ''cli'', ''test'']"

definition validRuntimeEnv :: "string \<Rightarrow> bool" where
  "validRuntimeEnv s \<longleftrightarrow> s \<in> set [''development'', ''staging'', ''production'']"

text \<open>The text \<open>%v\<close> gives for the float is a parameter.\<close>

definition Validate :: "(go_float \<Rightarrow> string) \<Rightarrow> Config \<Rightarrow> go_error option" where
  "Validate fmt c =
     (if cf_HTTPAddr c = [] then Some (errorf ''HTTPAddr must not be empty'')
      else if cf_MaxTimeoutBudget c \<le> 0
      then Some (errorf (''MaxTimeoutBudget must be > 0, got '' @ duration_str (cf_MaxTimeoutBudget c)))
      else if cf_MaxPayloadBytes c \<le> 0
      then Some (errorf (''MaxPayloadBytes must be > 0, got '' @ int_dec (cf_MaxPayloadBytes c)))
      else if cf_InlineStreamLimit c \<le> 0
      then Some (errorf (''InlineStreamLimit must be > 0, got '' @ int_dec (cf_InlineStreamLimit c)))
      else if cf_IdempotencyWindow c \<le> 0
      then Some (errorf (''IdempotencyWindow must be > 0, got '' @ duration_str (cf_IdempotencyWindow c)))
      else if cf_ShutdownGracePeriod c \<le> 0
      then Some (errorf (''ShutdownGracePeriod must be > 0, got '' @ duration_str (cf_ShutdownGracePeriod c)))
      else if cf_MaxConcurrentExecutions c \<le> 0
      then Some (errorf (''MaxConcurrentExecutions must be > 0, got '' @ int_dec (cf_MaxConcurrentExecutions c)))
      else if cf_AllowedCommandsPath c = [] then Some (errorf ''AllowedCommandsPath must be non-empty'')
      else if cf_AllowedWorkingDirs c = [] then Some (errorf ''AllowedWorkingDirs must be non-empty'')
      else if cf_AllowedFilesystemRoots c = [] then Some (errorf ''AllowedFilesystemRoots must be non-empty'')
      else if cf_PostgresDSN c = [] then Some (errorf ''PostgresDSN is required (set RUNTIME_POSTGRES_DSN)'')
      else if cf_RuntimeVersion c = [] then Some (errorf ''RuntimeVersion must not be empty'')
      else if cf_Hostname c = [] then Some (errorf ''hostname must not be empty'')
      else if \<not> validProvenanceSource (cf_ProvenanceSource c)
      then Some (errorf (''ProvenanceSource '' @ quoted (cf_ProvenanceSource c) @
             '' invalid (must be one of governance|sdk|http|cli|test)''))
      else if cf_OTelEnabled c \<and> cf_OTelExporterEndpoint c = []
      then Some (errorf ''OTelExporterEndpoint is required when OTelEnabled=true'')
      else if float_neg (cf_OTelTracesSamplerArg c) \<or> float_above_one (cf_OTelTracesSamplerArg c)
      then Some (errorf (''OTelTracesSamplerArg must be in [0,1], got '' @ fmt (cf_OTelTracesSamplerArg c)))
      else if \<not> validRuntimeEnv (cf_Env c)
      then Some (errorf (''RUNTIME_ENV '' @ quoted (cf_Env c) @ '' invalid (must be one of development|staging|production)''))
      else None)"

section \<open>Loading from the environment\<close>

record config_env =
  en_Lookup :: "string \<Rightarrow> string option"
  en_home :: string
  en_hostname :: string
  en_ParseDuration :: "string \<Rightarrow> duration option"
  en_ParseFloat :: "string \<Rightarrow> go_float option"
  en_fmt :: "go_float \<Rightarrow> string"

text \<open>A variable that is unset or empty.\<close>

definition given :: "config_env \<Rightarrow> string \<Rightarrow> string option" where
  "given src key = (case en_Lookup src key of None \<Rightarrow> None | Some v \<Rightarrow> if v = [] then None else Some v)"

definition parsed_or :: "config_env \<Rightarrow> string \<Rightarrow> (string \<Rightarrow> 'a option) \<Rightarrow> 'a \<Rightarrow> 'a" where
  "parsed_or src key parse def =
     (case given src key of None \<Rightarrow> def | Some v \<Rightarrow> (case parse v of None \<Rightarrow> def | Some x \<Rightarrow> x))"

definition lookupString :: "config_env \<Rightarrow> string \<Rightarrow> string \<Rightarrow> string" where
  "lookupString src key def = (case given src key of None \<Rightarrow> def | Some v \<Rightarrow> v)"

definition lookupInt :: "config_env \<Rightarrow> string \<Rightarrow> int \<Rightarrow> int" where
  "lookupInt src key def = parsed_or src key Atoi def"

definition lookupDuration :: "config_env \<Rightarrow> string \<Rightarrow> duration \<Rightarrow> duration" where
  "lookupDuration src key def = parsed_or src key (en_ParseDuration src) def"

definition lookupBool :: "config_env \<Rightarrow> string \<Rightarrow> bool \<Rightarrow> bool" where
  "lookupBool src key def = parsed_or src key (\<lambda>v. case ParseBool v of Inl _ \<Rightarrow> None | Inr b \<Rightarrow> Some b) def"

definition lookupFloat :: "config_env \<Rightarrow> string \<Rightarrow> go_float \<Rightarrow> go_float" where
  "lookupFloat src key def = parsed_or src key (en_ParseFloat src) def"

definition lookupList :: "config_env \<Rightarrow> string \<Rightarrow> char \<Rightarrow> string list \<Rightarrow> string list" where
  "lookupList src key c def =
     (case given src key of None \<Rightarrow> def
      | Some v \<Rightarrow> (let out = filter (\<lambda>p. p \<noteq> []) (map TrimSpace (split_on c v)) in if out = [] then def else out))"

definition lookupRuntimeEnv :: "config_env \<Rightarrow> string" where
  "lookupRuntimeEnv src = (case given src ''RUNTIME_ENV'' of None \<Rightarrow> ''development'' | Some v \<Rightarrow> v)"

definition config_from :: "config_env \<Rightarrow> Config" where
  "config_from src =
     \<lparr>cf_HTTPAddr = lookupString src ''RUNTIME_HTTP_ADDR'' '':8080'',
      cf_MaxTimeoutBudget = lookupDuration src ''RUNTIME_MAX_TIMEOUT_BUDGET'' (30 * Minute),
      cf_MaxPayloadBytes = lookupInt src ''RUNTIME_MAX_PAYLOAD_BYTES'' 1048576,
      cf_InlineStreamLimit = lookupInt src ''RUNTIME_INLINE_STREAM_LIMIT'' 16384,
      cf_IdempotencyWindow = lookupDuration src ''RUNTIME_IDEMPOTENCY_WINDOW'' (24 * 60 * Minute),
      cf_ShutdownGracePeriod = lookupDuration src ''RUNTIME_SHUTDOWN_GRACE_PERIOD'' (30 * Second),
      cf_MaxConcurrentExecutions = lookupInt src ''RUNTIME_MAX_CONCURRENT_EXECUTIONS'' 64,
      cf_AllowedCommandsPath = lookupList src ''RUNTIME_ALLOWED_COMMANDS_PATH'' (CHR '':'') [''/usr/bin'', ''/bin''],
      cf_AllowedWorkingDirs = lookupList src ''RUNTIME_ALLOWED_WORKING_DIRS'' (CHR '':'') [en_home src],
      cf_AllowedFilesystemRoots = lookupList src ''RUNTIME_ALLOWED_FILESYSTEM_ROOTS'' (CHR '':'') [en_home src],
      cf_HTTPAllowPrivateNetworks = lookupBool src ''RUNTIME_HTTP_ALLOW_PRIVATE_NETWORKS'' False,
      cf_HTTPHostAllowlist = lookupList src ''RUNTIME_HTTP_HOST_ALLOWLIST'' (CHR '','') [],
      cf_PostgresDSN = lookupString src ''RUNTIME_POSTGRES_DSN'' [],
      cf_RuntimeVersion = lookupString src ''RUNTIME_VERSION'' ''0.1.0'',
      cf_Hostname = lookupString src ''RUNTIME_HOSTNAME'' (en_hostname src),
      cf_ProvenanceSource = lookupString src ''RUNTIME_PROVENANCE_SOURCE'' ''http'',
      cf_OTelEnabled = lookupBool src ''OTEL_ENABLED'' False,
      cf_OTelServiceName = lookupString src ''OTEL_SERVICE_NAME'' ''runtime-adapters'',
      cf_OTelExporterEndpoint = lookupString src ''OTEL_EXPORTER_OTLP_ENDPOINT'' [],
      cf_OTelTracesSampler = lookupString src ''OTEL_TRACES_SAMPLER'' ''parentbased_traceidratio'',
      cf_OTelTracesSamplerArg = lookupFloat src ''OTEL_TRACES_SAMPLER_ARG'' float_0_1,
      cf_Env = lookupRuntimeEnv src,
      cf_Chaos = \<lparr>ce_Enabled = lookupBool src ''RUNTIME_CHAOS_ENABLED'' False,
                  ce_ProfilePath = lookupString src ''RUNTIME_CHAOS_PROFILE'' []\<rparr>\<rparr>"

definition Load :: "config_env \<Rightarrow> go_error + Config" where
  "Load src =
     (let c = config_from src in
      case Validate (en_fmt src) c of Some e \<Rightarrow> Inl (wrapf ''config'' e) | None \<Rightarrow> Inr c)"

section \<open>What a loaded configuration guarantees\<close>

definition config_ok :: "Config \<Rightarrow> bool" where
  "config_ok c \<longleftrightarrow>
     cf_HTTPAddr c \<noteq> [] \<and> 0 < cf_MaxTimeoutBudget c \<and> 0 < cf_MaxPayloadBytes c \<and> 0 < cf_InlineStreamLimit c \<and>
     0 < cf_IdempotencyWindow c \<and> 0 < cf_ShutdownGracePeriod c \<and> 0 < cf_MaxConcurrentExecutions c \<and>
     cf_AllowedCommandsPath c \<noteq> [] \<and> cf_AllowedWorkingDirs c \<noteq> [] \<and> cf_AllowedFilesystemRoots c \<noteq> [] \<and>
     cf_PostgresDSN c \<noteq> [] \<and> cf_RuntimeVersion c \<noteq> [] \<and> cf_Hostname c \<noteq> [] \<and>
     validProvenanceSource (cf_ProvenanceSource c) \<and> (cf_OTelEnabled c \<longrightarrow> cf_OTelExporterEndpoint c \<noteq> []) \<and>
     \<not> float_neg (cf_OTelTracesSamplerArg c) \<and> \<not> float_above_one (cf_OTelTracesSamplerArg c) \<and>
     validRuntimeEnv (cf_Env c)"

lemma Validate_None: "Validate fmt c = None \<longleftrightarrow> config_ok c"
  by (simp add: Validate_def config_ok_def not_le)

lemma Load_Inr [validate]: "Load src = Inr c \<longleftrightarrow> c = config_from src \<and> config_ok c"
  using Validate_None [of "en_fmt src" "config_from src"] by (auto simp: Load_def Let_def split: option.splits)

text \<open>No element of a configured list is empty or has surrounding white space only.\<close>

lemma lookupList_nonempty: "def \<noteq> [] \<Longrightarrow> lookupList src key c def \<noteq> []"
  by (auto simp: lookupList_def Let_def split: option.splits)

lemma lookupList_elems: "p \<in> set (lookupList src key c def) \<Longrightarrow> p \<noteq> [] \<or> p \<in> set def"
  by (auto simp: lookupList_def Let_def split: option.splits if_splits)

text \<open>
  A floating-point NaN passes the range check of the sampler argument, although the message says
  it must be in the unit interval.
\<close>

lemma NaN_sampler_accepted:
  "config_ok c \<Longrightarrow> config_ok (c\<lparr>cf_OTelTracesSamplerArg := NaN\<rparr>)"
  by (simp add: config_ok_def)

end
