(* ===== verification/Observability.thy ===== *)
theory Observability
  imports Value_Objects
begin

text \<open>
  What the execution path says about itself: the level of the final log record
  (\<open>internal/infrastructure/obs/log/levels.go\<close>), loggers as the fields bound to them, and the
  metric contract of \<open>internal/infrastructure/obs/metrics.go\<close> with the emission helper
  \<open>RecordExecution\<close>. Emissions are values in an event list.
\<close>

section \<open>Logging\<close>

datatype Level = LevelDebug | LevelInfo | LevelWarn | LevelError

definition LevelFor :: "ExecutionStatus \<Rightarrow> ErrorClass \<Rightarrow> Level" where
  "LevelFor status errClass =
     (if status \<in> set [StatusSuccess, StatusCancelled] then LevelInfo
      else if status \<in> set [StatusTimeout, StatusPartial] then LevelWarn
      else if status = StatusFailure then
        (if errClass \<in> set [ErrValidationFailure, ErrCapabilityUnknown, ErrPayloadSchemaFailure, ErrPreconditionFailure]
         then LevelInfo
         else if errClass \<in> set [ErrExternalFailure, ErrInterrupted] then LevelWarn
         else if errClass \<in> set [ErrAdapterInternalError, ErrNormalizationFailure] then LevelError
         else LevelError)
      else LevelError)"

definition parseLevel :: "string \<Rightarrow> go_error + Level" where
  "parseLevel s =
     (if s = ''debug'' then Inr LevelDebug else if s = ''info'' then Inr LevelInfo
      else if s = ''warn'' then Inr LevelWarn else if s = ''error'' then Inr LevelError
      else Inl (errorf (''unknown level '' @ quoted s)))"

text \<open>A logger is what \<open>With\<close> bound to it.\<close>

type_synonym Logger = smap

definition log_With :: "smap \<Rightarrow> Logger \<Rightarrow> Logger" where
  "log_With attrs l = l @ attrs"

section \<open>Events\<close>

datatype event =
    Log Level string smap
  | Add string smap int
  | Observe string smap duration

definition logged :: "Logger \<Rightarrow> Level \<Rightarrow> string \<Rightarrow> smap \<Rightarrow> event" where
  "logged l level msg attrs = Log level msg (l @ attrs)"

definition RecordExecution :: "string \<Rightarrow> string \<Rightarrow> string \<Rightarrow> duration \<Rightarrow> event list" where
  "RecordExecution capability status receiptID dur =
     [Add ''runtime_adapters.execution.total'' [(''capability'', capability), (''status'', status)] 1] @
     (if status = ''success''
      then [Observe ''runtime_adapters.execution.duration''
              ([(''capability'', capability)] @ (if receiptID \<noteq> [] then [(''receipt_id'', receiptID)] else [])) dur]
      else []) @
     (if status = ''partial'' then [Add ''runtime_adapters.partial.signal'' [(''capability'', capability)] 1] else [])"

section \<open>The metric contract\<close>

record Instrument =
  ins_Name :: string
  ins_Type :: string
  ins_Unit :: string
  ins_Labels :: "string list"
  ins_Bounded :: "(string \<times> nat) list"

definition InstrumentCatalog :: "Instrument list" where
  "InstrumentCatalog =
    [\<lparr>ins_Name = ''runtime_adapters.execution.total'', ins_Type = ''counter'', ins_Unit = ''{executions}'',
      ins_Labels = [''capability'', ''status''], ins_Bounded = [(''capability'', 8), (''status'', 5)]\<rparr>,
     \<lparr>ins_Name = ''runtime_adapters.execution.duration'', ins_Type = ''histogram'', ins_Unit = ''s'',
      ins_Labels = [''capability''], ins_Bounded = [(''capability'', 8)]\<rparr>,
     \<lparr>ins_Name = ''runtime_adapters.execution.active'', ins_Type = ''updowncounter'', ins_Unit = ''{executions}'',
      ins_Labels = [''capability''], ins_Bounded = [(''capability'', 8)]\<rparr>,
     \<lparr>ins_Name = ''runtime_adapters.concurrency.rejects'', ins_Type = ''counter'', ins_Unit = ''{rejects}'',
      ins_Labels = [], ins_Bounded = []\<rparr>,
     \<lparr>ins_Name = ''runtime_adapters.adapter.panics'', ins_Type = ''counter'', ins_Unit = ''{panics}'',
      ins_Labels = [''adapter''], ins_Bounded = [(''adapter'', 4)]\<rparr>,
     \<lparr>ins_Name = ''runtime_adapters.receipt.persist.failures'', ins_Type = ''counter'', ins_Unit = ''{failures}'',
      ins_Labels = [], ins_Bounded = []\<rparr>,
     \<lparr>ins_Name = ''runtime_adapters.idempotency.replays'', ins_Type = ''counter'', ins_Unit = ''{replays}'',
      ins_Labels = [''capability''], ins_Bounded = [(''capability'', 8)]\<rparr>,
     \<lparr>ins_Name = ''runtime_adapters.pool.connections.acquired.duration'', ins_Type = ''histogram'', ins_Unit = ''s'',
      ins_Labels = [], ins_Bounded = []\<rparr>,
     \<lparr>ins_Name = ''runtime_adapters.otel.exporter.queue.size'', ins_Type = ''gauge'', ins_Unit = ''{items}'',
      ins_Labels = [''signal''], ins_Bounded = []\<rparr>,
     \<lparr>ins_Name = ''runtime_adapters.migrate.failures'', ins_Type = ''counter'', ins_Unit = ''{failures}'',
      ins_Labels = [], ins_Bounded = []\<rparr>,
     \<lparr>ins_Name = ''runtime_adapters.partial.signal'', ins_Type = ''counter'', ins_Unit = ''{partials}'',
      ins_Labels = [''capability''], ins_Bounded = [(''capability'', 8)]\<rparr>]"

text \<open>The view \<open>SetupOTel\<close> installs: the attributes that form the aggregation key of an observation.\<close>

definition dropReceiptIDView :: "string \<Rightarrow> smap \<Rightarrow> smap" where
  "dropReceiptIDView name attrs =
     (if name = ''runtime_adapters.execution.duration'' then filter (\<lambda>(k, v). k \<noteq> ''receipt_id'') attrs else attrs)"

text \<open>
  An emission keeps to the contract: its instrument is declared with a kind that has the
  operation (a counter only grows), and its aggregation key has exactly the declared labels.
\<close>

fun within_contract :: "event \<Rightarrow> bool" where
  "within_contract (Log _ _ _) = True"
| "within_contract (Add n ls d) =
     list_ex (\<lambda>i. ins_Name i = n \<and> (ins_Type i = ''counter'' \<and> 0 \<le> d \<or> ins_Type i = ''updowncounter'') \<and>
       map fst (dropReceiptIDView n ls) = ins_Labels i) InstrumentCatalog"
| "within_contract (Observe n ls d) =
     list_ex (\<lambda>i. ins_Name i = n \<and> ins_Type i = ''histogram'' \<and> map fst (dropReceiptIDView n ls) = ins_Labels i)
       InstrumentCatalog"

lemma RecordExecution_contract: "list_all within_contract (RecordExecution c st r d)"
  by (simp add: RecordExecution_def InstrumentCatalog_def dropReceiptIDView_def)

text \<open>The sum of what an instrument was given.\<close>

fun event_amount :: "string \<Rightarrow> event \<Rightarrow> int" where
  "event_amount name (Add n _ d) = (if n = name then d else 0)"
| "event_amount name (Log _ _ _) = 0"
| "event_amount name (Observe _ _ _) = 0"

definition counter :: "string \<Rightarrow> event list \<Rightarrow> int" where
  "counter name evs = sum_list (map (event_amount name) evs)"

lemma counter_simps [simp]:
  "counter n [] = 0"
  "counter n (e # evs) = event_amount n e + counter n evs"
  "counter n (xs @ ys) = counter n xs + counter n ys"
  by (simp_all add: counter_def)

lemma counter_logged [simp]: "event_amount n (logged l v m a) = 0"
  by (simp add: logged_def)

text \<open>
  The final record of an execution is at ERROR exactly for failures of the runtime itself
  (an adapter's internal error, a normalization failure, or a failure whose class the policy
  does not name); no success, cancellation, timeout or partial outcome is logged at ERROR.
\<close>

lemma LevelFor_error:
  assumes "status \<in> set allStatuses" and "errClass \<in> set allErrorClasses"
  shows "LevelFor status errClass = LevelError \<longleftrightarrow>
    status = StatusFailure \<and> errClass \<in> {ErrAdapterInternalError, ErrNormalizationFailure, ErrTimeout, ErrCancelled}"
  using assms by (auto simp: LevelFor_def enum_defs)

end
