(* ===== verification/Log_Output.thy ===== *)
theory Log_Output
  imports Observability Go_Path Go_Strconv
begin

text \<open>
  Construction of the root logger (\<open>internal/infrastructure/obs/log/config.go\<close>, \<open>logger.go\<close>) and the
  writer that copies the log to a mirror file (\<open>fanout.go\<close>). What the operating system answers
  (environment, temporary file, opening the mirror, each write) is given; handlers and their
  formats are \<open>log/slog\<close>'s.
\<close>

section \<open>Configuration\<close>

record LogConfig =
  lg_Format :: string
  lg_Level :: string
  lg_AddSource :: bool
  lg_MirrorPath :: string

record log_env =
  lo_Getenv :: "string \<Rightarrow> string"
  lo_CreateTemp :: "string \<Rightarrow> go_error option"
  lo_OpenMirror :: "string \<Rightarrow> go_error option"

definition envOr :: "log_env \<Rightarrow> string \<Rightarrow> string \<Rightarrow> string" where
  "envOr env key def = (let v = lo_Getenv env key in if v = [] then def else v)"

text \<open>\<open>Validate\<close>; its probe file is removed again.\<close>

definition log_Validate :: "log_env \<Rightarrow> LogConfig \<Rightarrow> go_error option" where
  "log_Validate env c =
     (if lg_Format c \<notin> set [''text'', ''json'']
      then Some (errorf (''RUNTIME_LOG_FORMAT must be text|json, got '' @ quoted (lg_Format c)))
      else if lg_Level c \<notin> set [''debug'', ''info'', ''warn'', ''error'']
      then Some (errorf (''RUNTIME_LOG_LEVEL must be debug|info|warn|error, got '' @ quoted (lg_Level c)))
      else if lg_MirrorPath c \<noteq> [] then
        (if \<not> IsAbs (lg_MirrorPath c)
         then Some (errorf (''RUNTIME_LOG_MIRROR_PATH must be an absolute path, got '' @ quoted (lg_MirrorPath c)))
         else let parent = filepath_Dir (lg_MirrorPath c) in
           case lo_CreateTemp env parent of
             Some e \<Rightarrow> Some (wrapf (''RUNTIME_LOG_MIRROR_PATH parent '' @ quoted parent @ '' is not writable'') e)
           | None \<Rightarrow> None)
      else None)"

definition log_LoadConfig :: "log_env \<Rightarrow> go_error + LogConfig" where
  "log_LoadConfig env =
     (let raw = lo_Getenv env ''RUNTIME_LOG_ADD_SOURCE'' in
      case (if raw = [] then Inr False
            else case ParseBool raw of Inl e \<Rightarrow> Inl (wrapf ''RUNTIME_LOG_ADD_SOURCE'' e) | Inr b \<Rightarrow> Inr b) of
        Inl e \<Rightarrow> Inl e
      | Inr b \<Rightarrow>
        (let cfg = \<lparr>lg_Format = envOr env ''RUNTIME_LOG_FORMAT'' ''text'', lg_Level = envOr env ''RUNTIME_LOG_LEVEL'' ''info'',
                    lg_AddSource = b, lg_MirrorPath = lo_Getenv env ''RUNTIME_LOG_MIRROR_PATH''\<rparr>
         in case log_Validate env cfg of Some e \<Rightarrow> Inl e | None \<Rightarrow> Inr cfg))"

text \<open>\<open>New\<close>: the options of the handler, its format and whether the mirror is written.\<close>

record log_handler =
  lh_level :: Level
  lh_addSource :: bool
  lh_json :: bool
  lh_mirror :: bool

definition log_New :: "log_env \<Rightarrow> LogConfig \<Rightarrow> go_error + log_handler" where
  "log_New env cfg =
     (case log_Validate env cfg of Some e \<Rightarrow> Inl (wrapf ''log.New'' e)
      | None \<Rightarrow> (case parseLevel (lg_Level cfg) of Inl e \<Rightarrow> Inl (wrapf ''log.New'' e)
      | Inr lvl \<Rightarrow>
        (case (if lg_MirrorPath cfg \<noteq> [] then lo_OpenMirror env (lg_MirrorPath cfg) else None) of
           Some e \<Rightarrow> Inl (wrapf (''log.New: open mirror '' @ quoted (lg_MirrorPath cfg)) e)
         | None \<Rightarrow>
           if lg_Format cfg = ''json'' then Inr \<lparr>lh_level = lvl, lh_addSource = lg_AddSource cfg, lh_json = True, lh_mirror = (lg_MirrorPath cfg \<noteq> [])\<rparr>
           else if lg_Format cfg = ''text'' then Inr \<lparr>lh_level = lvl, lh_addSource = lg_AddSource cfg, lh_json = False, lh_mirror = (lg_MirrorPath cfg \<noteq> [])\<rparr>
           else Inl (errorf (''log.New: unreachable: format '' @ quoted (lg_Format cfg))))))"

text \<open>A configuration that validates always gives a logger unless the mirror cannot be opened.\<close>

lemma log_New_Inr:
  assumes "log_LoadConfig env = Inr cfg" and "lg_MirrorPath cfg \<noteq> [] \<Longrightarrow> lo_OpenMirror env (lg_MirrorPath cfg) = None"
  shows "\<exists>h. log_New env cfg = Inr h \<and> lh_mirror h = (lg_MirrorPath cfg \<noteq> [])"
proof -
  from assms(1) have v: "log_Validate env cfg = None"
    by (auto simp: log_LoadConfig_def Let_def split: sum.splits option.splits if_splits)
  then have "lg_Format cfg \<in> {''text'', ''json''}" "lg_Level cfg \<in> {''debug'', ''info'', ''warn'', ''error''}"
    by (auto simp: log_Validate_def split: if_splits)
  then show ?thesis using v assms(2) by (auto simp: log_New_def parseLevel_def)
qed

section \<open>The mirrored writer\<close>

definition mirrorThrottleWindow :: duration where "mirrorThrottleWindow = Minute"

text \<open>
  The state of a writer: how often it was called, what reached the primary writer and the
  mirror, the lines of the error sink with their times, and \<open>lastMirrorErr\<close> (zero: none yet).
  \<open>fw_primary n\<close> and \<open>fw_mirror n\<close> are what the n-th write of the two writers returns.
\<close>

record fanout =
  fo_n :: nat
  fo_primary :: "string list"
  fo_mirror :: "string list"
  fo_sink :: "(go_time \<times> string) list"
  fo_last :: go_time

record fanout_env =
  fw_primary :: "nat \<Rightarrow> int \<times> go_error option"
  fw_mirror :: "(nat \<Rightarrow> go_error option) option"

definition NewSafeFanoutWriter :: fanout where
  "NewSafeFanoutWriter = \<lparr>fo_n = 0, fo_primary = [], fo_mirror = [], fo_sink = [], fo_last = 0\<rparr>"

definition reportMirrorError :: "go_time \<Rightarrow> go_error \<Rightarrow> fanout \<Rightarrow> fanout" where
  "reportMirrorError now e w =
     (if fo_last w \<noteq> 0 \<and> Sub now (fo_last w) < mirrorThrottleWindow then w
      else w\<lparr>fo_last := now, fo_sink := fo_sink w @ [(now, ''log mirror write failed (throttled, 1/min): '' @ err_text e @ [CHR 0x0A])]\<rparr>)"

definition fanout_Write :: "fanout_env \<Rightarrow> go_time \<Rightarrow> string \<Rightarrow> fanout \<Rightarrow> (int \<times> go_error option) \<times> fanout" where
  "fanout_Write env now p w =
     (let w1 = w\<lparr>fo_n := Suc (fo_n w), fo_primary := fo_primary w @ [p]\<rparr> in
      (fw_primary env (fo_n w),
       case fw_mirror env of None \<Rightarrow> w1
       | Some mir \<Rightarrow>
         (let w2 = w1\<lparr>fo_mirror := fo_mirror w @ [p]\<rparr> in
          case mir (fo_n w) of Some e \<Rightarrow> reportMirrorError now e w2 | None \<Rightarrow> w2)))"

fun fanout_run :: "fanout_env \<Rightarrow> (go_time \<times> string) list \<Rightarrow> fanout \<Rightarrow> (int \<times> go_error option) list \<times> fanout" where
  "fanout_run env [] w = ([], w)"
| "fanout_run env ((now, p) # ws) w =
     (case fanout_Write env now p w of (r, w1) \<Rightarrow> (case fanout_run env ws w1 of (rs, w2) \<Rightarrow> (r # rs, w2)))"

text \<open>The invariant of the throttle: the lines so far are a minute apart and the last is remembered.\<close>

definition throttled :: "go_time \<Rightarrow> fanout \<Rightarrow> bool" where
  "throttled t w \<longleftrightarrow> sorted_wrt (\<lambda>a b. fst a + mirrorThrottleWindow \<le> fst b) (fo_sink w) \<and>
     (if fo_sink w = [] then fo_last w = 0 else fo_last w = fst (last (fo_sink w)) \<and> fo_last w > 0) \<and> fo_last w \<le> t"

lemma throttled_mono: "throttled t w \<Longrightarrow> t \<le> t' \<Longrightarrow> throttled t' w"
  by (auto simp: throttled_def)

lemma throttled_frame [simp]:
  "throttled t (w\<lparr>fo_n := n\<rparr>) = throttled t w" "throttled t (w\<lparr>fo_primary := ps\<rparr>) = throttled t w"
  "throttled t (w\<lparr>fo_mirror := ms\<rparr>) = throttled t w"
  by (simp_all add: throttled_def)

lemma Sub_window: "\<not> Sub now t < mirrorThrottleWindow \<Longrightarrow> t + mirrorThrottleWindow \<le> now"
  by (simp add: Sub_def mirrorThrottleWindow_def duration_units split: if_splits)

lemma sorted_wrt_gap:
  fixes xs :: "(go_time \<times> string) list"
  assumes "sorted_wrt (\<lambda>a b. fst a + d \<le> fst b) xs" and "xs \<noteq> [] \<Longrightarrow> fst (last xs) + d \<le> fst x" and "0 \<le> d"
  shows "sorted_wrt (\<lambda>a b. fst a + d \<le> fst b) (xs @ [x])"
proof -
  have "fst a + d \<le> fst x" if "a \<in> set xs" for a
  proof -
    from that have ne: "xs \<noteq> []" by auto
    then have xs: "xs = butlast xs @ [last xs]" by simp
    have "fst a \<le> fst (last xs)"
    proof (cases "a \<in> set (butlast xs)")
      case True
      have "sorted_wrt (\<lambda>a b. fst a + d \<le> fst b) (butlast xs @ [last xs])" using assms(1) xs by simp
      then show ?thesis using True assms(3) by (force simp: sorted_wrt_append)
    next
      case False
      with that xs have "a = last xs" by (metis Un_iff empty_iff empty_set list.set(2) set_ConsD set_append)
      then show ?thesis by simp
    qed
    with assms(2) [OF ne] show ?thesis by simp
  qed
  with assms(1) show ?thesis by (auto simp: sorted_wrt_append)
qed

lemma report_throttled:
  assumes "throttled now w" and "0 < now"
  shows "throttled now (reportMirrorError now e w)"
proof (cases "fo_last w \<noteq> 0 \<and> Sub now (fo_last w) < mirrorThrottleWindow")
  case False
  have d: "0 \<le> mirrorThrottleWindow" by (simp add: mirrorThrottleWindow_def duration_units)
  have gap: "fst (last (fo_sink w)) + mirrorThrottleWindow \<le> now" if "fo_sink w \<noteq> []"
  proof -
    from that assms(1) have "fo_last w = fst (last (fo_sink w))" "fo_last w \<noteq> 0" by (auto simp: throttled_def)
    with False show ?thesis using Sub_window by metis
  qed
  have srt: "sorted_wrt (\<lambda>a b. fst a + mirrorThrottleWindow \<le> fst b) (fo_sink w)"
    using assms(1) by (simp add: throttled_def)
  let ?line = "(now, ''log mirror write failed (throttled, 1/min): '' @ err_text e @ [CHR 0x0A])"
  have eq: "reportMirrorError now e w = w\<lparr>fo_last := now, fo_sink := fo_sink w @ [?line]\<rparr>"
    unfolding reportMirrorError_def using False by (rule if_not_P)
  have "sorted_wrt (\<lambda>a b. fst a + mirrorThrottleWindow \<le> fst b) (fo_sink w @ [?line])"
    by (rule sorted_wrt_gap [OF srt _ d]) (simp add: gap)
  then show ?thesis unfolding eq throttled_def using assms(2) by simp
qed (use assms in \<open>simp add: reportMirrorError_def\<close>)

lemma Write_throttled:
  assumes "throttled now w" and "0 < now"
  shows "throttled now (snd (fanout_Write env now p w))"
proof -
  let ?w2 = "w\<lparr>fo_n := Suc (fo_n w), fo_primary := fo_primary w @ [p], fo_mirror := fo_mirror w @ [p]\<rparr>"
  have "throttled now (reportMirrorError now e ?w2)" for e
    by (rule report_throttled) (use assms in simp_all)
  then show ?thesis using assms
    by (simp add: fanout_Write_def Let_def split: option.splits)
qed

text \<open>
  C31: The mirror cannot disturb the log. For any sequence of writes at times that do not go
  back, whatever the mirror does, the caller sees the results of the primary writer and the
  primary writer gets exactly the records, as without a mirror; and any two lines about mirror
  failures in the error sink are at least a minute apart.
\<close>

theorem fanout_isolated:
  assumes "sorted (map fst ws)" and "\<forall>t \<in> set (map fst ws). 0 < t"
    and "fanout_run env ws NewSafeFanoutWriter = (rs, w)"
  shows "rs = map (fw_primary env) [0..<length ws] \<and> fo_primary w = map snd ws \<and>
    sorted_wrt (\<lambda>a b. fst a + mirrorThrottleWindow \<le> fst b) (fo_sink w)"
proof -
  have gen: "rs = map (fw_primary env) [fo_n v..<fo_n v + length ws] \<and> fo_primary w = fo_primary v @ map snd ws \<and>
      sorted_wrt (\<lambda>a b. fst a + mirrorThrottleWindow \<le> fst b) (fo_sink w)"
    if "fanout_run env ws v = (rs, w)" "throttled t v" "sorted (t # map fst ws)" "\<forall>t \<in> set (map fst ws). 0 < t" for v t
    using that
  proof (induction env ws v arbitrary: rs w t rule: fanout_run.induct)
    case (1 env v)
    then show ?case by (auto simp: throttled_def)
  next
    case (2 env now p ws v)
    obtain r w1 where w1: "fanout_Write env now p v = (r, w1)" by fastforce
    obtain rs' w2 where run: "fanout_run env ws w1 = (rs', w2)" by fastforce
    from 2 w1 run have eq: "rs = r # rs'" "w = w2" by auto
    have step: "r = fw_primary env (fo_n v)" "fo_n w1 = Suc (fo_n v)" "fo_primary w1 = fo_primary v @ [p]"
      using w1 by (auto simp: fanout_Write_def Let_def reportMirrorError_def split: option.splits)
    have "throttled now w1"
      using Write_throttled [of now v env p] throttled_mono [OF 2(3), of now] 2(4,5) w1 by simp
    have upt: "[fo_n v..<fo_n v + length ((now, p) # ws)] = fo_n v # [Suc (fo_n v)..<Suc (fo_n v) + length ws]"
      by (simp add: upt_conv_Cons del: upt_Suc)
    from "2.IH" [OF w1 [symmetric] run \<open>throttled now w1\<close>] 2(4,5) show ?case
      unfolding upt by (simp add: eq step del: upt_Suc)
  qed
  have "throttled 0 NewSafeFanoutWriter" by (simp add: throttled_def NewSafeFanoutWriter_def)
  moreover have "sorted (0 # map fst ws)" using assms(1,2) by (auto intro: less_imp_le)
  ultimately show ?thesis using gen [OF assms(3)] assms(2) by (simp add: NewSafeFanoutWriter_def)
qed

theorem fanout_isolated_witness:
  "let env = \<lparr>fw_primary = \<lambda>n. (int n, None), fw_mirror = Some (\<lambda>_. Some (errorf ''disk full''))\<rparr>;
       (rs, w) = fanout_run env [(1, ''a''), (2, ''b'')] NewSafeFanoutWriter
   in rs = [(0, None), (1, None)] \<and> fo_primary w = [''a'', ''b''] \<and>
      sorted_wrt (\<lambda>a b. fst a + mirrorThrottleWindow \<le> fst b) (fo_sink w)"
  using fanout_isolated [of "[(1, ''a''), (2, ''b'')]"
      "\<lparr>fw_primary = \<lambda>n. (int n, None), fw_mirror = Some (\<lambda>_. Some (errorf ''disk full''))\<rparr>", OF _ _ surjective_pairing]
  by (simp add: case_prod_beta Let_def upt_rec)

end
