(* ===== verification/Chaos_Decorators.thy ===== *)
theory Chaos_Decorators
  imports Chaos Go_Strconv
begin

text \<open>
  The decorators of fault injection: the adapters' synthetic outcomes (their \<open>chaos.go\<close>
  files), \<open>ChaosAdapter\<close>, \<open>ChaosReceiptRepository\<close>, the support check and the wiring.
\<close>

section \<open>The interface ChaosCapable\<close>

record chaos_methods =
  cc_SupportedChaosFaults :: "Capability \<Rightarrow> FaultKind list"
  cc_SyntheticOutcome :: "go_ctx \<Rightarrow> Capability \<Rightarrow> Payload \<Rightarrow> FaultConfig \<Rightarrow> AdapterRawOutcome option"

text \<open>An adapter with its dynamic type: the methods a type assertion to \<open>ChaosCapable\<close> finds.\<close>

record 'w DynAdapter = "'w Adapter" +
  da_chaos :: "chaos_methods option"

text \<open>
  What the code calls outside the repository: \<open>time.ParseDuration\<close>, the race of the timer with
  the context (the context's error if it ends first, and the context afterwards), and the
  lenient decoders of the payloads.
\<close>

record chaos_lib =
  cl_ParseDuration :: "string \<Rightarrow> duration option"
  cl_sleep :: "duration \<Rightarrow> go_ctx \<Rightarrow> go_error option \<times> go_ctx"
  cl_decodeRead :: "string \<Rightarrow> go_error + ReadFilePayload"
  cl_decodeWrite :: "string \<Rightarrow> go_error + WriteFilePayload"
  cl_decodeClone :: "string \<Rightarrow> go_error + ClonePayload"
  cl_decodeRequest :: "string \<Rightarrow> go_error + RequestPayload"

section \<open>Synthetic outcomes\<close>

definition shell_SupportedChaosFaults :: "Capability \<Rightarrow> FaultKind list" where
  "shell_SupportedChaosFaults cap =
     (if Canonical cap \<noteq> ''shell.exec@v1'' then [] else [FaultProcessSignal, FaultProcessExit])"

definition shell_SyntheticOutcome :: "Capability \<Rightarrow> FaultConfig \<Rightarrow> AdapterRawOutcome option" where
  "shell_SyntheticOutcome cap fault =
     (if Canonical cap \<noteq> ''shell.exec@v1'' then None
      else if fk_Kind fault = FaultProcessSignal then
        (let signal = (if map_get (fk_Match fault) ''signal'' = [] then ''SIGKILL''
                       else map_get (fk_Match fault) ''signal'') in
         Some (ExecRaw (zero_execRaw\<lparr>xr_exitCode := -1,
           xr_runErr := Some (errorf (''process killed by signal '' @ signal)),
           xr_exitSuccess := [0], xr_payloadDecoded := True\<rparr>)))
      else if fk_Kind fault = FaultProcessExit then
        (let exitCode = (case map_of (fk_Match fault) ''exit_code'' of None \<Rightarrow> 137
                         | Some v \<Rightarrow> (case Atoi v of None \<Rightarrow> 137 | Some n \<Rightarrow> n)) in
         Some (ExecRaw (zero_execRaw\<lparr>xr_exitCode := exitCode, xr_exitSuccess := [0], xr_payloadDecoded := True\<rparr>)))
      else None)"

definition decodeReadPath :: "chaos_lib \<Rightarrow> Payload \<Rightarrow> string" where
  "decodeReadPath lib p =
     (if pl_Raw p = [] then ''<unknown>''
      else case cl_decodeRead lib (pl_Raw p) of Inl _ \<Rightarrow> ''<unknown>''
      | Inr q \<Rightarrow> if rf_Path q \<noteq> [] then rf_Path q else ''<unknown>'')"

definition decodeWritePath :: "chaos_lib \<Rightarrow> Payload \<Rightarrow> string" where
  "decodeWritePath lib p =
     (if pl_Raw p = [] then ''<unknown>''
      else case cl_decodeWrite lib (pl_Raw p) of Inl _ \<Rightarrow> ''<unknown>''
      | Inr q \<Rightarrow> if wf_Path q \<noteq> [] then wf_Path q else ''<unknown>'')"

definition fs_SupportedChaosFaults :: "Capability \<Rightarrow> FaultKind list" where
  "fs_SupportedChaosFaults cap =
     (if Canonical cap = ''filesystem.read_file@v1'' then [FaultEIO, FaultPermissionDenied]
      else if Canonical cap = ''filesystem.write_file@v1'' then [FaultEIO, FaultENOSPC, FaultPermissionDenied]
      else [])"

definition fs_SyntheticOutcome :: "chaos_lib \<Rightarrow> Capability \<Rightarrow> Payload \<Rightarrow> FaultConfig \<Rightarrow> AdapterRawOutcome option" where
  "fs_SyntheticOutcome lib cap p fault =
     (let k = fk_Kind fault in
      if Canonical cap = ''filesystem.read_file@v1'' then
        (let path = decodeReadPath lib p; failed = (\<lambda>m. Some (ReadRaw (zero_readRaw\<lparr>rr_runErr := Some (errorf (m @ path))\<rparr>))) in
         if k = FaultEIO then failed ''input/output error: ''
         else if k = FaultPermissionDenied then failed ''permission denied: '' else None)
      else if Canonical cap = ''filesystem.write_file@v1'' then
        (let path = decodeWritePath lib p;
             failed = (\<lambda>m. Some (WriteRaw (zero_writeRaw\<lparr>ww_resolvedPath := path, ww_runErr := Some (errorf (m @ path))\<rparr>))) in
         if k = FaultEIO then failed ''input/output error: ''
         else if k = FaultENOSPC then failed ''no space left on device: ''
         else if k = FaultPermissionDenied then failed ''permission denied: '' else None)
      else None)"

definition git_SupportedChaosFaults :: "Capability \<Rightarrow> FaultKind list" where
  "git_SupportedChaosFaults cap =
     (if Canonical cap = ''git.clone@v1'' then [FaultRemoteUnreachable, FaultAuthFailure] else [])"

definition decode_repo_url :: "chaos_lib \<Rightarrow> Payload \<Rightarrow> string" where
  "decode_repo_url lib p =
     (if pl_Raw p = [] then ''<unknown>''
      else case cl_decodeClone lib (pl_Raw p) of Inl _ \<Rightarrow> ''<unknown>''
      | Inr q \<Rightarrow> if cp_RepoURL q \<noteq> [] then cp_RepoURL q else ''<unknown>'')"

definition git_SyntheticOutcome :: "chaos_lib \<Rightarrow> Capability \<Rightarrow> Payload \<Rightarrow> FaultConfig \<Rightarrow> AdapterRawOutcome option" where
  "git_SyntheticOutcome lib cap p fault =
     (if Canonical cap \<noteq> ''git.clone@v1'' then None
      else let failed = (\<lambda>m. Some (CloneRaw (zero_cloneRaw\<lparr>cr_runErr := Some (errorf (m @ decode_repo_url lib p))\<rparr>))) in
        if fk_Kind fault = FaultRemoteUnreachable then failed ''remote unreachable: ''
        else if fk_Kind fault = FaultAuthFailure then failed ''authentication failed for ''
        else None)"

definition http_SupportedChaosFaults :: "Capability \<Rightarrow> FaultKind list" where
  "http_SupportedChaosFaults cap =
     (if Canonical cap \<noteq> ''http.request@v1'' then []
      else [FaultConnectionReset, FaultSlowBody, FaultRedirectLoop, FaultTLSHandshakeFail, FaultAuthFailure,
            FaultRemoteUnreachable])"

definition decodeRequestForChaos :: "chaos_lib \<Rightarrow> Payload \<Rightarrow> string \<times> int list" where
  "decodeRequestForChaos lib p =
     (if pl_Raw p = [] then (''<unknown>'', [])
      else case cl_decodeRequest lib (pl_Raw p) of Inl _ \<Rightarrow> (''<unknown>'', [])
      | Inr q \<Rightarrow> (if qp_URL q \<noteq> [] then qp_URL q else ''<unknown>'', qp_ExpectedStatus q))"

definition http_SyntheticOutcome ::
  "chaos_lib \<Rightarrow> HttpConfig \<Rightarrow> Capability \<Rightarrow> Payload \<Rightarrow> FaultConfig \<Rightarrow> AdapterRawOutcome option" where
  "http_SyntheticOutcome lib cfg cap p fault =
     (if Canonical cap \<noteq> ''http.request@v1'' then None
      else let (url, expected) = decodeRequestForChaos lib p; k = fk_Kind fault;
               failed = (\<lambda>m. Some (HttpRaw (zero_httpRaw\<lparr>hr_runErr := Some (errorf (m @ url))\<rparr>))) in
        if k = FaultConnectionReset then failed ''connection reset by peer: ''
        else if k = FaultSlowBody then failed ''slow body read: deadline exceeded for ''
        else if k = FaultRedirectLoop then
          (let maxRedirects = (if hc_MaxRedirects cfg \<le> 0 then 5 else hc_MaxRedirects cfg) in
           Some (HttpRaw (zero_httpRaw\<lparr>
             hr_runErr := Some (errorf (''stopped after maximum redirects ('' @ int_dec maxRedirects @ '') for '' @ url)),
             hr_redirectCount := wrap64 (maxRedirects + 1)\<rparr>)))
        else if k = FaultTLSHandshakeFail then failed ''tls: handshake failure for ''
        else if k = FaultAuthFailure then
          Some (HttpRaw (zero_httpRaw\<lparr>hr_statusCode := 401,
            hr_expectedStatus := (if expected = [] then [200] else expected)\<rparr>))
        else if k = FaultRemoteUnreachable then failed ''dial tcp: no route to host: ''
        else None)"

definition shell_chaos :: chaos_methods where
  "shell_chaos = \<lparr>cc_SupportedChaosFaults = shell_SupportedChaosFaults,
     cc_SyntheticOutcome = (\<lambda>_ cap _ f. shell_SyntheticOutcome cap f)\<rparr>"

definition fs_chaos :: "chaos_lib \<Rightarrow> chaos_methods" where
  "fs_chaos lib = \<lparr>cc_SupportedChaosFaults = fs_SupportedChaosFaults,
     cc_SyntheticOutcome = (\<lambda>_ cap p f. fs_SyntheticOutcome lib cap p f)\<rparr>"

definition git_chaos :: "chaos_lib \<Rightarrow> chaos_methods" where
  "git_chaos lib = \<lparr>cc_SupportedChaosFaults = git_SupportedChaosFaults,
     cc_SyntheticOutcome = (\<lambda>_ cap p f. git_SyntheticOutcome lib cap p f)\<rparr>"

definition http_chaos :: "chaos_lib \<Rightarrow> HttpConfig \<Rightarrow> chaos_methods" where
  "http_chaos lib cfg = \<lparr>cc_SupportedChaosFaults = http_SupportedChaosFaults,
     cc_SyntheticOutcome = (\<lambda>_ cap p f. http_SyntheticOutcome lib cfg cap p f)\<rparr>"

definition with_chaos :: "chaos_methods option \<Rightarrow> 'w Adapter \<Rightarrow> 'w DynAdapter" where
  "with_chaos m a = \<lparr>ad_ID = ad_ID a, ad_Capabilities = ad_Capabilities a, ad_Execute = ad_Execute a, da_chaos = m\<rparr>"

section \<open>ChaosAdapter\<close>

definition parseLatency :: "chaos_lib \<Rightarrow> smap \<Rightarrow> duration" where
  "parseLatency lib m =
     (case map_of m ''duration'' of None \<Rightarrow> 100 * Millisecond
      | Some v \<Rightarrow> (case cl_ParseDuration lib v of None \<Rightarrow> 100 * Millisecond | Some d \<Rightarrow> d))"

text \<open>
  The switch over the fault kind. Waiting for a context that never ends does not return: no
  value.
\<close>

definition dispatchFault ::
  "chaos_lib \<Rightarrow> 'w DynAdapter \<Rightarrow> go_ctx \<Rightarrow> Capability \<Rightarrow> Payload \<Rightarrow> FaultConfig \<Rightarrow> 'w \<Rightarrow>
   ((AdapterRawOutcome option \<times> go_error option) outcome \<times> 'w) option" where
  "dispatchFault lib real ctx cap p fault w =
     (let k = fk_Kind fault; failed = (\<lambda>e. Some (Ret (None, Some e), w)) in
      if k = FaultLatency then
        (case cl_sleep lib (parseLatency lib (fk_Match fault)) ctx of
           (Some e, _) \<Rightarrow> failed e
         | (None, ctx') \<Rightarrow> Some (ad_Execute real ctx' cap p w))
      else if k = FaultHangUntilCancel then
        (case ctx_end ctx of None \<Rightarrow> None | Some e \<Rightarrow> failed e)
      else if k = FaultInjectPanic then
        Some (Panic (''chaos: injected panic for capability '' @ quoted (Canonical cap)), w)
      else if k = FaultPersistFailure then
        failed (errorf (''chaos: persist_failure dispatched to ChaosAdapter (should be ChaosReceiptStore); '' @
          ''ValidateProfileSupport should reject this at startup''))
      else case da_chaos real of
        None \<Rightarrow> failed (errorf (''chaos: adapter '' @ quoted (AdapterID_String (ad_ID real)) @
          '' does not implement ChaosCapable; fault '' @ quoted k @
          '' dispatch failed (ValidateProfileSupport should have rejected this at startup)''))
      | Some cc \<Rightarrow>
        (case cc_SyntheticOutcome cc ctx cap p fault of
           None \<Rightarrow> failed (errorf (''chaos: adapter '' @ quoted (AdapterID_String (ad_ID real)) @
             '' ChaosCapable did not synthesise for fault '' @ quoted k @ '' on capability '' @ quoted (Canonical cap)))
         | Some out \<Rightarrow> Some (Ret (Some out, None), w)))"

definition ChaosAdapter_Execute ::
  "chaos_lib \<Rightarrow> 'w DynAdapter \<Rightarrow> Profile option \<Rightarrow> go_ctx \<Rightarrow> Capability \<Rightarrow> Payload \<Rightarrow> 'w \<Rightarrow>
   ((AdapterRawOutcome option \<times> go_error option) outcome \<times> 'w) option" where
  "ChaosAdapter_Execute lib real profile ctx cap p w =
     (case Profile_For profile (Canonical cap) of
        None \<Rightarrow> Some (ad_Execute real ctx cap p w)
      | Some fault \<Rightarrow> dispatchFault lib real ctx cap p fault w)"

text \<open>
  The decorator behind the adapter port. The contexts that reach the port come from
  \<open>context.WithTimeout\<close>, so a wait for their end returns, at the latest at the deadline.
\<close>

definition chaos_adapter :: "chaos_lib \<Rightarrow> 'w DynAdapter \<Rightarrow> Profile option \<Rightarrow> 'w DynAdapter" where
  "chaos_adapter lib real profile =
     \<lparr>ad_ID = ad_ID real, ad_Capabilities = ad_Capabilities real,
      ad_Execute = (\<lambda>ctx cap p w. case ChaosAdapter_Execute lib real profile ctx cap p w of
          Some r \<Rightarrow> r | None \<Rightarrow> (Ret (None, Some deadline_exceeded), w)),
      da_chaos = None\<rparr>"

definition NewChaosAdapter :: "chaos_lib \<Rightarrow> 'w DynAdapter option \<Rightarrow> Profile option \<Rightarrow> 'w DynAdapter outcome" where
  "NewChaosAdapter lib real profile =
     (case real of None \<Rightarrow> Panic ''chaos.NewChaosAdapter: real adapter must not be nil''
      | Some a \<Rightarrow> Ret (chaos_adapter lib a profile))"

section \<open>ChaosReceiptRepository\<close>

definition chaos_Save :: "Profile option \<Rightarrow> 's save_fn \<Rightarrow> 's save_fn" where
  "chaos_Save profile sav ctxErr now receipt s =
     (if PersistFault profile \<noteq> None
      then (Ret (Inl (sentinel_error ErrChaosPersistFailure ''chaos: injected persist failure'')), s)
      else sav ctxErr now receipt s)"

definition NewChaosReceiptRepository ::
  "'s ReceiptRepository option \<Rightarrow> Profile option \<Rightarrow> 's ReceiptRepository outcome" where
  "NewChaosReceiptRepository real profile =
     (case real of None \<Rightarrow> Panic ''chaos.NewChaosReceiptRepository: real repository must not be nil''
      | Some r \<Rightarrow> Ret \<lparr>rr_Save = chaos_Save profile (rr_Save r), rr_FindByID = rr_FindByID r\<rparr>)"

section \<open>The support check and the wiring\<close>

type_synonym 'w chaos_registry = "(AdapterID \<times> 'w DynAdapter) list"

fun lookupAdapterByCanonical :: "'w chaos_registry \<Rightarrow> string \<Rightarrow> ('w DynAdapter \<times> Capability) option" where
  "lookupAdapterByCanonical [] canonical = None"
| "lookupAdapterByCanonical ((_, a) # rs) canonical =
     (case List.find (\<lambda>c. Canonical c = canonical) (ad_Capabilities a) of
        Some c \<Rightarrow> Some (a, c)
      | None \<Rightarrow> lookupAdapterByCanonical rs canonical)"

text \<open>What the loop appends for one entry of the profile.\<close>

definition unsupported_pair :: "'w chaos_registry \<Rightarrow> string \<times> FaultConfig \<Rightarrow> string list" where
  "unsupported_pair registry e =
     (case e of (canonical, fault) \<Rightarrow>
        if IsDecoratorNative (fk_Kind fault) then []
        else if fk_Kind fault = FaultPersistFailure then []
        else case lookupAdapterByCanonical registry canonical of
          None \<Rightarrow> [''capability '' @ quoted canonical @ '' is not registered in any adapter'']
        | Some (a, cap) \<Rightarrow>
          (case da_chaos a of
             None \<Rightarrow> [''adapter '' @ quoted (AdapterID_String (ad_ID a)) @ '' (capability '' @ quoted canonical @
               '') does not implement ChaosCapable; cannot synthesise fault '' @ quoted (fk_Kind fault)]
           | Some cc \<Rightarrow>
             if fk_Kind fault \<notin> set (cc_SupportedChaosFaults cc cap)
             then [''adapter '' @ quoted (AdapterID_String (ad_ID a)) @ '' does not support fault '' @
               quoted (fk_Kind fault) @ '' for capability '' @ quoted canonical]
             else []))"

definition ValidateProfileSupport :: "'w chaos_registry \<Rightarrow> Profile option \<Rightarrow> go_error option" where
  "ValidateProfileSupport registry profile =
     (case profile of None \<Rightarrow> None
      | Some p \<Rightarrow>
        (let unsupported = concat (map (unsupported_pair registry) (pr_Adapters p)) in
         if unsupported \<noteq> []
         then Some (sentinel_error ErrChaosProfileUnsupported
                (''chaos: profile unsupported by registered adapters (profile '' @ quoted (pr_Name p) @ ''):'' @
                 [CHR 0x0A] @ ''  - '' @ join ([CHR 0x0A] @ ''  - '') unsupported))
         else None))"

fun wrap_adapters :: "chaos_lib \<Rightarrow> Profile option \<Rightarrow> 'w chaos_registry \<Rightarrow> 'w chaos_registry outcome" where
  "wrap_adapters lib profile [] = Ret []"
| "wrap_adapters lib profile ((i, real) # rs) =
     (case NewChaosAdapter lib (Some real) profile of Panic v \<Rightarrow> Panic v
      | Ret a \<Rightarrow> (case wrap_adapters lib profile rs of Panic v \<Rightarrow> Panic v | Ret ws \<Rightarrow> Ret ((i, a) # ws)))"

definition MaybeWrapAdaptersWithChaos ::
  "chaos_lib \<Rightarrow> 'w chaos_registry \<Rightarrow> 's ReceiptRepository \<Rightarrow> ChaosConfig option \<Rightarrow>
   (go_error + 'w chaos_registry \<times> 's ReceiptRepository) outcome" where
  "MaybeWrapAdaptersWithChaos lib registry store cfg =
     (case cfg of None \<Rightarrow> Ret (Inr (registry, store))
      | Some c \<Rightarrow>
        if \<not> ch_Enabled c then Ret (Inr (registry, store))
        else case ValidateProfileSupport registry (ch_Profile c) of
          Some e \<Rightarrow> Ret (Inl e)
        | None \<Rightarrow>
          (case wrap_adapters lib (ch_Profile c) registry of Panic v \<Rightarrow> Panic v
           | Ret wrapped \<Rightarrow>
             if PersistFault (ch_Profile c) \<noteq> None
             then (case NewChaosReceiptRepository (Some store) (ch_Profile c) of
                     Panic v \<Rightarrow> Panic v | Ret store' \<Rightarrow> Ret (Inr (wrapped, store')))
             else Ret (Inr (wrapped, store))))"

section \<open>The decorated repository keeps the port's contract\<close>

context receipt_repository
begin

lemma chaos_repository: "receipt_repository (chaos_Save profile Save) FindByID rows enc dec"
  by unfold_locales
    (use save_success save_failure save_returns find_success find_frame find_returns in
      \<open>auto simp: chaos_Save_def split: if_splits\<close>)

end

interpretation chaos_mem: receipt_repository "chaos_Save profile mem_Save" mem_FindByID "\<lambda>s. map_of (mm_receipts s)" Some "\<lambda>_. Inr"
  for profile
  by (rule mem_repo.chaos_repository)

interpretation chaos_pg: receipt_repository "chaos_Save profile (pg_Save env)" "pg_FindByID env" pg_rows "pg_enc env"
  Receipt_UnmarshalJSON for profile env
  by (rule pg_repo.chaos_repository)

section \<open>The wiring\<close>

lemma wrap_adapters_eq: "wrap_adapters lib profile rs = Ret (map (\<lambda>(i, a). (i, chaos_adapter lib a profile)) rs)"
  by (induction lib profile rs rule: wrap_adapters.induct) (simp_all add: NewChaosAdapter_def)

lemma MaybeWrap_enabled:
  assumes "MaybeWrapAdaptersWithChaos lib registry store (Some c) = Ret (Inr (wrapped, store'))" and "ch_Enabled c"
  shows "ValidateProfileSupport registry (ch_Profile c) = None"
    and "wrapped = map (\<lambda>(i, a). (i, chaos_adapter lib a (ch_Profile c))) registry"
    and "store' = (if PersistFault (ch_Profile c) = None then store
      else \<lparr>rr_Save = chaos_Save (ch_Profile c) (rr_Save store), rr_FindByID = rr_FindByID store\<rparr>)"
  using assms
  by (auto simp: MaybeWrapAdaptersWithChaos_def wrap_adapters_eq NewChaosReceiptRepository_def
      split: option.splits if_splits)

lemma ValidateProfileSupport_None:
  assumes "ValidateProfileSupport registry (Some p) = None" and "(canonical, fault) \<in> set (pr_Adapters p)"
  shows "unsupported_pair registry (canonical, fault) = []"
  using assms by (auto simp: ValidateProfileSupport_def Let_def split: if_splits)

lemma MaybeWrap_returns: "\<exists>x. MaybeWrapAdaptersWithChaos lib registry store cfg = Ret x"
  by (simp add: MaybeWrapAdaptersWithChaos_def wrap_adapters_eq NewChaosReceiptRepository_def split: option.splits)

text \<open>The profile in force.\<close>

definition active_profile :: "ChaosConfig option \<Rightarrow> Profile option" where
  "active_profile cfg = (case cfg of None \<Rightarrow> None | Some c \<Rightarrow> if ch_Enabled c then ch_Profile c else None)"

definition same_on :: "(string \<Rightarrow> bool) \<Rightarrow> AdapterID \<times> 'w DynAdapter \<Rightarrow> AdapterID \<times> 'w DynAdapter \<Rightarrow> bool" where
  "same_on P x y \<longleftrightarrow> fst x = fst y \<and> ad_ID (snd x) = ad_ID (snd y) \<and>
     ad_Capabilities (snd x) = ad_Capabilities (snd y) \<and>
     (\<forall>ctx cap p w. P (Canonical cap) \<longrightarrow> ad_Execute (snd x) ctx cap p w = ad_Execute (snd y) ctx cap p w)"

text \<open>
  C25: Transparency. Unless fault injection is enabled the wiring changes neither the adapters
  nor the repository. When it is enabled, every adapter stays under its identifier, offers the
  same capabilities and behaves as before on each capability the profile does not name; the
  repository is replaced only under a persistence fault, and its \<open>FindByID\<close> never.
\<close>

theorem MaybeWrap_transparent:
  assumes "MaybeWrapAdaptersWithChaos lib registry store cfg = Ret (Inr (wrapped, store'))"
  shows "(\<not> (\<exists>c. cfg = Some c \<and> ch_Enabled c) \<longrightarrow> wrapped = registry \<and> store' = store) \<and>
    list_all2 (same_on (\<lambda>canonical. Profile_For (active_profile cfg) canonical = None)) wrapped registry \<and>
    rr_FindByID store' = rr_FindByID store \<and>
    (PersistFault (active_profile cfg) = None \<longrightarrow> store' = store)"
proof (cases "\<exists>c. cfg = Some c \<and> ch_Enabled c")
  case False
  then have "wrapped = registry" "store' = store"
    using assms by (auto simp: MaybeWrapAdaptersWithChaos_def split: option.splits)
  then show ?thesis by (simp add: same_on_def list_all2_refl)
next
  case True
  then obtain c where c: "cfg = Some c" "ch_Enabled c" by blast
  note wrap = MaybeWrap_enabled(2,3) [OF assms [unfolded c(1)] c(2)]
  have act: "active_profile cfg = ch_Profile c" using c by (simp add: active_profile_def)
  have "list_all2 (same_on (\<lambda>canonical. Profile_For (ch_Profile c) canonical = None)) wrapped registry"
    unfolding wrap(1) list_all2_map1
    by (rule list_all2_refl) (simp add: same_on_def case_prod_beta chaos_adapter_def ChaosAdapter_Execute_def)
  then show ?thesis using True by (simp add: act wrap(2))
qed

section \<open>Synthetic outcomes on the adapters of the first phase\<close>

definition phase1_registry ::
  "chaos_lib \<Rightarrow> 'z fs_state_scheme adapter_envs \<Rightarrow> RegistrationConfig \<Rightarrow> 'z fs_state_scheme chaos_registry" where
  "phase1_registry lib env cfg =
     [(shell_id, with_chaos (Some shell_chaos) (shell_adapter (ae_shell env) (rg_Shell cfg))),
      (git_id, with_chaos (Some (git_chaos lib)) (git_adapter (ae_git env) (rg_Git cfg))),
      (fs_id, with_chaos (Some (fs_chaos lib)) (fs_adapter (ae_fs env) (rg_Filesystem cfg))),
      (http_id, with_chaos (Some (http_chaos lib (http_defaults (rg_HTTP cfg))))
         (http_adapter (ae_http env) (http_defaults (rg_HTTP cfg))))]"

text \<open>The two faults whose synthetic outcome the profile or the request can turn into a success.\<close>

definition masked :: "chaos_lib \<Rightarrow> Payload \<Rightarrow> FaultConfig \<Rightarrow> bool" where
  "masked lib p fault \<longleftrightarrow>
     fk_Kind fault = FaultProcessExit \<and> (\<exists>v. map_of (fk_Match fault) ''exit_code'' = Some v \<and> Atoi v = Some 0) \<or>
     fk_Kind fault = FaultAuthFailure \<and> 401 \<in> set (snd (decodeRequestForChaos lib p))"

definition external_failure :: "ExecutionResult \<Rightarrow> bool" where
  "external_failure res \<longleftrightarrow> res_Status res = StatusFailure \<and> res_ErrorClass res = ErrExternalFailure \<and>
     res_Retryable res = HintUnknown \<and> res_Artifacts res = []"

lemma msToDuration_0 [simp]: "msToDuration 0 = 0"
  using msToDuration_exact [of 0] by (simp add: max_ms_def)

lemma external_result_failure:
  "err_text e \<noteq> [] \<Longrightarrow> \<exists>res. external_result e 0 now = Inr res \<and> external_failure res"
  by (simp add: external_result_def external_failure_def validate status_simps)

lemma shell_exit_failure:
  assumes "xr_ctxErr r = None" and "xr_validation r = []" and "xr_durationMs r = 0"
    and "xr_exitCode r \<notin> set (xr_exitSuccess r)"
  shows "\<exists>res. shell_normalize cfg r now = Inr res \<and> external_failure res"
  using assms by (simp add: shell_normalize_def Let_def external_failure_def validate status_simps)

lemma shell_synthetic:
  assumes "Canonical cap = ''shell.exec@v1''" and "fk_Kind fault \<in> set (shell_SupportedChaosFaults cap)"
  shows "\<exists>r. shell_SyntheticOutcome cap fault = Some (ExecRaw r) \<and>
    (\<not> masked lib p fault \<longrightarrow> (\<exists>res. shell_normalize cfg r now = Inr res \<and> external_failure res))"
proof (cases "fk_Kind fault = FaultProcessSignal")
  case True
  then show ?thesis using assms
    by (auto simp: shell_SyntheticOutcome_def zero_execRaw_def intro!: shell_exit_failure)
next
  case False
  with assms have k: "fk_Kind fault = FaultProcessExit" by (simp add: shell_SupportedChaosFaults_def)
  define code where "code = (case map_of (fk_Match fault) ''exit_code'' of None \<Rightarrow> 137
      | Some v \<Rightarrow> (case Atoi v of None \<Rightarrow> 137 | Some n \<Rightarrow> n))"
  have "code \<noteq> 0" if "\<not> masked lib p fault"
    using that k by (auto simp: code_def masked_def split: option.splits)
  then show ?thesis using assms False k
    by (auto simp: shell_SyntheticOutcome_def zero_execRaw_def code_def [symmetric] intro!: shell_exit_failure)
qed

lemma fs_synthetic:
  assumes "Canonical cap \<in> {''filesystem.read_file@v1'', ''filesystem.write_file@v1''}"
    and "fk_Kind fault \<in> set (fs_SupportedChaosFaults cap)"
  shows "\<exists>raw res. fs_SyntheticOutcome lib cap p fault = Some raw \<and>
    fs_normalizer cfg (Canonical cap) cap (Some raw) w now = Ret (Inr res) \<and> external_failure res"
proof (cases "Canonical cap = ''filesystem.read_file@v1''")
  case True
  then obtain t where t: "fs_SyntheticOutcome lib cap p fault =
      Some (ReadRaw (zero_readRaw\<lparr>rr_runErr := Some t\<rparr>))" "err_text t \<noteq> []"
    using assms(2) by (auto simp: fs_SyntheticOutcome_def fs_SupportedChaosFaults_def Let_def fault_kinds)
  with True external_result_failure [OF t(2), of now] show ?thesis
    by (simp add: t(1) fs_normalizer_def NormalizeRead_def normalize_read_def zero_readRaw_def)
next
  case False
  then obtain t path where t: "fs_SyntheticOutcome lib cap p fault =
      Some (WriteRaw (zero_writeRaw\<lparr>ww_resolvedPath := path, ww_runErr := Some t\<rparr>))" "err_text t \<noteq> []"
    using assms by (auto simp: fs_SyntheticOutcome_def fs_SupportedChaosFaults_def Let_def fault_kinds)
  with False external_result_failure [OF t(2), of now] show ?thesis
    by (simp add: t(1) fs_normalizer_def NormalizeWrite_def normalize_write_def zero_writeRaw_def)
qed

lemma clone_run_failure:
  "t \<noteq> [] \<Longrightarrow> \<exists>res. normalize_clone ap st (zero_cloneRaw\<lparr>cr_runErr := Some (errorf t)\<rparr>) now = Inr res \<and> external_failure res"
  by (simp add: normalize_clone_def zero_cloneRaw_def clone_artifacts_def clone_meta_def Classify_def Let_def
      external_failure_def validate status_simps bool_str_def MaxAdapterMetaBytes_def)

lemma git_synthetic:
  assumes "Canonical cap = ''git.clone@v1''" and "fk_Kind fault \<in> set (git_SupportedChaosFaults cap)"
  shows "\<exists>raw res. git_SyntheticOutcome lib cap p fault = Some raw \<and>
    git_normalizer env cfg (Canonical cap) cap (Some raw) w now = Ret (Inr res) \<and> external_failure res"
proof -
  from assms obtain t where t: "git_SyntheticOutcome lib cap p fault =
      Some (CloneRaw (zero_cloneRaw\<lparr>cr_runErr := Some (errorf t)\<rparr>))" "t \<noteq> []"
    by (auto simp: git_SyntheticOutcome_def git_SupportedChaosFaults_def Let_def fault_kinds)
  with assms(1) clone_run_failure [OF t(2), of "cap_allowsPartial cap" "gg_Stat env w [] = None" now] show ?thesis
    by (simp add: git_normalizer_def NormalizeClone_def zero_cloneRaw_def)
qed

lemma http_run_failure:
  "err_text t \<noteq> [] \<Longrightarrow> hr_ctxErr r = None \<Longrightarrow> hr_validation r = [] \<Longrightarrow> hr_durationMs r = 0 \<Longrightarrow> hr_runErr r = Some t \<Longrightarrow>
   \<exists>res. http_normalize cfg r now = Inr res \<and> external_failure res"
  using external_result_failure [of t now] by (simp add: http_normalize_def)

lemma http_status_failure:
  assumes "hr_ctxErr r = None" and "hr_validation r = []" and "hr_durationMs r = 0" and "hr_runErr r = None"
    and "hr_headers r = []" and "hr_totalBytes r = 0" and "hr_redirectCount r = 0" and "hr_bodyTruncated r = False"
    and "hr_statusCode r = 401" and "401 \<notin> set (hr_expectedStatus r)" and "hr_expectedStatus r \<noteq> []"
  shows "\<exists>res. http_normalize cfg r now = Inr res \<and> external_failure res"
proof -
  have "value_bytes (http_meta r) \<le> MaxAdapterMetaBytes"
    using assms by (simp add: http_meta_def bool_str_def int_dec_def nat_dec.simps MaxAdapterMetaBytes_def)
  then show ?thesis using assms
    by (simp add: http_normalize_def http_success_def Let_def external_failure_def validate status_simps)
qed

lemma http_synthetic:
  assumes "Canonical cap = ''http.request@v1''" and "fk_Kind fault \<in> set (http_SupportedChaosFaults cap)"
  shows "\<exists>r. http_SyntheticOutcome lib hcfg cap p fault = Some (HttpRaw r) \<and>
    (\<not> masked lib p fault \<longrightarrow> (\<exists>res. http_normalize cfg r now = Inr res \<and> external_failure res))"
proof (cases "fk_Kind fault = FaultAuthFailure")
  case True
  have "FaultAuthFailure \<notin> {FaultConnectionReset, FaultSlowBody, FaultRedirectLoop, FaultTLSHandshakeFail}"
    by (simp add: fault_kinds)
  then show ?thesis using assms True
    by (auto simp: http_SyntheticOutcome_def masked_def case_prod_beta Let_def zero_httpRaw_def intro!: http_status_failure)
next
  case False
  with assms have "fk_Kind fault \<in> {FaultConnectionReset, FaultSlowBody, FaultRedirectLoop, FaultTLSHandshakeFail,
      FaultRemoteUnreachable}"
    by (auto simp: http_SupportedChaosFaults_def)
  then have "\<exists>r t. http_SyntheticOutcome lib hcfg cap p fault = Some (HttpRaw r) \<and> hr_runErr r = Some t \<and>
      err_text t \<noteq> [] \<and> hr_ctxErr r = None \<and> hr_validation r = [] \<and> hr_durationMs r = 0"
    using assms(1)
    by (elim insertE emptyE) (simp_all add: http_SyntheticOutcome_def case_prod_beta Let_def zero_httpRaw_def fault_kinds)
  then show ?thesis using http_run_failure by blast
qed

lemma lookupAdapter_Some:
  "lookupAdapterByCanonical rs c = Some (a, cap) \<Longrightarrow>
   (\<exists>i. (i, a) \<in> set rs) \<and> cap \<in> set (ad_Capabilities a) \<and> Canonical cap = c"
  by (induction rs c rule: lookupAdapterByCanonical.induct) (auto simp: find_Some_iff split: option.splits)

lemma supported_pair:
  assumes "unsupported_pair registry (c, fault) = []"
    and "\<not> IsDecoratorNative (fk_Kind fault)" and "fk_Kind fault \<noteq> FaultPersistFailure"
  shows "\<exists>i a cap cc. (i, a) \<in> set registry \<and> cap \<in> set (ad_Capabilities a) \<and> Canonical cap = c \<and>
    da_chaos a = Some cc \<and> fk_Kind fault \<in> set (cc_SupportedChaosFaults cc cap)"
proof -
  from assms obtain a cap cc where l: "lookupAdapterByCanonical registry c = Some (a, cap)"
    and "da_chaos a = Some cc" "fk_Kind fault \<in> set (cc_SupportedChaosFaults cc cap)"
    by (auto simp: unsupported_pair_def split: option.splits if_splits prod.splits)
  with lookupAdapter_Some [OF l] show ?thesis by blast
qed

lemma chaos_adapter_synthetic:
  assumes "Profile_For profile (Canonical cap) = Some fault"
    and "\<not> IsDecoratorNative (fk_Kind fault)" and "fk_Kind fault \<noteq> FaultPersistFailure"
    and "da_chaos real = Some cc" and "cc_SyntheticOutcome cc ctx cap p fault = Some raw"
  shows "ad_Execute (chaos_adapter lib real profile) ctx cap p w = (Ret (Some raw, None), w)"
  using assms by (simp add: chaos_adapter_def ChaosAdapter_Execute_def dispatchFault_def IsDecoratorNative_def Let_def)

lemma with_chaos_sel [simp]:
  "ad_ID (with_chaos m a) = ad_ID a" "ad_Capabilities (with_chaos m a) = ad_Capabilities a"
  "ad_Execute (with_chaos m a) = ad_Execute a" "da_chaos (with_chaos m a) = m"
  by (simp_all add: with_chaos_def)

text \<open>The canonical name of a capability determines the methods of the adapter that offers it.\<close>

definition phase1_methods :: "chaos_lib \<Rightarrow> RegistrationConfig \<Rightarrow> string \<Rightarrow> chaos_methods" where
  "phase1_methods lib cfg c =
     (if c = ''shell.exec@v1'' then shell_chaos
      else if c \<in> {''filesystem.read_file@v1'', ''filesystem.write_file@v1''} then fs_chaos lib
      else if c = ''http.request@v1'' then http_chaos lib (http_defaults (rg_HTTP cfg))
      else git_chaos lib)"

lemma phase1_entry:
  assumes "(i, a) \<in> set (phase1_registry lib env cfg)"
  obtains
      "a = with_chaos (Some shell_chaos) (shell_adapter (ae_shell env) (rg_Shell cfg))"
    | "a = with_chaos (Some (git_chaos lib)) (git_adapter (ae_git env) (rg_Git cfg))"
    | "a = with_chaos (Some (fs_chaos lib)) (fs_adapter (ae_fs env) (rg_Filesystem cfg))"
    | "a = with_chaos (Some (http_chaos lib (http_defaults (rg_HTTP cfg)))) (http_adapter (ae_http env) (http_defaults (rg_HTTP cfg)))"
  using assms by (auto simp: phase1_registry_def)

lemma phase1_da_chaos:
  assumes "(i, a) \<in> set (phase1_registry lib env cfg)" and "cap \<in> set (ad_Capabilities a)"
  shows "da_chaos a = Some (phase1_methods lib cfg (Canonical cap))"
proof -
  have c: "Canonical cap \<in> Canonical ` set (ad_Capabilities a)" using assms(2) by blast
  from assms(1) show ?thesis
    by (rule phase1_entry) (use c in \<open>auto simp: phase1_canonicals phase1_methods_def\<close>)
qed

lemma supported_canonical:
  "Canonical cap = Canonical cap' \<Longrightarrow>
   cc_SupportedChaosFaults (phase1_methods lib cfg (Canonical cap)) cap =
   cc_SupportedChaosFaults (phase1_methods lib cfg (Canonical cap')) cap'"
  by (simp add: phase1_methods_def shell_chaos_def fs_chaos_def git_chaos_def http_chaos_def shell_SupportedChaosFaults_def
      fs_SupportedChaosFaults_def git_SupportedChaosFaults_def http_SupportedChaosFaults_def)

text \<open>The normalizer registered for a canonical name, and what it makes of a synthetic outcome.\<close>

lemma phase1_synthetic:
  assumes reg: "register_all (registrations env cfg) n = (None, m)"
    and cat: "Canonical cap \<in> set (map Canonical catalog)"
    and sup: "fk_Kind fault \<in> set (cc_SupportedChaosFaults (phase1_methods lib cfg (Canonical cap)) cap)"
  shows "\<exists>raw x. cc_SyntheticOutcome (phase1_methods lib cfg (Canonical cap)) ctx cap p fault = Some raw \<and>
    rn_Normalize m cap (Some raw) w (Some now) = Ret x \<and>
    (\<not> masked lib p fault \<longrightarrow> (\<exists>res. x = Inr res \<and> external_failure res))"
proof -
  note norm = registered_normalizer [OF reg]
  consider (sh) "Canonical cap = ''shell.exec@v1''"
    | (fs) "Canonical cap \<in> {''filesystem.read_file@v1'', ''filesystem.write_file@v1''}"
    | (ht) "Canonical cap = ''http.request@v1''" | (gt) "Canonical cap = ''git.clone@v1''"
    using sup cat
    by (auto simp: catalog_canonicals phase1_methods_def git_chaos_def git_SupportedChaosFaults_def)
  then show ?thesis
  proof cases
    case sh
    have "(Canonical cap, shell_Normalize (rg_Shell cfg)) \<in> set (registrations env cfg)"
      by (simp add: sh registrations_def)
    from norm [OF this] shell_synthetic [OF sh, of fault lib p "rg_Shell cfg" now] sup sh show ?thesis
      by (auto simp: phase1_methods_def shell_chaos_def shell_Normalize_def)
  next
    case fs
    have "(Canonical cap, fs_normalizer (rg_Filesystem cfg) (Canonical cap)) \<in> set (registrations env cfg)"
      using fs by (auto simp: registrations_def fs_normalizer_def)
    from norm [OF this] fs_synthetic [OF fs, of fault lib p "rg_Filesystem cfg" w now] sup fs show ?thesis
      by (auto simp: phase1_methods_def fs_chaos_def)
  next
    case ht
    have "(Canonical cap, http_Normalize (http_defaults (rg_HTTP cfg))) \<in> set (registrations env cfg)"
      by (simp add: ht registrations_def)
    from norm [OF this] http_synthetic [OF ht, of fault lib "http_defaults (rg_HTTP cfg)" p "http_defaults (rg_HTTP cfg)" now]
      sup ht show ?thesis
      by (auto simp: phase1_methods_def http_chaos_def http_Normalize_def)
  next
    case gt
    have "(Canonical cap, git_normalizer (ae_git env) (rg_Git cfg) (Canonical cap)) \<in> set (registrations env cfg)"
      by (simp add: gt registrations_def git_normalizer_def)
    from norm [OF this] git_synthetic [OF gt, of fault lib p "ae_git env" "rg_Git cfg" w now] sup gt show ?thesis
      by (auto simp: phase1_methods_def git_chaos_def)
  qed
qed

lemma phase1_in_catalog:
  assumes "(i, a) \<in> set (phase1_registry lib env cfg)" and "cap \<in> set (ad_Capabilities a)"
  shows "Canonical cap \<in> set (map Canonical catalog)"
proof -
  have c: "Canonical cap \<in> Canonical ` set (ad_Capabilities a)" using assms(2) by blast
  from assms(1) show ?thesis unfolding catalog_canonicals
    by (rule phase1_entry) (use c in \<open>auto simp: phase1_canonicals\<close>)
qed

text \<open>
  C26: Injected faults look like real ones. On the registered adapters of the first phase, once
  the wiring has accepted a profile, a fault the profile names for a capability (other than the
  three the decorator handles itself, and the persistence fault) is synthesised: the adapter's
  world is not touched, a raw outcome is returned with no error, and the normalizer registered
  for the capability turns it into a failure of class external failure with an unknown retry
  hint and no artifact. The exceptions are a process exit for which the profile gives code 0
  and an authentication failure for which the request expects status 401.
\<close>

theorem chaos_synthetic_failure:
  assumes reg: "RegisterAllPhase1 env (Some n) cfg clk = (Inr ads, Some m)"
    and wrap: "MaybeWrapAdaptersWithChaos lib (phase1_registry lib env cfg) store
      (Some \<lparr>ch_Enabled = True, ch_Profile = Some profile, ch_Env = e\<rparr>) = Ret (Inr (wrapped, store'))"
    and ad: "(i, ad) \<in> set wrapped" "cap \<in> set (ad_Capabilities ad)"
    and fault: "Profile_For (Some profile) (Canonical cap) = Some fault"
      "\<not> IsDecoratorNative (fk_Kind fault)" "fk_Kind fault \<noteq> FaultPersistFailure"
  shows "\<exists>raw x. ad_Execute ad ctx cap p w = (Ret (Some raw, None), w) \<and>
    rn_Normalize m cap (Some raw) w (Some now) = Ret x \<and>
    (\<not> masked lib p fault \<longrightarrow> (\<exists>res. x = Inr res \<and> external_failure res))"
proof -
  from MaybeWrap_enabled [OF wrap] have val: "ValidateProfileSupport (phase1_registry lib env cfg) (Some profile) = None"
    and w: "wrapped = map (\<lambda>(i, a). (i, chaos_adapter lib a (Some profile))) (phase1_registry lib env cfg)" by simp_all
  from ad(1) w obtain real where real: "(i, real) \<in> set (phase1_registry lib env cfg)"
    and a: "ad = chaos_adapter lib real (Some profile)" by auto
  have cap: "cap \<in> set (ad_Capabilities real)" using ad(2) by (simp add: a chaos_adapter_def)
  have "(Canonical cap, fault) \<in> set (pr_Adapters profile)" using fault(1) by (simp add: Profile_For_def map_of_SomeD)
  from supported_pair [OF ValidateProfileSupport_None [OF val this] fault(2,3)]
  obtain j b cap' where b: "(j, b) \<in> set (phase1_registry lib env cfg)" "cap' \<in> set (ad_Capabilities b)"
    and same: "Canonical cap' = Canonical cap"
    and sup: "fk_Kind fault \<in> set (cc_SupportedChaosFaults (the (da_chaos b)) cap')" by fastforce
  have sup': "fk_Kind fault \<in> set (cc_SupportedChaosFaults (phase1_methods lib cfg (Canonical cap)) cap)"
    using sup unfolding phase1_da_chaos [OF b] option.sel supported_canonical [OF same] .
  from RegisterAllPhase1_Inr [OF reg] have reg': "register_all (registrations env cfg) n = (None, m)" by blast
  from phase1_synthetic [OF reg' phase1_in_catalog [OF real cap] sup'] show ?thesis
    using chaos_adapter_synthetic [OF fault phase1_da_chaos [OF real cap]] unfolding a by metis
qed

text \<open>
  An injected persistence failure is a clean one. While the profile in force has a
  persistence fault, no sequence of operations on the wired repository changes the stored rows,
  every \<open>Save\<close> fails with the error callers test for, and what was stored before is still
  found.
\<close>

lemma chaos_persist_failure:
  assumes "MaybeWrapAdaptersWithChaos lib registry \<lparr>rr_Save = pg_Save env, rr_FindByID = pg_FindByID env\<rparr>
      (Some \<lparr>ch_Enabled = True, ch_Profile = profile, ch_Env = e\<rparr>) = Ret (Inr (wrapped, store'))"
    and "PersistFault profile \<noteq> None"
  shows "pg_rows (repo_run (rr_Save store') (rr_FindByID store') ops db) = pg_rows db \<and>
    (\<exists>err. rr_Save store' c now r db = (Ret (Inl err), db) \<and> errors_Is err ErrChaosPersistFailure) \<and>
    rr_FindByID store' c now rid db = pg_FindByID env c now rid db"
proof (intro conjI)
  from MaybeWrap_enabled(3) [OF assms(1)] assms(2)
  have st: "rr_Save store' = chaos_Save profile (pg_Save env)" "rr_FindByID store' = pg_FindByID env" by simp_all
  show "\<exists>err. rr_Save store' c now r db = (Ret (Inl err), db) \<and> errors_Is err ErrChaosPersistFailure"
    using assms(2) by (auto simp: st chaos_Save_def)
  show "rr_FindByID store' c now rid db = pg_FindByID env c now rid db" by (simp add: st)
  show "pg_rows (repo_run (rr_Save store') (rr_FindByID store') ops db) = pg_rows db"
  proof (induction ops arbitrary: db)
    case (Cons op ops)
    then show ?case
      using assms(2) by (cases op) (simp_all add: st chaos_Save_def pg_repo.find_frame)
  qed simp
qed

section \<open>A concrete profile in force\<close>

definition sample_chaos_lib :: chaos_lib where
  "sample_chaos_lib = \<lparr>cl_ParseDuration = (\<lambda>_. None), cl_sleep = (\<lambda>_ c. (ctx_end c, c)),
     cl_decodeRead = (\<lambda>_. Inl (errorf [])), cl_decodeWrite = (\<lambda>_. Inl (errorf [])),
     cl_decodeClone = (\<lambda>_. Inl (errorf [])), cl_decodeRequest = (\<lambda>_. Inl (errorf []))\<rparr>"

definition sample_profile :: Profile where
  "sample_profile = \<lparr>pr_Version = 1, pr_Name = ''p'', pr_Description = [],
     pr_Adapters = [(''shell.exec@v1'', \<lparr>fk_Kind = FaultProcessSignal, fk_Timing = [], fk_Match = []\<rparr>)],
     pr_Persist = Some \<lparr>pf_Kind = FaultPersistFailure\<rparr>,
     pr_Expected = \<lparr>eo_Status = [], eo_ErrorClass = [], eo_RetryHint = []\<rparr>\<rparr>"

lemma sample_support:
  "ValidateProfileSupport (phase1_registry lib env cfg) (Some sample_profile) = None"
  by (simp add: ValidateProfileSupport_def sample_profile_def unsupported_pair_def IsDecoratorNative_def fault_kinds
      phase1_registry_def shell_adapter_def shell_cap_def shell_id_def Canonical_def canonical_of_def shell_chaos_def
      shell_SupportedChaosFaults_def)

lemma sample_wraps:
  "\<exists>store'. MaybeWrapAdaptersWithChaos lib (phase1_registry lib env cfg) store
     (Some \<lparr>ch_Enabled = True, ch_Profile = Some sample_profile, ch_Env = ''staging''\<rparr>) =
   Ret (Inr (map (\<lambda>(i, a). (i, chaos_adapter lib a (Some sample_profile))) (phase1_registry lib env cfg), store'))"
  by (simp add: MaybeWrapAdaptersWithChaos_def sample_support wrap_adapters_eq NewChaosReceiptRepository_def)

theorem chaos_synthetic_failure_witness:
  "\<forall>(env :: fs_state adapter_envs) store :: memory ReceiptRepository. \<exists>wrapped store' ad raw.
     MaybeWrapAdaptersWithChaos sample_chaos_lib (phase1_registry sample_chaos_lib env sample_registration) store
       (Some \<lparr>ch_Enabled = True, ch_Profile = Some sample_profile, ch_Env = ''staging''\<rparr>) = Ret (Inr (wrapped, store')) \<and>
     (shell_id, ad) \<in> set wrapped \<and>
     ad_Execute ad background shell_cap sample_payload sample_fs = (Ret (Some raw, None), sample_fs)"
proof (intro allI)
  fix env :: "fs_state adapter_envs" and store :: "memory ReceiptRepository"
  let ?reg = "phase1_registry sample_chaos_lib env sample_registration"
  let ?ad = "chaos_adapter sample_chaos_lib (with_chaos (Some shell_chaos) (shell_adapter (ae_shell env) (rg_Shell sample_registration)))
      (Some sample_profile)"
  obtain ads m where reg: "RegisterAllPhase1 env (Some fresh_normalizer) sample_registration True = (Inr ads, Some m)"
    using sample_registers by blast
  obtain store' where wrap: "MaybeWrapAdaptersWithChaos sample_chaos_lib ?reg store
      (Some \<lparr>ch_Enabled = True, ch_Profile = Some sample_profile, ch_Env = ''staging''\<rparr>) =
      Ret (Inr (map (\<lambda>(i, a). (i, chaos_adapter sample_chaos_lib a (Some sample_profile))) ?reg, store'))"
    using sample_wraps by blast
  have ad: "(shell_id, ?ad) \<in> set (map (\<lambda>(i, a). (i, chaos_adapter sample_chaos_lib a (Some sample_profile))) ?reg)"
    "shell_cap \<in> set (ad_Capabilities ?ad)"
    by (simp_all add: phase1_registry_def chaos_adapter_def shell_adapter_def)
  have fault: "Profile_For (Some sample_profile) (Canonical shell_cap) =
      Some \<lparr>fk_Kind = FaultProcessSignal, fk_Timing = [], fk_Match = []\<rparr>"
    by (simp add: Profile_For_def sample_profile_def Canonical_def canonical_of_def shell_cap_def shell_id_def)
  from chaos_synthetic_failure [OF reg wrap ad fault, of background sample_payload sample_fs 0] wrap ad
  show "\<exists>wrapped store' ad raw. MaybeWrapAdaptersWithChaos sample_chaos_lib ?reg store
       (Some \<lparr>ch_Enabled = True, ch_Profile = Some sample_profile, ch_Env = ''staging''\<rparr>) = Ret (Inr (wrapped, store')) \<and>
     (shell_id, ad) \<in> set wrapped \<and> ad_Execute ad background shell_cap sample_payload sample_fs = (Ret (Some raw, None), sample_fs)"
    by (simp add: IsDecoratorNative_def fault_kinds) blast
qed

theorem MaybeWrap_transparent_witness:
  "\<forall>(env :: fs_state adapter_envs) store :: memory ReceiptRepository. \<exists>wrapped store'.
     MaybeWrapAdaptersWithChaos sample_chaos_lib (phase1_registry sample_chaos_lib env sample_registration) store
       (Some \<lparr>ch_Enabled = True, ch_Profile = Some sample_profile, ch_Env = ''staging''\<rparr>) = Ret (Inr (wrapped, store')) \<and>
     list_all2 (same_on (\<lambda>canonical. canonical \<noteq> ''shell.exec@v1'')) wrapped
       (phase1_registry sample_chaos_lib env sample_registration) \<and>
     rr_FindByID store' = rr_FindByID store"
proof (intro allI)
  fix env :: "fs_state adapter_envs" and store :: "memory ReceiptRepository"
  let ?reg = "phase1_registry sample_chaos_lib env sample_registration"
  let ?cfg = "Some \<lparr>ch_Enabled = True, ch_Profile = Some sample_profile, ch_Env = ''staging''\<rparr>"
  obtain wrapped store' where wrap: "MaybeWrapAdaptersWithChaos sample_chaos_lib ?reg store ?cfg = Ret (Inr (wrapped, store'))"
    using sample_wraps by blast
  have "(\<lambda>c. Profile_For (active_profile ?cfg) c = None) = (\<lambda>c. c \<noteq> ''shell.exec@v1'')"
    by (auto simp: active_profile_def Profile_For_def sample_profile_def)
  with MaybeWrap_transparent [OF wrap] wrap
  show "\<exists>wrapped store'. MaybeWrapAdaptersWithChaos sample_chaos_lib ?reg store ?cfg = Ret (Inr (wrapped, store')) \<and>
      list_all2 (same_on (\<lambda>canonical. canonical \<noteq> ''shell.exec@v1'')) wrapped ?reg \<and>
      rr_FindByID store' = rr_FindByID store" by metis
qed

lemma chaos_persist_failure_example:
  "\<forall>env :: fs_state adapter_envs. \<exists>wrapped store' err.
     MaybeWrapAdaptersWithChaos sample_chaos_lib (phase1_registry sample_chaos_lib env sample_registration)
       \<lparr>rr_Save = pg_Save sample_pg, rr_FindByID = pg_FindByID sample_pg\<rparr>
       (Some \<lparr>ch_Enabled = True, ch_Profile = Some sample_profile, ch_Env = ''staging''\<rparr>) = Ret (Inr (wrapped, store')) \<and>
     rr_Save store' None 0 sample_receipt sample_db = (Ret (Inl err), sample_db) \<and> errors_Is err ErrChaosPersistFailure"
proof
  fix env :: "fs_state adapter_envs"
  obtain wrapped store' where wrap: "MaybeWrapAdaptersWithChaos sample_chaos_lib
      (phase1_registry sample_chaos_lib env sample_registration)
      \<lparr>rr_Save = pg_Save sample_pg, rr_FindByID = pg_FindByID sample_pg\<rparr>
      (Some \<lparr>ch_Enabled = True, ch_Profile = Some sample_profile, ch_Env = ''staging''\<rparr>) = Ret (Inr (wrapped, store'))"
    using sample_wraps by blast
  have "PersistFault (Some sample_profile) \<noteq> None" by (simp add: PersistFault_def sample_profile_def)
  from chaos_persist_failure [OF wrap this, of "[]" sample_db None 0 sample_receipt "rc_receiptID sample_receipt"] wrap
  show "\<exists>wrapped store' err. MaybeWrapAdaptersWithChaos sample_chaos_lib
      (phase1_registry sample_chaos_lib env sample_registration)
      \<lparr>rr_Save = pg_Save sample_pg, rr_FindByID = pg_FindByID sample_pg\<rparr>
      (Some \<lparr>ch_Enabled = True, ch_Profile = Some sample_profile, ch_Env = ''staging''\<rparr>) = Ret (Inr (wrapped, store')) \<and>
      rr_Save store' None 0 sample_receipt sample_db = (Ret (Inl err), sample_db) \<and> errors_Is err ErrChaosPersistFailure"
    by blast
qed

text \<open>
  A persistence fault listed under an adapter passes both the parser and the support check, and
  reaches the branch of the dispatch that is documented as unreachable.
\<close>

lemma persist_fault_under_adapter:
  assumes "map_of (pr_Adapters p) (Canonical cap) = Some \<lparr>fk_Kind = FaultPersistFailure, fk_Timing = t, fk_Match = m\<rparr>"
  shows "unsupported_pair registry (Canonical cap, \<lparr>fk_Kind = FaultPersistFailure, fk_Timing = t, fk_Match = m\<rparr>) = []"
    and "\<exists>err. ad_Execute (chaos_adapter lib real (Some p)) ctx cap pl w = (Ret (None, Some err), w)"
  using assms
  by (simp_all add: unsupported_pair_def chaos_adapter_def ChaosAdapter_Execute_def Profile_For_def dispatchFault_def
      fault_kinds Let_def)

text \<open>The two masked faults are normalized as a success.\<close>

lemma masked_process_exit:
  assumes "Canonical cap = ''shell.exec@v1''"
  shows "\<exists>r. shell_SyntheticOutcome cap \<lparr>fk_Kind = FaultProcessExit, fk_Timing = [], fk_Match = [(''exit_code'', ''0'')]\<rparr> =
      Some (ExecRaw r) \<and> (\<exists>res. shell_normalize cfg r now = Inr res \<and> res_Status res = StatusSuccess)"
proof -
  have "Atoi ''0'' = Some 0" by code_simp
  then show ?thesis using assms
    by (simp add: shell_SyntheticOutcome_def fault_kinds zero_execRaw_def shell_normalize_def Let_def validate status_simps)
qed

end
