(* ===== verification/Concurrency.thy ===== *)
theory Concurrency
  imports Go_Prelude "HOL-Library.Multiset"
begin

text \<open>
  The concurrency limiter (\<open>internal/application/services/concurrency.go\<close>): a buffered
  channel used as a non-blocking semaphore beside an atomic counter. The operations are given
  whole, as the service calls them, and as the atomic steps goroutines interleave.
\<close>

section \<open>The limiter\<close>

text \<open>\<open>lm_slots\<close> is the number of elements in the channel, \<open>lm_inUse\<close> the atomic counter.\<close>

record ConcurrencyLimiter =
  lm_max :: nat
  lm_slots :: nat
  lm_inUse :: int

definition NewConcurrencyLimiter :: "int \<Rightarrow> ConcurrencyLimiter outcome" where
  "NewConcurrencyLimiter mx =
     (if mx \<le> 0 then Panic (''ConcurrencyLimiter: max must be > 0, got '' @ int_dec mx)
      else Ret \<lparr>lm_max = nat mx, lm_slots = 0, lm_inUse = 0\<rparr>)"

text \<open>The two halves of each operation: the channel operation and the counter's.\<close>

definition send_slot :: "ConcurrencyLimiter \<Rightarrow> ConcurrencyLimiter option" where
  "send_slot l = (if lm_slots l < lm_max l then Some (l\<lparr>lm_slots := Suc (lm_slots l)\<rparr>) else None)"

definition recv_slot :: "ConcurrencyLimiter \<Rightarrow> ConcurrencyLimiter option" where
  "recv_slot l = (if 0 < lm_slots l then Some (l\<lparr>lm_slots := lm_slots l - 1\<rparr>) else None)"

definition add_inUse :: "int \<Rightarrow> ConcurrencyLimiter \<Rightarrow> ConcurrencyLimiter" where
  "add_inUse d l = l\<lparr>lm_inUse := wrap64 (lm_inUse l + d)\<rparr>"

definition TryAcquire :: "ConcurrencyLimiter \<Rightarrow> go_error option \<times> ConcurrencyLimiter" where
  "TryAcquire l =
     (case send_slot l of
        Some l' \<Rightarrow> (None, add_inUse 1 l')
      | None \<Rightarrow> (Some (sentinel_error ErrTooManyExecutions
          (''max concurrent executions reached: in_use='' @ int_dec (lm_inUse l) @ '' max='' @ nat_dec (lm_max l))), l))"

text \<open>\<open>Release\<close> blocks on an empty channel: no value.\<close>

definition Release :: "ConcurrencyLimiter \<Rightarrow> ConcurrencyLimiter option" where
  "Release l = (case recv_slot l of None \<Rightarrow> None | Some l' \<Rightarrow> Some (add_inUse (-1) l'))"

definition limiter_ok :: "ConcurrencyLimiter \<Rightarrow> bool" where
  "limiter_ok l \<longleftrightarrow> 0 < lm_max l \<and> lm_slots l \<le> lm_max l \<and> lm_inUse l = int (lm_slots l) \<and>
     int (lm_max l) < 2 ^ 63"

section \<open>The semaphore's contract\<close>

locale semaphore =
  fixes acquire :: "'l \<Rightarrow> go_error option \<times> 'l" and release :: "'l \<Rightarrow> 'l option"
    and held :: "'l \<Rightarrow> nat" and capacity :: "'l \<Rightarrow> nat" and ok :: "'l \<Rightarrow> bool"
  assumes acquire_iff: "ok l \<Longrightarrow> fst (acquire l) = None \<longleftrightarrow> held l < capacity l"
    and acquired: "ok l \<Longrightarrow> acquire l = (None, l') \<Longrightarrow> ok l' \<and> held l' = Suc (held l) \<and> capacity l' = capacity l"
    and refused: "ok l \<Longrightarrow> acquire l = (Some e, l') \<Longrightarrow> l' = l \<and> errors_Is e ErrTooManyExecutions"
    and released: "ok l \<Longrightarrow> 0 < held l \<Longrightarrow>
       \<exists>l'. release l = Some l' \<and> ok l' \<and> Suc (held l') = held l \<and> capacity l' = capacity l"
    and within: "ok l \<Longrightarrow> held l \<le> capacity l"
begin

text \<open>The bracket of the service: acquire, work, deferred release.\<close>

lemma acquire_ok: "ok l \<Longrightarrow> acquire l = (x, l') \<Longrightarrow> ok l'"
  using acquired [of l l'] refused [of l _ l'] by (cases x) auto

lemma bracket:
  assumes "ok l" and "acquire l = (None, l')"
  shows "\<exists>l2. release l' = Some l2 \<and> ok l2 \<and> held l2 = held l \<and> capacity l2 = capacity l"
  using acquired [OF assms] released [of l'] by fastforce

end

interpretation limiter: semaphore TryAcquire Release lm_slots lm_max limiter_ok
  by unfold_locales
    (auto simp: TryAcquire_def Release_def send_slot_def recv_slot_def add_inUse_def limiter_ok_def int64_ok_def
      split: if_splits option.splits)

section \<open>Goroutines\<close>

text \<open>
  Where a goroutine of \<open>Execute\<close> is with respect to the limiter: not holding, between the send
  and the counter's increment, executing, or between the receive and the decrement. The
  goroutines are a multiset of phases; one atomic operation of one of them is a step.
\<close>

datatype phase = Idle | Sent | Holding | Received

inductive limiter_step :: "ConcurrencyLimiter \<times> phase multiset \<Rightarrow> ConcurrencyLimiter \<times> phase multiset \<Rightarrow> bool" where
  acquire: "send_slot l = Some l' \<Longrightarrow> limiter_step (l, add_mset Idle ps) (l', add_mset Sent ps)"
| count: "limiter_step (l, add_mset Sent ps) (add_inUse 1 l, add_mset Holding ps)"
| reject: "send_slot l = None \<Longrightarrow> limiter_step (l, add_mset Idle ps) (l, add_mset Idle ps)"
| release: "recv_slot l = Some l' \<Longrightarrow> limiter_step (l, add_mset Holding ps) (l', add_mset Received ps)"
| uncount: "limiter_step (l, add_mset Received ps) (add_inUse (-1) l, add_mset Idle ps)"
| arrive: "limiter_step (l, ps) (l, add_mset Idle ps)"
| leave: "limiter_step (l, add_mset Idle ps) (l, ps)"

inductive_cases limiter_stepE: "limiter_step (l, ps) c"

inductive limiter_reach :: "nat \<Rightarrow> ConcurrencyLimiter \<times> phase multiset \<Rightarrow> bool" for mx where
  start: "limiter_reach mx (\<lparr>lm_max = mx, lm_slots = 0, lm_inUse = 0\<rparr>, {#})"
| step: "limiter_reach mx c \<Longrightarrow> limiter_step c c' \<Longrightarrow> limiter_reach mx c'"

text \<open>
  The channel holds one element per goroutine between its send and its receive, the counter
  counts those between their two counter operations.
\<close>

definition limiter_inv :: "nat \<Rightarrow> ConcurrencyLimiter \<times> phase multiset \<Rightarrow> bool" where
  "limiter_inv mx c \<longleftrightarrow>
     lm_max (fst c) = mx \<and> lm_slots (fst c) \<le> mx \<and>
     lm_slots (fst c) = count (snd c) Sent + count (snd c) Holding \<and>
     lm_inUse (fst c) = wrap64 (int (count (snd c) Holding + count (snd c) Received))"

lemma wrap64_add_left [simp]: "wrap64 (wrap64 x + y) = wrap64 (x + y)"
proof -
  have "(wrap64 x + y) + 2 ^ 63 = (x + 2 ^ 63) mod 2 ^ 64 + y" by (simp add: wrap64_def)
  then show ?thesis by (simp only: wrap64_def mod_add_left_eq) (simp add: algebra_simps)
qed

lemma wrap64_counts:
  "wrap64 (1 + wrap64 x) = wrap64 (1 + x)" "wrap64 (wrap64 (1 + x) - 1) = wrap64 x"
  using wrap64_add_left [of x 1] wrap64_add_left [of "1 + x" "- 1"] by (simp_all add: add.commute)

lemma limiter_inv_step: "limiter_inv mx c \<Longrightarrow> limiter_step c c' \<Longrightarrow> limiter_inv mx c'"
  by (erule limiter_step.cases)
    (auto simp: limiter_inv_def send_slot_def recv_slot_def add_inUse_def algebra_simps wrap64_counts split: if_splits)

lemma limiter_inv_reach: "limiter_reach mx c \<Longrightarrow> limiter_inv mx c"
proof (induction rule: limiter_reach.induct)
  case start
  show ?case by (simp add: limiter_inv_def wrap64_def)
next
  case (step c c')
  then show ?case by (blast intro: limiter_inv_step)
qed

text \<open>The operations as the service calls them are two of the steps of one goroutine.\<close>

lemma TryAcquire_steps:
  "TryAcquire l = (None, l2) \<Longrightarrow> \<exists>l1. limiter_step (l, add_mset Idle ps) (l1, add_mset Sent ps) \<and>
     limiter_step (l1, add_mset Sent ps) (l2, add_mset Holding ps)"
  by (auto simp: TryAcquire_def split: option.splits intro!: limiter_step.intros)

lemma Release_steps:
  "Release l = Some l2 \<Longrightarrow> \<exists>l1. limiter_step (l, add_mset Holding ps) (l1, add_mset Received ps) \<and>
     limiter_step (l1, add_mset Received ps) (l2, add_mset Idle ps)"
  by (auto simp: Release_def split: option.splits intro!: limiter_step.intros)

section \<open>Properties\<close>

text \<open>
  C21: In every interleaving of any number of goroutines, at most \<open>max\<close> executions are in
  flight; the deferred \<open>Release\<close> of one that is never blocks; and an attempt is refused only
  when \<open>max\<close> slots really are taken. When no goroutine is between the two halves of an
  operation, the counter is exactly the number of executions in flight.
\<close>

theorem limiter_interleaving:
  assumes reach: "limiter_reach mx (l, ps)"
  shows "count ps Holding \<le> mx \<and>
    (Holding \<in># ps \<longrightarrow> Release l \<noteq> None) \<and>
    (fst (TryAcquire l) \<noteq> None \<longrightarrow> count ps Sent + count ps Holding = mx) \<and>
    (Sent \<notin># ps \<and> Received \<notin># ps \<and> int mx < 2 ^ 63 \<longrightarrow> lm_inUse l = int (count ps Holding))"
proof -
  have i: "limiter_inv mx (l, ps)" by (rule limiter_inv_reach [OF reach])
  have "Release l \<noteq> None" if "Holding \<in># ps"
    using i that by (simp add: limiter_inv_def Release_def recv_slot_def)
  moreover have "count ps Sent + count ps Holding = mx" if "fst (TryAcquire l) \<noteq> None"
    using i that by (auto simp: limiter_inv_def TryAcquire_def send_slot_def split: if_splits)
  moreover have "lm_inUse l = int (count ps Holding)" if "Sent \<notin># ps \<and> Received \<notin># ps \<and> int mx < 2 ^ 63"
    using i that by (simp add: limiter_inv_def int64_ok_def not_in_iff)
  moreover have "count ps Holding \<le> mx" using i by (simp add: limiter_inv_def)
  ultimately show ?thesis by blast
qed

theorem limiter_interleaving_witness:
  "\<exists>l. limiter_reach 1 (l, {#Holding, Idle#}) \<and> Release l \<noteq> None"
proof -
  define l0 :: ConcurrencyLimiter where "l0 = \<lparr>lm_max = 1, lm_slots = 0, lm_inUse = 0\<rparr>"
  define l1 :: ConcurrencyLimiter where "l1 = \<lparr>lm_max = 1, lm_slots = 1, lm_inUse = 0\<rparr>"
  have a: "limiter_step (l0, {#}) (l0, {#Idle#})" "limiter_step (l0, {#Idle#}) (l0, {#Idle, Idle#})"
    by (rule limiter_step.arrive)+
  have b: "limiter_step (l0, add_mset Idle {#Idle#}) (l1, add_mset Sent {#Idle#})"
    by (rule limiter_step.acquire) (simp add: l0_def l1_def send_slot_def)
  have c: "limiter_step (l1, add_mset Sent {#Idle#}) (add_inUse 1 l1, add_mset Holding {#Idle#})"
    by (rule limiter_step.count)
  have "limiter_reach 1 (l0, {#})" unfolding l0_def by (rule limiter_reach.start)
  then have r: "limiter_reach 1 (add_inUse 1 l1, {#Holding, Idle#})"
    using a b c limiter_reach.step by metis
  from limiter_interleaving [OF r] r show ?thesis by auto
qed

end
