(* ===== verification/Execute_Service.thy ===== *)
theory Execute_Service
  imports Adapter_Port Stores Concurrency Observability
begin

text \<open>
  The application services (\<open>internal/application/services\<close>): the helpers of
  \<open>structural.go\<close>, the eleven-step \<open>Execute\<close> of \<open>execute_service.go\<close> and the read side of
  \<open>query_service.go\<close>. The service runs on a state of everything it touches: the world the
  adapters act on, the stores, the limiter, how often the clock and the identifier generator
  were used, and the emissions so far.
\<close>

section \<open>Helpers\<close>

definition le_sign :: string where "le_sign = [CHR 0xE2, CHR 0x89, CHR 0xA4]"

definition ctxOutcomeFor :: "go_error \<Rightarrow> AdapterRawOutcome option \<Rightarrow> AdapterRawOutcome option" where
  "ctxOutcomeFor e fallback =
     (if errors_Is e DeadlineExceeded then Some (CtxRaw \<lparr>cx_kind = ctxKindTimeout, cx_ctxErr = e\<rparr>)
      else if errors_Is e Canceled then Some (CtxRaw \<lparr>cx_kind = ctxKindCancelled, cx_ctxErr = e\<rparr>)
      else fallback)"

definition truncateStack :: "string option \<Rightarrow> nat \<Rightarrow> string option" where
  "truncateStack b mx = (case b of None \<Rightarrow> None | Some s \<Rightarrow> Some (take (min (length s) mx) s))"

text \<open>\<open>SafeExecute\<close>: \<open>debug.Stack()\<close> is given as a function of the panic value.\<close>

definition SafeExecute ::
  "(string \<Rightarrow> string) \<Rightarrow> go_ctx \<Rightarrow> 'w Adapter \<Rightarrow> Capability \<Rightarrow> Payload \<Rightarrow> 'w \<Rightarrow>
   (AdapterRawOutcome option \<times> go_error option) \<times> 'w" where
  "SafeExecute stack ctx a cap p w =
     (case ad_Execute a ctx cap p w of
        (Ret r, w') \<Rightarrow> (r, w')
      | (Panic v, w') \<Rightarrow>
          ((Some (PanicRaw \<lparr>pr_recoveredValue = v,
              pr_stack = the (truncateStack (Some (stack v)) 4096), pr_structuralErr = None\<rparr>), None), w'))"

definition mustBuildTimings :: "go_time \<Rightarrow> go_time \<Rightarrow> go_time \<Rightarrow> go_time option \<Rightarrow> Timings" where
  "mustBuildTimings submitted started completed persisted =
     \<lparr>tm_SubmittedAt = submitted, tm_StartedAt = started, tm_CompletedAt = completed, tm_PersistedAt = persisted\<rparr>"

definition min_step :: "duration \<Rightarrow> duration \<Rightarrow> duration" where
  "min_step m d = (if d \<le> 0 then m else if m = 0 \<or> d < m then d else m)"

definition minDuration :: "duration list \<Rightarrow> duration" where
  "minDuration ds = foldl min_step 0 ds"

section \<open>The service and its state\<close>

record ('w, 's) ExecuteService =
  sv_adapters :: "(string \<times> 'w Adapter) list"
  sv_registry :: CapabilityRegistry
  sv_metrics :: bool
  sv_normalizer :: "'w ResultNormalizer"
  sv_receipts :: "'s ReceiptRepository"
  sv_idempotency :: "'s IdempotencyStore"
  sv_maxTimeout :: duration
  sv_idempWindow :: duration
  sv_provenance :: Provenance
  sv_clock :: "nat \<Rightarrow> go_time"
  sv_idGen :: "nat \<Rightarrow> string outcome"
  sv_stack :: "string \<Rightarrow> string"

text \<open>
  \<open>sv_clock n\<close> is the n-th reading of the clock and \<open>sv_idGen n\<close> the n-th identifier; the state
  counts them.
\<close>

record ('w, 's) exec_state =
  st_world :: 'w
  st_store :: 's
  st_limiter :: ConcurrencyLimiter
  st_ticks :: nat
  st_ids :: nat
  st_events :: "event list"

text \<open>
  The caller's context: the logger it carries, what its \<open>Err()\<close> returns when the stores look,
  and the execution context \<open>context.WithTimeout(ctx, effective)\<close> gives for each budget.
\<close>

record call_ctx =
  cc_logger :: Logger
  cc_lookup :: "go_error option"
  cc_find :: "go_error option"
  cc_save :: "go_error option"
  cc_exec :: "duration \<Rightarrow> go_ctx"

record ('w, 's) ExecuteServiceConfig =
  ec_Adapters :: "(string \<times> 'w Adapter) list option"
  ec_Registry :: "CapabilityRegistry option"
  ec_Metrics :: bool
  ec_Normalizer :: "'w ResultNormalizer option"
  ec_Receipts :: "'s ReceiptRepository option"
  ec_Idempotency :: "'s IdempotencyStore option"
  ec_Limiter :: "ConcurrencyLimiter option"
  ec_Clock :: "(nat \<Rightarrow> go_time) option"
  ec_IDGen :: "(nat \<Rightarrow> string outcome) option"
  ec_MaxTimeout :: duration
  ec_IdempWindow :: duration
  ec_Provenance :: Provenance

definition NewExecuteService ::
  "(string \<Rightarrow> string) \<Rightarrow> ('w, 's) ExecuteServiceConfig \<Rightarrow> go_error + ('w, 's) ExecuteService" where
  "NewExecuteService stack cfg =
     (case ec_Adapters cfg of None \<Rightarrow> Inl (errorf ''ExecuteServiceConfig.Adapters is required'')
      | Some ads \<Rightarrow> (case ec_Registry cfg of None \<Rightarrow> Inl (errorf ''ExecuteServiceConfig.Registry is required'')
      | Some reg \<Rightarrow> (case ec_Normalizer cfg of None \<Rightarrow> Inl (errorf ''ExecuteServiceConfig.Normalizer is required'')
      | Some nrm \<Rightarrow> (case ec_Receipts cfg of None \<Rightarrow> Inl (errorf ''ExecuteServiceConfig.Receipts is required'')
      | Some rcs \<Rightarrow> (case ec_Idempotency cfg of None \<Rightarrow> Inl (errorf ''ExecuteServiceConfig.Idempotency is required'')
      | Some idm \<Rightarrow> (case ec_Limiter cfg of None \<Rightarrow> Inl (errorf ''ExecuteServiceConfig.Limiter is required'')
      | Some lim \<Rightarrow> (case ec_Clock cfg of None \<Rightarrow> Inl (errorf ''ExecuteServiceConfig.Clock is required'')
      | Some clk \<Rightarrow> (case ec_IDGen cfg of None \<Rightarrow> Inl (errorf ''ExecuteServiceConfig.IDGen is required'')
      | Some gen \<Rightarrow>
        if ec_MaxTimeout cfg < 0
        then Inl (errorf (''ExecuteServiceConfig.MaxTimeout must be '' @ ge_sign @ '' 0 (0 = unlimited)''))
        else if ec_IdempWindow cfg \<le> 0 then Inl (errorf ''ExecuteServiceConfig.IdempWindow must be > 0'')
        else if prov_Source (ec_Provenance cfg) = []
        then Inl (errorf ''ExecuteServiceConfig.Provenance is required (zero value)'')
        else Inr \<lparr>sv_adapters = ads, sv_registry = reg, sv_metrics = ec_Metrics cfg, sv_normalizer = nrm,
                  sv_receipts = rcs, sv_idempotency = idm, sv_maxTimeout = ec_MaxTimeout cfg,
                  sv_idempWindow = ec_IdempWindow cfg, sv_provenance = ec_Provenance cfg,
                  sv_clock = clk, sv_idGen = gen, sv_stack = stack\<rparr>))))))))"

section \<open>Primitive actions\<close>

definition read_clock :: "('w, 's) ExecuteService \<Rightarrow> ('w, 's) exec_state \<Rightarrow> go_time" where
  "read_clock svc st = sv_clock svc (st_ticks st)"

definition tick :: "('w, 's) exec_state \<Rightarrow> ('w, 's) exec_state" where
  "tick st = st\<lparr>st_ticks := Suc (st_ticks st)\<rparr>"

definition emit :: "event list \<Rightarrow> ('w, 's) exec_state \<Rightarrow> ('w, 's) exec_state" where
  "emit evs st = st\<lparr>st_events := st_events st @ evs\<rparr>"

definition metrics :: "('w, 's) ExecuteService \<Rightarrow> event list \<Rightarrow> event list" where
  "metrics svc evs = (if sv_metrics svc then evs else [])"

type_synonym ('w, 's) reply = "(go_error + ExecutionReceipt) outcome \<times> ('w, 's) exec_state"

text \<open>\<open>idGen.New()\<close>, which may panic; the panic leaves the call.\<close>

definition with_id ::
  "('w, 's) ExecuteService \<Rightarrow> ('w, 's) exec_state \<Rightarrow> (string \<Rightarrow> ('w, 's) exec_state \<Rightarrow> ('w, 's) reply) \<Rightarrow> ('w, 's) reply" where
  "with_id svc st k =
     (let st' = st\<lparr>st_ids := Suc (st_ids st)\<rparr> in
      case sv_idGen svc (st_ids st) of Panic v \<Rightarrow> (Panic v, st') | Ret s \<Rightarrow> k s st')"

definition emitExecutionComplete :: "Logger \<Rightarrow> ExecutionReceipt \<Rightarrow> event" where
  "emitExecutionComplete l r =
     (let res = rc_result r in
      logged l (LevelFor (res_Status res) (res_ErrorClass res)) ''execution complete''
        ([(''status'', res_Status res), (''receipt_id'', receipt_key r), (''duration_ms'', int_dec (res_DurationMs res))] @
         (if res_Status res \<noteq> StatusSuccess then [(''error_class'', res_ErrorClass res)] else [])))"

text \<open>The events after a receipt was saved: the instruments and the final record.\<close>

definition completion_events :: "('w, 's) ExecuteService \<Rightarrow> Logger \<Rightarrow> string \<Rightarrow> ExecutionReceipt \<Rightarrow> event list" where
  "completion_events svc l cap saved =
     metrics svc (RecordExecution cap (res_Status (rc_result saved)) (receipt_key saved)
       (msToDuration (res_DurationMs (rc_result saved)))) @
     [emitExecutionComplete l saved]"

text \<open>
  The panic-protected \<open>Save\<close> of both paths: a success carries the saved receipt, a failure or a
  recovered panic is counted, logged and turned into the caller's error.
\<close>

definition persist ::
  "('w, 's) ExecuteService \<Rightarrow> go_error option \<Rightarrow> Logger \<Rightarrow> ExecutionReceipt \<Rightarrow> ('w, 's) exec_state \<Rightarrow>
   (go_error + ExecutionReceipt) \<times> ('w, 's) exec_state" where
  "persist svc ctxErr l receipt st =
     (case rr_Save (sv_receipts svc) ctxErr (read_clock svc st) receipt (st_store st) of (out, s') \<Rightarrow>
      (let st1 = (tick st)\<lparr>st_store := s'\<rparr>;
           failed = metrics svc [Add ''runtime_adapters.receipt.persist.failures'' [] 1] in
       case out of
         Panic v \<Rightarrow>
           (Inl (errorf ''persistence failed; side effect may have occurred: panic at persist site''),
            emit ([logged l LevelError ''persist receipt''
                     [(''panic_location'', ''persist''), (''panic_value'', v)]] @ failed) st1)
       | Ret (Inl e) \<Rightarrow>
           (Inl (wrapf ''persistence failed; side effect may have occurred'' e),
            emit (failed @ [logged l LevelError ''persist receipt'' [(''error'', err_text e)]]) st1)
       | Ret (Inr saved) \<Rightarrow> (Inr saved, st1)))"

section \<open>Structural failures\<close>

definition pseudo_capability :: "ExecutionRequest \<Rightarrow> Capability" where
  "pseudo_capability req =
     (let aid = (case NewAdapterID (AdapterID_String (req_adapterID req)) of Inr a \<Rightarrow> a | Inl _ \<Rightarrow> AdapterID []) in
      case NewCapability aid (req_capabilityName req) (req_capabilityVersion req) False Second of
        Inr c \<Rightarrow> c
      | Inl _ \<Rightarrow> (case NewCapability aid ''unknown.capability'' ''v0'' False Second of
          Inr c \<Rightarrow> c
        | Inl _ \<Rightarrow> \<lparr>cap_adapterID = AdapterID [], cap_name = [], cap_version = [],
                    cap_allowsPartial = False, cap_defaultTimeout = 0\<rparr>))"

definition persistStructural ::
  "('w, 's) ExecuteService \<Rightarrow> call_ctx \<Rightarrow> Logger \<Rightarrow> ExecutionRequest \<Rightarrow> ErrorClass \<Rightarrow> string \<Rightarrow>
   ('w, 's) exec_state \<Rightarrow> ('w, 's) reply" where
  "persistStructural svc cc l req errClass errMsg st =
     (let now = read_clock svc st; st1 = tick st in
      case NewExecutionResult StatusFailure (DefaultRetryHint errClass) errClass errMsg
             None None None [] [] 0 0 0 now of
        Inl e \<Rightarrow> (Ret (Inl (wrapf ''persistStructural: build result'' e)), st1)
      | Inr res \<Rightarrow>
        with_id svc st1 (\<lambda>hid st2.
          case NewExecutionHandle (Some hid) (req_correlationID req) (pseudo_capability req)
                 (Some (read_clock svc st2)) of
            Inl e \<Rightarrow> (Ret (Inl (wrapf ''persistStructural: build handle'' e)), tick st2)
          | Inr h \<Rightarrow>
            with_id svc (tick st2) (\<lambda>rid st3.
              case NewExecutionReceipt (Some rid) req h res (sv_provenance svc)
                     (mustBuildTimings (req_submittedAt req) now now None) (Some (read_clock svc st3)) of
                Inl e \<Rightarrow> (Ret (Inl (wrapf ''persistStructural: build receipt'' e)), tick st3)
              | Inr receipt \<Rightarrow>
                (case persist svc (cc_save cc) l receipt (tick st3) of
                   (Inl e, st4) \<Rightarrow> (Ret (Inl e), st4)
                 | (Inr saved, st4) \<Rightarrow>
                     (Ret (Inr saved),
                      emit (completion_events svc l (Canonical (pseudo_capability req)) saved) st4)))))"

section \<open>Dispatch and result\<close>

text \<open>Steps 7b and 7c: what the adapter's return and the execution context amount to.\<close>

definition effective_raw ::
  "go_error option \<Rightarrow> AdapterRawOutcome option \<times> go_error option \<Rightarrow> AdapterRawOutcome option" where
  "effective_raw ctxErr r =
     (let (raw, adapterErr) =
        (case ctxErr of Some e \<Rightarrow> (ctxOutcomeFor e (fst r), None) | None \<Rightarrow> r)
      in case (adapterErr, raw) of
           (Some e, None) \<Rightarrow>
             Some (PanicRaw \<lparr>pr_recoveredValue = ''<nil>'', pr_stack = [], pr_structuralErr = Some e\<rparr>)
         | _ \<Rightarrow> raw)"

definition panic_events :: "('w, 's) ExecuteService \<Rightarrow> Logger \<Rightarrow> Capability \<Rightarrow> AdapterRawOutcome option \<Rightarrow> event list" where
  "panic_events svc l cap raw =
     (case raw of
        Some (PanicRaw pr) \<Rightarrow>
          if pr_structuralErr pr = None
          then metrics svc [Add ''runtime_adapters.adapter.panics'' [(''adapter'', AdapterID_String (cap_adapterID cap))] 1] @
               [logged l LevelError ''adapter panic recovered''
                  [(''panic_location'', ''adapter_execute''), (''panic_value'', pr_recoveredValue pr)]]
          else []
      | _ \<Rightarrow> [])"

text \<open>Step 8: the result of a raw outcome, and what is logged on the way.\<close>

definition ctx_raw_result :: "ctxRaw \<Rightarrow> duration \<Rightarrow> go_time \<Rightarrow> go_error + ExecutionResult" where
  "ctx_raw_result r dur tEnd =
     (if cx_kind r = ctxKindTimeout
      then NewExecutionResult StatusTimeout HintRetryable ErrTimeout (err_text (cx_ctxErr r)) None None None [] [] 0 0 dur tEnd
      else NewExecutionResult StatusCancelled HintNonRetryable ErrCancelled (err_text (cx_ctxErr r)) None None None [] [] 0 0 dur tEnd)"

definition panic_raw_result :: "panicRaw \<Rightarrow> duration \<Rightarrow> go_time \<Rightarrow> go_error + ExecutionResult" where
  "panic_raw_result r dur tEnd =
     NewExecutionResult StatusFailure HintNonRetryable ErrAdapterInternalError
       (case pr_structuralErr r of Some e \<Rightarrow> ''adapter structural error: '' @ err_text e
        | None \<Rightarrow> ''panic recovered: '' @ pr_recoveredValue r)
       None None None [] (if pr_stack r \<noteq> [] then [(''panic.stack'', pr_stack r)] else []) 0 0 dur tEnd"

definition normalization_failure :: "string \<Rightarrow> duration \<Rightarrow> go_time \<Rightarrow> go_error + ExecutionResult" where
  "normalization_failure msg dur tEnd =
     NewExecutionResult StatusFailure HintNonRetryable ErrNormalizationFailure msg None None None [] [] 0 0 dur tEnd"

definition build_result ::
  "('w, 's) ExecuteService \<Rightarrow> Logger \<Rightarrow> Capability \<Rightarrow> AdapterRawOutcome option \<Rightarrow> duration \<Rightarrow> go_time \<Rightarrow>
   'w \<Rightarrow> go_time \<Rightarrow> (go_error + ExecutionResult) \<times> event list" where
  "build_result svc l cap raw dur tEnd w now =
     (case raw of
        Some (CtxRaw r) \<Rightarrow> (map_sum (wrapf ''build ctx result'') id (ctx_raw_result r dur tEnd), [])
      | Some (PanicRaw r) \<Rightarrow> (map_sum (wrapf ''build panic result'') id (panic_raw_result r dur tEnd), [])
      | _ \<Rightarrow>
        (let (nres, evs) =
           (case rn_Normalize (sv_normalizer svc) cap raw w (Some now) of
              Ret x \<Rightarrow> (x, [])
            | Panic v \<Rightarrow>
                (map_sum (wrapf ''build normalizer-panic result'') id
                   (normalization_failure (''normalizer panic: '' @ v) dur tEnd),
                 [logged l LevelError ''normalizer panic recovered''
                    [(''panic_location'', ''normalizer''), (''panic_value'', v)]]))
         in case nres of
              Inr res \<Rightarrow> (Inr res, evs)
            | Inl nErr \<Rightarrow>
                (map_sum (wrapf ''build normalization-failure result'') id
                   (normalization_failure (err_text nErr) dur tEnd), evs)))"

section \<open>Execute\<close>

text \<open>Steps 10b: the key is recorded if it can be; errors are ignored, panics logged.\<close>

definition record_key ::
  "('w, 's) ExecuteService \<Rightarrow> Logger \<Rightarrow> ExecutionRequest \<Rightarrow> ExecutionReceipt \<Rightarrow> ('w, 's) exec_state \<Rightarrow> ('w, 's) exec_state" where
  "record_key svc l req saved st =
     (case req_idempotencyKey req of None \<Rightarrow> st
      | Some key \<Rightarrow>
        (case is_Record (sv_idempotency svc) None (read_clock svc st) key (rc_receiptID saved) (sv_idempWindow svc)
               (st_store st) of
           (Ret _, s') \<Rightarrow> (tick st)\<lparr>st_store := s'\<rparr>
         | (Panic v, s') \<Rightarrow>
             emit [logged l LevelError ''idempotency record panic recovered''
                     [(''panic_location'', ''idempotency_record''), (''panic_value'', v)]]
               ((tick st)\<lparr>st_store := s'\<rparr>)))"

text \<open>Steps 9 to 11, on a result.\<close>

definition finish ::
  "('w, 's) ExecuteService \<Rightarrow> Logger \<Rightarrow> ExecutionRequest \<Rightarrow> Capability \<Rightarrow> ExecutionHandle \<Rightarrow> ExecutionResult \<Rightarrow>
   go_time \<Rightarrow> go_time \<Rightarrow> ('w, 's) exec_state \<Rightarrow> ('w, 's) reply" where
  "finish svc l req cap h res tStart tEnd st =
     with_id svc st (\<lambda>rid st1.
       case NewExecutionReceipt (Some rid) req h res (sv_provenance svc)
              (mustBuildTimings (req_submittedAt req) tStart tEnd None) (Some (read_clock svc st1)) of
         Inl e \<Rightarrow> (Ret (Inl (wrapf ''receipt assembly'' e)), tick st1)
       | Inr receipt \<Rightarrow>
         (case persist svc None l receipt (tick st1) of
            (Inl e, st2) \<Rightarrow> (Ret (Inl e), st2)
          | (Inr saved, st2) \<Rightarrow>
              (Ret (Inr saved),
               emit (completion_events svc l (Canonical cap) saved) (record_key svc l req saved st2))))"

text \<open>Steps 7 and 8: the dispatch between its two clock readings, then the result.\<close>

definition run_adapter ::
  "('w, 's) ExecuteService \<Rightarrow> Logger \<Rightarrow> ExecutionRequest \<Rightarrow> Capability \<Rightarrow> ExecutionHandle \<Rightarrow> 'w Adapter \<Rightarrow>
   go_ctx \<Rightarrow> ('w, 's) exec_state \<Rightarrow> ('w, 's) reply" where
  "run_adapter svc l req cap h adapter execCtx st =
     (let tStart = read_clock svc st; st1 = tick st in
      case SafeExecute (sv_stack svc) execCtx adapter cap (req_payload req) (st_world st1) of (r, w') \<Rightarrow>
      (let st2 = st1\<lparr>st_world := w'\<rparr>; tEnd = read_clock svc st2; st3 = tick st2;
           raw = effective_raw (ctx_end execCtx) r;
           st4 = emit (panic_events svc l cap raw) st3
       in case build_result svc l cap raw (Sub tEnd tStart) tEnd w' (read_clock svc st4) of
            (Inl e, evs) \<Rightarrow> (Ret (Inl e), emit evs (tick st4))
          | (Inr res, evs) \<Rightarrow> finish svc l req cap h res tStart tEnd (emit evs (tick st4))))"

text \<open>Step 7's bracket of the active-executions instrument.\<close>

definition active :: "('w, 's) ExecuteService \<Rightarrow> Capability \<Rightarrow> int \<Rightarrow> event list" where
  "active svc cap d = metrics svc [Add ''runtime_adapters.execution.active'' [(''capability'', Canonical cap)] d]"

definition dispatch ::
  "('w, 's) ExecuteService \<Rightarrow> Logger \<Rightarrow> ExecutionRequest \<Rightarrow> Capability \<Rightarrow> ExecutionHandle \<Rightarrow> 'w Adapter \<Rightarrow>
   go_ctx \<Rightarrow> ('w, 's) exec_state \<Rightarrow> ('w, 's) reply" where
  "dispatch svc l req cap h adapter execCtx st =
     (case run_adapter svc l req cap h adapter execCtx (emit (active svc cap 1) st) of
        (out, st') \<Rightarrow> (out, emit (active svc cap (-1)) st'))"

text \<open>Steps 3 to 7: resolve the capability, the timeout, the handle and the adapter.\<close>

definition resolve ::
  "('w, 's) ExecuteService \<Rightarrow> call_ctx \<Rightarrow> Logger \<Rightarrow> ExecutionRequest \<Rightarrow> ('w, 's) exec_state \<Rightarrow> ('w, 's) reply" where
  "resolve svc cc l req st =
     (case reg_Lookup (sv_registry svc) (CapabilityCanonical req) of
        Inl e \<Rightarrow> persistStructural svc cc l req ErrCapabilityUnknown (err_text e) st
      | Inr cap \<Rightarrow>
        (let l1 = log_With [(''capability'', Canonical cap), (''adapter'', AdapterID_String (cap_adapterID cap))] l;
             eff = minDuration [tb_Duration (req_timeoutBudget req), cap_defaultTimeout cap, sv_maxTimeout svc] in
         if eff \<le> 0
         then persistStructural svc cc l1 req ErrValidationFailure (''effective timeout budget '' @ le_sign @ '' 0'') st
         else with_id svc st (\<lambda>hid st1.
           case NewExecutionHandle (Some hid) (req_correlationID req) cap (Some (read_clock svc st1)) of
             Inl e \<Rightarrow> persistStructural svc cc l1 req ErrAdapterInternalError (''handle generation: '' @ err_text e) (tick st1)
           | Inr h \<Rightarrow>
             (let l2 = log_With [(''handle_id'', HandleID_String (h_handleID h))] l1 in
              case map_of (sv_adapters svc) (AdapterID_String (cap_adapterID cap)) of
                None \<Rightarrow> persistStructural svc cc l2 req ErrCapabilityUnknown
                          (''no adapter registered for '' @ AdapterID_String (cap_adapterID cap)) (tick st1)
              | Some adapter \<Rightarrow> dispatch svc l2 req cap h adapter (cc_exec cc eff) (tick st1)))))"

text \<open>Step 2: the idempotency lookup; a hit replays the stored receipt.\<close>

definition lookup_stage ::
  "('w, 's) ExecuteService \<Rightarrow> call_ctx \<Rightarrow> Logger \<Rightarrow> ExecutionRequest \<Rightarrow> ('w, 's) exec_state \<Rightarrow> ('w, 's) reply" where
  "lookup_stage svc cc l req st =
     (case req_idempotencyKey req of None \<Rightarrow> resolve svc cc l req st
      | Some key \<Rightarrow>
        (case is_Lookup (sv_idempotency svc) (cc_lookup cc) (read_clock svc st) key (st_store st) of
           (out, s') \<Rightarrow>
           (let st1 = (tick st)\<lparr>st_store := s'\<rparr> in
            case out of
              Panic v \<Rightarrow>
                persistStructural svc cc l req ErrAdapterInternalError ''idempotency replay panic recovered''
                  (emit [logged l LevelError ''idempotency lookup panic recovered''
                           [(''panic_location'', ''idempotency_replay''), (''panic_value'', v)]] st1)
            | Ret (Inr (Some rid)) \<Rightarrow>
                (case rr_FindByID (sv_receipts svc) (cc_find cc) (read_clock svc st1) rid (st_store st1) of
                   (x, s2) \<Rightarrow> (x, (tick st1)\<lparr>st_store := s2\<rparr>))
            | Ret _ \<Rightarrow> resolve svc cc l req st1)))"

text \<open>
  The whole call, with the limiter's bracket. A \<open>Release\<close> that blocked would never return: no
  value.
\<close>

definition Execute ::
  "('w, 's) ExecuteService \<Rightarrow> call_ctx \<Rightarrow> ExecutionRequest \<Rightarrow> ('w, 's) exec_state \<Rightarrow> ('w, 's) reply option" where
  "Execute svc cc req st =
     (let l = log_With [(''correlation_id'', CorrelationID_String (req_correlationID req))] (cc_logger cc) in
      case TryAcquire (st_limiter st) of
        (Some e, lim) \<Rightarrow>
          Some (Ret (Inl e), emit (if errors_Is e ErrTooManyExecutions
                                   then metrics svc [Add ''runtime_adapters.concurrency.rejects'' [] 1] else [])
                  (st\<lparr>st_limiter := lim\<rparr>))
      | (None, lim) \<Rightarrow>
          (case lookup_stage svc cc l req (st\<lparr>st_limiter := lim\<rparr>) of
             (out, st') \<Rightarrow>
               (case Release (st_limiter st') of None \<Rightarrow> None
                | Some lim' \<Rightarrow> Some (out, st'\<lparr>st_limiter := lim'\<rparr>))))"

section \<open>The query service\<close>

record 's QueryService =
  qs_registry :: CapabilityRegistry
  qs_receipts :: "'s ReceiptRepository"
  qs_runtimeVersion :: string

definition NewQueryService ::
  "CapabilityRegistry option \<Rightarrow> 's ReceiptRepository option \<Rightarrow> string \<Rightarrow> go_error + 's QueryService" where
  "NewQueryService reg rcs ver =
     (case reg of None \<Rightarrow> Inl (errorf ''registry is required'')
      | Some g \<Rightarrow> (case rcs of None \<Rightarrow> Inl (errorf ''receipts is required'')
      | Some r \<Rightarrow> if ver = [] then Inl (errorf ''RuntimeVersion is required'')
                  else Inr \<lparr>qs_registry = g, qs_receipts = r, qs_runtimeVersion = ver\<rparr>))"

record ListCapabilitiesResponse =
  lc_Capabilities :: "Capability list"
  lc_RuntimeVersion :: string
  lc_SchemaVersion :: string

definition ListCapabilities ::
  "'s QueryService \<Rightarrow> go_error option \<Rightarrow> AdapterID option \<Rightarrow> go_error + ListCapabilitiesResponse" where
  "ListCapabilities q ctxErr flt =
     (case ctxErr of Some e \<Rightarrow> Inl e
      | None \<Rightarrow> Inr \<lparr>lc_Capabilities =
            (case flt of Some aid \<Rightarrow> FilterByAdapter (qs_registry q) aid | None \<Rightarrow> reg_List (qs_registry q)),
          lc_RuntimeVersion = qs_runtimeVersion q, lc_SchemaVersion = ''v1''\<rparr>)"

definition GetReceipt ::
  "'s QueryService \<Rightarrow> go_error option \<Rightarrow> go_time \<Rightarrow> ReceiptID \<Rightarrow> bool \<Rightarrow> 's \<Rightarrow>
   (go_error + ExecutionReceipt) outcome \<times> 's" where
  "GetReceipt q ctxErr now rid includeStreams s =
     (case ctxErr of Some e \<Rightarrow> (Ret (Inl e), s)
      | None \<Rightarrow>
        (case rr_FindByID (qs_receipts q) None now rid s of
           (Ret (Inr r), s') \<Rightarrow> (Ret (Inr (if \<not> includeStreams then rc_StripStreams r else r)), s')
         | (x, s') \<Rightarrow> (x, s')))"

end
