(* ===== verification/Execute_Properties.thy ===== *)
theory Execute_Properties
  imports Execute_Service
begin

text \<open>
  What the execution service guarantees: the limiter's bracket, at most one dispatch, the
  classification of outcomes, persistence before return, replay of recorded keys, and the
  instruments. Facts about all the state changes of a call are proved once, in a locale over
  an arbitrary preorder on states that the primitive actions respect.
\<close>

section \<open>Primitive actions\<close>

lemma state_simps [simp]:
  "st_limiter (tick st) = st_limiter st" "st_world (tick st) = st_world st" "st_store (tick st) = st_store st"
  "st_events (tick st) = st_events st" "st_ids (tick st) = st_ids st" "st_ticks (tick st) = Suc (st_ticks st)"
  "st_limiter (emit evs st) = st_limiter st" "st_world (emit evs st) = st_world st"
  "st_store (emit evs st) = st_store st" "st_events (emit evs st) = st_events st @ evs"
  "st_ids (emit evs st) = st_ids st" "st_ticks (emit evs st) = st_ticks st"
  by (simp_all add: tick_def emit_def)

text \<open>The call with a key, by what the lookup returned.\<close>

lemma lookup_stage_key:
  assumes "req_idempotencyKey req = Some key"
    and "is_Lookup (sv_idempotency svc) (cc_lookup cc) (read_clock svc st) key (st_store st) = (out, s')"
    and "st1 = (tick st)\<lparr>st_store := s'\<rparr>"
  shows "lookup_stage svc cc l req st = (case out of
       Panic v \<Rightarrow> persistStructural svc cc l req ErrAdapterInternalError ''idempotency replay panic recovered''
         (emit [logged l LevelError ''idempotency lookup panic recovered''
            [(''panic_location'', ''idempotency_replay''), (''panic_value'', v)]] st1)
     | Ret (Inr (Some rid)) \<Rightarrow>
         (case rr_FindByID (sv_receipts svc) (cc_find cc) (read_clock svc st1) rid (st_store st1) of
            (x, s2) \<Rightarrow> (x, (tick st1)\<lparr>st_store := s2\<rparr>))
     | Ret _ \<Rightarrow> resolve svc cc l req st1)"
  unfolding lookup_stage_def assms(1,3) by (simp add: Let_def assms(2))

text \<open>
  Emissions within the metric contract that do not touch the active-executions instrument: all
  but the dispatch bracket.
\<close>

definition active_executions :: string where
  "active_executions = ''runtime_adapters.execution.active''"

definition quiet :: "event list \<Rightarrow> bool" where
  "quiet evs \<longleftrightarrow> list_all (\<lambda>e. event_amount active_executions e = 0 \<and> within_contract e) evs"

lemma quiet_append [simp]: "quiet (xs @ ys) \<longleftrightarrow> quiet xs \<and> quiet ys"
  by (simp add: quiet_def)

lemma quiet_metrics [simp]: "quiet evs \<Longrightarrow> quiet (metrics svc evs)"
  by (simp add: metrics_def quiet_def)

lemma quiet_events [simp]:
  "quiet []" "quiet (logged l v m a # evs) = quiet evs"
  "quiet [Add ''runtime_adapters.receipt.persist.failures'' [] 1]"
  "quiet [Add ''runtime_adapters.adapter.panics'' [(''adapter'', ad)] 1]"
  "quiet [Add ''runtime_adapters.concurrency.rejects'' [] 1]"
  "quiet (RecordExecution c st r d)"
  by (simp_all add: quiet_def logged_def RecordExecution_def active_executions_def InstrumentCatalog_def dropReceiptIDView_def)

lemma quiet_completion [simp]: "quiet (completion_events svc l c r)"
  by (simp add: completion_events_def emitExecutionComplete_def Let_def)

lemma quiet_panic [simp]: "quiet (panic_events svc l cap raw)"
  by (auto simp: panic_events_def split: option.split AdapterRawOutcome.split)

lemma quiet_build_result [simp]: "build_result svc l cap raw dur tEnd w now = (x, evs) \<Longrightarrow> quiet evs"
  by (auto simp: build_result_def Let_def split: option.splits AdapterRawOutcome.splits outcome.splits sum.splits)

section \<open>Preorders the actions respect\<close>

locale service_frame =
  fixes svc :: "('w, 's) ExecuteService" and R :: "('w, 's) exec_state \<Rightarrow> ('w, 's) exec_state \<Rightarrow> bool"
  assumes same: "R st st" and chain: "R x y \<Longrightarrow> R y z \<Longrightarrow> R x z"
    and tick_act: "R st (tick st)" and ids_act: "R st (st\<lparr>st_ids := n\<rparr>)" and emit_act: "quiet evs \<Longrightarrow> R st (emit evs st)"
    and save_act: "R st (st\<lparr>st_store := snd (rr_Save (sv_receipts svc) c now r (st_store st))\<rparr>)"
    and find_act: "R st (st\<lparr>st_store := snd (rr_FindByID (sv_receipts svc) c now i (st_store st))\<rparr>)"
    and lookup_act: "R st (st\<lparr>st_store := snd (is_Lookup (sv_idempotency svc) c now k (st_store st))\<rparr>)"
    and record_act: "R st (st\<lparr>st_store := snd (is_Record (sv_idempotency svc) c now k i d (st_store st))\<rparr>)"
begin

lemma tick_then: "R (tick a) b \<Longrightarrow> R a b"
  by (rule chain [OF tick_act])

lemma then_emit: "R a b \<Longrightarrow> quiet evs \<Longrightarrow> R a (emit evs b)"
  by (rule chain [OF _ emit_act])

lemma then_tick: "R a b \<Longrightarrow> R a (tick b)"
  by (rule chain [OF _ tick_act])

lemma with_id_rel:
  assumes "\<And>s st'. R st' (snd (k s st'))"
  shows "R st (snd (with_id svc st k))"
proof (cases "sv_idGen svc (st_ids st)")
  case (Ret x)
  then show ?thesis
    using chain [OF ids_act [of st "Suc (st_ids st)"] assms [of "st\<lparr>st_ids := Suc (st_ids st)\<rparr>" x]]
    by (simp add: with_id_def)
next
  case (Panic v)
  then show ?thesis using ids_act [of st "Suc (st_ids st)"] by (simp add: with_id_def)
qed

lemma with_id_tick: "(\<And>s st'. R st' (snd (k s st'))) \<Longrightarrow> R st (snd (with_id svc (tick st) k))"
  by (rule tick_then [OF with_id_rel])

lemma persist_rel: "R st (snd (persist svc c l r st))"
proof -
  obtain out s' where run: "rr_Save (sv_receipts svc) c (read_clock svc st) r (st_store st) = (out, s')" by fastforce
  have "R st ((tick st)\<lparr>st_store := s'\<rparr>)"
    using save_act [of "tick st" c "read_clock svc st" r] run by (auto intro: tick_then)
  then show ?thesis
    by (auto simp: persist_def run Let_def split: outcome.splits sum.splits intro: then_emit)
qed

lemma record_key_rel: "R st (record_key svc l req saved st)"
proof (cases "req_idempotencyKey req")
  case None
  then show ?thesis by (simp add: record_key_def same)
next
  case (Some key)
  obtain out s' where run: "is_Record (sv_idempotency svc) None (read_clock svc st) key (rc_receiptID saved)
      (sv_idempWindow svc) (st_store st) = (out, s')" by fastforce
  have "R st ((tick st)\<lparr>st_store := s'\<rparr>)"
    using record_act [of "tick st" None "read_clock svc st" key "rc_receiptID saved" "sv_idempWindow svc"] run
    by (auto intro: tick_then)
  then show ?thesis by (auto simp: record_key_def Some run split: outcome.splits intro: then_emit)
qed

text \<open>Both paths end in a protected save, and go on only with what it saved.\<close>

lemma persist_then:
  assumes "\<And>saved st'. R st' (f saved st')"
  shows "R st (snd (case persist svc c l r (tick st) of
      (Inl e, st') \<Rightarrow> (Ret (Inl e), st') | (Inr saved, st') \<Rightarrow> (Ret (Inr saved), f saved st')))"
proof -
  obtain x st' where run: "persist svc c l r (tick st) = (x, st')" by fastforce
  then have "R st st'" using tick_then [OF persist_rel [of "tick st" c l r]] by simp
  then show ?thesis using assms chain by (cases x) (auto simp: run)
qed

lemma persistStructural_rel: "R st (snd (persistStructural svc cc l req ec msg st))"
  unfolding persistStructural_def Let_def
  by (auto intro!: with_id_tick tick_act persist_then emit_act split: sum.split)

lemma finish_rel: "R st (snd (finish svc l req cap h res a b st))"
  unfolding finish_def
  by (auto intro!: with_id_rel tick_act persist_then then_emit record_key_rel split: sum.split)

end

locale service_run = service_frame svc R
    for svc :: "('w, 's) ExecuteService" and R :: "('w, 's) exec_state \<Rightarrow> ('w, 's) exec_state \<Rightarrow> bool" +
  assumes world_act: "R st (st\<lparr>st_world := snd (ad_Execute (ad :: 'w Adapter) ctx cap p (st_world st))\<rparr>)"
    and bracket_act: "R (emit (active svc cap 1) st) st' \<Longrightarrow> R st (emit (active svc cap (-1)) st')"
begin

lemma run_adapter_rel: "R st (snd (run_adapter svc l req cap h ad ctx st))"
proof -
  obtain r w' where run: "SafeExecute (sv_stack svc) ctx ad cap (req_payload req) (st_world st) = (r, w')" by fastforce
  then have w': "w' = snd (ad_Execute ad ctx cap (req_payload req) (st_world st))"
    by (auto simp: SafeExecute_def split: prod.splits outcome.splits)
  define raw where "raw = effective_raw (ctx_end ctx) r"
  define st4 where "st4 = emit (panic_events svc l cap raw) (tick ((tick st)\<lparr>st_world := w'\<rparr>))"
  have "R st ((tick st)\<lparr>st_world := w'\<rparr>)"
    using world_act [of "tick st" ad ctx cap "req_payload req"] by (auto simp: w' intro: tick_then)
  then have 4: "R st (emit evs (tick st4))" if "quiet evs" for evs
    using that
    by (auto simp: st4_def intro!: then_emit then_tick)
  obtain x evs where b: "build_result svc l cap raw
      (Sub (read_clock svc ((tick st)\<lparr>st_world := w'\<rparr>)) (read_clock svc st))
      (read_clock svc ((tick st)\<lparr>st_world := w'\<rparr>)) w' (read_clock svc st4) = (x, evs)" by fastforce
  have "run_adapter svc l req cap h ad ctx st = (case x of Inl e \<Rightarrow> (Ret (Inl e), emit evs (tick st4))
      | Inr res \<Rightarrow> finish svc l req cap h res (read_clock svc st) (read_clock svc ((tick st)\<lparr>st_world := w'\<rparr>))
          (emit evs (tick st4)))"
    by (simp add: run_adapter_def run Let_def b st4_def [symmetric] raw_def [symmetric] split: sum.split)
  then show ?thesis using 4 [of evs] chain [OF 4 [of evs] finish_rel] b by (auto split: sum.split)
qed

lemma dispatch_rel: "R st (snd (dispatch svc l req cap h ad ctx st))"
  using bracket_act [OF run_adapter_rel] by (simp add: dispatch_def case_prod_beta)

lemma resolve_rel: "R st (snd (resolve svc cc l req st))"
  unfolding resolve_def Let_def
  by (auto intro!: with_id_rel persistStructural_rel chain [OF tick_act persistStructural_rel]
      chain [OF tick_act dispatch_rel] split: sum.split option.split)

lemma lookup_stage_rel: "R st (snd (lookup_stage svc cc l req st))"
proof (cases "req_idempotencyKey req")
  case None
  then show ?thesis by (simp add: lookup_stage_def resolve_rel)
next
  case (Some key)
  obtain out s' where run: "is_Lookup (sv_idempotency svc) (cc_lookup cc) (read_clock svc st) key (st_store st) = (out, s')"
    by fastforce
  define st1 where "st1 = (tick st)\<lparr>st_store := s'\<rparr>"
  have 1: "R st st1"
    using lookup_act [of "tick st" "cc_lookup cc" "read_clock svc st" key] run by (auto simp: st1_def intro: tick_then)
  have 2: "R st1 ((tick st1)\<lparr>st_store := snd (rr_FindByID (sv_receipts svc) (cc_find cc) (read_clock svc st1) rid (st_store st1))\<rparr>)"
    for rid using find_act [of "tick st1" "cc_find cc" "read_clock svc st1" rid] by (auto intro: tick_then)
  note 3 = lookup_stage_key [OF Some run st1_def]
  show ?thesis
  proof (cases out)
    case (Panic v)
    then show ?thesis by (simp add: 3 chain [OF 1 chain [OF emit_act persistStructural_rel]])
  next
    case (Ret y)
    then show ?thesis
      using chain [OF 1 2] chain [OF 1 resolve_rel]
      by (auto simp: 3 case_prod_beta split: sum.split option.split)
  qed
qed

end

interpretation limiter_kept: service_run svc "\<lambda>st st'. st_limiter st' = st_limiter st" for svc
  by unfold_locales simp_all

interpretation world_kept: service_frame svc "\<lambda>st st'. st_world st' = st_world st" for svc
  by unfold_locales simp_all

interpretation clock_forward: service_run svc "\<lambda>st st'. st_ticks st \<le> st_ticks st'" for svc
  by unfold_locales simp_all

lemma active_bracket: "counter active_executions (active svc cap 1) + counter active_executions (active svc cap (-1)) = 0"
  by (simp add: active_def metrics_def active_executions_def)

lemma quiet_counter: "quiet evs \<Longrightarrow> counter active_executions evs = 0"
  by (induction evs) (auto simp: quiet_def)

interpretation active_balanced: service_run svc
  "\<lambda>st st'. counter active_executions (st_events st') = counter active_executions (st_events st)" for svc
  by unfold_locales (simp_all add: quiet_counter, use active_bracket in fastforce)

text \<open>What a stage added to the log is within the metric contract.\<close>

definition emits_within :: "('w, 's) exec_state \<Rightarrow> ('w, 's) exec_state \<Rightarrow> bool" where
  "emits_within st st' \<longleftrightarrow> (\<exists>evs. st_events st' = st_events st @ evs \<and> list_all within_contract evs)"

lemma quiet_within: "quiet evs \<Longrightarrow> list_all within_contract evs"
  by (induction evs) (simp_all add: quiet_def)

lemma active_within: "list_all within_contract (active svc cap d)"
  by (simp add: active_def metrics_def InstrumentCatalog_def dropReceiptIDView_def)

interpretation contract_kept: service_run svc emits_within for svc
proof
  show "emits_within x z" if "emits_within x y" "emits_within y z" for x y z :: "('a, 'b) exec_state"
    using that by (fastforce simp: emits_within_def)
  show "emits_within st (emit evs st)" if "quiet evs" for evs and st :: "('a, 'b) exec_state"
    using quiet_within [OF that] by (auto simp: emits_within_def)
  show "emits_within st (emit (active svc cap (-1)) st')" if "emits_within (emit (active svc cap 1) st) st'"
    for cap and st st' :: "('a, 'b) exec_state"
    using that active_within by (fastforce simp: emits_within_def)
qed (simp_all add: emits_within_def)

section \<open>The world\<close>

lemma SafeExecute_world: "snd (SafeExecute stack ctx ad cap p w) = snd (ad_Execute ad ctx cap p w)"
  by (auto simp: SafeExecute_def split: prod.splits outcome.splits)

lemma run_adapter_world:
  "st_world (snd (run_adapter svc l req cap h ad ctx st)) = snd (ad_Execute ad ctx cap (req_payload req) (st_world st))"
  by (auto simp: run_adapter_def Let_def world_kept.finish_rel case_prod_beta SafeExecute_world split: sum.split)

lemma dispatch_world:
  "st_world (snd (dispatch svc l req cap h ad ctx st)) = snd (ad_Execute ad ctx cap (req_payload req) (st_world st))"
  by (simp add: dispatch_def case_prod_beta run_adapter_world)

definition budget :: "('w, 's) ExecuteService \<Rightarrow> ExecutionRequest \<Rightarrow> Capability \<Rightarrow> duration" where
  "budget svc req cap = minDuration [tb_Duration (req_timeoutBudget req), cap_defaultTimeout cap, sv_maxTimeout svc]"

text \<open>What one call may do to the world: nothing, or one dispatch to the adapter that owns the capability.\<close>

definition dispatched_once ::
  "('w, 's) ExecuteService \<Rightarrow> call_ctx \<Rightarrow> ExecutionRequest \<Rightarrow> 'w \<Rightarrow> 'w \<Rightarrow> bool" where
  "dispatched_once svc cc req w w' \<longleftrightarrow>
     (\<exists>cap ad. reg_Lookup (sv_registry svc) (CapabilityCanonical req) = Inr cap \<and> 0 < budget svc req cap \<and>
        map_of (sv_adapters svc) (AdapterID_String (cap_adapterID cap)) = Some ad \<and>
        w' = snd (ad_Execute ad (cc_exec cc (budget svc req cap)) cap (req_payload req) w))"

text \<open>The stages of \<open>resolve\<close>, by what each step yields.\<close>

lemma resolve_dispatch:
  assumes "reg_Lookup (sv_registry svc) (CapabilityCanonical req) = Inr cap" and "0 < budget svc req cap"
    and "sv_idGen svc (st_ids st) = Ret hid" and "st1 = st\<lparr>st_ids := Suc (st_ids st)\<rparr>"
    and "NewExecutionHandle (Some hid) (req_correlationID req) cap (Some (read_clock svc st1)) = Inr h"
    and "map_of (sv_adapters svc) (AdapterID_String (cap_adapterID cap)) = Some ad"
  shows "\<exists>l2. resolve svc cc l req st = dispatch svc l2 req cap h ad (cc_exec cc (budget svc req cap)) (tick st1)"
  using assms by (simp add: resolve_def Let_def budget_def [symmetric] with_id_def) blast

lemma resolve_cases:
  obtains (structural) ec msg l2 st2 where "resolve svc cc l req st = persistStructural svc cc l2 req ec msg st2"
      "st_world st2 = st_world st"
  | (panicked) v st2 where "resolve svc cc l req st = (Panic v, st2)" "st_world st2 = st_world st"
  | (dispatched) cap ad h l2 st2 where "resolve svc cc l req st = dispatch svc l2 req cap h ad (cc_exec cc (budget svc req cap)) st2"
      "st_world st2 = st_world st" "reg_Lookup (sv_registry svc) (CapabilityCanonical req) = Inr cap"
      "0 < budget svc req cap" "map_of (sv_adapters svc) (AdapterID_String (cap_adapterID cap)) = Some ad"
proof (cases "reg_Lookup (sv_registry svc) (CapabilityCanonical req)")
  case (Inl e)
  then show thesis using structural by (simp add: resolve_def)
next
  case cap: (Inr cap)
  show thesis
  proof (cases "0 < budget svc req cap")
    case False
    then show thesis using cap structural by (simp add: resolve_def Let_def budget_def)
  next
    case eff: True
    define st1 where "st1 = st\<lparr>st_ids := Suc (st_ids st)\<rparr>"
    show thesis
    proof (cases "sv_idGen svc (st_ids st)")
      case (Panic v)
      then show thesis using cap eff panicked [of v st1] by (simp add: resolve_def Let_def budget_def with_id_def st1_def)
    next
      case gen: (Ret hid)
      show thesis
      proof (cases "NewExecutionHandle (Some hid) (req_correlationID req) cap (Some (read_clock svc st1))")
        case (Inl e)
        then show thesis
          using cap eff gen structural [of _ _ _ "tick st1"]
          by (simp add: resolve_def Let_def budget_def with_id_def st1_def)
      next
        case h: (Inr h)
        show thesis
        proof (cases "map_of (sv_adapters svc) (AdapterID_String (cap_adapterID cap))")
          case None
          then show thesis
            using cap eff gen h structural [of _ _ _ "tick st1"]
            by (simp add: resolve_def Let_def budget_def with_id_def st1_def)
        next
          case (Some ad)
          then show thesis
            using resolve_dispatch [OF cap eff gen st1_def h Some] cap eff dispatched by (fastforce simp: st1_def)
        qed
      qed
    qed
  qed
qed

lemma resolve_world:
  "st_world (snd (resolve svc cc l req st)) = st_world st \<or>
   dispatched_once svc cc req (st_world st) (st_world (snd (resolve svc cc l req st)))"
  by (cases rule: resolve_cases [of svc cc l req st])
    (auto simp: world_kept.persistStructural_rel dispatch_world dispatched_once_def)

lemma lookup_stage_world:
  "st_world (snd (lookup_stage svc cc l req st)) = st_world st \<or>
   dispatched_once svc cc req (st_world st) (st_world (snd (lookup_stage svc cc l req st)))"
proof (cases "req_idempotencyKey req")
  case None
  then show ?thesis using resolve_world [of svc cc l req st] by (simp add: lookup_stage_def)
next
  case (Some key)
  obtain out s' where run: "is_Lookup (sv_idempotency svc) (cc_lookup cc) (read_clock svc st) key (st_store st) = (out, s')"
    by fastforce
  define st1 where "st1 = (tick st)\<lparr>st_store := s'\<rparr>"
  have w: "st_world st1 = st_world st" by (simp add: st1_def)
  show ?thesis
    unfolding lookup_stage_key [OF Some run st1_def]
    using resolve_world [of svc cc l req st1]
    by (auto simp: w world_kept.persistStructural_rel case_prod_beta split: outcome.split sum.split option.split)
qed

section \<open>Properties of Execute\<close>

lemma Release_TryAcquire: "limiter_ok l \<Longrightarrow> TryAcquire l = (None, l') \<Longrightarrow> Release l' = Some l"
  by (auto simp: limiter_ok_def TryAcquire_def Release_def send_slot_def recv_slot_def add_inUse_def int64_ok_def
      split: if_splits option.splits)

lemma Execute_acquired:
  assumes "limiter_ok (st_limiter st)" and "TryAcquire (st_limiter st) = (None, lim)"
    and "lookup_stage svc cc (log_With [(''correlation_id'', CorrelationID_String (req_correlationID req))] (cc_logger cc))
      req (st\<lparr>st_limiter := lim\<rparr>) = (out, st')"
  shows "Execute svc cc req st = Some (out, st'\<lparr>st_limiter := st_limiter st\<rparr>)"
proof -
  have "st_limiter st' = lim"
    using limiter_kept.lookup_stage_rel [of svc cc
        "log_With [(''correlation_id'', CorrelationID_String (req_correlationID req))] (cc_logger cc)" req
        "st\<lparr>st_limiter := lim\<rparr>"] assms(3)
    by simp
  then show ?thesis
    using assms(3) Release_TryAcquire [OF assms(1,2)] by (simp add: Execute_def assms(2) Let_def)
qed

lemma Execute_total:
  assumes ok: "limiter_ok (st_limiter st)"
  shows "\<exists>out st'. Execute svc cc req st = Some (out, st') \<and> st_limiter st' = st_limiter st \<and>
    (lm_slots (st_limiter st) = lm_max (st_limiter st) \<longrightarrow>
       (\<exists>e. out = Ret (Inl e) \<and> errors_Is e ErrTooManyExecutions) \<and>
       st_world st' = st_world st \<and> st_store st' = st_store st)"
proof (cases "TryAcquire (st_limiter st)")
  case (Pair x lim)
  show ?thesis
  proof (cases x)
    case None
    obtain out st' where run: "lookup_stage svc cc
        (log_With [(''correlation_id'', CorrelationID_String (req_correlationID req))] (cc_logger cc)) req
        (st\<lparr>st_limiter := lim\<rparr>) = (out, st')" by fastforce
    have "lm_slots (st_limiter st) \<noteq> lm_max (st_limiter st)"
      using limiter.acquire_iff [OF ok] Pair None by auto
    then show ?thesis using Execute_acquired [OF ok _ run] Pair None by auto
  next
    case (Some e)
    then show ?thesis using limiter.refused [OF ok] Pair by (auto simp: Execute_def Let_def)
  qed
qed

text \<open>A call is refused at the limiter, or it is the lookup stage between acquire and release.\<close>

lemma Execute_cases:
  assumes "Execute svc cc req st = Some (out, st')"
  obtains (refused) evs lim where "quiet evs" "st' = emit evs (st\<lparr>st_limiter := lim\<rparr>)" "\<exists>e. out = Ret (Inl e)"
  | (ran) l lim lim' st2 where "lookup_stage svc cc l req (st\<lparr>st_limiter := lim\<rparr>) = (out, st2)"
      "st' = st2\<lparr>st_limiter := lim'\<rparr>"
proof (cases "TryAcquire (st_limiter st)")
  case (Pair x lim)
  show thesis
  proof (cases x)
    case None
    then show thesis using assms Pair ran by (auto simp: Execute_def Let_def split: prod.splits option.splits)
  next
    case (Some e)
    have "quiet (if errors_Is e ErrTooManyExecutions then metrics svc [Add ''runtime_adapters.concurrency.rejects'' [] 1] else [])"
      by simp
    then show thesis using assms Pair Some refused by (auto simp: Execute_def Let_def)
  qed
qed

text \<open>
  C6: \<open>Execute\<close> always comes back and leaves the limiter exactly as it found it, whatever the
  adapter, the stores, the normalizer or the identifier generator do, panics included; and it
  refuses without doing anything exactly when every slot is taken.
\<close>

theorem Execute_limiter_balanced:
  assumes ok: "limiter_ok (st_limiter st)"
  shows "\<exists>out st'. Execute svc cc req st = Some (out, st') \<and> st_limiter st' = st_limiter st \<and>
    (lm_slots (st_limiter st) = lm_max (st_limiter st) \<longrightarrow>
       (\<exists>e. out = Ret (Inl e) \<and> errors_Is e ErrTooManyExecutions) \<and>
       st_world st' = st_world st \<and> st_store st' = st_store st)"
  by (rule Execute_total [OF ok])

text \<open>
  C1: At most one side effect per request: a call changes the world outside the process not at
  all, or exactly by one \<open>Execute\<close> of the adapter registered for the requested capability, on
  the request's payload, under the effective timeout.
\<close>

theorem Execute_at_most_once:
  assumes "Execute svc cc req st = Some (out, st')"
  shows "st_world st' = st_world st \<or> dispatched_once svc cc req (st_world st) (st_world st')"
  using assms
proof (cases rule: Execute_cases)
  case (ran l lim lim' st2)
  then show ?thesis using lookup_stage_world [of svc cc l req "st\<lparr>st_limiter := lim\<rparr>"] by simp
qed simp

text \<open>
  Replay: when the key of a request is found, the call returns what the repository holds
  under the recorded identifier, success or failure alike; no adapter runs, nothing is
  saved, counted or logged.
\<close>

lemma Execute_replay:
  assumes ok: "limiter_ok (st_limiter st)" "lm_slots (st_limiter st) < lm_max (st_limiter st)"
    and key: "req_idempotencyKey req = Some key"
    and hit: "is_Lookup (sv_idempotency svc) (cc_lookup cc) (read_clock svc st) key (st_store st) = (Ret (Inr (Some rid)), s1)"
    and found: "rr_FindByID (sv_receipts svc) (cc_find cc) (read_clock svc (tick st)) rid s1 = (out, s2)"
  shows "\<exists>st'. Execute svc cc req st = Some (out, st') \<and> st_world st' = st_world st \<and> st_store st' = s2 \<and>
    st_events st' = st_events st \<and> st_ids st' = st_ids st"
proof -
  obtain lim where acq: "TryAcquire (st_limiter st) = (None, lim)"
    using limiter.acquire_iff [OF ok(1)] ok(2) by (metis prod.collapse)
  let ?l = "log_With [(''correlation_id'', CorrelationID_String (req_correlationID req))] (cc_logger cc)"
  let ?st = "st\<lparr>st_limiter := lim\<rparr>"
  have hit': "is_Lookup (sv_idempotency svc) (cc_lookup cc) (read_clock svc ?st) key (st_store ?st) =
      (Ret (Inr (Some rid)), s1)" using hit by (simp add: read_clock_def)
  have found': "rr_FindByID (sv_receipts svc) (cc_find cc) (read_clock svc ((tick ?st)\<lparr>st_store := s1\<rparr>)) rid s1 = (out, s2)"
    using found by (simp add: read_clock_def)
  have run: "lookup_stage svc cc ?l req ?st = (out, (tick ((tick ?st)\<lparr>st_store := s1\<rparr>))\<lparr>st_store := s2\<rparr>)"
    unfolding lookup_stage_key [OF key hit' HOL.refl] by (simp add: found')
  show ?thesis unfolding Execute_acquired [OF ok(1) acq run] by simp
qed

text \<open>
  The in-flight gauge is balanced: whatever happens in a call, what it adds to the
  active-executions instrument it takes away again before it returns.
\<close>

lemma Execute_active_balanced:
  assumes "Execute svc cc req st = Some (out, st')"
  shows "counter active_executions (st_events st') = counter active_executions (st_events st)"
  using assms
proof (cases rule: Execute_cases)
  case (ran l lim lim' st2)
  then show ?thesis using active_balanced.lookup_stage_rel [of svc cc l req "st\<lparr>st_limiter := lim\<rparr>"] by simp
qed (simp add: quiet_counter)

text \<open>
  C9: The metric contract (I23, R16): everything a call emits is an operation its instrument
  has, on an instrument \<open>InstrumentCatalog\<close> declares, and the labels that reach the aggregation
  are exactly the declared ones, so the receipt identifier never becomes a metric dimension.
\<close>

theorem Execute_metric_contract:
  assumes "Execute svc cc req st = Some (out, st')"
  shows "\<exists>evs. st_events st' = st_events st @ evs \<and> list_all within_contract evs"
  using assms
proof (cases rule: Execute_cases)
  case (ran l lim lim' st2)
  then show ?thesis
    using contract_kept.lookup_stage_rel [of "st\<lparr>st_limiter := lim\<rparr>" svc cc l req] by (simp add: emits_within_def)
qed (simp add: quiet_within)

section \<open>Timeouts\<close>

text \<open>
  The budget is multiplied in 64 bits before it is compared with the maximum: five hundred and
  eighty-four years pass a maximum of half an hour, as less than a millisecond.
\<close>

lemma budget_wraps:
  "\<exists>b. NewTimeoutBudget 18446744073710 (30 * Minute) = Inr b \<and> tb_Duration b = 448384"
  by (simp add: NewTimeoutBudget_def msToDuration_def wrap64_def duration_units)

lemma min_step_min: "0 \<le> m \<Longrightarrow> min_step m d = (if 0 < d then if m = 0 then d else min m d else m)"
  by (auto simp: min_step_def)

text \<open>
  The effective timeout is the least of the positive limits, the caller's budget, the
  capability's default and the service's maximum; limits that are not positive do not count,
  and it is zero only when none is positive.
\<close>

lemma minDuration_spec:
  "minDuration ds = (if \<exists>d \<in> set ds. 0 < d then Min {d \<in> set ds. 0 < d} else 0)"
proof (induction ds rule: rev_induct)
  case Nil
  show ?case by (simp add: minDuration_def)
next
  case (snoc d ds)
  define S where "S = {e \<in> set ds. 0 < e}"
  have fin: "finite S" by (simp add: S_def)
  have S': "{e \<in> set (ds @ [d]). 0 < e} = (if 0 < d then insert d S else S)" by (auto simp: S_def)
  have m: "minDuration ds = (if S \<noteq> {} then Min S else 0)" using snoc.IH by (auto simp: S_def)
  have pos: "0 < Min S" if "S \<noteq> {}" using Min_in [OF fin that] by (simp add: S_def)
  have "minDuration (ds @ [d]) = min_step (minDuration ds) d" by (simp add: minDuration_def)
  also have "\<dots> = (if 0 < d then if S = {} then d else min (Min S) d else minDuration ds)"
    using pos by (cases "S = {}") (simp_all add: min_step_min m)
  finally show ?case
    using fin m S' by (auto simp: min.commute split: if_splits)
qed

lemma minDuration_spec_example: "minDuration [5, 0, 3, -1] = 3"
proof -
  have "{d \<in> set [5, 0, 3, -1 :: int]. 0 < d} = {5, 3}" by auto
  then show ?thesis using minDuration_spec [of "[5, 0, 3, -1]"] by simp
qed

section \<open>Classification of outcomes\<close>

text \<open>The raw outcomes only the service makes; the adapters cannot name their types.\<close>

fun service_raw :: "AdapterRawOutcome option \<Rightarrow> bool" where
  "service_raw (Some (PanicRaw _)) = True"
| "service_raw (Some (CtxRaw _)) = True"
| "service_raw _ = False"

definition failure_of :: "ErrorClass \<Rightarrow> ExecutionResult \<Rightarrow> bool" where
  "failure_of ec res \<longleftrightarrow> res_Status res = StatusFailure \<and> res_ErrorClass res = ec \<and> res_Retryable res = HintNonRetryable"

text \<open>What a dispatch should amount to: the context first, then panics and structural errors, then the normalizer.\<close>

definition expected_outcome ::
  "go_error option \<Rightarrow> (AdapterRawOutcome option \<times> go_error option) outcome \<Rightarrow>
   (AdapterRawOutcome option \<Rightarrow> (go_error + ExecutionResult) outcome) \<Rightarrow> ExecutionResult \<Rightarrow> bool" where
  "expected_outcome ctxErr reply norm res =
     (case ctxErr of
        Some e \<Rightarrow>
          if e = deadline_exceeded
          then res_Status res = StatusTimeout \<and> res_ErrorClass res = ErrTimeout \<and> res_Retryable res = HintRetryable
          else res_Status res = StatusCancelled \<and> res_ErrorClass res = ErrCancelled \<and> res_Retryable res = HintNonRetryable
      | None \<Rightarrow>
          (case reply of
             Panic _ \<Rightarrow> failure_of ErrAdapterInternalError res
           | Ret (None, Some _) \<Rightarrow> failure_of ErrAdapterInternalError res
           | Ret (raw, _) \<Rightarrow>
               (case norm raw of Ret (Inr x) \<Rightarrow> res = x | _ \<Rightarrow> failure_of ErrNormalizationFailure res)))"

lemma ctx_raw_result_ok:
  assumes "0 \<le> dur" and "err_text (cx_ctxErr r) \<noteq> []"
  shows "\<exists>res. ctx_raw_result r dur t = Inr res \<and>
    (if cx_kind r = ctxKindTimeout
     then res_Status res = StatusTimeout \<and> res_ErrorClass res = ErrTimeout \<and> res_Retryable res = HintRetryable
     else res_Status res = StatusCancelled \<and> res_ErrorClass res = ErrCancelled \<and> res_Retryable res = HintNonRetryable)"
  using assms by (simp add: ctx_raw_result_def validate status_simps)

lemma take_min_length: "take (min (length xs) n) xs = take n xs"
  by (simp add: min_def)

lemma panic_raw_result_ok:
  assumes "0 \<le> dur" and "length (pr_stack r) \<le> 4096"
  shows "\<exists>res. panic_raw_result r dur t = Inr res \<and> failure_of ErrAdapterInternalError res"
  using assms by (simp add: panic_raw_result_def validate status_simps failure_of_def MaxAdapterMetaBytes_def value_bytes_def
      split: option.split)

lemma normalization_failure_ok:
  assumes "0 \<le> dur" and "msg \<noteq> []"
  shows "\<exists>res. normalization_failure msg dur t = Inr res \<and> failure_of ErrNormalizationFailure res"
  using assms by (simp add: normalization_failure_def validate status_simps failure_of_def)

lemma build_result_normal:
  assumes raw: "\<not> service_raw raw" and dur: "0 \<le> dur"
    and texts: "\<And>e. rn_Normalize (sv_normalizer svc) cap raw w (Some now) = Ret (Inl e) \<Longrightarrow> err_text e \<noteq> []"
  shows "\<exists>res evs. build_result svc l cap raw dur t w now = (Inr res, evs) \<and>
    (case rn_Normalize (sv_normalizer svc) cap raw w (Some now) of
       Ret (Inr x) \<Rightarrow> res = x | _ \<Rightarrow> failure_of ErrNormalizationFailure res)"
proof -
  let ?n = "rn_Normalize (sv_normalizer svc) cap raw w (Some now)"
  have b: "build_result svc l cap raw dur t w now =
      (case ?n of Ret (Inr res) \<Rightarrow> (Inr res, [])
       | Ret (Inl e) \<Rightarrow> (map_sum (wrapf ''build normalization-failure result'') id (normalization_failure (err_text e) dur t), [])
       | Panic v \<Rightarrow> (case normalization_failure (''normalizer panic: '' @ v) dur t of
            Inr res \<Rightarrow> (Inr res, [logged l LevelError ''normalizer panic recovered''
               [(''panic_location'', ''normalizer''), (''panic_value'', v)]])
          | Inl e \<Rightarrow> (map_sum (wrapf ''build normalization-failure result'') id
               (normalization_failure (err_text (wrapf ''build normalizer-panic result'' e)) dur t),
               [logged l LevelError ''normalizer panic recovered''
                 [(''panic_location'', ''normalizer''), (''panic_value'', v)]])))"
    using raw unfolding build_result_def
    by (auto split: outcome.split sum.split option.split AdapterRawOutcome.split)
  show ?thesis
  proof (cases ?n)
    case (Panic v)
    then show ?thesis
      using normalization_failure_ok [OF dur, of "''normalizer panic: '' @ v" t] by (auto simp: b)
  next
    case (Ret x)
    then show ?thesis
      using normalization_failure_ok [OF dur, of _ t] texts by (cases x) (fastforce simp: b)+
  qed
qed

text \<open>
  C3: Classification of a dispatch. The result is always built, and it is: timeout or
  cancelled when the execution context has ended, whatever the adapter returned or panicked
  with; otherwise a non-retryable adapter internal error when the adapter panicked or returned
  a bare error; otherwise what the registered normalizer says, or a non-retryable normalization
  failure when that failed, panicked or does not exist.
\<close>

theorem dispatch_classification:
  assumes reply: "ad_Execute ad ctx cap p w = (reply, w')"
    and ctx: "ctx_err_ok (ctx_end ctx)"
    and raws: "\<And>raw e. reply = Ret (raw, e) \<Longrightarrow> \<not> service_raw raw"
    and time: "tStart \<le> tEnd"
    and texts: "\<And>raw e. rn_Normalize (sv_normalizer svc) cap raw w' (Some now) = Ret (Inl e) \<Longrightarrow> err_text e \<noteq> []"
  shows "\<exists>res evs. build_result svc l cap
      (effective_raw (ctx_end ctx) (fst (SafeExecute (sv_stack svc) ctx ad cap p w))) (Sub tEnd tStart) tEnd w' now =
      (Inr res, evs) \<and>
    expected_outcome (ctx_end ctx) reply (\<lambda>raw. rn_Normalize (sv_normalizer svc) cap raw w' (Some now)) res"
proof (cases "ctx_end ctx")
  case (Some e)
  have dur: "0 \<le> Sub tEnd tStart" by (rule Sub_nonneg [OF time])
  from ctx Some have e: "e = deadline_exceeded \<or> e = context_canceled" by (simp add: ctx_err_ok_def)
  then have r: "effective_raw (Some e) x = Some (CtxRaw \<lparr>cx_kind = (if e = deadline_exceeded then ctxKindTimeout else ctxKindCancelled),
      cx_ctxErr = e\<rparr>)" for x
    by (auto simp: effective_raw_def ctxOutcomeFor_def deadline_exceeded_def context_canceled_def)
  have "err_text e \<noteq> []" using e by (auto simp: deadline_exceeded_def context_canceled_def)
  then show ?thesis
    using ctx_raw_result_ok [OF dur, of "\<lparr>cx_kind = (if e = deadline_exceeded then ctxKindTimeout else ctxKindCancelled),
      cx_ctxErr = e\<rparr>" tEnd]
    by (auto simp: Some r build_result_def expected_outcome_def split: if_splits)
next
  case None
  have dur: "0 \<le> Sub tEnd tStart" by (rule Sub_nonneg [OF time])
  show ?thesis
  proof (cases reply)
    case (Panic v)
    then show ?thesis
      using panic_raw_result_ok [OF dur, of "\<lparr>pr_recoveredValue = v, pr_stack = take 4096 (sv_stack svc v),
          pr_structuralErr = None\<rparr>" tEnd] None reply
      by (auto simp: SafeExecute_def effective_raw_def build_result_def expected_outcome_def truncateStack_def take_min_length
          split: if_splits)
  next
    case (Ret x)
    obtain raw err where x: "x = (raw, err)" by fastforce
    show ?thesis
    proof (cases "raw = None \<and> err \<noteq> None")
      case True
      then show ?thesis
        using panic_raw_result_ok [OF dur, of "\<lparr>pr_recoveredValue = ''<nil>'', pr_stack = [], pr_structuralErr = err\<rparr>" tEnd]
          None reply Ret x
        by (auto simp: SafeExecute_def effective_raw_def build_result_def expected_outcome_def)
    next
      case False
      then have "effective_raw (ctx_end ctx) (fst (SafeExecute (sv_stack svc) ctx ad cap p w)) = raw"
        using None reply Ret x by (auto simp: SafeExecute_def effective_raw_def split: option.splits)
      moreover have "\<not> service_raw raw" using raws Ret x by blast
      ultimately show ?thesis
        using build_result_normal [of raw "Sub tEnd tStart" svc cap w' now l tEnd] dur texts None Ret x False
        by (auto simp: expected_outcome_def split: option.splits)
    qed
  qed
qed

section \<open>Persistence before return\<close>

text \<open>The two stores of a service over one state, and that neither disturbs the other's data.\<close>

locale execution_stores =
  receipt_repository Save FindByID rows enc dec + idempotency_store Lookup Record entries stamp
  for Save :: "'s save_fn" and FindByID :: "'s find_fn" and rows :: "'s \<Rightarrow> string \<Rightarrow> 'v option"
    and enc :: "ExecutionReceipt \<Rightarrow> 'v option" and dec :: "go_time \<Rightarrow> 'v \<Rightarrow> go_error + ExecutionReceipt"
    and Lookup :: "'s lookup_fn" and Record :: "'s record_fn"
    and entries :: "'s \<Rightarrow> string \<Rightarrow> (string \<times> go_time) option" and stamp :: "go_time \<Rightarrow> go_time" +
  fixes svc :: "('w, 's) ExecuteService"
  assumes uses_receipts: "sv_receipts svc = \<lparr>rr_Save = Save, rr_FindByID = FindByID\<rparr>"
    and uses_idempotency: "sv_idempotency svc = \<lparr>is_Lookup = Lookup, is_Record = Record\<rparr>"
    and lookup_rows: "rows (snd (Lookup c now k s)) = rows s"
    and record_rows: "rows (snd (Record c now k rid window s)) = rows s"
    and save_entries: "entries (snd (Save c now r s)) = entries s"
    and find_entries: "entries (snd (FindByID c now i s)) = entries s"
begin

text \<open>A receipt that is in the repository, under its own identifier.\<close>

definition stored :: "ExecutionReceipt \<Rightarrow> ('w, 's) exec_state \<Rightarrow> bool" where
  "stored r st \<longleftrightarrow> (\<exists>v. enc r = Some v \<and> rows (st_store st) (receipt_key r) = Some v)"

lemma stored_emit [simp]: "stored r (emit evs st) = stored r st"
  by (simp add: stored_def)

lemma stored_update [simp]: "stored r (st\<lparr>st_limiter := lim\<rparr>) = stored r st"
  by (simp add: stored_def)

lemma persist_saved:
  assumes "persist svc c l r st = (Inr saved, st')"
  shows "stored saved st' \<and> saved = WithPersistedAt (read_clock svc st) r"
proof -
  obtain s' where run: "Save c (read_clock svc st) r (st_store st) = (Ret (Inr saved), s')" and st': "st_store st' = s'"
    using assms by (auto simp: persist_def uses_receipts Let_def split: prod.splits outcome.splits sum.splits)
  then show ?thesis using save_success [OF run] by (auto simp: stored_def WithPersistedAt_def)
qed

lemma record_key_stored: "stored r st \<Longrightarrow> stored r (record_key svc l req saved st)"
proof (cases "req_idempotencyKey req")
  case (Some key)
  assume "stored r st"
  moreover obtain x s' where run: "Record None (read_clock svc st) key (rc_receiptID saved) (sv_idempWindow svc) (st_store st) = (x, s')"
    by fastforce
  moreover have "rows s' = rows (st_store st)" using record_rows run by (metis snd_conv)
  ultimately show ?thesis by (cases x) (simp_all add: record_key_def Some uses_idempotency stored_def)
qed (simp add: record_key_def)

text \<open>Every reply of the stages: a receipt it carries is stored.\<close>

definition sound :: "('w, 's) reply \<Rightarrow> bool" where
  "sound rep \<longleftrightarrow> (\<forall>r. fst rep = Ret (Inr r) \<longrightarrow> stored r (snd rep))"

lemma sound_error [simp]: "sound (Ret (Inl e), st)" "sound (Panic v, st)"
  by (simp_all add: sound_def)

lemma with_id_sound: "(\<And>s st'. sound (k s st')) \<Longrightarrow> sound (with_id svc st k)"
  by (auto simp: with_id_def Let_def split: outcome.split)

lemma persist_sound:
  assumes "\<And>saved st'. stored saved st' \<Longrightarrow> stored saved (f saved st')"
  shows "sound (case persist svc c l r st of
      (Inl e, st') \<Rightarrow> (Ret (Inl e), st') | (Inr saved, st') \<Rightarrow> (Ret (Inr saved), f saved st'))"
proof -
  obtain x st' where "persist svc c l r st = (x, st')" by fastforce
  then show ?thesis using persist_saved assms by (cases x) (auto simp: sound_def)
qed

lemma persistStructural_sound: "sound (persistStructural svc cc l req ec msg st)"
  unfolding persistStructural_def Let_def
  by (auto intro!: with_id_sound persist_sound split: sum.split)

lemma finish_sound: "sound (finish svc l req cap h res a b st)"
  unfolding finish_def by (auto intro!: with_id_sound persist_sound record_key_stored split: sum.split)

lemma run_adapter_sound: "sound (run_adapter svc l req cap h ad ctx st)"
  unfolding run_adapter_def Let_def case_prod_beta by (auto simp: finish_sound split: sum.split)

lemma dispatch_sound: "sound (dispatch svc l req cap h ad ctx st)"
  using run_adapter_sound [of l req cap h ad ctx "emit (active svc cap 1) st"]
  by (simp add: dispatch_def case_prod_beta sound_def)

lemma resolve_sound: "sound (resolve svc cc l req st)"
  by (cases rule: resolve_cases [of svc cc l req st]) (simp_all add: persistStructural_sound dispatch_sound)

text \<open>A call that returns a receipt: it was read from the store, or it is in it.\<close>

lemma lookup_stage_sound:
  assumes "lookup_stage svc cc l req st = (Ret (Inr r), st')"
  shows "stored r st' \<or> (\<exists>k v t. rows (st_store st') k = Some v \<and> dec t v = Inr r)"
proof (cases "req_idempotencyKey req")
  case None
  then show ?thesis using assms resolve_sound [of cc l req st] by (auto simp: lookup_stage_def sound_def)
next
  case (Some key)
  obtain out s' where run: "is_Lookup (sv_idempotency svc) (cc_lookup cc) (read_clock svc st) key (st_store st) = (out, s')"
    by fastforce
  define st1 where "st1 = (tick st)\<lparr>st_store := s'\<rparr>"
  note eq = lookup_stage_key [OF Some run st1_def, of l]
  have other: "sound (lookup_stage svc cc l req st)" if "\<not> (\<exists>rid. out = Ret (Inr (Some rid)))"
    using that resolve_sound [of cc l req st1] persistStructural_sound
    by (cases out) (auto simp: eq split: sum.split option.split)
  show ?thesis
  proof (cases "\<exists>rid. out = Ret (Inr (Some rid))")
    case True
    then obtain rid where hit: "out = Ret (Inr (Some rid))" by blast
    obtain s2 where f: "FindByID (cc_find cc) (read_clock svc st1) rid (st_store st1) = (Ret (Inr r), s2)"
      and st': "st_store st' = s2"
      using assms by (auto simp: eq hit uses_receipts case_prod_beta prod_eq_iff)
    have "rows s2 = rows (st_store st1)" using find_frame f by (metis snd_conv)
    then show ?thesis using find_success [OF f] st' by metis
  next
    case False
    then show ?thesis using assms other by (simp add: sound_def)
  qed
qed

end

text \<open>The services wired to the database and to the doubles.\<close>

definition on_pg :: "pg_env \<Rightarrow> ('w, pg_db) ExecuteService \<Rightarrow> ('w, pg_db) ExecuteService" where
  "on_pg env svc = svc\<lparr>sv_receipts := \<lparr>rr_Save = pg_Save env, rr_FindByID = pg_FindByID env\<rparr>,
     sv_idempotency := \<lparr>is_Lookup = pg_Lookup env, is_Record = pg_Record env\<rparr>\<rparr>"

definition on_memory :: "('w, memory) ExecuteService \<Rightarrow> ('w, memory) ExecuteService" where
  "on_memory svc = svc\<lparr>sv_receipts := mem_repository, sv_idempotency := mem_idempotency\<rparr>"

lemma pg_stmt_rows [simp]:
  "exec_insert_key env c k rid t db = (x, db') \<Longrightarrow> pg_rows db' = pg_rows db"
  "query_row env c f db = (y, db') \<Longrightarrow> pg_rows db' = pg_rows db"
  by (auto simp: exec_insert_key_def query_row_def Let_def split: option.splits if_splits)

lemma pg_Record_rows: "pg_rows (snd (pg_Record env c now k rid window db)) = pg_rows db"
  by (auto simp: pg_Record_def Let_def split: sum.split option.split prod.split)

interpretation pg_stores: execution_stores "pg_Save env" "pg_FindByID env" pg_rows "pg_enc env" Receipt_UnmarshalJSON
  "pg_Lookup env" "pg_Record env" pg_entries "pg_timestamp env" "on_pg env svc" for env svc
proof
  show "sv_receipts (on_pg env svc) = \<lparr>rr_Save = pg_Save env, rr_FindByID = pg_FindByID env\<rparr>"
    "sv_idempotency (on_pg env svc) = \<lparr>is_Lookup = pg_Lookup env, is_Record = pg_Record env\<rparr>"
    by (simp_all add: on_pg_def)
  show "pg_rows (snd (pg_Lookup env c now k s)) = pg_rows s" for c now k s
    by (auto simp: pg_Lookup_def query_row_def split: sum.splits option.splits)
  show "pg_rows (snd (pg_Record env c now k rid window s)) = pg_rows s" for c now k rid window s
    by (rule pg_Record_rows)
  show "pg_entries (snd (pg_Save env c now r s)) = pg_entries s" for c now r s
    by (auto simp: pg_Save_def exec_insert_receipt_def Let_def split: sum.splits option.splits prod.splits if_splits)
  show "pg_entries (snd (pg_FindByID env c now i s)) = pg_entries s" for c now i s
    by (auto simp: pg_FindByID_def query_row_def split: sum.splits option.splits)
qed

interpretation mem_stores: execution_stores mem_Save mem_FindByID "\<lambda>s. map_of (mm_receipts s)" Some "\<lambda>_. Inr"
  mem_Lookup mem_Record mem_entries "\<lambda>t. t" "on_memory svc" for svc
  by unfold_locales
    (auto simp: on_memory_def mem_repository_def mem_idempotency_def mem_Lookup_def mem_Record_def mem_Save_def
      mem_FindByID_def mem_entries_def Let_def fun_eq_iff split: option.splits if_splits)

text \<open>
  C2: Persistence before return (A4.3) on PostgreSQL: a call that returns a receipt, whatever
  its outcome and whatever faults the database met, returns one whose document is in the
  receipts table when the call ends, either under the receipt's own identifier as the call
  saved it, or as the row a replay read.
\<close>

theorem Execute_persisted_pg:
  assumes "Execute (on_pg env svc) cc req st = Some (Ret (Inr r), st')"
  shows "(\<exists>v. pg_enc env r = Some v \<and> pg_rows (st_store st') (receipt_key r) = Some v) \<or>
    (\<exists>k v t. pg_rows (st_store st') k = Some v \<and> Receipt_UnmarshalJSON t v = Inr r)"
proof -
  obtain lim st2 where "lookup_stage (on_pg env svc) cc
      (log_With [(''correlation_id'', CorrelationID_String (req_correlationID req))] (cc_logger cc)) req
      (st\<lparr>st_limiter := lim\<rparr>) = (Ret (Inr r), st2)" and st': "st_store st' = st_store st2"
    using assms by (auto simp: Execute_def Let_def split: prod.splits option.splits)
  from pg_stores.lookup_stage_sound [OF this(1)] show ?thesis by (simp add: pg_stores.stored_def st')
qed

section \<open>Replay over the doubles\<close>

lemma on_memory_simps [simp]:
  "sv_receipts (on_memory svc) = mem_repository" "sv_idempotency (on_memory svc) = mem_idempotency"
  "sv_clock (on_memory svc) = sv_clock svc" "sv_idempWindow (on_memory svc) = sv_idempWindow svc"
  "sv_idGen (on_memory svc) = sv_idGen svc" "sv_registry (on_memory svc) = sv_registry svc"
  "sv_adapters (on_memory svc) = sv_adapters svc" "budget (on_memory svc) req cap = budget svc req cap"
  "read_clock (on_memory svc) st = sv_clock svc (st_ticks st)"
  by (simp_all add: on_memory_def budget_def read_clock_def)

text \<open>A saved and recorded receipt, the binding made no earlier than a given reading of the clock.\<close>

definition bound_from :: "('w, memory) ExecuteService \<Rightarrow> nat \<Rightarrow> IdempotencyKey \<Rightarrow> ExecutionReceipt \<Rightarrow> memory \<Rightarrow> bool" where
  "bound_from svc n k r s \<longleftrightarrow>
     (\<exists>m \<ge> n. mem_entries s (IdempotencyKey_String k) = Some (receipt_key r, sv_clock svc m + sv_idempWindow svc)) \<and>
     map_of (mm_receipts s) (receipt_key r) = Some r"

lemma finish_bound:
  assumes run: "finish (on_memory svc) l req cap h res a b st = (Ret (Inr r), st')"
    and key: "req_idempotencyKey req = Some k" and free: "mem_entries (st_store st) (IdempotencyKey_String k) = None"
    and window: "0 < sv_idempWindow svc"
  shows "bound_from svc (st_ticks st) k r (st_store st')"
proof -
  define st1 where "st1 = st\<lparr>st_ids := Suc (st_ids st)\<rparr>"
  obtain receipt st2 where p2: "persist (on_memory svc) None l receipt (tick st1) = (Inr r, st2)"
    and rec: "st_store st' = st_store (record_key (on_memory svc) l req r st2)"
    using run by (auto simp: finish_def with_id_def Let_def st1_def [symmetric] split: outcome.splits sum.splits prod.splits)
  have st2: "st_ticks st2 = Suc (Suc (st_ticks st))" "map_of (mm_receipts (st_store st2)) (receipt_key r) = Some r"
    "mm_keys (st_store st2) = mm_keys (st_store st)"
    using p2 by (auto simp: persist_def st1_def mem_repository_def mem_Save_def Let_def WithPersistedAt_def
        split: prod.splits outcome.splits sum.splits option.splits if_splits)
  have unbound: "map_of (mm_keys (st_store st2)) (IdempotencyKey_String k) = None"
    using free st2(3) by (simp add: mem_entries_def)
  have "st_store st' = (st_store st2)\<lparr>mm_keys := (IdempotencyKey_String k,
      \<lparr>ie_receiptID = rc_receiptID r, ie_expiresAt = sv_clock svc (st_ticks st2) + sv_idempWindow svc\<rparr>) # mm_keys (st_store st2)\<rparr>"
    using rec window by (simp add: record_key_def key mem_idempotency_def mem_Record_def unbound)
  then show ?thesis
    using st2 by (auto simp: bound_from_def mem_entries_def intro!: exI [of _ "st_ticks st2"])
qed

lemma dispatch_bound:
  assumes run: "dispatch (on_memory svc) l req cap h ad ctx st = (Ret (Inr r), st')"
    and key: "req_idempotencyKey req = Some k" and free: "mem_entries (st_store st) (IdempotencyKey_String k) = None"
    and window: "0 < sv_idempWindow svc"
  shows "bound_from svc (st_ticks st) k r (st_store st')"
proof -
  obtain res t0 t1 st2 st3 where f: "finish (on_memory svc) l req cap h res t0 t1 st2 = (Ret (Inr r), st3)"
    and "st_store st' = st_store st3" "st_store st2 = st_store st" "st_ticks st \<le> st_ticks st2"
    using run by (auto simp: dispatch_def run_adapter_def Let_def split: prod.splits sum.splits)
  then show ?thesis using finish_bound [OF f key] free window by (auto simp: bound_from_def) (metis order_trans)
qed

lemma resolve_mem_dispatch:
  assumes "reg_Lookup (sv_registry svc) (CapabilityCanonical req) = Inr cap" and "0 < budget svc req cap"
    and "sv_idGen svc (st_ids st) = Ret hid" and "ulidRegex hid"
    and "CorrelationID_String (req_correlationID req) \<noteq> []" and "AdapterID_String (cap_adapterID cap) \<noteq> []"
    and "map_of (sv_adapters svc) (AdapterID_String (cap_adapterID cap)) = Some ad"
  shows "\<exists>l2 h st2. resolve (on_memory svc) cc l req st =
      dispatch (on_memory svc) l2 req cap h ad (cc_exec cc (budget svc req cap)) st2 \<and>
    st_store st2 = st_store st \<and> st_ticks st \<le> st_ticks st2"
proof -
  define st1 where "st1 = st\<lparr>st_ids := Suc (st_ids st)\<rparr>"
  obtain h where h: "NewExecutionHandle (Some hid) (req_correlationID req) cap (Some (read_clock (on_memory svc) st1)) = Inr h"
    using assms(4-6) by (auto simp: NewExecutionHandle_Inr)
  obtain l2 where e: "resolve (on_memory svc) cc l req st =
      dispatch (on_memory svc) l2 req cap h ad (cc_exec cc (budget svc req cap)) (tick st1)"
    using resolve_dispatch [of "on_memory svc" req cap st hid st1 h ad cc l] assms h st1_def by auto
  show ?thesis
    unfolding e by (rule exI [of _ l2], rule exI [of _ h], rule exI [of _ "tick st1"]) (simp add: st1_def)
qed

text \<open>
  C4: Replay everything, end to end on the in-memory stores: after a dispatched request with a
  fresh idempotency key returned a receipt, a later request with the same key, whatever else
  it asks for, within the idempotency window returns that very receipt and runs no adapter.
\<close>

theorem Execute_replays_receipt:
  assumes lim: "limiter_ok (st_limiter st)" "lm_slots (st_limiter st) < lm_max (st_limiter st)"
    and key: "req_idempotencyKey req = Some k" and fresh: "mem_entries (st_store st) (IdempotencyKey_String k) = None"
    and ctx: "cc_lookup cc = None" and window: "0 < sv_idempWindow svc" and mono: "\<And>i j. i \<le> j \<Longrightarrow> sv_clock svc i \<le> sv_clock svc j"
    and cap: "reg_Lookup (sv_registry svc) (CapabilityCanonical req) = Inr cap" "0 < budget svc req cap"
    and ids: "sv_idGen svc (st_ids st) = Ret hid" "ulidRegex hid" "CorrelationID_String (req_correlationID req) \<noteq> []"
      "AdapterID_String (cap_adapterID cap) \<noteq> []"
    and ad: "map_of (sv_adapters svc) (AdapterID_String (cap_adapterID cap)) = Some ad"
    and first: "Execute (on_memory svc) cc req st = Some (Ret (Inr r), st1)"
    and again: "req_idempotencyKey req2 = Some k" "cc_lookup cc2 = None" "cc_find cc2 = None"
    and later: "st_store st2 = st_store st1" "limiter_ok (st_limiter st2)" "lm_slots (st_limiter st2) < lm_max (st_limiter st2)"
      "sv_clock svc (st_ticks st2) < sv_clock svc (st_ticks st) + sv_idempWindow svc"
  shows "\<exists>st3. Execute (on_memory svc) cc2 req2 st2 = Some (Ret (Inr r), st3) \<and> st_world st3 = st_world st2 \<and>
    st_store st3 = st_store st2"
proof -
  let ?l = "log_With [(''correlation_id'', CorrelationID_String (req_correlationID req))] (cc_logger cc)"
  obtain lm where acq: "TryAcquire (st_limiter st) = (None, lm)"
    using limiter.acquire_iff [OF lim(1)] lim(2) by (metis prod.collapse)
  let ?st = "st\<lparr>st_limiter := lm\<rparr>"
  have miss: "is_Lookup (sv_idempotency (on_memory svc)) (cc_lookup cc) (read_clock (on_memory svc) ?st) k (st_store ?st) =
      (Ret (Inr None), st_store st)"
    using fresh by (simp add: ctx mem_idempotency_def mem_Lookup_def mem_entries_def)
  define sta where "sta = (tick ?st)\<lparr>st_store := st_store st\<rparr>"
  have stage: "lookup_stage (on_memory svc) cc ?l req ?st = resolve (on_memory svc) cc ?l req sta"
    using lookup_stage_key [OF key miss sta_def] by simp
  obtain l2 h stb where d: "resolve (on_memory svc) cc ?l req sta =
      dispatch (on_memory svc) l2 req cap h ad (cc_exec cc (budget svc req cap)) stb"
      "st_store stb = st_store sta" "st_ticks sta \<le> st_ticks stb"
    using resolve_mem_dispatch [OF cap _ ids(2-4) ad, of sta cc ?l] ids(1) by (auto simp: sta_def)
  obtain stc where c: "dispatch (on_memory svc) l2 req cap h ad (cc_exec cc (budget svc req cap)) stb = (Ret (Inr r), stc)"
      "st_store st1 = st_store stc"
    using first acq stage d(1) by (auto simp: Execute_def Let_def split: prod.splits option.splits)
  have "bound_from svc (st_ticks stb) k r (st_store stc)"
    using dispatch_bound [OF c(1) key _ window] fresh d(2) by (simp add: sta_def)
  then obtain m where m: "st_ticks stb \<le> m"
      "mem_entries (st_store st2) (IdempotencyKey_String k) = Some (receipt_key r, sv_clock svc m + sv_idempWindow svc)"
      "map_of (mm_receipts (st_store st2)) (receipt_key r) = Some r"
    using later(1) c(2) by (auto simp: bound_from_def)
  have "sv_clock svc (st_ticks st) \<le> sv_clock svc m" using mono m(1) d(3) by (simp add: sta_def)
  then have hit: "is_Lookup (sv_idempotency (on_memory svc)) (cc_lookup cc2) (read_clock (on_memory svc) st2) k (st_store st2) =
      (Ret (Inr (Some (rc_receiptID r))), st_store st2)"
    using m(2) later(4) by (auto simp: again mem_idempotency_def mem_Lookup_def mem_entries_def intro: ReceiptID.expand
        split: option.splits)
  have found: "rr_FindByID (sv_receipts (on_memory svc)) (cc_find cc2) (read_clock (on_memory svc) (tick st2)) (rc_receiptID r)
      (st_store st2) = (Ret (Inr r), st_store st2)"
    using m(3) by (simp add: again mem_repository_def mem_FindByID_def)
  obtain lm2 where acq2: "TryAcquire (st_limiter st2) = (None, lm2)"
    using limiter.acquire_iff [OF later(2)] later(3) by (metis prod.collapse)
  define std where "std = (tick (st2\<lparr>st_limiter := lm2\<rparr>))\<lparr>st_store := st_store st2\<rparr>"
  have run2: "lookup_stage (on_memory svc) cc2
      (log_With [(''correlation_id'', CorrelationID_String (req_correlationID req2))] (cc_logger cc2)) req2
      (st2\<lparr>st_limiter := lm2\<rparr>) = (Ret (Inr r), (tick std)\<lparr>st_store := st_store st2\<rparr>)"
    using lookup_stage_key [OF again(1) _ std_def, of "on_memory svc" cc2 "Ret (Inr (Some (rc_receiptID r)))"] hit found
    by (simp add: std_def)
  show ?thesis
    using Execute_acquired [OF later(2) acq2 run2] by (auto simp: std_def)
qed

text \<open>
  The label of a structural failure is the capability the request asked for, well-formed but
  possibly unknown: the values of \<open>capability\<close> are the callers' choice, not the catalog's.
\<close>

lemma structural_label:
  assumes "adapterIDRegex (AdapterID_String (req_adapterID req))" and "capNameRegex (req_capabilityName req)"
    and "capVerRegex (req_capabilityVersion req)"
  shows "Canonical (pseudo_capability req) = CapabilityCanonical req"
proof -
  have "NewAdapterID (AdapterID_String (req_adapterID req)) = Inr (req_adapterID req)" using assms(1) by (simp add: validate)
  then have "pseudo_capability req = \<lparr>cap_adapterID = req_adapterID req, cap_name = req_capabilityName req,
      cap_version = req_capabilityVersion req, cap_allowsPartial = False, cap_defaultTimeout = Second\<rparr>"
    using assms(2,3) by (simp add: pseudo_capability_def NewCapability_def duration_units)
  then show ?thesis by (simp add: Canonical_def CapabilityCanonical_def)
qed

text \<open>
  What the structural path saves is not recorded: after a failure before the dispatch the key
  stays unbound, and the next request under it runs in full.
\<close>

lemma structural_key_unbound:
  "mem_entries (st_store (snd (persistStructural (on_memory svc) cc l req ec msg st))) = mem_entries (st_store st)"
proof -
  have f: "st_store (tick st') = st_store st'" "st_store (st'\<lparr>st_ids := n\<rparr>) = st_store st'" for st' :: "('a, memory) exec_state" and n
    by simp_all
  have p: "mem_entries (st_store (snd (persist (on_memory svc) c l r st'))) = mem_entries (st_store st')" for c r and st' :: "('a, memory) exec_state"
    by (auto simp: persist_def mem_repository_def mem_Save_def mem_entries_def Let_def fun_eq_iff
        split: option.splits)
  show ?thesis
    unfolding persistStructural_def with_id_def Let_def
    by (auto split: sum.split outcome.split prod.split) (metis f p snd_conv)+
qed

section \<open>Witnesses\<close>

text \<open>
  A service with one capability over a world of the payloads dispatched. Its adapter panics on
  an empty world and returns a raw outcome afterwards.
\<close>

definition sample_adapter :: "string list Adapter" where
  "sample_adapter = \<lparr>ad_ID = AdapterID ''shell'', ad_Capabilities = [sample_cap],
     ad_Execute = (\<lambda>ctx cap p w. (if w = [] then Panic ''boom'' else Ret (Some (ExecRaw zero_execRaw), None), pl_Raw p # w))\<rparr>"

definition service_with :: "'s ReceiptRepository \<Rightarrow> 's IdempotencyStore \<Rightarrow> (string list, 's) ExecuteService" where
  "service_with rr is = \<lparr>sv_adapters = [(''shell'', sample_adapter)],
     sv_registry = \<lparr>byCanon = [(Canonical sample_cap, sample_cap)]\<rparr>, sv_metrics = True,
     sv_normalizer = \<lparr>rn_inlineLimit = 1, rn_byCanonical = [(Canonical sample_cap, (\<lambda>_ _ _ now.
        Ret (NewExecutionResult StatusSuccess HintNonRetryable [] [] None None (Some 0) [] [] 0 0 0 now)))]\<rparr>,
     sv_receipts = rr, sv_idempotency = is, sv_maxTimeout = 0, sv_idempWindow = Second,
     sv_provenance = rc_provenance sample_receipt, sv_clock = (\<lambda>n. 3000000 + int n),
     sv_idGen = (\<lambda>_. Ret ''01ARZ3NDEKTSV4RRFFQ69G5FAW''), sv_stack = (\<lambda>_. ''main.go'')\<rparr>"

definition sample_service :: "(string list, memory) ExecuteService" where
  "sample_service = service_with mem_repository mem_idempotency"

definition sample_state :: "(string list, memory) exec_state" where
  "sample_state = \<lparr>st_world = [''seed''], st_store = empty_memory,
     st_limiter = \<lparr>lm_max = 1, lm_slots = 0, lm_inUse = 0\<rparr>, st_ticks = 0, st_ids = 0, st_events = []\<rparr>"

definition sample_cc :: call_ctx where
  "sample_cc = \<lparr>cc_logger = [], cc_lookup = None, cc_find = None, cc_save = None, cc_exec = (\<lambda>_. background)\<rparr>"

definition sample_run :: "(string list, memory) reply option" where
  "sample_run = Execute (on_memory sample_service) sample_cc sample_request sample_state"

definition run_state :: "('w, 's) reply option \<Rightarrow> ('w, 's) exec_state" where
  "run_state x = (case x of Some (_, st) \<Rightarrow> st | None \<Rightarrow> undefined)"

definition run_receipt :: "('w, 's) reply option \<Rightarrow> ExecutionReceipt" where
  "run_receipt x = (case x of Some (Ret (Inr r), _) \<Rightarrow> r | _ \<Rightarrow> undefined)"

definition returned_receipt :: "('w, 's) reply option \<Rightarrow> bool" where
  "returned_receipt x = (case x of Some (Ret (Inr r), _) \<Rightarrow> True | _ \<Rightarrow> False)"

lemma returned_receiptD: "returned_receipt x \<Longrightarrow> x = Some (Ret (Inr (run_receipt x)), run_state x)"
  by (auto simp: returned_receipt_def run_receipt_def run_state_def split: option.splits prod.splits outcome.splits sum.splits)

lemma sample_run_returns: "returned_receipt sample_run"
  by code_simp

lemma sample_limiter: "limiter_ok (st_limiter sample_state)" "lm_slots (st_limiter sample_state) < lm_max (st_limiter sample_state)"
  by (simp_all add: sample_state_def limiter_ok_def)

theorem Execute_limiter_balanced_witness:
  "\<exists>out st'. Execute sample_service sample_cc sample_request sample_state = Some (out, st') \<and>
     st_limiter st' = st_limiter sample_state"
  using Execute_limiter_balanced [OF sample_limiter(1), of sample_service sample_cc sample_request] by blast

theorem Execute_at_most_once_witness:
  "st_world (run_state sample_run) = [''seed''] \<or>
   dispatched_once (on_memory sample_service) sample_cc sample_request [''seed''] (st_world (run_state sample_run))"
  using Execute_at_most_once [OF returned_receiptD [OF sample_run_returns, unfolded sample_run_def]]
  by (simp add: sample_run_def sample_state_def)

lemma Execute_active_balanced_example:
  "counter active_executions (st_events (run_state sample_run)) = 0"
  using Execute_active_balanced [OF returned_receiptD [OF sample_run_returns, unfolded sample_run_def]]
  by (simp add: sample_run_def sample_state_def)

theorem Execute_metric_contract_witness:
  "\<exists>evs. st_events (run_state sample_run) = st_events sample_state @ evs \<and> list_all within_contract evs"
  using Execute_metric_contract [of "on_memory sample_service" sample_cc sample_request sample_state] returned_receiptD [OF sample_run_returns]
  by (simp add: sample_run_def)

theorem dispatch_classification_witness:
  "\<exists>res evs. build_result sample_service [] sample_cap
      (effective_raw None (fst (SafeExecute (sv_stack sample_service) background sample_adapter sample_cap
         (req_payload sample_request) []))) (Sub 9 7) 9 [''{}''] 10 = (Inr res, evs) \<and>
     failure_of ErrAdapterInternalError res"
proof -
  have run: "ad_Execute sample_adapter background sample_cap (req_payload sample_request) [] = (Panic ''boom'', [''{}''])"
    by (simp add: sample_adapter_def sample_request_def pl_Raw_def)
  have n: "rn_Normalize (sv_normalizer sample_service) sample_cap raw [''{}''] (Some 10) =
      Ret (NewExecutionResult StatusSuccess HintNonRetryable [] [] None None (Some 0) [] [] 0 0 0 10)" for raw
    by (simp add: rn_Normalize_def sample_service_def service_with_def)
  have "\<not> isl (NewExecutionResult StatusSuccess HintNonRetryable [] [] None None (Some 0) [] [] 0 0 0 10)" by code_simp
  then show ?thesis
    using dispatch_classification [OF run, of 7 9 sample_service 10 "[]"] n
    by (simp add: ctx_err_ok_def expected_outcome_def isl_def)
qed

lemma sample_again:
  "st_store (run_state sample_run) = st_store (run_state sample_run)"
  "limiter_ok (st_limiter (run_state sample_run))"
  "lm_slots (st_limiter (run_state sample_run)) < lm_max (st_limiter (run_state sample_run))"
  "sv_clock sample_service (st_ticks (run_state sample_run)) < sv_clock sample_service (st_ticks sample_state) + sv_idempWindow sample_service"
  subgoal by simp
  subgoal by code_simp
  subgoal by code_simp
  subgoal by code_simp
  done

theorem Execute_replays_receipt_witness:
  "\<exists>st3. Execute (on_memory sample_service) sample_cc (sample_request\<lparr>req_capabilityName := ''other''\<rparr>) (run_state sample_run) =
       Some (Ret (Inr (run_receipt sample_run)), st3) \<and>
     st_world st3 = st_world (run_state sample_run) \<and> st_store st3 = st_store (run_state sample_run)"
proof (rule Execute_replays_receipt [OF sample_limiter, where req = sample_request and cc = sample_cc
      and k = "the (req_idempotencyKey sample_request)" and cap = sample_cap and ad = sample_adapter
      and hid = "''01ARZ3NDEKTSV4RRFFQ69G5FAW''"])
  show "Execute (on_memory sample_service) sample_cc sample_request sample_state =
      Some (Ret (Inr (run_receipt sample_run)), run_state sample_run)"
    using returned_receiptD [OF sample_run_returns] by (simp add: sample_run_def)
  show "mem_entries (st_store sample_state) (IdempotencyKey_String (the (req_idempotencyKey sample_request))) = None"
    by (simp add: sample_state_def empty_memory_def mem_entries_def)
  show "0 < budget sample_service sample_request sample_cap" by code_simp
  show "ulidRegex ''01ARZ3NDEKTSV4RRFFQ69G5FAW''" by code_simp
  show "reg_Lookup (sv_registry sample_service) (CapabilityCanonical sample_request) = Inr sample_cap"
    by (simp add: sample_service_def service_with_def reg_Lookup_def CapabilityCanonical_def Canonical_def sample_cap_def sample_request_def)
qed (use sample_again in \<open>simp_all add: sample_request_def sample_cc_def sample_service_def service_with_def sample_cap_def Second_def\<close>)

lemma Execute_replay_example:
  "\<exists>st'. Execute sample_service sample_cc sample_request (run_state sample_run) = Some (Ret (Inr (run_receipt sample_run)), st') \<and>
     st_world st' = st_world (run_state sample_run) \<and> st_events st' = st_events (run_state sample_run)"
proof -
  have hit: "is_Lookup (sv_idempotency sample_service) (cc_lookup sample_cc) (read_clock sample_service (run_state sample_run))
      (the (req_idempotencyKey sample_request)) (st_store (run_state sample_run)) =
      (Ret (Inr (Some (rc_receiptID (run_receipt sample_run)))), st_store (run_state sample_run))" by code_simp
  have found: "rr_FindByID (sv_receipts sample_service) (cc_find sample_cc) (read_clock sample_service (tick (run_state sample_run)))
      (rc_receiptID (run_receipt sample_run)) (st_store (run_state sample_run)) =
      (Ret (Inr (run_receipt sample_run)), st_store (run_state sample_run))" by code_simp
  have key: "req_idempotencyKey sample_request = Some (the (req_idempotencyKey sample_request))"
    by (simp add: sample_request_def)
  from Execute_replay [OF sample_again(2,3) key hit found] show ?thesis by blast
qed

definition sample_pg_service :: "(string list, pg_db) ExecuteService" where
  "sample_pg_service = on_pg sample_calm (service_with \<lparr>rr_Save = pg_Save sample_calm, rr_FindByID = pg_FindByID sample_calm\<rparr>
     \<lparr>is_Lookup = pg_Lookup sample_calm, is_Record = pg_Record sample_calm\<rparr>)"

definition sample_pg_run :: "(string list, pg_db) reply option" where
  "sample_pg_run = Execute sample_pg_service sample_cc sample_request
     \<lparr>st_world = [], st_store = sample_db, st_limiter = st_limiter sample_state, st_ticks = 0, st_ids = 0, st_events = []\<rparr>"

lemma sample_pg_returns: "returned_receipt sample_pg_run"
  by code_simp

theorem Execute_persisted_pg_witness:
  "(\<exists>v. pg_enc sample_calm (run_receipt sample_pg_run) = Some v \<and>
      pg_rows (st_store (run_state sample_pg_run)) (receipt_key (run_receipt sample_pg_run)) = Some v) \<or>
   (\<exists>k v t. pg_rows (st_store (run_state sample_pg_run)) k = Some v \<and>
      Receipt_UnmarshalJSON t v = Inr (run_receipt sample_pg_run))"
proof (rule Execute_persisted_pg)
  show "Execute (on_pg sample_calm (service_with \<lparr>rr_Save = pg_Save sample_calm, rr_FindByID = pg_FindByID sample_calm\<rparr>
       \<lparr>is_Lookup = pg_Lookup sample_calm, is_Record = pg_Record sample_calm\<rparr>)) sample_cc sample_request
     \<lparr>st_world = [], st_store = sample_db, st_limiter = st_limiter sample_state, st_ticks = 0, st_ids = 0, st_events = []\<rparr> =
     Some (Ret (Inr (run_receipt sample_pg_run)), run_state sample_pg_run)"
    using returned_receiptD [OF sample_pg_returns] by (simp add: sample_pg_run_def sample_pg_service_def)
qed

end
