(* ===== verification/Inbound_Http.thy ===== *)
theory Inbound_Http
  imports Execute_Properties Go_Strconv
begin

text \<open>
  The inbound HTTP adapter (\<open>internal/adapters/inbound/http\<close>): the error envelope, the four
  handlers, and the middleware of \<open>middleware.go\<close> in the order of \<open>router.go\<close>. A handler is a
  function from the request, the request's context and the response headers set so far to the
  response; it may panic, and it may not return (no value) if the service does not. Routing is
  chi's; the JSON lexer is a parameter, the domain's \<open>UnmarshalJSON\<close> is not.
\<close>

section \<open>Responses\<close>

record HTTPError =
  ht_Class :: string
  ht_Message :: string
  ht_Retryable :: string
  ht_ReceiptID :: string

datatype http_body =
    ErrorBody HTTPError
  | ReceiptBody receipt_wire
  | CapabilitiesBody "capabilityWire list" string string
  | ReadyBody string smap
  | StatusBody smap

record http_response =
  rs_code :: int
  rs_headers :: smap
  rs_body :: http_body

definition json_header :: "smap \<Rightarrow> smap" where
  "json_header hs = AList.update ''Content-Type'' ''application/json; charset=utf-8'' hs"

definition writeHTTPErrorWithRetryable :: "smap \<Rightarrow> int \<Rightarrow> string \<Rightarrow> string \<Rightarrow> string \<Rightarrow> string \<Rightarrow> http_response" where
  "writeHTTPErrorWithRetryable hs code class msg retryable receiptID =
     \<lparr>rs_code = code, rs_headers = json_header hs,
      rs_body = ErrorBody \<lparr>ht_Class = class, ht_Message = msg, ht_Retryable = retryable, ht_ReceiptID = receiptID\<rparr>\<rparr>"

definition writeHTTPError :: "smap \<Rightarrow> int \<Rightarrow> string \<Rightarrow> string \<Rightarrow> http_response" where
  "writeHTTPError hs code class msg =
     \<lparr>rs_code = code, rs_headers = json_header hs,
      rs_body = ErrorBody \<lparr>ht_Class = class, ht_Message = msg, ht_Retryable = ''non_retryable'', ht_ReceiptID = []\<rparr>\<rparr>"

definition writeJSON :: "smap \<Rightarrow> int \<Rightarrow> http_body \<Rightarrow> http_response" where
  "writeJSON hs code v = \<lparr>rs_code = code, rs_headers = json_header hs, rs_body = v\<rparr>"

section \<open>Requests and handlers\<close>

text \<open>Header names are in canonical form; \<open>hq_id\<close> is chi's URL parameter.\<close>

record http_req =
  hq_headers :: smap
  hq_body :: string
  hq_query :: smap
  hq_id :: string

text \<open>The request's context: its logger and what its \<open>Err()\<close> returns when the handler looks.\<close>

record http_ctx =
  hx_logger :: Logger
  hx_err :: "go_error option"

type_synonym 'st handler =
  "http_req \<Rightarrow> http_ctx \<Rightarrow> smap \<Rightarrow> 'st \<Rightarrow> (http_response outcome \<times> 'st) option"

text \<open>The inbound ports, bound to the request's context.\<close>

type_synonym 'st runtime_service =
  "http_ctx \<Rightarrow> ExecutionRequest \<Rightarrow> 'st \<Rightarrow> ((go_error + ExecutionReceipt) outcome \<times> 'st) option"

section \<open>POST /api/v1/execute\<close>

definition defaultMaxRequestBodyBytes :: int where "defaultMaxRequestBodyBytes = 1048576"

definition max_body :: "int \<Rightarrow> int" where
  "max_body cfg = (if cfg \<le> 0 then defaultMaxRequestBodyBytes else cfg)"

text \<open>
  \<open>dec.Decode\<close> behind the capped reader: the lexer gives the wire structure and what \<open>dec.More()\<close>
  answers afterwards, or an error; then the request's own \<open>UnmarshalJSON\<close> runs.
\<close>

type_synonym body_decoder = "int \<Rightarrow> string \<Rightarrow> go_error + (request_wire \<times> bool)"

definition decode_request ::
  "body_decoder \<Rightarrow> int \<Rightarrow> go_time \<Rightarrow> string \<Rightarrow> go_error + (ExecutionRequest \<times> bool)" where
  "decode_request dec maxBody now body =
     (case dec maxBody body of Inl e \<Rightarrow> Inl e
      | Inr (w, trailing) \<Rightarrow> (case Request_UnmarshalJSON now w of Inl e \<Rightarrow> Inl e | Inr req \<Rightarrow> Inr (req, trailing)))"

definition decode_failure :: "smap \<Rightarrow> int \<Rightarrow> go_error \<Rightarrow> http_response" where
  "decode_failure hs maxBody e =
     (if errors_Is e MaxBytesError
      then writeHTTPError hs 413 ''payload_schema_failure'' (''request body exceeds max '' @ int_dec maxBody @ '' bytes'')
      else if errors_Is e EOF then writeHTTPError hs 400 ''validation_failure'' ''empty request body''
      else writeHTTPError hs 400 ''validation_failure'' (''decode request: '' @ err_text e))"

text \<open>\<open>errors.Is(err, r.Context().Err())\<close>, which is false while the context has no error.\<close>

definition is_ctx_error :: "go_error \<Rightarrow> go_error option \<Rightarrow> bool" where
  "is_ctx_error err ctxErr = (case ctxErr of None \<Rightarrow> False | Some e \<Rightarrow> list_ex (errors_Is err) (err_is e))"

definition execute_reply :: "smap \<Rightarrow> go_error option \<Rightarrow> go_error + ExecutionReceipt \<Rightarrow> http_response" where
  "execute_reply hs ctxErr x =
     (case x of
        Inr receipt \<Rightarrow> writeJSON hs 200 (ReceiptBody (Receipt_MarshalJSON receipt))
      | Inl err \<Rightarrow>
        if errors_Is err ErrTooManyExecutions
        then writeHTTPErrorWithRetryable hs 503 ''adapter_internal_error'' (err_text err) ''retryable'' []
        else if is_ctx_error err ctxErr then writeHTTPError hs 499 ''cancelled'' (err_text err)
        else writeHTTPErrorWithRetryable hs 500 ''adapter_internal_error'' (err_text err) ''unknown'' [])"

definition NewExecuteHandler :: "body_decoder \<Rightarrow> go_time \<Rightarrow> 'st runtime_service \<Rightarrow> int \<Rightarrow> 'st handler" where
  "NewExecuteHandler dec now svc cfgMax r ctx hs st =
     (let maxBody = max_body cfgMax in
      case decode_request dec maxBody now (hq_body r) of
        Inl e \<Rightarrow> Some (Ret (decode_failure hs maxBody e), st)
      | Inr (req, trailing) \<Rightarrow>
        if trailing
        then Some (Ret (writeHTTPError hs 400 ''validation_failure'' ''unexpected trailing data in request body''), st)
        else case svc ctx req st of None \<Rightarrow> None
        | Some (Panic v, st') \<Rightarrow> Some (Panic v, st')
        | Some (Ret x, st') \<Rightarrow> Some (Ret (execute_reply hs (hx_err ctx) x), st'))"

section \<open>GET /api/v1/capabilities\<close>

definition NewCapabilitiesHandler :: "'s QueryService \<Rightarrow> 's handler" where
  "NewCapabilitiesHandler q r ctx hs st =
     (let aid = map_get (hq_query r) ''adapter_id'';
          respond = (\<lambda>flt. case ListCapabilities q (hx_err ctx) flt of
              Inl e \<Rightarrow> writeHTTPError hs 500 ''adapter_internal_error'' (err_text e)
            | Inr l \<Rightarrow> writeJSON hs 200 (CapabilitiesBody (map Capability_MarshalJSON (lc_Capabilities l))
                         (lc_RuntimeVersion l) (lc_SchemaVersion l)))
      in if aid = [] then Some (Ret (respond None), st)
         else case NewAdapterID aid of
           Inl e \<Rightarrow> Some (Ret (writeHTTPError hs 400 ''validation_failure''
                     (''invalid adapter_id '' @ quoted aid @ '': '' @ err_text e)), st)
         | Inr parsed \<Rightarrow> Some (Ret (respond (Some parsed)), st))"

section \<open>GET /api/v1/receipts\<close>

definition include_streams :: "smap \<Rightarrow> go_error + bool" where
  "include_streams query =
     (let raw = map_get query ''include_streams'' in
      if raw = [] then Inr True
      else case ParseBool raw of
        Inl e \<Rightarrow> Inl (errorf (''invalid include_streams '' @ quoted raw @ '': '' @ err_text e))
      | Inr b \<Rightarrow> Inr b)"

definition NewReceiptsHandler :: "'s QueryService \<Rightarrow> go_time \<Rightarrow> 's handler" where
  "NewReceiptsHandler q now r ctx hs st =
     (if hq_id r = [] then Some (Ret (writeHTTPError hs 400 ''validation_failure'' ''id is required''), st)
      else case NewReceiptID (hq_id r) of
        Inl e \<Rightarrow> Some (Ret (writeHTTPError hs 400 ''validation_failure''
                  (''invalid receipt id '' @ quoted (hq_id r) @ '': '' @ err_text e)), st)
      | Inr rid \<Rightarrow>
        (case include_streams (hq_query r) of
           Inl e \<Rightarrow> Some (Ret (writeHTTPError hs 400 ''validation_failure'' (err_text e)), st)
         | Inr inc \<Rightarrow>
           (case GetReceipt q (hx_err ctx) now rid inc st of
              (Panic v, st') \<Rightarrow> Some (Panic v, st')
            | (Ret (Inl e), st') \<Rightarrow>
                Some (Ret (if errors_Is e ErrReceiptNotFound
                           then writeHTTPError hs 404 ''validation_failure'' (''receipt '' @ quoted (hq_id r) @ '' not found'')
                           else writeHTTPError hs 500 ''adapter_internal_error'' (err_text e)), st')
            | (Ret (Inr receipt), st') \<Rightarrow> Some (Ret (writeJSON hs 200 (ReceiptBody (Receipt_MarshalJSON receipt))), st'))))"

section \<open>Probes\<close>

text \<open>\<open>probe.Ping\<close> under a context of two seconds is given as its result.\<close>

definition NewReadyzHandler :: "('st \<Rightarrow> go_error option) option \<Rightarrow> 'st handler outcome" where
  "NewReadyzHandler probe =
     (case probe of None \<Rightarrow> Panic ''http.NewReadyzHandler: Readiness probe is required''
      | Some ping \<Rightarrow> Ret (\<lambda>r ctx hs st. Some (Ret (case ping st of
            Some e \<Rightarrow> writeJSON hs 503 (ReadyBody ''degraded'' [(''db'', err_text e)])
          | None \<Rightarrow> writeJSON hs 200 (ReadyBody ''ready'' [(''db'', ''ok'')])), st)))"

definition healthz :: "'st handler" where
  "healthz r ctx hs st = Some (Ret (writeJSON hs 200 (StatusBody [(''status'', ''ok'')])), st)"

section \<open>Middleware\<close>

definition panicRecoverer :: "'st handler \<Rightarrow> 'st handler" where
  "panicRecoverer next_h r ctx hs st =
     (case next_h r ctx hs st of None \<Rightarrow> None
      | Some (Ret resp, st') \<Rightarrow> Some (Ret resp, st')
      | Some (Panic v, st') \<Rightarrow>
          Some (Ret (writeHTTPError hs 500 ''adapter_internal_error'' (''panic recovered: '' @ v)), st'))"

definition requestIDHeader :: "'st handler \<Rightarrow> 'st handler" where
  "requestIDHeader next_h r ctx hs st =
     (let rid = map_get (hq_headers r) ''X-Request-Id'' in
      next_h r ctx (if rid \<noteq> [] then AList.update ''X-Request-Id'' rid hs else hs) st)"

text \<open>The generated identifier is \<open>ulid.Make()\<close>'s; a nil root is the logger with no fields.\<close>

definition LoggerMiddleware :: "Logger option \<Rightarrow> string \<Rightarrow> 'st handler \<Rightarrow> 'st handler" where
  "LoggerMiddleware root newid next_h r ctx hs st =
     (let rt = (case root of None \<Rightarrow> [] | Some l \<Rightarrow> l);
          given = map_get (hq_headers r) ''X-Correlation-Id'';
          corr = (if given = [] then newid else given);
          r' = (if given = [] then r\<lparr>hq_headers := AList.update ''X-Correlation-Id'' corr (hq_headers r)\<rparr> else r)
      in next_h r' (ctx\<lparr>hx_logger := log_With [(''correlation_id'', corr)] rt\<rparr>) hs st)"

text \<open>The chain of \<open>router.go\<close> below the trace middleware and chi's request identifier.\<close>

definition middleware_chain :: "Logger option \<Rightarrow> string \<Rightarrow> 'st handler \<Rightarrow> 'st handler" where
  "middleware_chain root newid h = LoggerMiddleware root newid (requestIDHeader (panicRecoverer h))"

section \<open>The endpoints over the execute service and the stores\<close>

definition runtime_of :: "('w, 's) ExecuteService \<Rightarrow> (http_ctx \<Rightarrow> call_ctx) \<Rightarrow> ('w, 's) exec_state runtime_service" where
  "runtime_of svc mk ctx req st = Execute svc (mk ctx) req st"

text \<open>The context a handler sees behind the chain.\<close>

definition bound_ctx :: "Logger option \<Rightarrow> string \<Rightarrow> http_req \<Rightarrow> http_ctx \<Rightarrow> http_ctx" where
  "bound_ctx root newid r ctx =
     ctx\<lparr>hx_logger := log_With [(''correlation_id'',
        if map_get (hq_headers r) ''X-Correlation-Id'' = [] then newid else map_get (hq_headers r) ''X-Correlation-Id'')]
       (case root of None \<Rightarrow> [] | Some l \<Rightarrow> l)\<rparr>"

lemma chain_ret:
  assumes "\<And>r' hs'. hq_body r' = hq_body r \<Longrightarrow> \<exists>hs''. panicRecoverer h r' (bound_ctx root newid r ctx) hs' st = f hs''"
  shows "\<exists>hs'. middleware_chain root newid h r ctx hs st = f hs'"
  using assms unfolding middleware_chain_def LoggerMiddleware_def requestIDHeader_def bound_ctx_def Let_def
  by (simp split: if_splits)

lemma execute_reply_code:
  "rs_code (execute_reply hs c x) = 200 \<longleftrightarrow> (\<exists>r. x = Inr r)"
  "x = Inr r \<Longrightarrow> rs_body (execute_reply hs c x) = ReceiptBody (Receipt_MarshalJSON r)"
  by (auto simp: execute_reply_def writeJSON_def writeHTTPError_def writeHTTPErrorWithRetryable_def split: sum.splits)

lemma decode_failure_code: "rs_code (decode_failure hs m e) \<in> {400, 413}"
  by (simp add: decode_failure_def writeHTTPError_def)



section \<open>Concrete exchanges\<close>

definition sample_post :: http_req where
  "sample_post = \<lparr>hq_headers = [(''X-Request-Id'', ''r1'')], hq_body = ''{}'', hq_query = [], hq_id = []\<rparr>"

definition sample_http_ctx :: http_ctx where
  "sample_http_ctx = \<lparr>hx_logger = [], hx_err = None\<rparr>"

text \<open>A decoder that reads any body as the sample request, with more data behind it.\<close>

definition sample_decoder :: body_decoder where
  "sample_decoder n body = Inr (Request_MarshalJSON sample_request, True)"


definition sample_query :: "memory QueryService" where
  "sample_query = \<lparr>qs_registry = \<lparr>byCanon = []\<rparr>, qs_receipts = mem_repository, qs_runtimeVersion = ''v''\<rparr>"


end
