(* ===== verification/Inbound_Trace.thy ===== *)
theory Inbound_Trace
  imports Inbound_Http "HOL-Library.Word"
begin

unbundle bit_operations_syntax

text \<open>
  The trace middleware (\<open>internal/adapters/inbound/http/middleware/trace.go\<close>) and the in-process
  client (\<open>internal/adapters/inbound/sdk/sdk.go\<close>). Bytes are 8-bit words. OpenTelemetry's
  propagator is a parameter: what it extracts from the headers if that is valid, and the headers
  it injects. A random source is the bytes it will give.
\<close>

section \<open>Trace identifiers\<close>

type_synonym byte = "8 word"

definition byte_of :: "char \<Rightarrow> byte" where
  "byte_of c = word_of_nat (of_char c)"

definition allZero :: "byte list \<Rightarrow> bool" where
  "allZero bs \<longleftrightarrow> list_all (\<lambda>b. b = 0) bs"

definition hex_value :: "char \<Rightarrow> nat option" where
  "hex_value c =
     (let n = (of_char c :: nat) in
      if is_digit c then Some (n - 48)
      else if between 97 102 c then Some (n - 87)
      else if between 65 70 c then Some (n - 55) else None)"

fun hex_DecodeString :: "string \<Rightarrow> byte list option" where
  "hex_DecodeString [] = Some []"
| "hex_DecodeString [c] = None"
| "hex_DecodeString (c # d # s) =
     (case (hex_value c, hex_value d, hex_DecodeString s) of
        (Some a, Some b, Some bs) \<Rightarrow> Some (word_of_nat (16 * a + b) # bs)
      | _ \<Rightarrow> None)"

definition xor_at :: "nat \<times> byte \<Rightarrow> byte list \<Rightarrow> byte list" where
  "xor_at ib out = (case ib of (i, b) \<Rightarrow> out[i mod 16 := (out ! (i mod 16)) XOR b])"

definition xor_fold :: "string \<Rightarrow> byte list" where
  "xor_fold rid = fold xor_at (enumerate 0 (map byte_of rid)) (replicate 16 0)"

text \<open>
  \<open>strings.ToLower\<close>: no character outside ASCII has a hexadecimal digit as its lower case, so
  mapping the ASCII letters decides the test that follows.
\<close>

definition strip_lower :: "string \<Rightarrow> string" where
  "strip_lower rid = map lower_char (filter (\<lambda>c. c \<noteq> CHR ''-'') rid)"

definition folded_id :: "string \<Rightarrow> go_error + byte list" where
  "folded_id rid =
     (let out = xor_fold rid; out' = (if allZero out then out[15 := 1] else out) in
      if allZero out' then Inl (errorf ''trace: derived trace_id is zero'') else Inr out')"

definition traceIDFromRequestID :: "string \<Rightarrow> go_error + byte list" where
  "traceIDFromRequestID rid =
     (let stripped = strip_lower rid in
      case (if length stripped = 32 then hex_DecodeString stripped else None) of
        Some d \<Rightarrow> if \<not> allZero d then Inr d else folded_id rid
      | None \<Rightarrow> folded_id rid)"

section \<open>Span contexts\<close>

record SpanContext =
  sc_TraceID :: "byte list"
  sc_SpanID :: "byte list"
  sc_sampled :: bool
  sc_remote :: bool

record otel =
  ot_Extract :: "smap \<Rightarrow> SpanContext option"
  ot_Inject :: "SpanContext option \<Rightarrow> smap \<Rightarrow> smap"

definition io_ReadFull :: "nat \<Rightarrow> byte list \<Rightarrow> (go_error + byte list) \<times> byte list" where
  "io_ReadFull n src =
     (if n \<le> length src then (Inr (take n src), drop n src) else (Inl (errorf (if src = [] then ''EOF'' else ''unexpected EOF'')), []))"

definition remote_span :: "byte list \<Rightarrow> byte list \<Rightarrow> SpanContext" where
  "remote_span tid sid = \<lparr>sc_TraceID = tid, sc_SpanID = sid, sc_sampled = True, sc_remote = True\<rparr>"

definition freshSpanContext :: "byte list \<Rightarrow> (go_error + SpanContext) \<times> byte list" where
  "freshSpanContext src =
     (case io_ReadFull 16 src of
        (Inl e, src1) \<Rightarrow> (Inl e, src1)
      | (Inr tid, src1) \<Rightarrow>
        (case io_ReadFull 8 src1 of
           (Inl e, src2) \<Rightarrow> (Inl e, src2)
         | (Inr sid, src2) \<Rightarrow> (Inr (remote_span tid sid), src2)))"

definition spanContextFromRequestID :: "string \<Rightarrow> byte list \<Rightarrow> (go_error + SpanContext) \<times> byte list" where
  "spanContextFromRequestID rid src =
     (case traceIDFromRequestID rid of Inl e \<Rightarrow> (Inl e, src)
      | Inr tid \<Rightarrow>
        (case io_ReadFull 8 src of
           (Inl e, src1) \<Rightarrow> (Inl e, src1)
         | (Inr sid, src1) \<Rightarrow> (Inr (remote_span tid sid), src1)))"

text \<open>The span context of the request, what is left of the random source, and the log records.\<close>

definition resolve_fallback :: "smap \<Rightarrow> byte list \<Rightarrow> event list \<Rightarrow> SpanContext option \<times> byte list \<times> event list" where
  "resolve_fallback headers src evs =
     (let rid = map_get headers ''X-Request-Id'';
          fresh = (\<lambda>s. case freshSpanContext s of
              (Inl e, s') \<Rightarrow> (None, s', evs @ [logged [] LevelError ''trace: failed to generate fresh trace context''
                                        [(''error'', err_text e)]])
            | (Inr sc, s') \<Rightarrow> (Some sc, s', evs))
      in if rid \<noteq> [] then
           (case spanContextFromRequestID rid src of
              (Inr sc, s') \<Rightarrow> (Some sc, s', evs)
            | (Inl _, s') \<Rightarrow> fresh s')
         else fresh src)"

definition resolveTraceContext :: "otel \<Rightarrow> smap \<Rightarrow> byte list \<Rightarrow> SpanContext option \<times> byte list \<times> event list" where
  "resolveTraceContext ot headers src =
     (let raw = map_get headers ''Traceparent'' in
      if raw \<noteq> [] then
        (case ot_Extract ot headers of
           Some sc \<Rightarrow> (Some sc, src, [])
         | None \<Rightarrow> resolve_fallback headers src
             [logged [] LevelWarn ''trace: malformed Traceparent header, generating fresh trace'' [(''raw_header'', raw)]])
      else resolve_fallback headers src [])"

definition TraceW3C :: "otel \<Rightarrow> byte list \<Rightarrow> (SpanContext option \<Rightarrow> 'st handler) \<Rightarrow> 'st handler" where
  "TraceW3C ot src next_h r ctx hs st =
     (case resolveTraceContext ot (hq_headers r) src of (sc, _, _) \<Rightarrow> next_h sc r ctx (ot_Inject ot sc hs) st)"

section \<open>The in-process client\<close>

record ('st, 's) Client =
  cl_runtime :: "'st runtime_service"
  cl_query :: "'s QueryService"
  cl_maxTB :: duration

record ClientConfig =
  cg_MaxTimeoutBudget :: duration
  cg_MaxPayloadBytes :: int

definition NewClient ::
  "'st runtime_service option \<Rightarrow> 's QueryService option \<Rightarrow> ClientConfig \<Rightarrow> go_error + ('st, 's) Client" where
  "NewClient svc query cfg =
     (case svc of None \<Rightarrow> Inl (errorf ''sdk.NewClient: RuntimeService is required'')
      | Some s \<Rightarrow> (case query of None \<Rightarrow> Inl (errorf ''sdk.NewClient: QueryService is required'')
      | Some q \<Rightarrow> Inr \<lparr>cl_runtime = s, cl_query = q,
          cl_maxTB = (if cg_MaxTimeoutBudget cfg = 0 then 30 * Minute else cg_MaxTimeoutBudget cfg)\<rparr>))"

record ExecuteInput =
  xi_CorrelationID :: string
  xi_AdapterID :: string
  xi_CapabilityName :: string
  xi_CapabilityVersion :: string
  xi_ContentType :: string
  xi_Payload :: string
  xi_TimeoutBudgetMs :: int
  xi_IdempotencyKey :: string
  xi_ActorID :: string
  xi_TaskID :: string
  xi_WorkflowRunID :: string
  xi_RetryAttempt :: int

text \<open>The request the client builds, on what its clock reads.\<close>

definition sdk_request :: "duration \<Rightarrow> go_time \<Rightarrow> ExecuteInput \<Rightarrow> go_error + ExecutionRequest" where
  "sdk_request maxTB now inp =
     (case NewCorrelationID (xi_CorrelationID inp) of Inl e \<Rightarrow> Inl (wrapf ''correlation_id'' e)
      | Inr cid \<Rightarrow> (case NewAdapterID (xi_AdapterID inp) of Inl e \<Rightarrow> Inl (wrapf ''adapter_id'' e)
      | Inr aid \<Rightarrow>
        (case NewPayload (if xi_ContentType inp = [] then ContentTypeJSON else xi_ContentType inp) (xi_Payload inp) 1048576 of
           Inl e \<Rightarrow> Inl (wrapf ''payload'' e)
      | Inr pl \<Rightarrow> (case NewTimeoutBudget (xi_TimeoutBudgetMs inp) maxTB of Inl e \<Rightarrow> Inl (wrapf ''timeout_budget'' e)
      | Inr tb \<Rightarrow>
        (case (if xi_IdempotencyKey inp \<noteq> [] then map_sum id Some (NewIdempotencyKey (xi_IdempotencyKey inp)) else Inr None) of
           Inl e \<Rightarrow> Inl (wrapf ''idempotency_key'' e)
      | Inr ik \<Rightarrow>
        (case NewExecutionRequest
            \<lparr>in_CorrelationID = cid, in_AdapterID = aid, in_CapabilityName = xi_CapabilityName inp,
             in_CapabilityVersion = xi_CapabilityVersion inp, in_Payload = pl, in_TimeoutBudget = tb,
             in_IdempotencyKey = ik, in_ActorID = xi_ActorID inp, in_TaskID = xi_TaskID inp,
             in_WorkflowRunID = xi_WorkflowRunID inp, in_RetryAttempt = xi_RetryAttempt inp\<rparr> now of
           Inl e \<Rightarrow> Inl (wrapf ''build request'' e)
         | Inr req \<Rightarrow> Inr req))))))"

definition sdk_Execute ::
  "('st, 's) Client \<Rightarrow> http_ctx \<Rightarrow> go_time \<Rightarrow> ExecuteInput \<Rightarrow> 'st \<Rightarrow> ((go_error + ExecutionReceipt) outcome \<times> 'st) option" where
  "sdk_Execute c ctx now inp st =
     (case sdk_request (cl_maxTB c) now inp of Inl e \<Rightarrow> Some (Ret (Inl e), st)
      | Inr req \<Rightarrow> cl_runtime c ctx req st)"

definition sdk_ListCapabilities :: "('st, 's) Client \<Rightarrow> go_error option \<Rightarrow> string \<Rightarrow> go_error + ListCapabilitiesResponse" where
  "sdk_ListCapabilities c ctxErr aid =
     (if aid = [] then ListCapabilities (cl_query c) ctxErr None
      else case NewAdapterID aid of Inl e \<Rightarrow> Inl (wrapf ''adapter_id'' e)
      | Inr a \<Rightarrow> ListCapabilities (cl_query c) ctxErr (Some a))"

definition sdk_GetReceipt ::
  "('st, 's) Client \<Rightarrow> go_error option \<Rightarrow> go_time \<Rightarrow> string \<Rightarrow> bool \<Rightarrow> 's \<Rightarrow> (go_error + ExecutionReceipt) outcome \<times> 's" where
  "sdk_GetReceipt c ctxErr now i includeStreams s =
     (case NewReceiptID i of Inl e \<Rightarrow> (Ret (Inl (wrapf ''receipt_id'' e)), s)
      | Inr rid \<Rightarrow> GetReceipt (cl_query c) ctxErr now rid includeStreams s)"

section \<open>Derived trace identifiers are valid\<close>

lemma length_xor_at [simp]: "length (xor_at ib out) = length out"
  by (simp add: xor_at_def case_prod_beta)

lemma length_fold_xor [simp]: "length (fold xor_at xs out) = length out"
  by (induction xs arbitrary: out) auto

lemma length_xor_fold [simp]: "length (xor_fold rid) = 16"
  by (simp add: xor_fold_def)

lemma hex_Decode_length: "hex_DecodeString s = Some bs \<Longrightarrow> length s = 2 * length bs"
  by (induction s arbitrary: bs rule: hex_DecodeString.induct) (auto split: option.splits)

lemma folded_id_ok: "\<exists>bs. folded_id rid = Inr bs \<and> length bs = 16 \<and> \<not> allZero bs"
proof -
  have "\<not> allZero (bs[15 := 1])" if "length bs = 16" for bs :: "byte list"
    using that by (auto simp: allZero_def list_all_iff intro!: bexI [where x = 1] set_update_memI)
  then show ?thesis by (auto simp: folded_id_def Let_def)
qed

lemma traceID_ok: "\<exists>bs. traceIDFromRequestID rid = Inr bs \<and> length bs = 16 \<and> \<not> allZero bs"
proof (cases "length (strip_lower rid) = 32 \<and> hex_DecodeString (strip_lower rid) \<noteq> None")
  case True
  then obtain d where d: "hex_DecodeString (strip_lower rid) = Some d" by auto
  then have "length d = 16" using True hex_Decode_length by fastforce
  then show ?thesis using True d folded_id_ok [of rid] by (simp add: traceIDFromRequestID_def)
next
  case False
  then have "traceIDFromRequestID rid = folded_id rid" by (auto simp: traceIDFromRequestID_def Let_def)
  then show ?thesis using folded_id_ok by simp
qed

text \<open>The hexadecimal form of bytes, as upstream services write a trace identifier.\<close>

definition hex_encode :: "byte list \<Rightarrow> string" where
  "hex_encode bs = concat (map (\<lambda>b. [hex_digit (unat b div 16), hex_digit (unat b mod 16)]) bs)"

lemma hex_value_digit: "n < 16 \<Longrightarrow> hex_value (hex_digit n) = Some n"
  by (auto simp: hex_value_def hex_digit_def char_classes)

lemma unat_byte: "unat (b :: byte) < 256"
  using unsigned_less [of b, where 'a = nat] by simp

lemma hex_roundtrip: "hex_DecodeString (hex_encode bs) = Some bs"
proof (induction bs)
  case (Cons b bs)
  have "unat b div 16 < 16" using unat_byte [of b] by simp
  then show ?case using Cons by (simp add: hex_encode_def hex_value_digit)
qed (simp add: hex_encode_def)

lemma length_hex_encode: "length (hex_encode bs) = 2 * length bs"
  by (induction bs) (simp_all add: hex_encode_def)

text \<open>
  A trace identifier can be derived from every request identifier: 16 bytes that are not all zero.
  One that spells such an identifier in hexadecimal gives exactly the bytes it spells.
\<close>

lemma traceIDFromRequestID_valid:
  "(\<exists>bs. traceIDFromRequestID rid = Inr bs \<and> length bs = 16 \<and> \<not> allZero bs) \<and>
   (length d = 16 \<and> \<not> allZero d \<and> strip_lower rid = hex_encode d \<longrightarrow> traceIDFromRequestID rid = Inr d)"
proof (intro conjI impI)
  show "\<exists>bs. traceIDFromRequestID rid = Inr bs \<and> length bs = 16 \<and> \<not> allZero bs" by (rule traceID_ok)
qed (simp add: traceIDFromRequestID_def length_hex_encode hex_roundtrip)

definition sample_uuid :: string where "sample_uuid = ''550E8400-e29b-41d4-a716-446655440000''"

lemma traceIDFromRequestID_example:
  "traceIDFromRequestID sample_uuid = Inr [0x55, 0x0e, 0x84, 0x00, 0xe2, 0x9b, 0x41, 0xd4, 0xa7, 0x16, 0x44, 0x66, 0x55, 0x44, 0x00, 0x00]"
proof -
  let ?d = "[0x55, 0x0e, 0x84, 0x00, 0xe2, 0x9b, 0x41, 0xd4, 0xa7, 0x16, 0x44, 0x66, 0x55, 0x44, 0x00, 0x00] :: byte list"
  have "length ?d = 16 \<and> \<not> allZero ?d \<and> strip_lower sample_uuid = hex_encode ?d" by code_simp
  then show ?thesis using traceIDFromRequestID_valid [of sample_uuid ?d] by blast
qed

text \<open>
  C30: Every request runs under a trace as long as the random source gives 24 bytes. A valid
  Traceparent header is taken as it is and consumes no randomness; otherwise a request
  identifier determines the trace identifier, whatever the random bytes, so that retries under
  one request identifier share a trace: it is 16 bytes that are not all zero, and when the request
  identifier spells such bytes in hexadecimal, in any letter case and with dashes anywhere (a
  UUID), it is exactly these bytes, so all services correlate on the same identifier. A warning is
  logged exactly when a header was present and refused.
\<close>

theorem resolveTraceContext_correlates:
  assumes "24 \<le> length src"
  shows "\<exists>sc src' evs. resolveTraceContext ot headers src = (Some sc, src', evs) \<and>
    (map_get headers ''Traceparent'' \<noteq> [] \<and> ot_Extract ot headers \<noteq> None \<longrightarrow> ot_Extract ot headers = Some sc \<and> src' = src) \<and>
    ((map_get headers ''Traceparent'' = [] \<or> ot_Extract ot headers = None) \<and> map_get headers ''X-Request-Id'' \<noteq> [] \<longrightarrow>
       traceIDFromRequestID (map_get headers ''X-Request-Id'') = Inr (sc_TraceID sc) \<and>
       length (sc_TraceID sc) = 16 \<and> \<not> allZero (sc_TraceID sc) \<and>
       (\<forall>d. length d = 16 \<and> \<not> allZero d \<and> strip_lower (map_get headers ''X-Request-Id'') = hex_encode d \<longrightarrow> sc_TraceID sc = d)) \<and>
    (evs \<noteq> [] \<longleftrightarrow> map_get headers ''Traceparent'' \<noteq> [] \<and> ot_Extract ot headers = None)"
proof -
  let ?rid = "map_get headers ''X-Request-Id''"
  obtain tid where tid: "traceIDFromRequestID ?rid = Inr tid" and ok: "length tid = 16" "\<not> allZero tid"
    using traceIDFromRequestID_valid by blast
  have spelled: "length d = 16 \<and> \<not> allZero d \<and> strip_lower ?rid = hex_encode d \<longrightarrow> tid = d" for d
    using traceIDFromRequestID_valid [of ?rid d] tid by auto
  have "\<exists>sc src'. resolve_fallback headers src evs = (Some sc, src', evs) \<and> (?rid \<noteq> [] \<longrightarrow> sc_TraceID sc = tid)" for evs
    using assms tid
    by (simp add: resolve_fallback_def Let_def spanContextFromRequestID_def freshSpanContext_def io_ReadFull_def remote_span_def)
  note fallback = this
  show ?thesis
  proof (cases "map_get headers ''Traceparent'' \<noteq> []")
    case False
    then show ?thesis using fallback [of "[]"] tid ok spelled by (auto simp: resolveTraceContext_def)
  next
    case True
    let ?w = "[logged [] LevelWarn ''trace: malformed Traceparent header, generating fresh trace''
        [(''raw_header'', map_get headers ''Traceparent'')]]"
    show ?thesis
      using True fallback [of ?w] tid ok spelled by (cases "ot_Extract ot headers") (auto simp: resolveTraceContext_def Let_def)
  qed
qed

theorem resolveTraceContext_correlates_witness:
  "\<exists>sc src' evs. resolveTraceContext \<lparr>ot_Extract = \<lambda>_. None, ot_Inject = \<lambda>_ h. h\<rparr> [(''X-Request-Id'', sample_uuid)]
     (replicate 24 7) = (Some sc, src', evs) \<and> sc_TraceID sc =
       [0x55, 0x0e, 0x84, 0x00, 0xe2, 0x9b, 0x41, 0xd4, 0xa7, 0x16, 0x44, 0x66, 0x55, 0x44, 0x00, 0x00]"
  using resolveTraceContext_correlates [of "replicate 24 7" "\<lparr>ot_Extract = \<lambda>_. None, ot_Inject = \<lambda>_ h. h\<rparr>"
      "[(''X-Request-Id'', sample_uuid)]"] traceIDFromRequestID_example
  by (auto simp: map_get_def sample_uuid_def)

section \<open>The two inbound boundaries build the same request\<close>

definition wire_of_input :: "ExecuteInput \<Rightarrow> request_wire" where
  "wire_of_input inp =
     \<lparr>rw_CorrelationID = xi_CorrelationID inp, rw_AdapterID = xi_AdapterID inp, rw_CapabilityName = xi_CapabilityName inp,
      rw_CapabilityVersion = xi_CapabilityVersion inp, rw_Payload = xi_Payload inp,
      rw_TimeoutBudgetMs = xi_TimeoutBudgetMs inp,
      rw_IdempotencyKey = (if xi_IdempotencyKey inp = [] then None else Some (xi_IdempotencyKey inp)),
      rw_ActorID = xi_ActorID inp, rw_TaskID = xi_TaskID inp, rw_WorkflowRunID = xi_WorkflowRunID inp,
      rw_RetryAttempt = xi_RetryAttempt inp, rw_SubmittedAt = BadStamp []\<rparr>"

lemma NewPayload_limit:
  "int (length dat) \<le> mx \<Longrightarrow> NewPayload ct dat mx = NewPayload ct dat 0"
  by (simp add: NewPayload_def)

lemma NewTimeoutBudget_limit: "mx \<le> 0 \<or> msToDuration ms \<le> mx \<Longrightarrow> NewTimeoutBudget ms mx = NewTimeoutBudget ms 0"
  by (auto simp: NewTimeoutBudget_def Let_def)

lemma Inr_wrap_iff: "(case x of Inl e \<Rightarrow> Inl (f e) | Inr y \<Rightarrow> g y) = Inr z \<longleftrightarrow> (\<exists>y. x = Inr y \<and> g y = Inr z)"
  by (cases x) auto

lemma optional_key_eq:
  "(if k \<noteq> [] then map_sum id Some (NewIdempotencyKey k) else Inr None) = optionalKey (if k = [] then None else Some k)"
  by (cases "NewIdempotencyKey k") (auto simp: optionalKey_def)

text \<open>
  C29: The in-process client and the HTTP boundary are equivalent. On the same fields, with a
  payload of at most 1 MiB and a budget within the client's maximum, they build the same request
  or both refuse; and then the client's call of the service is the handler's, so the caller gets
  the same receipt or error and the same effects.
\<close>

theorem sdk_http_equivalent:
  assumes "xi_ContentType inp \<in> {[], ContentTypeJSON}" and "int (length (xi_Payload inp)) \<le> 1048576"
    and "cl_maxTB c \<le> 0 \<or> msToDuration (xi_TimeoutBudgetMs inp) \<le> cl_maxTB c"
    and "dec (max_body 0) body = Inr (wire_of_input inp, False)"
  shows "(\<exists>e e'. sdk_request (cl_maxTB c) now inp = Inl e \<and> sdk_Execute c ctx now inp st = Some (Ret (Inl e), st) \<and>
       decode_request dec (max_body 0) now body = Inl e') \<or>
    (\<exists>req. decode_request dec (max_body 0) now body = Inr (req, False) \<and>
       sdk_Execute c ctx now inp st = cl_runtime c ctx req st)"
proof -
  have ct: "(if xi_ContentType inp = [] then ContentTypeJSON else xi_ContentType inp) = ContentTypeJSON"
    using assms(1) by auto
  have same: "sdk_request (cl_maxTB c) now inp = Inr req \<longleftrightarrow> Request_UnmarshalJSON now (wire_of_input inp) = Inr req" for req
    unfolding sdk_request_def Request_UnmarshalJSON_def ct optional_key_eq NewPayload_limit [OF assms(2)]
      NewTimeoutBudget_limit [OF assms(3)]
    by (simp add: Inr_wrap_iff wire_of_input_def submittedStamp_def frozenClock_Now_def)
  show ?thesis
  proof (cases "sdk_request (cl_maxTB c) now inp")
    case (Inr req)
    have "Request_UnmarshalJSON now (wire_of_input inp) = Inr req" using same [of req] Inr by simp
    then show ?thesis using Inr assms(4) by (simp add: decode_request_def sdk_Execute_def)
  next
    case (Inl e)
    then have "\<exists>e'. Request_UnmarshalJSON now (wire_of_input inp) = Inl e'"
      using same by (cases "Request_UnmarshalJSON now (wire_of_input inp)") auto
    then show ?thesis using Inl assms(4) by (auto simp: decode_request_def sdk_Execute_def)
  qed
qed

definition sample_input :: ExecuteInput where
  "sample_input = \<lparr>xi_CorrelationID = ''01ARZ3NDEKTSV4RRFFQ69G5FAV'', xi_AdapterID = ''shell'', xi_CapabilityName = ''exec'',
     xi_CapabilityVersion = ''v1'', xi_ContentType = [], xi_Payload = ''{}'', xi_TimeoutBudgetMs = 5, xi_IdempotencyKey = [],
     xi_ActorID = [], xi_TaskID = [], xi_WorkflowRunID = [], xi_RetryAttempt = 0\<rparr>"

definition sample_client :: "(ExecutionRequest list, memory) Client" where
  "sample_client = \<lparr>cl_runtime = (\<lambda>_ req st. Some (Ret (Inl (errorf [])), req # st)), cl_query = sample_query, cl_maxTB = Second\<rparr>"

lemma sample_input_accepted: "\<not> isl (sdk_request Second 7 sample_input)"
  by code_simp

theorem sdk_http_equivalent_witness:
  "\<exists>req. decode_request (\<lambda>_ _. Inr (wire_of_input sample_input, False)) (max_body 0) 7 ''{}'' = Inr (req, False) \<and>
     sdk_Execute sample_client sample_http_ctx 7 sample_input [] = Some (Ret (Inl (errorf [])), [req])"
proof -
  have "msToDuration (xi_TimeoutBudgetMs sample_input) \<le> cl_maxTB sample_client" by code_simp
  then show ?thesis
    using sdk_http_equivalent [of sample_input sample_client "\<lambda>_ _. Inr (wire_of_input sample_input, False)" "''{}''" 7
        sample_http_ctx "[]"] sample_input_accepted
    by (auto simp: sample_input_def sample_client_def)
qed

end
