(* ===== verification/Router.thy ===== *)
theory Router
  imports Inbound_Trace
begin

text \<open>
  The router (\<open>internal/adapters/inbound/http/router.go\<close>): the routes with their handlers behind the
  whole middleware chain, trace context first. Matching a path against the routes is chi's, and
  so is the answer to a request that matches none; both are parameters. What differs from one
  request to the next (the clock, the random source, the generated correlation identifier) is a
  record.
\<close>

section \<open>Routes\<close>

datatype http_method = GET | POST

record req_env =
  qe_now :: go_time
  qe_random :: "byte list"
  qe_newid :: string

record 'st route =
  ro_method :: http_method
  ro_pattern :: string
  ro_handler :: "req_env \<Rightarrow> 'st handler"

record ('w, 's) router_deps =
  rd_svc :: "('w, 's) exec_state runtime_service option"
  rd_query :: "'s QueryService option"
  rd_logger :: "Logger option"
  rd_probe :: "('s \<Rightarrow> go_error option) option"

text \<open>A handler of the stores alone, in a process that also executes.\<close>

definition on_store :: "'s handler \<Rightarrow> ('w, 's) exec_state handler" where
  "on_store h r ctx hs st =
     (case h r ctx hs (st_store st) of None \<Rightarrow> None | Some (out, s') \<Rightarrow> Some (out, st\<lparr>st_store := s'\<rparr>))"

record 'st Router =
  ru_routes :: "'st route list"
  ru_use :: "req_env \<Rightarrow> 'st handler \<Rightarrow> 'st handler"

definition NewRouter ::
  "body_decoder \<Rightarrow> otel \<Rightarrow> ('w, 's) router_deps \<Rightarrow> ('w, 's) exec_state Router outcome" where
  "NewRouter dec ot d =
     (case rd_svc d of None \<Rightarrow> Panic ''http.NewRouter: RuntimeService is required''
      | Some svc \<Rightarrow> (case rd_query d of None \<Rightarrow> Panic ''http.NewRouter: QueryService is required''
      | Some query \<Rightarrow>
        (case (case rd_probe d of None \<Rightarrow> Ret [] | Some p \<Rightarrow>
                 (case NewReadyzHandler (Some p) of Panic v \<Rightarrow> Panic v
                  | Ret h \<Rightarrow> Ret [\<lparr>ro_method = GET, ro_pattern = ''/readyz'', ro_handler = \<lambda>_. on_store h\<rparr>])) of
           Panic v \<Rightarrow> Panic v
         | Ret ready \<Rightarrow>
           Ret \<lparr>ru_routes =
             [\<lparr>ro_method = POST, ro_pattern = ''/api/v1/execute'', ro_handler = \<lambda>qe. NewExecuteHandler dec (qe_now qe) svc 0\<rparr>,
              \<lparr>ro_method = GET, ro_pattern = ''/api/v1/capabilities'', ro_handler = \<lambda>_. on_store (NewCapabilitiesHandler query)\<rparr>,
              \<lparr>ro_method = GET, ro_pattern = ''/api/v1/receipts/{id}'',
               ro_handler = \<lambda>qe. on_store (NewReceiptsHandler query (qe_now qe))\<rparr>,
              \<lparr>ro_method = GET, ro_pattern = ''/healthz'', ro_handler = \<lambda>_. healthz\<rparr>] @ ready,
             ru_use = (\<lambda>qe h. TraceW3C ot (qe_random qe) (\<lambda>_. middleware_chain (rd_logger d) (qe_newid qe) h))\<rparr>)))"

lemma NewRouter_Ret: "rd_svc d = Some s \<Longrightarrow> rd_query d = Some q \<Longrightarrow> \<exists>router. NewRouter dec ot d = Ret router"
  by (simp add: NewRouter_def NewReadyzHandler_def split: option.split)

lemma NewRouter_Panic: "NewRouter dec ot d = Panic v \<Longrightarrow> rd_svc d = None \<or> rd_query d = None"
  using NewRouter_Ret [of d _ _ dec ot] by (cases "rd_svc d"; cases "rd_query d") auto

text \<open>
  chi's part: the route a method and path select with the path's \<open>id\<close>, and the answer when there
  is none, which runs behind the same chain.
\<close>

record 'st chi =
  ch_match :: "(http_method \<times> string) list \<Rightarrow> string \<Rightarrow> string \<Rightarrow> (nat \<times> string) option"
  ch_default :: "'st handler"

definition method_name :: "http_method \<Rightarrow> string" where
  "method_name m = (case m of GET \<Rightarrow> ''GET'' | POST \<Rightarrow> ''POST'')"

definition ServeHTTP ::
  "'st chi \<Rightarrow> 'st Router \<Rightarrow> req_env \<Rightarrow> string \<Rightarrow> string \<Rightarrow> 'st handler" where
  "ServeHTTP chi router qe meth path r =
     (case ch_match chi (map (\<lambda>x. (ro_method x, ro_pattern x)) (ru_routes router)) meth path of
        Some (i, ident) \<Rightarrow> ru_use router qe (ro_handler (ru_routes router ! i) qe) (r\<lparr>hq_id := ident\<rparr>)
      | None \<Rightarrow> ru_use router qe (ch_default chi) r)"

definition chi_sound :: "'st chi \<Rightarrow> bool" where
  "chi_sound chi \<longleftrightarrow>
     (\<forall>keys meth path i ident. ch_match chi keys meth path = Some (i, ident) \<longrightarrow>
        i < length keys \<and> method_name (fst (keys ! i)) = meth)"

section \<open>Handlers that answer\<close>

text \<open>
  A handler answers within a relation on states: it returns, possibly with a panic, its effect
  is in the relation, and a response keeps the headers set before it, the content type apart.
\<close>

definition keeps_headers :: "smap \<Rightarrow> smap \<Rightarrow> bool" where
  "keeps_headers hs hs' \<longleftrightarrow> (\<forall>k. k \<noteq> ''Content-Type'' \<longrightarrow> map_of hs k \<noteq> None \<longrightarrow> map_of hs' k = map_of hs k)"

definition answers :: "('st \<Rightarrow> 'st \<Rightarrow> bool) \<Rightarrow> 'st \<Rightarrow> 'st handler \<Rightarrow> bool" where
  "answers R st h \<longleftrightarrow>
     (\<forall>r ctx hs. \<exists>out st'. h r ctx hs st = Some (out, st') \<and> R st st' \<and>
        (case out of Panic _ \<Rightarrow> True | Ret resp \<Rightarrow> keeps_headers hs (rs_headers resp)))"

lemma keeps_json_header [simp]: "keeps_headers hs (json_header hs)"
  by (simp add: keeps_headers_def json_header_def update_conv')

lemma keeps_responses [simp]:
  "keeps_headers hs (rs_headers (writeHTTPError hs c k m))"
  "keeps_headers hs (rs_headers (writeHTTPErrorWithRetryable hs c k m x y))"
  "keeps_headers hs (rs_headers (writeJSON hs c v))"
  by (simp_all add: writeHTTPError_def writeHTTPErrorWithRetryable_def writeJSON_def)

lemma keeps_execute [simp]:
  "keeps_headers hs (rs_headers (execute_reply hs c x))" "keeps_headers hs (rs_headers (decode_failure hs m e))"
  by (simp_all add: execute_reply_def decode_failure_def split: sum.split)

lemma answers_execute:
  assumes ok: "limiter_ok (st_limiter st)"
  shows "answers (\<lambda>st st'. st_limiter st' = st_limiter st) st (NewExecuteHandler dec now (runtime_of svc mk) cfg)"
proof -
  have "\<exists>out st'. NewExecuteHandler dec now (runtime_of svc mk) cfg r ctx hs st = Some (out, st') \<and>
      st_limiter st' = st_limiter st \<and> (case out of Panic _ \<Rightarrow> True | Ret resp \<Rightarrow> keeps_headers hs (rs_headers resp))"
    for r ctx hs
  proof (cases "decode_request dec (max_body cfg) now (hq_body r)")
    case (Inl e)
    then show ?thesis by (simp add: NewExecuteHandler_def)
  next
    case (Inr p)
    obtain req trailing where p: "p = (req, trailing)" by fastforce
    obtain out st' where run: "Execute svc (mk ctx) req st = Some (out, st')" "st_limiter st' = st_limiter st"
      using Execute_total [OF ok, of svc "mk ctx" req] by blast
    then show ?thesis by (cases out) (simp_all add: NewExecuteHandler_def Inr p runtime_of_def)
  qed
  then show ?thesis by (simp add: answers_def)
qed

text \<open>Queries leave everything but the store's bookkeeping alone.\<close>

definition read_only :: "('w, pg_db) exec_state \<Rightarrow> ('w, pg_db) exec_state \<Rightarrow> bool" where
  "read_only st st' \<longleftrightarrow> st_limiter st' = st_limiter st \<and> st_world st' = st_world st \<and> st_events st' = st_events st \<and>
     pg_rows (st_store st') = pg_rows (st_store st) \<and> pg_entries (st_store st') = pg_entries (st_store st)"

lemma on_store_answers:
  assumes "answers (\<lambda>s s'. pg_rows s' = pg_rows s \<and> pg_entries s' = pg_entries s) (st_store st) h"
  shows "answers read_only st (on_store h)"
proof -
  have "\<exists>out st'. on_store h r ctx hs st = Some (out, st') \<and> read_only st st' \<and>
      (case out of Panic _ \<Rightarrow> True | Ret resp \<Rightarrow> keeps_headers hs (rs_headers resp))" for r ctx hs
  proof -
    obtain out s' where "h r ctx hs (st_store st) = Some (out, s')" "pg_rows s' = pg_rows (st_store st)"
      "pg_entries s' = pg_entries (st_store st)" "case out of Panic _ \<Rightarrow> True | Ret resp \<Rightarrow> keeps_headers hs (rs_headers resp)"
      using assms unfolding answers_def by blast
    then show ?thesis by (simp add: on_store_def read_only_def)
  qed
  then show ?thesis by (simp add: answers_def)
qed

lemma answers_capabilities: "R s s \<Longrightarrow> answers R s (NewCapabilitiesHandler q)"
  by (simp add: answers_def NewCapabilitiesHandler_def Let_def split: sum.split)

lemma answers_receipts:
  assumes "qs_receipts q = \<lparr>rr_Save = pg_Save env, rr_FindByID = pg_FindByID env\<rparr>"
  shows "answers (\<lambda>s s'. pg_rows s' = pg_rows s \<and> pg_entries s' = pg_entries s) s (NewReceiptsHandler q now)"
proof -
  have find: "pg_rows s' = pg_rows s \<and> pg_entries s' = pg_entries s" if "GetReceipt q c now rid inc s = (x, s')" for c rid inc x s'
  proof (cases c)
    case None
    obtain y s2 where f: "pg_FindByID env None now rid s = (y, s2)" by fastforce
    then have "s' = s2" using that None by (auto simp: GetReceipt_def assms split: outcome.splits sum.splits)
    then show ?thesis
      using f pg_repo.find_frame [of env None now rid s] pg_stores.find_entries [of env None now rid s] by simp
  qed (use that in \<open>simp add: GetReceipt_def\<close>)
  have "\<exists>out s'. NewReceiptsHandler q now r ctx hs s = Some (out, s') \<and> (pg_rows s' = pg_rows s \<and> pg_entries s' = pg_entries s) \<and>
      (case out of Panic _ \<Rightarrow> True | Ret resp \<Rightarrow> keeps_headers hs (rs_headers resp))" for r ctx hs
  proof (cases "\<exists>rid inc. hq_id r \<noteq> [] \<and> NewReceiptID (hq_id r) = Inr rid \<and> include_streams (hq_query r) = Inr inc")
    case True
    then obtain rid inc where i: "hq_id r \<noteq> []" "NewReceiptID (hq_id r) = Inr rid" "include_streams (hq_query r) = Inr inc" by blast
    obtain x s' where g: "GetReceipt q (hx_err ctx) now rid inc s = (x, s')" by fastforce
    then show ?thesis using i find [OF g] by (cases x) (simp_all add: NewReceiptsHandler_def split: sum.split)
  next
    case False
    then show ?thesis by (auto simp: NewReceiptsHandler_def split: sum.split)
  qed
  then show ?thesis by (simp add: answers_def)
qed

lemma answers_probes:
  "R st st \<Longrightarrow> answers R st healthz"
  "R s s \<Longrightarrow> NewReadyzHandler (Some p) = Ret h \<Longrightarrow> answers R s h"
  by (auto simp: answers_def healthz_def NewReadyzHandler_def split: option.split)

section \<open>The chain\<close>

text \<open>Behind the chain an answer is never a panic, and it carries the caller's request identifier.\<close>

lemma chain_answers:
  assumes "answers R st h"
  shows "\<exists>resp st'. TraceW3C ot src (\<lambda>_. middleware_chain root newid h) r ctx hs st = Some (Ret resp, st') \<and> R st st' \<and>
    (map_get (hq_headers r) ''X-Request-Id'' \<noteq> [] \<longrightarrow>
       map_of (rs_headers resp) ''X-Request-Id'' = Some (map_get (hq_headers r) ''X-Request-Id''))"
proof -
  have safe: "\<exists>resp st'. panicRecoverer h r' c hs' st = Some (Ret resp, st') \<and> R st st' \<and> keeps_headers hs' (rs_headers resp)"
    for r' c hs'
  proof -
    obtain out st' where "h r' c hs' st = Some (out, st')" "R st st'"
      "case out of Panic _ \<Rightarrow> True | Ret resp \<Rightarrow> keeps_headers hs' (rs_headers resp)"
      using assms unfolding answers_def by blast
    then show ?thesis by (cases out) (simp_all add: panicRecoverer_def)
  qed
  have rid: "map_get (hq_headers (if g then r\<lparr>hq_headers := AList.update ''X-Correlation-Id'' corr (hq_headers r)\<rparr> else r)) ''X-Request-Id'' =
      map_get (hq_headers r) ''X-Request-Id''" for g corr
    by (simp add: map_get_def update_conv')
  show ?thesis
    using safe
    by (simp add: TraceW3C_def middleware_chain_def LoggerMiddleware_def requestIDHeader_def Let_def rid case_prod_beta)
      (force simp: keeps_headers_def update_conv')
qed

section \<open>Every request\<close>

definition wired :: "pg_env \<Rightarrow> ('w, pg_db) ExecuteService \<Rightarrow> (http_ctx \<Rightarrow> call_ctx) \<Rightarrow> ('w, pg_db) router_deps \<Rightarrow> bool" where
  "wired env svc mk d \<longleftrightarrow> rd_svc d = Some (runtime_of svc mk) \<and>
     (\<exists>q. rd_query d = Some q \<and> qs_receipts q = \<lparr>rr_Save = pg_Save env, rr_FindByID = pg_FindByID env\<rparr>)"

definition route_effect :: "string \<Rightarrow> ('w, pg_db) exec_state \<Rightarrow> ('w, pg_db) exec_state \<Rightarrow> bool" where
  "route_effect meth st st' \<longleftrightarrow> st_limiter st' = st_limiter st \<and> (meth \<noteq> ''POST'' \<longrightarrow> read_only st st')"

lemma read_only_refl [simp]: "read_only st st"
  by (simp add: read_only_def)

lemma answers_mono: "answers R st h \<Longrightarrow> (\<And>st'. R st st' \<Longrightarrow> S st st') \<Longrightarrow> answers S st h"
  unfolding answers_def by meson

lemma routes_answer:
  assumes ok: "limiter_ok (st_limiter st)" and wired: "wired env svc mk d" and router: "NewRouter dec ot d = Ret router"
    and x: "x \<in> set (ru_routes router)"
  shows "answers (route_effect (method_name (ro_method x))) st (ro_handler x qe)"
proof -
  obtain q where d: "rd_svc d = Some (runtime_of svc mk)" "rd_query d = Some q"
    "qs_receipts q = \<lparr>rr_Save = pg_Save env, rr_FindByID = pg_FindByID env\<rparr>"
    using wired by (auto simp: wired_def)
  have ready: "answers read_only st (on_store h)" if "NewReadyzHandler (Some p) = Ret h" for p h
    by (rule on_store_answers [OF answers_probes(2) [OF _ that]]) simp
  have queries: "answers read_only st (on_store (NewReceiptsHandler q now))" "answers read_only st (on_store (NewCapabilitiesHandler q))"
    for now
    by (rule on_store_answers [OF answers_receipts [OF d(3)]], rule on_store_answers [OF answers_capabilities]) simp
  have get: "ro_handler x qe = NewExecuteHandler dec (qe_now qe) (runtime_of svc mk) 0 \<and> ro_method x = POST \<or>
      answers read_only st (ro_handler x qe)"
    using router x d(1,2) answers_probes(1) [of read_only st] ready
    by (auto simp: NewRouter_def queries split: option.splits outcome.splits)
  show ?thesis
  proof (cases "answers read_only st (ro_handler x qe)")
    case True
    then show ?thesis by (rule answers_mono) (simp add: route_effect_def read_only_def)
  next
    case False
    with get have post: "ro_handler x qe = NewExecuteHandler dec (qe_now qe) (runtime_of svc mk) 0" "ro_method x = POST"
      by blast+
    show ?thesis unfolding post(1)
      by (rule answers_mono [OF answers_execute [OF ok]]) (simp add: route_effect_def post(2) method_name_def)
  qed
qed

text \<open>
  C7: No request takes the server down or leaks. For every method, path, header, body and
  context, whatever fault the database meets, the router over the PostgreSQL stores answers with
  a response (a panic in a handler becomes one), gives the execution slot back, and echoes the
  caller's request identifier. A request that is not a POST executes nothing and changes
  nothing: neither the world, the receipts, the idempotency keys nor the metrics. (chi is
  relied on to select only routes of the request's method and to answer the rest itself.)
\<close>

theorem router_safe:
  assumes ok: "limiter_ok (st_limiter st)" and wired: "wired env svc mk d" and router: "NewRouter dec ot d = Ret router"
    and chi: "chi_sound chi" "answers (=) st (ch_default chi)"
  shows "\<exists>resp st'. ServeHTTP chi router qe meth path r ctx hs st = Some (Ret resp, st') \<and>
    st_limiter st' = st_limiter st \<and>
    (meth \<noteq> ''POST'' \<longrightarrow> st_world st' = st_world st \<and> st_events st' = st_events st \<and>
       pg_rows (st_store st') = pg_rows (st_store st) \<and> pg_entries (st_store st') = pg_entries (st_store st)) \<and>
    (map_get (hq_headers r) ''X-Request-Id'' \<noteq> [] \<longrightarrow>
       map_of (rs_headers resp) ''X-Request-Id'' = Some (map_get (hq_headers r) ''X-Request-Id''))"
proof -
  have use: "ru_use router = (\<lambda>qe h. TraceW3C ot (qe_random qe) (\<lambda>_. middleware_chain (rd_logger d) (qe_newid qe) h))"
    using router by (auto simp: NewRouter_def split: option.splits outcome.splits)
  have "\<exists>h r'. ServeHTTP chi router qe meth path r ctx hs st = ru_use router qe h r' ctx hs st \<and>
      hq_headers r' = hq_headers r \<and> answers (route_effect meth) st h"
  proof (cases "ch_match chi (map (\<lambda>x. (ro_method x, ro_pattern x)) (ru_routes router)) meth path")
    case None
    have "answers (route_effect meth) st (ch_default chi)"
      by (rule answers_mono [OF chi(2)]) (simp add: route_effect_def)
    then show ?thesis using None by (auto simp: ServeHTTP_def)
  next
    case (Some p)
    obtain i ident where p: "p = (i, ident)" by fastforce
    with chi(1) Some have i: "i < length (ru_routes router)" "method_name (ro_method (ru_routes router ! i)) = meth"
      by (fastforce simp: chi_sound_def)+
    have h: "answers (route_effect meth) st (ro_handler (ru_routes router ! i) qe)"
      using routes_answer [OF ok wired router nth_mem [OF i(1)]] by (simp add: i(2))
    have "ServeHTTP chi router qe meth path r ctx hs st =
        ru_use router qe (ro_handler (ru_routes router ! i) qe) (r\<lparr>hq_id := ident\<rparr>) ctx hs st"
      by (simp add: ServeHTTP_def Some p)
    then show ?thesis using h by fastforce
  qed
  then obtain h r' where h: "ServeHTTP chi router qe meth path r ctx hs st = ru_use router qe h r' ctx hs st"
    "hq_headers r' = hq_headers r" "answers (route_effect meth) st h" by blast
  show ?thesis
    using chain_answers [OF h(3), of ot "qe_random qe" "rd_logger d" "qe_newid qe" r' ctx hs]
    by (auto simp: h(1,2) use route_effect_def read_only_def)
qed

section \<open>A concrete request\<close>

definition sample_chi :: "'st chi" where
  "sample_chi = \<lparr>ch_match = (\<lambda>keys meth path. map_option (\<lambda>i. (i, path))
       (find (\<lambda>i. method_name (fst (keys ! i)) = meth \<and> snd (keys ! i) = path) [0 ..< length keys])),
     ch_default = (\<lambda>r ctx hs st. Some (Ret (writeHTTPError hs 404 ''validation_failure'' ''404 page not found''), st))\<rparr>"

definition sample_deps :: "(string list, pg_db) router_deps" where
  "sample_deps = \<lparr>rd_svc = Some (runtime_of sample_pg_service (\<lambda>_. sample_cc)),
     rd_query = Some \<lparr>qs_registry = \<lparr>byCanon = []\<rparr>, qs_receipts = \<lparr>rr_Save = pg_Save sample_calm, rr_FindByID = pg_FindByID sample_calm\<rparr>,
       qs_runtimeVersion = ''v1''\<rparr>, rd_logger = None, rd_probe = None\<rparr>"

definition sample_otel :: otel where
  "sample_otel = \<lparr>ot_Extract = (\<lambda>_. None), ot_Inject = (\<lambda>_ hs. hs)\<rparr>"

definition sample_exec_state :: "(string list, pg_db) exec_state" where
  "sample_exec_state = \<lparr>st_world = [], st_store = sample_db, st_limiter = st_limiter sample_state, st_ticks = 0, st_ids = 0,
     st_events = []\<rparr>"

lemma sample_chi_sound: "chi_sound sample_chi" "answers (=) st (ch_default sample_chi)"
  by (auto simp: chi_sound_def sample_chi_def answers_def find_Some_iff)

theorem router_safe_witness:
  "\<exists>router resp st'. NewRouter sample_decoder sample_otel sample_deps = Ret router \<and>
     ServeHTTP sample_chi router \<lparr>qe_now = 5, qe_random = [], qe_newid = ''c''\<rparr> ''GET'' ''/healthz''
       (sample_post\<lparr>hq_headers := [(''X-Request-Id'', ''r-1'')]\<rparr>) sample_http_ctx [] sample_exec_state = Some (Ret resp, st') \<and>
     st_world st' = [] \<and> map_of (rs_headers resp) ''X-Request-Id'' = Some ''r-1''"
proof -
  obtain router where router: "NewRouter sample_decoder sample_otel sample_deps = Ret router"
    by (simp add: NewRouter_def sample_deps_def)
  have ok: "limiter_ok (st_limiter sample_exec_state)" using sample_limiter by (simp add: sample_exec_state_def)
  have wired: "wired sample_calm sample_pg_service (\<lambda>_. sample_cc) sample_deps" by (simp add: wired_def sample_deps_def)
  show ?thesis
    using router_safe [OF ok wired router sample_chi_sound, of "\<lparr>qe_now = 5, qe_random = [], qe_newid = ''c''\<rparr>" "''GET''"
        "''/healthz''" "sample_post\<lparr>hq_headers := [(''X-Request-Id'', ''r-1'')]\<rparr>" sample_http_ctx "[]"] router
    by (auto simp: map_get_def sample_exec_state_def)
qed

end
