(* ===== verification/Telemetry.thy ===== *)
theory Telemetry
  imports Observability Config
begin

text \<open>
  The OpenTelemetry glue: the instruments of \<open>NewRegistry\<close> (\<open>internal/infrastructure/obs/metrics.go\<close>),
  the pool collector (\<open>pgxpool_collector.go\<close>) and the providers \<open>SetupOTel\<close> installs (\<open>otel.go\<close>).
  The SDK is third-party: a meter is a function that answers each construction, exporters and
  providers are the results of their constructors, and what is started, installed and shut
  down is a log of actions.
\<close>

section \<open>Instruments\<close>

datatype meter_method =
    Int64Counter | Float64Histogram | Int64UpDownCounter | Int64Gauge | Int64ObservableGauge | Int64ObservableCounter

record instrument_req =
  iq_method :: meter_method
  iq_name :: string
  iq_unit :: string
  iq_description :: string
  iq_boundaries :: "go_float list"

type_synonym 'i meter = "instrument_req \<Rightarrow> go_error + 'i"

definition DurationBuckets :: "go_float list" where
  "DurationBuckets = [float_0_1, Fin 1 (-2), Fin 1 (-1), Fin 1 0, Fin 2 0, Fin 3 0, Fin 5 0, Fin 10 0, Fin 30 0, Fin 60 0]"

definition construct ::
  "'i meter \<Rightarrow> string \<Rightarrow> meter_method \<Rightarrow> string \<Rightarrow> string \<Rightarrow> string \<Rightarrow> go_float list \<Rightarrow>
   ('i \<Rightarrow> go_error + 'a) \<Rightarrow> go_error + 'a" where
  "construct meter what m name u descr bounds k =
     (case meter \<lparr>iq_method = m, iq_name = name, iq_unit = u, iq_description = descr, iq_boundaries = bounds\<rparr> of
        Inl e \<Rightarrow> Inl (wrapf what e) | Inr i \<Rightarrow> k i)"

record 'i Registry =
  rg_ExecutionTotal :: 'i
  rg_ExecutionDuration :: 'i
  rg_ExecutionActive :: 'i
  rg_ConcurrencyRejects :: 'i
  rg_AdapterPanics :: 'i
  rg_ReceiptPersistFails :: 'i
  rg_IdempotencyReplays :: 'i
  rg_PoolAcquireDuration :: 'i
  rg_OtelExporterQueueSize :: 'i
  rg_MigrateFailures :: 'i
  rg_PartialSignal :: 'i

definition NewRegistry :: "'i meter \<Rightarrow> go_error + 'i Registry" where
  "NewRegistry meter =
    construct meter ''execution.total'' Int64Counter ''runtime_adapters.execution.total'' ''{executions}''
      ''Total executions by capability and status.'' [] (\<lambda>executionTotal.
    construct meter ''execution.duration'' Float64Histogram ''runtime_adapters.execution.duration'' ''s''
      ''Success-only execution duration per capability.'' DurationBuckets (\<lambda>executionDuration.
    construct meter ''execution.active'' Int64UpDownCounter ''runtime_adapters.execution.active'' ''{executions}''
      ''In-flight executions per capability.'' [] (\<lambda>executionActive.
    construct meter ''concurrency.rejects'' Int64Counter ''runtime_adapters.concurrency.rejects'' ''{rejects}''
      ''Fast-reject count (A9.1).'' [] (\<lambda>concurrencyRejects.
    construct meter ''adapter.panics'' Int64Counter ''runtime_adapters.adapter.panics'' ''{panics}''
      ''Recovered adapter panics per adapter (R4).'' [] (\<lambda>adapterPanics.
    construct meter ''receipt.persist.failures'' Int64Counter ''runtime_adapters.receipt.persist.failures'' ''{failures}''
      ''Receipt persistence failures (A4.3).'' [] (\<lambda>receiptPersistFails.
    construct meter ''idempotency.replays'' Int64Counter ''runtime_adapters.idempotency.replays'' ''{replays}''
      ''Idempotency replay hits per capability (D6.4).'' [] (\<lambda>idempotencyReplays.
    construct meter ''pool.connections.acquired.duration'' Float64Histogram
      ''runtime_adapters.pool.connections.acquired.duration'' ''s'' ''pgx pool acquire latency.'' [] (\<lambda>poolAcquireDuration.
    construct meter ''otel.exporter.queue.size'' Int64Gauge ''runtime_adapters.otel.exporter.queue.size'' ''{items}''
      ''OTel exporter queue depth per signal.'' [] (\<lambda>otelExporterQueueSize.
    construct meter ''migrate.failures'' Int64Counter ''runtime_adapters.migrate.failures'' ''{failures}''
      ''Bootstrap migration failures.'' [] (\<lambda>migrateFailures.
    construct meter ''partial.signal'' Int64Counter ''runtime_adapters.partial.signal'' ''{partials}''
      ''Secondary simplified partial-outcome signal.'' [] (\<lambda>partialSignal.
    Inr \<lparr>rg_ExecutionTotal = executionTotal, rg_ExecutionDuration = executionDuration, rg_ExecutionActive = executionActive,
         rg_ConcurrencyRejects = concurrencyRejects, rg_AdapterPanics = adapterPanics,
         rg_ReceiptPersistFails = receiptPersistFails, rg_IdempotencyReplays = idempotencyReplays,
         rg_PoolAcquireDuration = poolAcquireDuration, rg_OtelExporterQueueSize = otelExporterQueueSize,
         rg_MigrateFailures = migrateFailures, rg_PartialSignal = partialSignal\<rparr>)))))))))))"

definition registry_list :: "'i Registry \<Rightarrow> 'i list" where
  "registry_list r =
     [rg_ExecutionTotal r, rg_ExecutionDuration r, rg_ExecutionActive r, rg_ConcurrencyRejects r, rg_AdapterPanics r,
      rg_ReceiptPersistFails r, rg_IdempotencyReplays r, rg_PoolAcquireDuration r, rg_OtelExporterQueueSize r,
      rg_MigrateFailures r, rg_PartialSignal r]"

text \<open>The catalog's word for what a meter method constructs.\<close>

definition kind_name :: "meter_method \<Rightarrow> string" where
  "kind_name m = (case m of Int64Counter \<Rightarrow> ''counter'' | Float64Histogram \<Rightarrow> ''histogram''
     | Int64UpDownCounter \<Rightarrow> ''updowncounter'' | Int64Gauge \<Rightarrow> ''gauge''
     | Int64ObservableGauge \<Rightarrow> ''gauge'' | Int64ObservableCounter \<Rightarrow> ''counter'')"

definition declares :: "Instrument \<Rightarrow> instrument_req \<Rightarrow> bool" where
  "declares i q \<longleftrightarrow> iq_name q = ins_Name i \<and> kind_name (iq_method q) = ins_Type i \<and> iq_unit q = ins_Unit i"

lemma construct_Inr:
  "construct meter what m name u descr bounds k = Inr x \<longleftrightarrow>
     (\<exists>i. meter \<lparr>iq_method = m, iq_name = name, iq_unit = u, iq_description = descr, iq_boundaries = bounds\<rparr> = Inr i \<and>
        k i = Inr x)"
  by (auto simp: construct_def split: sum.split)

text \<open>
  The same constructions as one list: the registry holds exactly the declared instruments, each
  under its declared name, kind and unit and in the order of \<open>InstrumentCatalog\<close>; it is built iff
  the meter grants every one, and otherwise the first refusal is reported.
\<close>

definition registry_specs :: "(string \<times> instrument_req) list" where
  "registry_specs = map (\<lambda>(what, m, name, u, descr, bounds).
      (what, \<lparr>iq_method = m, iq_name = ''runtime_adapters.'' @ name, iq_unit = u, iq_description = descr, iq_boundaries = bounds\<rparr>))
    [(''execution.total'', Int64Counter, ''execution.total'', ''{executions}'', ''Total executions by capability and status.'', []),
     (''execution.duration'', Float64Histogram, ''execution.duration'', ''s'',
      ''Success-only execution duration per capability.'', DurationBuckets),
     (''execution.active'', Int64UpDownCounter, ''execution.active'', ''{executions}'', ''In-flight executions per capability.'', []),
     (''concurrency.rejects'', Int64Counter, ''concurrency.rejects'', ''{rejects}'', ''Fast-reject count (A9.1).'', []),
     (''adapter.panics'', Int64Counter, ''adapter.panics'', ''{panics}'', ''Recovered adapter panics per adapter (R4).'', []),
     (''receipt.persist.failures'', Int64Counter, ''receipt.persist.failures'', ''{failures}'',
      ''Receipt persistence failures (A4.3).'', []),
     (''idempotency.replays'', Int64Counter, ''idempotency.replays'', ''{replays}'',
      ''Idempotency replay hits per capability (D6.4).'', []),
     (''pool.connections.acquired.duration'', Float64Histogram, ''pool.connections.acquired.duration'', ''s'',
      ''pgx pool acquire latency.'', []),
     (''otel.exporter.queue.size'', Int64Gauge, ''otel.exporter.queue.size'', ''{items}'',
      ''OTel exporter queue depth per signal.'', []),
     (''migrate.failures'', Int64Counter, ''migrate.failures'', ''{failures}'', ''Bootstrap migration failures.'', []),
     (''partial.signal'', Int64Counter, ''partial.signal'', ''{partials}'', ''Secondary simplified partial-outcome signal.'', [])]"

fun construct_all :: "'i meter \<Rightarrow> (string \<times> instrument_req) list \<Rightarrow> go_error + 'i list" where
  "construct_all meter [] = Inr []"
| "construct_all meter ((what, q) # qs) =
     (case meter q of Inl e \<Rightarrow> Inl (wrapf what e) | Inr i \<Rightarrow> map_sum id ((#) i) (construct_all meter qs))"

lemma NewRegistry_all: "map_sum id registry_list (NewRegistry meter) = construct_all meter registry_specs"
  unfolding NewRegistry_def registry_specs_def
  by (simp add: construct_def registry_list_def split: sum.split)

lemma construct_all_Inr:
  "construct_all meter specs = Inr is \<longleftrightarrow> list_all2 (\<lambda>(what, q) i. meter q = Inr i) specs is"
  by (induction meter specs arbitrary: "is" rule: construct_all.induct)
    (auto simp: map_sum_Inr list_all2_Cons1 split: sum.split)

lemma registry_specs_declared: "list_all2 declares InstrumentCatalog (map snd registry_specs)"
  by (simp add: InstrumentCatalog_def registry_specs_def declares_def kind_name_def)

lemma NewRegistry_catalog:
  assumes "NewRegistry meter = Inr r"
  shows "\<exists>qs. list_all2 declares InstrumentCatalog qs \<and> map meter qs = map Inr (registry_list r)"
proof -
  have "list_all2 (\<lambda>(what, q) i. meter q = Inr i) registry_specs (registry_list r)"
    using NewRegistry_all [of meter] assms by (simp add: construct_all_Inr [symmetric])
  then have "map meter (map snd registry_specs) = map Inr (registry_list r)"
    by (induction rule: list_all2_induct) auto
  then show ?thesis using registry_specs_declared by blast
qed

lemma NewRegistry_granted:
  assumes "\<forall>q. \<not> isl (meter q)"
  shows "\<exists>r. NewRegistry meter = Inr r"
proof -
  have "\<exists>is. construct_all meter specs = Inr is" for specs
    using assms by (induction meter specs rule: construct_all.induct) (auto simp: map_sum_Inr isl_def split: sum.split)
  then obtain "is" where "map_sum id registry_list (NewRegistry meter) = Inr is" by (metis NewRegistry_all)
  then show ?thesis by (auto simp: map_sum_Inr)
qed

section \<open>The pool collector\<close>

record pgx_Stat =
  px_IdleConns :: "32 word"
  px_MaxConns :: "32 word"
  px_TotalConns :: "32 word"
  px_AcquiredConns :: "32 word"
  px_AcquireCount :: "64 word"
  px_EmptyAcquireCount :: "64 word"

record PoolStatSnapshot =
  ps_IdleConns :: "64 word"
  ps_MaxConns :: "64 word"
  ps_TotalConns :: "64 word"
  ps_AcquiredConns :: "64 word"
  ps_AcquireCount :: "64 word"
  ps_EmptyAcquireCount :: "64 word"

definition SnapshotFromPgx :: "pgx_Stat \<Rightarrow> PoolStatSnapshot" where
  "SnapshotFromPgx s =
     \<lparr>ps_IdleConns = scast (px_IdleConns s), ps_MaxConns = scast (px_MaxConns s), ps_TotalConns = scast (px_TotalConns s),
      ps_AcquiredConns = scast (px_AcquiredConns s), ps_AcquireCount = px_AcquireCount s,
      ps_EmptyAcquireCount = px_EmptyAcquireCount s\<rparr>"

text \<open>A provider answers each call in turn: \<open>f n\<close> is the n-th snapshot.\<close>

type_synonym PoolStatProvider = "nat \<Rightarrow> PoolStatSnapshot"

record 'i PgxPoolCollector =
  pc_snapshotFn :: PoolStatProvider
  pc_idleConns :: 'i
  pc_maxConns :: 'i
  pc_totalConns :: 'i
  pc_acquiredConns :: 'i
  pc_acquireCount :: 'i
  pc_emptyAcquireCount :: 'i
  pc_registration :: bool

definition NewPgxPoolCollector ::
  "'i meter \<Rightarrow> ('i list \<Rightarrow> go_error option) \<Rightarrow> PoolStatProvider option \<Rightarrow> go_error + 'i PgxPoolCollector" where
  "NewPgxPoolCollector meter registerCallback snapshotFn =
    (case snapshotFn of None \<Rightarrow> Inl (errorf ''pgxpool collector: snapshotFn must not be nil'')
     | Some f \<Rightarrow>
    construct meter ''idle_conns'' Int64ObservableGauge ''runtime_adapters.pgx_pool.idle_conns'' ''{connections}''
      (''pgxpool.Stat().IdleConns '' @ em_dash @ '' connections currently idle in the pool.'') [] (\<lambda>idle.
    construct meter ''max_conns'' Int64ObservableGauge ''runtime_adapters.pgx_pool.max_conns'' ''{connections}''
      (''pgxpool.Stat().MaxConns '' @ em_dash @ '' pool capacity ceiling.'') [] (\<lambda>maxC.
    construct meter ''total_conns'' Int64ObservableGauge ''runtime_adapters.pgx_pool.total_conns'' ''{connections}''
      (''pgxpool.Stat().TotalConns '' @ em_dash @ '' connections currently in the pool (idle + acquired + constructing).'') [] (\<lambda>totalC.
    construct meter ''acquired_conns'' Int64ObservableGauge ''runtime_adapters.pgx_pool.acquired_conns'' ''{connections}''
      (''pgxpool.Stat().AcquiredConns '' @ em_dash @ '' connections currently in use by callers.'') [] (\<lambda>acquired.
    construct meter ''acquire_count'' Int64ObservableCounter ''runtime_adapters.pgx_pool.acquire_count'' ''{acquires}''
      (''pgxpool.Stat().AcquireCount '' @ em_dash @ '' cumulative successful acquires since pool startup.'') [] (\<lambda>acquires.
    construct meter ''empty_acquire_count'' Int64ObservableCounter ''runtime_adapters.pgx_pool.empty_acquire_count'' ''{acquires}''
      (''pgxpool.Stat().EmptyAcquireCount '' @ em_dash @ '' cumulative acquires that found the pool empty (saturation marker).'') [] (\<lambda>empties.
    (case registerCallback [idle, maxC, totalC, acquired, acquires, empties] of
       Some e \<Rightarrow> Inl (wrapf ''register callback'' e)
     | None \<Rightarrow> Inr \<lparr>pc_snapshotFn = f, pc_idleConns = idle, pc_maxConns = maxC, pc_totalConns = totalC,
                    pc_acquiredConns = acquired, pc_acquireCount = acquires, pc_emptyAcquireCount = empties,
                    pc_registration = True\<rparr>))))))))"

text \<open>The callback after \<open>n\<close> calls of the provider: what it observes, and the calls made so far.\<close>

definition observe :: "'i PgxPoolCollector \<Rightarrow> nat \<Rightarrow> ('i \<times> 64 word) list \<times> nat" where
  "observe c n =
     (let s = pc_snapshotFn c n in
      ([(pc_idleConns c, ps_IdleConns s), (pc_maxConns c, ps_MaxConns s), (pc_totalConns c, ps_TotalConns s),
        (pc_acquiredConns c, ps_AcquiredConns s), (pc_acquireCount c, ps_AcquireCount s),
        (pc_emptyAcquireCount c, ps_EmptyAcquireCount s)], Suc n))"

text \<open>
  \<open>Close\<close> on a receiver that may be nil; \<open>unreg\<close> is what \<open>Unregister\<close> returns, and the boolean tells
  whether it was called.
\<close>

definition collector_Close ::
  "go_error option \<Rightarrow> 'i PgxPoolCollector option \<Rightarrow> (go_error option \<times> bool) \<times> 'i PgxPoolCollector option" where
  "collector_Close unreg c =
     (case c of None \<Rightarrow> ((None, False), None)
      | Some c' \<Rightarrow> if \<not> pc_registration c' then ((None, False), Some c')
                  else ((unreg, True), Some (c'\<lparr>pc_registration := False\<rparr>)))"

fun close_all :: "go_error option list \<Rightarrow> 'i PgxPoolCollector option \<Rightarrow> (go_error option \<times> bool) list" where
  "close_all [] c = []"
| "close_all (u # us) c = (case collector_Close u c of (x, c') \<Rightarrow> x # close_all us c')"

lemma close_again: "pc_registration c = False \<Longrightarrow> close_all us (Some c) = replicate (length us) (None, False)"
  by (induction us) (simp_all add: collector_Close_def)

text \<open>
  However often it is closed, a collector that was built unregisters its callback exactly once,
  in the first call, which alone may report an error; and a nil collector never does.
\<close>

lemma close_idempotent:
  "NewPgxPoolCollector meter reg f = Inr c \<Longrightarrow>
     close_all (u # us) (Some c) = (u, True) # replicate (length us) (None, False)"
  "close_all vs (None :: 'i PgxPoolCollector option) = replicate (length vs) (None, False)"
proof -
  show "close_all (u # us) (Some c) = (u, True) # replicate (length us) (None, False)"
    if "NewPgxPoolCollector meter reg f = Inr c"
    using that by (auto simp: NewPgxPoolCollector_def construct_Inr collector_Close_def close_again split: option.splits)
  show "close_all vs (None :: 'i PgxPoolCollector option) = replicate (length vs) (None, False)"
    by (induction vs) (simp_all add: collector_Close_def)
qed

text \<open>One tick takes one snapshot, and every value it reports is that snapshot's field of the name, unclipped.\<close>

lemma sint_widened: "sint (scast (x :: 32 word) :: 64 word) = sint x"
  by (rule sint_up_scast) (simp add: is_up)

lemma observe_consistent:
  assumes "NewPgxPoolCollector Inr reg (Some (\<lambda>n. SnapshotFromPgx (stat n))) = Inr c"
  shows "\<exists>vs. observe c n = (vs, Suc n) \<and>
    map (\<lambda>(q, v). (iq_name q, sint v)) vs =
      [(''runtime_adapters.pgx_pool.idle_conns'', sint (px_IdleConns (stat n))),
       (''runtime_adapters.pgx_pool.max_conns'', sint (px_MaxConns (stat n))),
       (''runtime_adapters.pgx_pool.total_conns'', sint (px_TotalConns (stat n))),
       (''runtime_adapters.pgx_pool.acquired_conns'', sint (px_AcquiredConns (stat n))),
       (''runtime_adapters.pgx_pool.acquire_count'', sint (px_AcquireCount (stat n))),
       (''runtime_adapters.pgx_pool.empty_acquire_count'', sint (px_EmptyAcquireCount (stat n)))]"
  using assms
  by (auto simp: NewPgxPoolCollector_def construct_def observe_def SnapshotFromPgx_def sint_widened Let_def
      split: option.splits)

section \<open>Providers\<close>

datatype Sampler = AlwaysSample | NeverSample | TraceIDRatioBased go_float | ParentBased Sampler

definition parseSampler :: "string \<Rightarrow> go_float \<Rightarrow> go_error + Sampler" where
  "parseSampler name arg =
     (if name = ''always_on'' then Inr AlwaysSample
      else if name = ''always_off'' then Inr NeverSample
      else if name = ''traceidratio'' then Inr (TraceIDRatioBased arg)
      else if name = ''parentbased_always_on'' then Inr (ParentBased AlwaysSample)
      else if name = ''parentbased_always_off'' then Inr (ParentBased NeverSample)
      else if name = ''parentbased_traceidratio'' \<or> name = [] then Inr (ParentBased (TraceIDRatioBased arg))
      else Inl (errorf (''unknown sampler: '' @ name)))"

record otel_resource =
  or_ServiceName :: string
  or_ServiceVersion :: string
  or_HostName :: string

datatype otel_action =
    TraceExporterUp string
  | SetTracerProvider otel_resource Sampler nat
  | SetTextMapPropagator "string list"
  | MetricExporterUp string
  | SetMeterProvider otel_resource duration
  | TracerDown | TraceExporterDown | MeterDown

record otel_env =
  ot_resource :: "go_error option"
  ot_traceExporter :: "string \<Rightarrow> go_error option"
  ot_metricExporter :: "string \<Rightarrow> go_error option"

datatype ShutdownFn = NoopShutdown | ProviderShutdown

definition SetupOTel :: "otel_env \<Rightarrow> Config \<Rightarrow> (ShutdownFn \<times> go_error option) \<times> otel_action list" where
  "SetupOTel env cfg =
     (if \<not> cf_OTelEnabled cfg then ((NoopShutdown, None), [])
      else let res = \<lparr>or_ServiceName = cf_OTelServiceName cfg, or_ServiceVersion = cf_RuntimeVersion cfg,
                      or_HostName = cf_Hostname cfg\<rparr>;
               endpoint = cf_OTelExporterEndpoint cfg in
      case ot_resource env of Some e \<Rightarrow> ((NoopShutdown, Some (wrapf ''otel resource'' e)), [])
      | None \<Rightarrow>
      (case ot_traceExporter env endpoint of Some e \<Rightarrow> ((NoopShutdown, Some (wrapf ''otel trace exporter'' e)), [])
       | None \<Rightarrow>
       (case parseSampler (cf_OTelTracesSampler cfg) (cf_OTelTracesSamplerArg cfg) of
          Inl e \<Rightarrow> ((NoopShutdown, Some (wrapf ''otel sampler'' e)), [TraceExporterUp endpoint, TraceExporterDown])
        | Inr sampler \<Rightarrow>
          (let traced = [TraceExporterUp endpoint, SetTracerProvider res sampler 512,
                         SetTextMapPropagator [''tracecontext'', ''baggage'']] in
           case ot_metricExporter env endpoint of
             Some e \<Rightarrow> ((NoopShutdown, Some (wrapf ''otel metric exporter'' e)), traced @ [TracerDown, TraceExporterDown])
           | None \<Rightarrow> ((ProviderShutdown, None),
                      traced @ [MetricExporterUp endpoint, SetMeterProvider res (30 * Second)])))))"

text \<open>Running the returned function: both providers are shut down whatever either reports.\<close>

definition run_shutdown :: "ShutdownFn \<Rightarrow> go_error option \<Rightarrow> go_error option \<Rightarrow> go_error option \<times> otel_action list" where
  "run_shutdown f tracer meter =
     (case f of NoopShutdown \<Rightarrow> (None, [])
      | ProviderShutdown \<Rightarrow>
          ((case tracer of Some e \<Rightarrow> Some (wrapf ''tracer shutdown'' e)
            | None \<Rightarrow> map_option (wrapf ''meter shutdown'') meter), [TracerDown, MeterDown]))"

text \<open>An exporter that was started and not shut down, directly or with the provider that owns it.\<close>

definition exporters_left :: "otel_action list \<Rightarrow> bool" where
  "exporters_left acts \<longleftrightarrow>
     (\<exists>ep. TraceExporterUp ep \<in> set acts) \<and> TraceExporterDown \<notin> set acts \<and> TracerDown \<notin> set acts \<or>
     (\<exists>ep. MetricExporterUp ep \<in> set acts) \<and> MeterDown \<notin> set acts"

text \<open>
  Set-up never leaks: on every error the function returned is the no-op and no exporter stays
  up; on success running the function it returned shuts both pipelines down and reports the
  first error; when telemetry is disabled nothing is touched.
\<close>

lemma SetupOTel_no_leak:
  assumes "SetupOTel env cfg = ((f, err), acts)"
  shows "\<not> exporters_left (acts @ snd (run_shutdown f tracer meter)) \<and>
    (err \<noteq> None \<longrightarrow> f = NoopShutdown \<and> \<not> exporters_left acts \<and> (\<forall>r d. SetMeterProvider r d \<notin> set acts)) \<and>
    (\<not> cf_OTelEnabled cfg \<longrightarrow> acts = [] \<and> err = None) \<and>
    (fst (run_shutdown f tracer meter) = None \<longleftrightarrow> f = NoopShutdown \<or> tracer = None \<and> meter = None)"
  using assms
  by (auto simp: SetupOTel_def Let_def exporters_left_def run_shutdown_def split: if_splits option.splits sum.splits)

text \<open>
  The comment that an error leaves the global providers unmodified holds except for a failing
  metric exporter, which comes after the tracer provider was installed: the process then keeps
  a tracer provider that was shut down.
\<close>

lemma SetupOTel_error_globals:
  assumes "SetupOTel env cfg = ((f, Some e), acts)"
  shows "(\<exists>r s n. SetTracerProvider r s n \<in> set acts) \<longleftrightarrow>
    ot_resource env = None \<and> ot_traceExporter env (cf_OTelExporterEndpoint cfg) = None \<and>
    \<not> isl (parseSampler (cf_OTelTracesSampler cfg) (cf_OTelTracesSamplerArg cfg)) \<and>
    ot_metricExporter env (cf_OTelExporterEndpoint cfg) \<noteq> None"
  using assms
  by (auto simp: SetupOTel_def Let_def split: if_splits option.splits sum.splits)

end
