(* ===== verification/Migrations.thy ===== *)
theory Migrations
  imports Go_Prelude
begin

text \<open>
  Schema migrations at start-up (\<open>internal/adapters/outbound/pg/migrate.go\<close>): how \<open>Migrate\<close> and
  \<open>MigrateDSN\<close> address the database and what they release. The migration library is a record of
  what its calls answer; the source and the instances opened and closed are a log.
\<close>

section \<open>The two entry points\<close>

record migrate_lib =
  mg_iofs :: "go_error option"
  mg_new :: "string \<Rightarrow> go_error option"
  mg_up :: "string \<Rightarrow> go_error option"
  mg_isNoChange :: "go_error \<Rightarrow> bool"

datatype migrate_action = SourceOpened | InstanceOpened string | InstanceClosed string | SourceClosed

definition postgres_prefixes :: "string list" where
  "postgres_prefixes = [''postgres://'', ''postgresql://'']"

fun strip_first :: "string list \<Rightarrow> string \<Rightarrow> string" where
  "strip_first [] url = url"
| "strip_first (p # ps) url =
     (if length url > length p \<and> take (length p) url = p then drop (length p) url else strip_first ps url)"

definition stripScheme :: "string \<Rightarrow> string" where
  "stripScheme url = strip_first postgres_prefixes url"

text \<open>The instance: first under the driver's own scheme, then with the address as given.\<close>

definition new_instance :: "migrate_lib \<Rightarrow> string \<Rightarrow> go_error + string" where
  "new_instance lib dbURL =
     (let url = ''pgx5://'' @ stripScheme dbURL in
      case mg_new lib url of None \<Rightarrow> Inr url
      | Some _ \<Rightarrow> (case mg_new lib dbURL of Some e \<Rightarrow> Inl (wrapf ''new migrate instance'' e) | None \<Rightarrow> Inr dbURL))"

definition apply_up :: "migrate_lib \<Rightarrow> string \<Rightarrow> go_error option" where
  "apply_up lib m =
     (case mg_up lib m of None \<Rightarrow> None
      | Some e \<Rightarrow> if mg_isNoChange lib e then None else Some (wrapf ''apply migrations'' e))"

definition MigrateDSN :: "migrate_lib \<Rightarrow> string \<Rightarrow> go_error option \<times> migrate_action list" where
  "MigrateDSN lib dsn =
     (case mg_iofs lib of Some e \<Rightarrow> (Some (wrapf ''embedded migration source'' e), [])
      | None \<Rightarrow>
        (case new_instance lib dsn of
           Inl e \<Rightarrow> (Some e, [SourceOpened, SourceClosed])
         | Inr m \<Rightarrow> (apply_up lib m, [SourceOpened, InstanceOpened m, InstanceClosed m, SourceClosed])))"

text \<open>A pool is its connection string.\<close>

definition Migrate :: "migrate_lib \<Rightarrow> string option \<Rightarrow> go_error option \<times> migrate_action list" where
  "Migrate lib pool =
     (case pool of None \<Rightarrow> (Some (errorf ''pg.Migrate: pool is required''), [])
      | Some dbURL \<Rightarrow>
        (case mg_iofs lib of Some e \<Rightarrow> (Some (wrapf ''embedded migration source'' e), [])
         | None \<Rightarrow>
           if dbURL = [] then (Some (errorf ''pg.Migrate: pool has no connection string''), [SourceOpened, SourceClosed])
           else (case new_instance lib dbURL of
             Inl e \<Rightarrow> (Some e, [SourceOpened, SourceClosed])
           | Inr m \<Rightarrow> (apply_up lib m, [SourceOpened, InstanceOpened m, InstanceClosed m, SourceClosed]))))"

section \<open>Addresses and release\<close>

lemma stripScheme_postgres [simp]:
  "rest \<noteq> [] \<Longrightarrow> stripScheme (''postgres://'' @ rest) = rest"
  "rest \<noteq> [] \<Longrightarrow> stripScheme (''postgresql://'' @ rest) = rest"
  by (simp_all add: stripScheme_def postgres_prefixes_def)

text \<open>Over a pool with a connection string, both entry points do the same.\<close>

lemma Migrate_DSN: "dsn \<noteq> [] \<Longrightarrow> Migrate lib (Some dsn) = MigrateDSN lib dsn"
  by (simp add: Migrate_def MigrateDSN_def split: option.split sum.split)

text \<open>
  Whatever fails, what was opened is closed again in the reverse order; success means that the
  migrations ran to the end or had nothing to do, on a PostgreSQL address under the driver's
  scheme whenever the library accepts that.
\<close>

definition migrate_closed :: "migrate_action list \<Rightarrow> bool" where
  "migrate_closed acts \<longleftrightarrow>
     (\<exists>opens. acts = opens @ rev (map (\<lambda>a. case a of InstanceOpened m \<Rightarrow> InstanceClosed m | _ \<Rightarrow> SourceClosed) opens))"

lemma migrate_closed_logs [simp]:
  "migrate_closed []" "migrate_closed [SourceOpened, SourceClosed]"
  "migrate_closed [SourceOpened, InstanceOpened m, InstanceClosed m, SourceClosed]"
proof -
  show "migrate_closed []" by (simp add: migrate_closed_def)
  show "migrate_closed [SourceOpened, SourceClosed]"
    unfolding migrate_closed_def by (rule exI [of _ "[SourceOpened]"]) simp
  show "migrate_closed [SourceOpened, InstanceOpened m, InstanceClosed m, SourceClosed]"
    unfolding migrate_closed_def by (rule exI [of _ "[SourceOpened, InstanceOpened m]"]) simp
qed

lemma Migrate_released: "migrate_closed (snd (Migrate lib pool))" "migrate_closed (snd (MigrateDSN lib dsn))"
  by (auto simp: Migrate_def MigrateDSN_def split: option.split sum.split)

lemma MigrateDSN_ok:
  assumes "rest \<noteq> []" and "mg_new lib (''pgx5://'' @ rest) = None"
  shows "fst (MigrateDSN lib (''postgres://'' @ rest)) = None \<longleftrightarrow>
    mg_iofs lib = None \<and>
    (case mg_up lib (''pgx5://'' @ rest) of None \<Rightarrow> True | Some e \<Rightarrow> mg_isNoChange lib e)"
  using assms stripScheme_postgres(1) [OF assms(1)]
  by (auto simp: MigrateDSN_def new_instance_def apply_up_def Let_def simp del: stripScheme_postgres split: option.splits)

end
