(* ===== verification/Bootstrap.thy ===== *)
theory Bootstrap
  imports Config Log_Output Chaos_Decorators Router Telemetry Migrations
begin

text \<open>
  The composition root (\<open>internal/bootstrap/wire.go\<close>): \<open>BuildRuntime\<close> constructs every component
  from the configuration, releasing what it opened on each failure, and \<open>Shutdown\<close> tears the
  runtime down. The outside (environment, the OpenTelemetry SDK, the connection pool, the
  migration library) is a record of what those libraries answer; opening and closing is a log of
  actions. Everything in the process is the model of the other theories.
\<close>

section \<open>Environment and actions\<close>

datatype boot_action = OtelUp | PoolOpen | CollectorUp | ServerDown | CollectorClosed | OtelDown | PoolClosed

record pg_pool =
  pp_env :: pg_env
  pp_connString :: string
  pp_Stat :: "nat \<Rightarrow> pgx_Stat"

record 'w boot_env =
  bo_getenv :: "string \<Rightarrow> string"
  bo_log :: log_env
  bo_otel :: otel_env
  bo_pool :: "string \<Rightarrow> go_error + pg_pool"
  bo_migrate :: migrate_lib
  bo_meter :: "nat meter"
  bo_RegisterCallback :: "nat list \<Rightarrow> go_error option"
  bo_adapters :: "'w adapter_envs"
  bo_loader :: loader_env
  bo_chaos :: chaos_lib
  bo_clock :: "nat \<Rightarrow> go_time"
  bo_idGen :: "nat \<Rightarrow> string outcome"
  bo_stack :: "string \<Rightarrow> string"
  bo_calls :: "http_ctx \<Rightarrow> call_ctx"
  bo_ping :: "pg_db \<Rightarrow> go_error option"
  bo_decoder :: body_decoder
  bo_propagator :: otel

record 'w Runtime =
  rt_ExecSvc :: "('w, pg_db) ExecuteService"
  rt_QuerySvc :: "pg_db QueryService"
  rt_limiter :: ConcurrencyLimiter
  rt_logger :: log_handler
  rt_router :: "('w, pg_db) exec_state Router"
  rt_PoolCollector :: "nat PgxPoolCollector"
  rt_addr :: string

section \<open>Small steps\<close>

definition enforceRuntimeModeLock :: "(string \<Rightarrow> string) \<Rightarrow> go_error option" where
  "enforceRuntimeModeLock getenv =
     (if map lower_char (getenv ''CI'') = ''true'' \<and> getenv ''RUNTIME_TENANT'' \<noteq> ''test''
      then Some (errorf (''CI must run with RUNTIME_TENANT=test: got RUNTIME_TENANT='' @ quoted (getenv ''RUNTIME_TENANT'')))
      else None)"

definition adapterConfig :: "Config \<Rightarrow> RegistrationConfig" where
  "adapterConfig cfg =
     \<lparr>rg_Shell = \<lparr>sc_AllowedCommandsPath = cf_AllowedCommandsPath cfg, sc_AllowedWorkingDirs = cf_AllowedWorkingDirs cfg,
        sc_InlineStreamLimit = cf_InlineStreamLimit cfg\<rparr>,
      rg_Git = \<lparr>gc_AllowedWorkingDirs = cf_AllowedWorkingDirs cfg, gc_SSHAgent = True,
        gc_InlineStreamLimit = cf_InlineStreamLimit cfg\<rparr>,
      rg_Filesystem = \<lparr>fc_AllowedFilesystemRoots = cf_AllowedFilesystemRoots cfg,
        fc_InlineStreamLimit = cf_InlineStreamLimit cfg\<rparr>,
      rg_HTTP = \<lparr>hc_AllowPrivateNetworks = cf_HTTPAllowPrivateNetworks cfg, hc_HostAllowlist = cf_HTTPHostAllowlist cfg,
        hc_MaxBodyBytes = 0, hc_MaxRedirects = 0, hc_InlineStreamLimit = cf_InlineStreamLimit cfg\<rparr>\<rparr>"

text \<open>The registered adapters with their dynamic types: all four implement \<open>ChaosCapable\<close>.\<close>

definition dynamic :: "chaos_lib \<Rightarrow> RegistrationConfig \<Rightarrow> AdapterID \<times> 'w Adapter \<Rightarrow> AdapterID \<times> 'w DynAdapter" where
  "dynamic lib cfg e =
     (case e of (i, a) \<Rightarrow> (i, with_chaos
        (if i = shell_id then Some shell_chaos else if i = git_id then Some (git_chaos lib)
         else if i = fs_id then Some (fs_chaos lib)
         else if i = http_id then Some (http_chaos lib (http_defaults (rg_HTTP cfg))) else None) a))"

definition static :: "'w DynAdapter \<Rightarrow> 'w Adapter" where
  "static a = \<lparr>ad_ID = ad_ID a, ad_Capabilities = ad_Capabilities a, ad_Execute = ad_Execute a\<rparr>"

text \<open>A step that may fail: its error is wrapped, and what was opened is released.\<close>

type_synonym 'a boot = "boot_action list \<Rightarrow> (go_error + 'a) outcome \<times> boot_action list"

definition attempt :: "string \<Rightarrow> boot_action list \<Rightarrow> go_error + 'a \<Rightarrow> ('a \<Rightarrow> 'b boot) \<Rightarrow> 'b boot" where
  "attempt what release x k acts =
     (case x of Inl e \<Rightarrow> (Ret (Inl (wrapf what e)), acts @ release) | Inr a \<Rightarrow> k a acts)"

definition attempt_err :: "string \<Rightarrow> boot_action list \<Rightarrow> go_error option \<Rightarrow> 'b boot \<Rightarrow> 'b boot" where
  "attempt_err what release x k acts =
     (case x of Some e \<Rightarrow> (Ret (Inl (wrapf what e)), acts @ release) | None \<Rightarrow> k acts)"

text \<open>A constructor that panics on a bad argument: nothing is released then.\<close>

definition or_panic :: "'a outcome \<Rightarrow> ('a \<Rightarrow> 'b boot) \<Rightarrow> 'b boot" where
  "or_panic x k acts = (case x of Panic v \<Rightarrow> (Panic v, acts) | Ret a \<Rightarrow> k a acts)"

definition opened :: "boot_action \<Rightarrow> 'b boot \<Rightarrow> 'b boot" where
  "opened a k acts = k (acts @ [a])"

definition release_pool :: "boot_action list" where "release_pool = [PoolClosed, OtelDown]"
definition release_all :: "boot_action list" where "release_all = [CollectorClosed, PoolClosed, OtelDown]"

section \<open>BuildRuntime\<close>

text \<open>Steps 7 to 9: the limiter, the provenance, the two services and the router.\<close>

definition build_services ::
  "'w boot_env \<Rightarrow> Config \<Rightarrow> log_handler \<Rightarrow> CapabilityRegistry \<Rightarrow> 'w ResultNormalizer \<Rightarrow> 'w chaos_registry \<Rightarrow>
   pg_db ReceiptRepository \<Rightarrow> pg_db IdempotencyStore \<Rightarrow> nat PgxPoolCollector \<Rightarrow> 'w Runtime boot" where
  "build_services env cfg logger registry normalizer adapters receipts idemp collector =
     or_panic (NewConcurrencyLimiter (cf_MaxConcurrentExecutions cfg)) (\<lambda>limiter.
     attempt ''provenance baseline'' release_all
       (NewProvenance (cf_ProvenanceSource cfg) (cf_RuntimeVersion cfg) (cf_Hostname cfg) (cf_RuntimeVersion cfg) []) (\<lambda>prov.
     attempt ''execute service'' release_all
       (NewExecuteService (bo_stack env)
          \<lparr>ec_Adapters = Some (map (\<lambda>(i, a). (AdapterID_String i, static a)) adapters), ec_Registry = Some registry,
           ec_Metrics = True, ec_Normalizer = Some normalizer, ec_Receipts = Some receipts, ec_Idempotency = Some idemp,
           ec_Limiter = Some limiter, ec_Clock = Some (bo_clock env), ec_IDGen = Some (bo_idGen env),
           ec_MaxTimeout = cf_MaxTimeoutBudget cfg, ec_IdempWindow = cf_IdempotencyWindow cfg, ec_Provenance = prov\<rparr>) (\<lambda>exec.
     attempt ''query service'' release_all (NewQueryService (Some registry) (Some receipts) (cf_RuntimeVersion cfg)) (\<lambda>query.
     or_panic (NewRouter (bo_decoder env) (bo_propagator env)
                \<lparr>rd_svc = Some (runtime_of exec (bo_calls env)), rd_query = Some query, rd_logger = Some [],
                          rd_probe = Some (bo_ping env)\<rparr>) (\<lambda>router acts.
       (Ret (Inr \<lparr>rt_ExecSvc = exec, rt_QuerySvc = query, rt_limiter = limiter, rt_logger = logger, rt_router = router,
                  rt_PoolCollector = collector, rt_addr = cf_HTTPAddr cfg\<rparr>), acts))))))"

text \<open>Steps 5 to 6.5: the registry, the adapters and fault injection.\<close>

definition build_adapters ::
  "'z fs_state_scheme boot_env \<Rightarrow> Config \<Rightarrow> log_handler \<Rightarrow> pg_db ReceiptRepository \<Rightarrow> pg_db IdempotencyStore \<Rightarrow>
   nat PgxPoolCollector \<Rightarrow> 'z fs_state_scheme Runtime boot" where
  "build_adapters env cfg logger receipts idemp collector =
     attempt ''phase 1 capabilities'' release_all NewPhase1Capabilities (\<lambda>caps.
     attempt ''capability registry'' release_all (NewCapabilityRegistry caps) (\<lambda>registry.
     or_panic (NewResultNormalizer (cf_InlineStreamLimit cfg)) (\<lambda>normalizer.
     attempt ''metrics registry'' release_all (NewRegistry (bo_meter env)) (\<lambda>metricsRegistry.
     case RegisterAllPhase1 (bo_adapters env) (Some normalizer) (adapterConfig cfg) True of (reg, n') \<Rightarrow>
     attempt ''register adapters'' release_all reg (\<lambda>ads.
     attempt_err ''verify catalog'' release_all (VerifyCoversPhase1Catalog (the n'))
     (attempt ''chaos config'' release_all
        (LoadConfig (bo_loader env) (cf_Chaos cfg) (cf_Env cfg) (NewCatalogFromCapabilities caps)) (\<lambda>chaosCfg.
     or_panic (MaybeWrapAdaptersWithChaos (bo_chaos env) (map (dynamic (bo_chaos env) (adapterConfig cfg)) ads) receipts
                 (Some chaosCfg)) (\<lambda>wrapped.
     attempt ''chaos wrap'' release_all wrapped (\<lambda>(adapters, receipts').
     build_services env cfg logger registry (the n') adapters receipts' idemp collector)))))))))"

definition BuildRuntime :: "'z fs_state_scheme boot_env \<Rightarrow> Config \<Rightarrow> 'z fs_state_scheme Runtime boot" where
  "BuildRuntime env cfg acts =
     (case enforceRuntimeModeLock (bo_getenv env) of Some e \<Rightarrow> (Ret (Inl e), acts)
      | None \<Rightarrow>
        attempt ''log config'' [] (log_LoadConfig (bo_log env)) (\<lambda>logCfg.
        attempt ''log.New'' [] (log_New (bo_log env) logCfg) (\<lambda>logger.
        attempt_err ''setup otel'' [] (snd (fst (SetupOTel (bo_otel env) cfg))) (opened OtelUp (
        attempt ''pgxpool.New'' [OtelDown] (bo_pool env (cf_PostgresDSN cfg)) (\<lambda>pool. opened PoolOpen (
        attempt_err ''apply migrations'' release_pool (fst (Migrate (bo_migrate env) (Some (pp_connString pool)))) (
        attempt ''pgx pool collector'' release_pool
          (NewPgxPoolCollector (bo_meter env) (bo_RegisterCallback env) (Some (\<lambda>n. SnapshotFromPgx (pp_Stat pool n)))) (\<lambda>collector. opened CollectorUp (
        attempt ''receipt repository'' release_all (NewReceiptRepositoryPG (Some (pp_env pool))) (\<lambda>receipts.
        attempt ''idempotency store'' release_all (NewIdempotencyStorePG (Some (pp_env pool))) (\<lambda>idemp.
        build_adapters env cfg logger receipts idemp collector))))))))))) acts)"

text \<open>The shutdown function: the first error, and every step in order whatever fails.\<close>

definition Shutdown ::
  "go_error option \<Rightarrow> go_error option \<Rightarrow> go_error option \<Rightarrow> boot_action list \<Rightarrow> go_error option \<times> boot_action list" where
  "Shutdown server collector otel acts =
     ((case server of Some e \<Rightarrow> Some (wrapf ''http shutdown'' e)
       | None \<Rightarrow> (case collector of Some e \<Rightarrow> Some (wrapf ''pool collector shutdown'' e)
       | None \<Rightarrow> map_option (wrapf ''otel shutdown'') otel)),
      acts @ [ServerDown, CollectorClosed, OtelDown, PoolClosed])"

section \<open>What start-up leaves behind\<close>

definition closing :: "boot_action \<Rightarrow> boot_action" where
  "closing a = (case a of OtelUp \<Rightarrow> OtelDown | PoolOpen \<Rightarrow> PoolClosed | CollectorUp \<Rightarrow> CollectorClosed | _ \<Rightarrow> a)"

definition boot_order :: "boot_action list" where "boot_order = [OtelUp, PoolOpen, CollectorUp]"

text \<open>A step that releases \<open>rel\<close> when it fails and nothing otherwise, and panics only when \<open>ok\<close> does not hold.\<close>

definition releases :: "bool \<Rightarrow> boot_action list \<Rightarrow> 'b boot \<Rightarrow> bool" where
  "releases ok rel k \<longleftrightarrow>
     (\<forall>acts. case k acts of (Ret (Inl _), acts') \<Rightarrow> acts' = acts @ rel
                         | (Ret (Inr _), acts') \<Rightarrow> acts' = acts
                         | (Panic _, acts') \<Rightarrow> acts' = acts \<and> \<not> ok)"

named_theorems releases

lemma attempt_releases [releases]: "(\<And>a. releases ok rel (k a)) \<Longrightarrow> releases ok rel (attempt what rel x k)"
  by (simp add: releases_def attempt_def split: sum.split)

lemma attempt_err_releases [releases]: "releases ok rel k \<Longrightarrow> releases ok rel (attempt_err what rel x k)"
  by (simp add: releases_def attempt_err_def split: option.split)

lemma or_panic_releases [releases]:
  "(\<And>a. releases ok rel (k a)) \<Longrightarrow> (\<And>v. x = Panic v \<Longrightarrow> \<not> ok) \<Longrightarrow> releases ok rel (or_panic x k)"
  by (simp add: releases_def or_panic_def split: outcome.split)

lemma done_releases [releases]: "releases ok rel (\<lambda>acts. (Ret (Inr x), acts))"
  by (simp add: releases_def)

lemma build_services_releases [releases]:
  "releases (config_ok cfg) release_all (build_services env cfg logger registry normalizer adapters receipts idemp collector)"
  unfolding build_services_def
  by (intro releases) (auto simp: NewConcurrencyLimiter_def config_ok_def dest: NewRouter_Panic split: if_splits)

lemma MaybeWrap_no_panic: "MaybeWrapAdaptersWithChaos lib registry store c \<noteq> Panic v"
  using MaybeWrap_returns [of lib registry store c] by auto

lemma normalizer_panic: "NewResultNormalizer (cf_InlineStreamLimit cfg) = Panic v \<Longrightarrow> \<not> config_ok cfg"
  by (auto simp: NewResultNormalizer_def config_ok_def split: if_splits)

lemma build_adapters_releases [releases]:
  "releases (config_ok cfg) release_all (build_adapters env cfg logger receipts idemp collector)"
  unfolding build_adapters_def
  by (intro releases)
    (auto intro!: releases simp: normalizer_panic MaybeWrap_no_panic split: prod.split)

text \<open>Either the outside refused before the process was assembled, or only the assembly is left.\<close>

lemma BuildRuntime_cases:
  obtains (early) e n where "BuildRuntime env cfg [] = (Ret (Inl e), take n boot_order @ rev (map closing (take n boot_order)))"
  | (late) logger receipts idemp collector where
      "BuildRuntime env cfg [] = build_adapters env cfg logger receipts idemp collector boot_order"
proof -
  consider (locked) e where "enforceRuntimeModeLock (bo_getenv env) = Some e"
    | (nolog) e where "enforceRuntimeModeLock (bo_getenv env) = None" "log_LoadConfig (bo_log env) = Inl e"
    | (loaded) lc where "enforceRuntimeModeLock (bo_getenv env) = None" "log_LoadConfig (bo_log env) = Inr lc"
    by (cases "log_LoadConfig (bo_log env)"; cases "enforceRuntimeModeLock (bo_getenv env)") auto
  then show thesis
  proof cases
    case locked
    then show thesis by (intro early [where n = 0]) (auto simp: BuildRuntime_def)
  next
    case nolog
    then show thesis by (intro early [where n = 0]) (auto simp: BuildRuntime_def attempt_def)
  next
    case loaded
    note start = BuildRuntime_def attempt_def attempt_err_def opened_def boot_order_def closing_def release_pool_def
      release_all_def NewReceiptRepositoryPG_def NewIdempotencyStorePG_def loaded
    show thesis
    proof (cases "log_New (bo_log env) lc")
      case (Inl e)
      then show thesis by (intro early [where n = 0]) (auto simp: start)
    next
      case log: (Inr h)
      show thesis
      proof (cases "snd (fst (SetupOTel (bo_otel env) cfg))")
        case (Some e)
        then show thesis by (intro early [where n = 0]) (auto simp: start log)
      next
        case otel: None
        show thesis
        proof (cases "bo_pool env (cf_PostgresDSN cfg)")
          case (Inl e)
          then show thesis by (intro early [where n = 1]) (auto simp: start log otel)
        next
          case pool: (Inr pool)
          then show thesis
            by (cases "fst (Migrate (bo_migrate env) (Some (pp_connString pool)))";
                cases "NewPgxPoolCollector (bo_meter env) (bo_RegisterCallback env) (Some (\<lambda>n. SnapshotFromPgx (pp_Stat pool n)))")
              (rule late early [where n = 2]; simp add: start log otel)+
        qed
      qed
    qed
  qed
qed

lemma BuildRuntime_shape:
  "case BuildRuntime env cfg [] of
     (Ret (Inl _), acts) \<Rightarrow> \<exists>n. acts = take n boot_order @ rev (map closing (take n boot_order))
   | (Ret (Inr _), acts) \<Rightarrow> acts = boot_order
   | (Panic _, acts) \<Rightarrow> acts = boot_order \<and> \<not> config_ok cfg"
proof (rule BuildRuntime_cases [of env cfg])
  fix e n
  assume "BuildRuntime env cfg [] = (Ret (Inl e), take n boot_order @ rev (map closing (take n boot_order)))"
  then show ?thesis by auto
next
  fix l r i c
  assume b: "BuildRuntime env cfg [] = build_adapters env cfg l r i c boot_order"
  have order: "release_all = rev (map closing (take 3 boot_order))" "take 3 boot_order = boot_order"
    by (simp_all add: release_all_def boot_order_def closing_def)
  obtain x acts where run: "build_adapters env cfg l r i c boot_order = (x, acts)" by fastforce
  have "releases (config_ok cfg) release_all (build_adapters env cfg l r i c)" by (rule releases)
  then have built: "case (x, acts) of (Ret (Inl _), acts') \<Rightarrow> acts' = boot_order @ release_all
      | (Ret (Inr _), acts') \<Rightarrow> acts' = boot_order | (Panic _, acts') \<Rightarrow> acts' = boot_order \<and> \<not> config_ok cfg"
    unfolding releases_def run [symmetric] by (rule spec)
  show ?thesis
  proof (cases "\<exists>e. x = Ret (Inl e)")
    case True
    with built order have "acts = take 3 boot_order @ rev (map closing (take 3 boot_order))" by auto
    with True show ?thesis by (auto simp: b run)
  next
    case False
    with built show ?thesis by (auto simp: b run split: outcome.splits sum.splits)
  qed
qed

section \<open>Properties\<close>

text \<open>
  Start-up never leaks. When \<open>BuildRuntime\<close> reports an error, what it opened (OpenTelemetry,
  the connection pool, the pool's collector) is a prefix of the start-up order, and each was
  closed again in the reverse order; with the continuous-integration mode lock set, nothing was
  opened at all. A panic is impossible for a configuration that validates. When it succeeds,
  all three are open, and shutting down closes each exactly once, after the server stopped
  taking requests and with the pool last, whatever the steps report; it reports an error
  exactly when one of them did.
\<close>

lemma BuildRuntime_releases:
  "(case BuildRuntime env cfg [] of
      (Ret (Inl _), acts) \<Rightarrow> \<exists>n. acts = take n boot_order @ rev (map closing (take n boot_order))
    | (Ret (Inr _), acts) \<Rightarrow> acts = boot_order \<and>
        (\<exists>mid. snd (Shutdown server collector otel acts) = acts @ ServerDown # mid @ [PoolClosed] \<and>
           distinct (mid @ [PoolClosed]) \<and> set (mid @ [PoolClosed]) = closing ` set acts) \<and>
        (fst (Shutdown server collector otel acts) = None \<longleftrightarrow> server = None \<and> collector = None \<and> otel = None)
    | (Panic _, acts) \<Rightarrow> acts = boot_order \<and> \<not> config_ok cfg) \<and>
   (map lower_char (bo_getenv env ''CI'') = ''true'' \<and> bo_getenv env ''RUNTIME_TENANT'' \<noteq> ''test'' \<longrightarrow>
      snd (BuildRuntime env cfg []) = [] \<and> (\<exists>e. fst (BuildRuntime env cfg []) = Ret (Inl e)))"
  (is "?left \<and> ?lock")
proof
  have down: "\<exists>mid. snd (Shutdown server collector otel boot_order) = boot_order @ ServerDown # mid @ [PoolClosed] \<and>
      distinct (mid @ [PoolClosed]) \<and> set (mid @ [PoolClosed]) = closing ` set boot_order"
    by (rule exI [of _ "[CollectorClosed, OtelDown]"]) (auto simp: Shutdown_def boot_order_def closing_def)
  have err: "fst (Shutdown server collector otel boot_order) = None \<longleftrightarrow> server = None \<and> collector = None \<and> otel = None"
    by (auto simp: Shutdown_def split: option.split)
  show ?left using BuildRuntime_shape [where env = env and cfg = cfg] down err
    by (auto split: prod.splits outcome.splits sum.splits)
  show ?lock by (auto simp: BuildRuntime_def enforceRuntimeModeLock_def)
qed

text \<open>The assembled services when nothing outside fails and fault injection is off.\<close>

lemma static_dynamic:
  "(case dynamic lib cfg e of (i, a) \<Rightarrow> (AdapterID_String i, static a)) = (AdapterID_String (fst e), snd e)"
  by (simp add: static_def dynamic_def with_chaos_def split: prod.split)

lemma map_of_static_dynamic:
  "map_of (map (\<lambda>(i, a). (AdapterID_String i, static a)) (map (dynamic lib cfg) ads)) (AdapterID_String i) = map_of ads i"
  by (induction ads) (auto simp: static_dynamic AdapterID.expand)

lemma loaded_concurrency:
  assumes "Load src = Inr cfg"
  shows "0 < cf_MaxConcurrentExecutions cfg" "cf_MaxConcurrentExecutions cfg < 2 ^ 63"
proof -
  have "lookupInt src key 64 < 2 ^ 63" for key
    by (auto simp: lookupInt_def parsed_or_def Atoi_def int64_ok_def Let_def split: option.splits if_splits)
  with assms show "0 < cf_MaxConcurrentExecutions cfg" "cf_MaxConcurrentExecutions cfg < 2 ^ 63"
    by (auto simp: Load_Inr config_ok_def config_from_def)
qed

lemma build_services_ok:
  assumes "config_ok cfg"
  shows "\<exists>rt. build_services env cfg logger registry normalizer adapters receipts idemp collector acts = (Ret (Inr rt), acts) \<and>
    rt_limiter rt = \<lparr>lm_max = nat (cf_MaxConcurrentExecutions cfg), lm_slots = 0, lm_inUse = 0\<rparr> \<and>
    sv_adapters (rt_ExecSvc rt) = map (\<lambda>(i, a). (AdapterID_String i, static a)) adapters \<and>
    sv_registry (rt_ExecSvc rt) = registry \<and> sv_normalizer (rt_ExecSvc rt) = normalizer \<and>
    sv_receipts (rt_ExecSvc rt) = receipts \<and> qs_receipts (rt_QuerySvc rt) = receipts \<and> qs_registry (rt_QuerySvc rt) = registry"
proof -
  have "cf_ProvenanceSource cfg \<in> set allProvenanceSources"
    using assms by (auto simp: config_ok_def validProvenanceSource_def allProvenanceSources_def)
  then show ?thesis using assms
    by (auto simp: build_services_def or_panic_def attempt_def NewConcurrencyLimiter_def NewProvenance_def
        NewExecuteService_def NewQueryService_def config_ok_def validProvenanceSource_def dest: NewRouter_Panic
        split: outcome.split)
qed

definition catalog_wired :: "'w Runtime \<Rightarrow> bool" where
  "catalog_wired rt \<longleftrightarrow>
     (\<forall>c \<in> set catalog. reg_Lookup (sv_registry (rt_ExecSvc rt)) (Canonical c) = Inr c \<and>
        (\<exists>ad. map_of (sv_adapters (rt_ExecSvc rt)) (AdapterID_String (cap_adapterID c)) = Some ad \<and>
           served ad (sv_normalizer (rt_ExecSvc rt)) c))"

lemma build_adapters_ok:
  fixes env :: "'z fs_state_scheme boot_env"
  assumes ok: "config_ok cfg" and off: "\<not> ce_Enabled (cf_Chaos cfg)" and met: "\<forall>q. \<not> isl (bo_meter env q)"
  shows "\<exists>rt. build_adapters env cfg logger receipts idemp collector acts = (Ret (Inr rt), acts) \<and> catalog_wired rt \<and>
    rt_limiter rt = \<lparr>lm_max = nat (cf_MaxConcurrentExecutions cfg), lm_slots = 0, lm_inUse = 0\<rparr> \<and>
    sv_receipts (rt_ExecSvc rt) = receipts \<and> qs_receipts (rt_QuerySvc rt) = receipts"
proof -
  let ?n = "\<lparr>rn_inlineLimit = cf_InlineStreamLimit cfg, rn_byCanonical = []\<rparr> :: 'z fs_state_scheme ResultNormalizer"
  let ?reg = "\<lparr>byCanon = map (\<lambda>c. (Canonical c, c)) catalog\<rparr>"
  have n: "NewResultNormalizer (cf_InlineStreamLimit cfg) = Ret ?n"
    using ok by (simp add: NewResultNormalizer_def config_ok_def)
  have registry: "NewCapabilityRegistry catalog = Inr ?reg" using catalog_distinct by (simp add: validate)
  obtain ads m where reg: "RegisterAllPhase1 (bo_adapters env) (Some ?n) (adapterConfig cfg) True = (Inr ads, Some m)"
    using phase1_registers [of ?n "adapterConfig cfg" "bo_adapters env"] ok
    by (auto simp: adapterConfig_def config_ok_def)
  from RegisterAllPhase1_Inr [OF reg] have all: "register_all (registrations (bo_adapters env) (adapterConfig cfg)) ?n = (None, m)"
    by auto
  have verified: "VerifyCoversPhase1Catalog m = None"
    using register_all_None [OF all] registrations_keys [of "bo_adapters env" "adapterConfig cfg"]
    by (simp add: VerifyCovers_None rev_map [symmetric])
  obtain rt where svc: "build_services env cfg logger ?reg m (map (dynamic (bo_chaos env) (adapterConfig cfg)) ads) receipts idemp collector acts =
      (Ret (Inr rt), acts)" "rt_limiter rt = \<lparr>lm_max = nat (cf_MaxConcurrentExecutions cfg), lm_slots = 0, lm_inUse = 0\<rparr>"
    and parts: "sv_adapters (rt_ExecSvc rt) = map (\<lambda>(i, a). (AdapterID_String i, static a)) (map (dynamic (bo_chaos env) (adapterConfig cfg)) ads)"
    "sv_registry (rt_ExecSvc rt) = ?reg" "sv_normalizer (rt_ExecSvc rt) = m" "sv_receipts (rt_ExecSvc rt) = receipts"
    "qs_receipts (rt_QuerySvc rt) = receipts"
    using build_services_ok [OF ok] by blast
  have "catalog_wired rt"
    unfolding catalog_wired_def parts(1-3) map_of_static_dynamic reg_Lookup_Inr [OF registry]
    using phase1_catalog_served [OF all] RegisterAllPhase1_Inr [OF reg] by blast
  moreover obtain metrics where "NewRegistry (bo_meter env) = Inr metrics"
    using NewRegistry_granted [OF met] by blast
  then have "build_adapters env cfg logger receipts idemp collector acts = (Ret (Inr rt), acts)"
    using off by (simp add: build_adapters_def attempt_def attempt_err_def or_panic_def NewPhase1Capabilities_eq registry n reg
        verified LoadConfig_def MaybeWrapAdaptersWithChaos_def svc(1))
  ultimately show ?thesis using svc(2) parts(4,5) by blast
qed

text \<open>What start-up asks of the outside.\<close>

definition outside_ready :: "'w boot_env \<Rightarrow> Config \<Rightarrow> pg_pool \<Rightarrow> bool" where
  "outside_ready env cfg pool \<longleftrightarrow>
     (cf_OTelEnabled cfg \<longrightarrow> ot_resource (bo_otel env) = None \<and>
        ot_traceExporter (bo_otel env) (cf_OTelExporterEndpoint cfg) = None \<and>
        ot_metricExporter (bo_otel env) (cf_OTelExporterEndpoint cfg) = None \<and>
        \<not> isl (parseSampler (cf_OTelTracesSampler cfg) (cf_OTelTracesSamplerArg cfg))) \<and>
     bo_pool env (cf_PostgresDSN cfg) = Inr pool \<and> pp_connString pool \<noteq> [] \<and> mg_iofs (bo_migrate env) = None \<and>
     (let url = ''pgx5://'' @ stripScheme (pp_connString pool) in mg_new (bo_migrate env) url = None \<and>
        (case mg_up (bo_migrate env) url of None \<Rightarrow> True | Some e \<Rightarrow> mg_isNoChange (bo_migrate env) e)) \<and>
     (\<forall>q. \<not> isl (bo_meter env q)) \<and> (\<forall>is. bo_RegisterCallback env is = None)"

lemma outside_ready_steps:
  assumes "outside_ready env cfg pool"
  shows "snd (fst (SetupOTel (bo_otel env) cfg)) = None" "bo_pool env (cf_PostgresDSN cfg) = Inr pool"
    "fst (Migrate (bo_migrate env) (Some (pp_connString pool))) = None"
    "\<exists>c. NewPgxPoolCollector (bo_meter env) (bo_RegisterCallback env) (Some f) = Inr c" "\<forall>q. \<not> isl (bo_meter env q)"
proof -
  note ready = assms [unfolded outside_ready_def Let_def]
  show "snd (fst (SetupOTel (bo_otel env) cfg)) = None"
    using ready by (auto simp: SetupOTel_def Let_def isl_def split: sum.split)
  show "bo_pool env (cf_PostgresDSN cfg) = Inr pool" using ready by blast
  show "fst (Migrate (bo_migrate env) (Some (pp_connString pool))) = None"
    using ready by (auto simp: Migrate_def new_instance_def apply_up_def Let_def split: option.splits)
  show "\<forall>q. \<not> isl (bo_meter env q)" using ready by blast
  then show "\<exists>c. NewPgxPoolCollector (bo_meter env) (bo_RegisterCallback env) (Some f) = Inr c"
    using ready by (auto simp: NewPgxPoolCollector_def construct_def isl_def split: sum.split)
qed


section \<open>A concrete start\<close>

definition sample_source :: config_env where
  "sample_source =
     \<lparr>en_Lookup = (\<lambda>k. if k = ''RUNTIME_POSTGRES_DSN'' then Some ''postgres://db/runtime'' else None), en_home = ''/home/runtime'',
      en_hostname = ''node-1'', en_ParseDuration = (\<lambda>_. None), en_ParseFloat = (\<lambda>_. None), en_fmt = (\<lambda>_. [])\<rparr>"

definition sample_stat :: "nat \<Rightarrow> pgx_Stat" where
  "sample_stat n = \<lparr>px_IdleConns = 1, px_MaxConns = 4, px_TotalConns = 1, px_AcquiredConns = 0, px_AcquireCount = of_nat n,
     px_EmptyAcquireCount = 0\<rparr>"

definition calm_outside :: "'w boot_env \<Rightarrow> 'w boot_env" where
  "calm_outside env = env\<lparr>bo_getenv := \<lambda>_. [], bo_log := \<lparr>lo_Getenv = \<lambda>_. [], lo_CreateTemp = \<lambda>_. None, lo_OpenMirror = \<lambda>_. None\<rparr>,
     bo_otel := \<lparr>ot_resource = None, ot_traceExporter = \<lambda>_. None, ot_metricExporter = \<lambda>_. None\<rparr>,
     bo_pool := \<lambda>dsn. Inr \<lparr>pp_env = sample_calm, pp_connString = dsn, pp_Stat = sample_stat\<rparr>,
     bo_migrate := \<lparr>mg_iofs = None, mg_new = \<lambda>_. None, mg_up = \<lambda>_. None, mg_isNoChange = \<lambda>_. False\<rparr>,
     bo_meter := \<lambda>_. Inr 0, bo_RegisterCallback := \<lambda>_. None\<rparr>"

lemma sample_source_loads: "Load sample_source = Inr (config_from sample_source)" "\<not> ce_Enabled (cf_Chaos (config_from sample_source))"
  by (simp_all add: Load_Inr config_ok_def config_from_def sample_source_def lookupString_def lookupInt_def lookupDuration_def
      lookupBool_def lookupFloat_def lookupList_def lookupRuntimeEnv_def parsed_or_def given_def float_0_1_def
      validProvenanceSource_def validRuntimeEnv_def duration_units)


end
