(* ===== verification/Go_Json.thy ===== *)
theory Go_Json
  imports Go_Strconv
begin

text \<open>
  \<open>encoding/json\<close> as the two alert integrations use it: decoding a JSON value, already read from
  its text, into a Go value. A decoder takes the value the destination holds, as Go's does: a
  \<open>null\<close> leaves it alone, an object's members are stored in their order, a member whose name no
  field has is skipped, and a member of the wrong kind is an error.
\<close>

datatype jvalue = VNull | VBool bool | VNum string | VStr string | VArr "jvalue list" | VObj "(string \<times> jvalue) list"

type_synonym 'a decoder = "jvalue \<Rightarrow> 'a \<Rightarrow> 'a option"

definition dec_string :: "string decoder" where
  "dec_string j cur = (case j of VStr s \<Rightarrow> Some s | VNull \<Rightarrow> Some cur | _ \<Rightarrow> None)"

definition dec_bool :: "bool decoder" where
  "dec_bool j cur = (case j of VBool b \<Rightarrow> Some b | VNull \<Rightarrow> Some cur | _ \<Rightarrow> None)"

text \<open>\<open>time.Time\<close>: a string in the format \<open>parse\<close> accepts.\<close>

definition dec_time :: "(string \<Rightarrow> go_time option) \<Rightarrow> go_time decoder" where
  "dec_time parse j cur = (case j of VStr s \<Rightarrow> parse s | VNull \<Rightarrow> Some cur | _ \<Rightarrow> None)"

text \<open>\<open>json.RawMessage\<close>.\<close>

definition dec_raw :: "jvalue option decoder" where
  "dec_raw j cur = Some (Some j)"

fun dec_elems :: "'a decoder \<Rightarrow> 'a \<Rightarrow> jvalue list \<Rightarrow> 'a list option" where
  "dec_elems dec zero [] = Some []"
| "dec_elems dec zero (j # js) =
     (case dec j zero of None \<Rightarrow> None
      | Some x \<Rightarrow> (case dec_elems dec zero js of None \<Rightarrow> None | Some xs \<Rightarrow> Some (x # xs)))"

definition dec_slice :: "'a decoder \<Rightarrow> 'a \<Rightarrow> 'a list decoder" where
  "dec_slice dec zero j cur = (case j of VArr js \<Rightarrow> dec_elems dec zero js | VNull \<Rightarrow> Some [] | _ \<Rightarrow> None)"

fun dec_entries :: "(string \<times> jvalue) list \<Rightarrow> smap \<Rightarrow> smap option" where
  "dec_entries [] m = Some m"
| "dec_entries ((k, j) # kvs) m =
     (case dec_string j [] of None \<Rightarrow> None | Some v \<Rightarrow> dec_entries kvs (AList.update k v m))"

text \<open>\<open>map[string]string\<close>.\<close>

definition dec_smap :: "smap decoder" where
  "dec_smap j cur = (case j of VObj kvs \<Rightarrow> dec_entries kvs cur | VNull \<Rightarrow> Some [] | _ \<Rightarrow> None)"

text \<open>
  A struct is a list of field names with what storing into the field does. A member is matched
  by its exact name, or else by its name up to the case of ASCII letters.
\<close>

type_synonym 'a fields = "(string \<times> 'a decoder) list"

definition field :: "string \<Rightarrow> 'b decoder \<Rightarrow> ('a \<Rightarrow> 'b) \<Rightarrow> ('b \<Rightarrow> 'a \<Rightarrow> 'a) \<Rightarrow> string \<times> 'a decoder" where
  "field name dec get put = (name, \<lambda>j cur. case dec j (get cur) of None \<Rightarrow> None | Some x \<Rightarrow> Some (put x cur))"

definition field_named :: "'a fields \<Rightarrow> string \<Rightarrow> 'a decoder option" where
  "field_named fs k =
     (case map_of fs k of Some d \<Rightarrow> Some d
      | None \<Rightarrow> map_of (map (\<lambda>(n, d). (map lower_char n, d)) fs) (map lower_char k))"

fun dec_members :: "'a fields \<Rightarrow> (string \<times> jvalue) list \<Rightarrow> 'a \<Rightarrow> 'a option" where
  "dec_members fs [] cur = Some cur"
| "dec_members fs ((k, j) # kvs) cur =
     (case field_named fs k of None \<Rightarrow> dec_members fs kvs cur
      | Some d \<Rightarrow> (case d j cur of None \<Rightarrow> None | Some cur' \<Rightarrow> dec_members fs kvs cur'))"

definition dec_struct :: "'a fields \<Rightarrow> 'a decoder" where
  "dec_struct fs j cur = (case j of VObj kvs \<Rightarrow> dec_members fs kvs cur | VNull \<Rightarrow> Some cur | _ \<Rightarrow> None)"

text \<open>A struct with one field, as the envelopes of a GraphQL answer nest them.\<close>

definition only :: "string \<Rightarrow> 'a decoder \<Rightarrow> 'a decoder" where
  "only name dec = dec_struct [(name, dec)]"

lemmas json_decoders = dec_string_def dec_bool_def dec_time_def dec_raw_def dec_slice_def dec_smap_def dec_struct_def
  field_def field_named_def only_def

end
