(* ===== verification/Linear_Client.thy ===== *)
theory Linear_Client
  imports Go_Json
begin

text \<open>
  The Linear integration's domain types (\<open>internal/integrations/linear/domain\<close>), its port
  (\<open>ports/linear_client.go\<close>) and the GraphQL client that implements it
  (\<open>infrastructure/linear_graphql_client.go\<close>). The service is a parameter: what it answers to a
  request and the state it is left in. Reading JSON text and RFC 3339 times is a parameter too;
  decoding the value read is not.
\<close>

section \<open>Domain\<close>

type_synonym IssueState = string

abbreviation (input) IssueStateOpen :: IssueState where "IssueStateOpen \<equiv> ''Open''"
abbreviation (input) IssueStateCancelled :: IssueState where "IssueStateCancelled \<equiv> ''Cancelled''"

record Issue =
  is_ID :: string
  is_Title :: string
  is_Body :: string
  is_State :: IssueState
  is_Priority :: int
  is_Labels :: "string list"
  is_CreatedAt :: go_time

record CreateIssueInput =
  ci_TeamID :: string
  ci_Title :: string
  ci_Body :: string
  ci_Labels :: "string list"
  ci_Priority :: int

text \<open>The port: every operation passes the service's state on.\<close>

record 's LinearAPIClient =
  lc_FindIssuesByLabel :: "string \<Rightarrow> 's \<Rightarrow> (go_error + Issue list) \<times> 's"
  lc_CreateIssue :: "CreateIssueInput \<Rightarrow> 's \<Rightarrow> (go_error + Issue) \<times> 's"
  lc_UpdateIssue :: "string \<Rightarrow> string \<Rightarrow> 's \<Rightarrow> (go_error + Issue) \<times> 's"
  lc_AddComment :: "string \<Rightarrow> string \<Rightarrow> 's \<Rightarrow> go_error option \<times> 's"
  lc_ArchiveIssue :: "string \<Rightarrow> 's \<Rightarrow> go_error option \<times> 's"
  lc_EnsureLabelByName :: "string \<Rightarrow> string \<Rightarrow> 's \<Rightarrow> (go_error + string) \<times> 's"

section \<open>The GraphQL exchange\<close>

text \<open>The query or mutation with its variables.\<close>

datatype gqlRequest =
    is_QueryFind: QueryFind (gq_label: string)
  | is_MutationCreate: MutationCreate (gq_teamId: string) (gq_title: string) (gq_description: string) (gq_priority: int) (gq_labelIds: "string list")
  | is_MutationUpdate: MutationUpdate (gq_id: string) (gq_newDescription: string)
  | is_MutationAddComment: MutationAddComment (gq_issueId: string) (gq_body: string)
  | is_MutationArchive: MutationArchive (gq_archived: string)
  | is_QueryFindLabel: QueryFindLabel (gq_name: string) (gq_team: string)
  | is_MutationCreateLabel: MutationCreateLabel (gq_labelName: string) (gq_labelTeam: string)

text \<open>What \<open>http.Client.Do\<close> gives: no response, or a status and the body as far as it can be read.\<close>

datatype http_reply = NoReply go_error | Reply int "go_error + string"

record 's gql_env =
  gx_url :: "go_error option"
  gx_post :: "gqlRequest \<Rightarrow> 's \<Rightarrow> http_reply \<times> 's"
  gx_json :: "string \<Rightarrow> go_error + jvalue"
  gx_mismatch :: "jvalue \<Rightarrow> go_error"
  gx_time :: "string \<Rightarrow> go_time option"

record gqlResponse =
  gr_Data :: "jvalue option"
  gr_Errors :: "string list"

definition dec_gqlResponse :: "gqlResponse decoder" where
  "dec_gqlResponse =
     dec_struct [field ''data'' dec_raw gr_Data (\<lambda>x r. r\<lparr>gr_Data := x\<rparr>),
                 field ''errors'' (dec_slice (only ''message'' dec_string) []) gr_Errors (\<lambda>x r. r\<lparr>gr_Errors := x\<rparr>)]"

definition linear5xx :: "string \<Rightarrow> go_error \<Rightarrow> go_error" where
  "linear5xx what e =
     \<lparr>err_text = ''linear api 5xx: '' @ what @ '': '' @ err_text e, err_is = ErrLinearClient5xx # err_is e\<rparr>"

definition linear4xx :: "string \<Rightarrow> go_error \<Rightarrow> go_error" where
  "linear4xx what e =
     \<lparr>err_text = ''linear api 4xx: '' @ what @ '': '' @ err_text e, err_is = ErrLinearClient4xx # err_is e\<rparr>"

definition decode_as :: "'s gql_env \<Rightarrow> 'r decoder \<Rightarrow> jvalue \<Rightarrow> 'r \<Rightarrow> go_error + 'r" where
  "decode_as env dec j zero = (case dec j zero of None \<Rightarrow> Inl (gx_mismatch env j) | Some r \<Rightarrow> Inr r)"

text \<open>What the client makes of a reply.\<close>

definition read_reply :: "'s gql_env \<Rightarrow> 'r decoder \<Rightarrow> 'r \<Rightarrow> http_reply \<Rightarrow> go_error + 'r" where
  "read_reply env dec zero r =
     (case r of NoReply e \<Rightarrow> Inl (linear5xx ''transport'' e)
      | Reply code body \<Rightarrow>
        if code \<ge> 500 then Inl (sentinel_error ErrLinearClient5xx (''linear api 5xx: http '' @ int_dec code))
        else if code \<ge> 400 then Inl (sentinel_error ErrLinearClient4xx (''linear api 4xx: http '' @ int_dec code))
        else case body of Inl e \<Rightarrow> Inl (linear5xx ''read body'' e)
        | Inr txt \<Rightarrow>
          (case gx_json env txt of Inl e \<Rightarrow> Inl (linear4xx ''decode envelope'' e)
           | Inr j \<Rightarrow>
             (case decode_as env dec_gqlResponse j \<lparr>gr_Data = None, gr_Errors = []\<rparr> of
                Inl e \<Rightarrow> Inl (linear4xx ''decode envelope'' e)
              | Inr resp \<Rightarrow>
                if gr_Errors resp \<noteq> []
                then Inl (sentinel_error ErrLinearClient4xx (''linear api 4xx: graphql errors: '' @ hd (gr_Errors resp)))
                else (case gr_Data resp of None \<Rightarrow> Inr zero
                      | Some d \<Rightarrow> (case decode_as env dec d zero of Inl e \<Rightarrow> Inl (linear4xx ''decode data'' e) | Inr x \<Rightarrow> Inr x)))))"

definition gql_do :: "'s gql_env \<Rightarrow> gqlRequest \<Rightarrow> 'r decoder \<Rightarrow> 'r \<Rightarrow> 's \<Rightarrow> (go_error + 'r) \<times> 's" where
  "gql_do env req dec zero s =
     (case gx_url env of Some e \<Rightarrow> (Inl (wrapf ''build request'' e), s)
      | None \<Rightarrow> (case gx_post env req s of (r, s') \<Rightarrow> (read_reply env dec zero r, s')))"

section \<open>The answers\<close>

record issueNode =
  nd_ID :: string
  nd_Title :: string
  nd_CreatedAt :: go_time
  nd_State :: string
  nd_Labels :: "string list"

definition zero_node :: issueNode where
  "zero_node = \<lparr>nd_ID = [], nd_Title = [], nd_CreatedAt = 0, nd_State = [], nd_Labels = []\<rparr>"

definition node_fields :: "(string \<Rightarrow> go_time option) \<Rightarrow> issueNode fields" where
  "node_fields parse =
     [field ''id'' dec_string nd_ID (\<lambda>x n. n\<lparr>nd_ID := x\<rparr>), field ''title'' dec_string nd_Title (\<lambda>x n. n\<lparr>nd_Title := x\<rparr>),
      field ''createdAt'' (dec_time parse) nd_CreatedAt (\<lambda>x n. n\<lparr>nd_CreatedAt := x\<rparr>),
      field ''state'' (only ''name'' dec_string) nd_State (\<lambda>x n. n\<lparr>nd_State := x\<rparr>)]"

definition label_field :: "string \<times> issueNode decoder" where
  "label_field = field ''labels'' (only ''nodes'' (dec_slice (only ''name'' dec_string) [])) nd_Labels (\<lambda>x n. n\<lparr>nd_Labels := x\<rparr>)"

definition dec_issues :: "(string \<Rightarrow> go_time option) \<Rightarrow> issueNode list decoder" where
  "dec_issues parse = only ''issues'' (only ''nodes'' (dec_slice (dec_struct (node_fields parse @ [label_field])) zero_node))"

text \<open>\<open>success\<close> and the object of a mutation.\<close>

definition dec_success :: "string \<Rightarrow> string \<Rightarrow> 'a decoder \<Rightarrow> (bool \<times> 'a) decoder" where
  "dec_success mutation name dec =
     only mutation (dec_struct [field ''success'' dec_bool fst (\<lambda>x p. (x, snd p)), field name dec snd (\<lambda>x p. (fst p, x))])"

record labelNode =
  lb_ID :: string
  lb_Name :: string

definition label_fields :: "labelNode fields" where
  "label_fields = [field ''id'' dec_string lb_ID (\<lambda>x n. n\<lparr>lb_ID := x\<rparr>), field ''name'' dec_string lb_Name (\<lambda>x n. n\<lparr>lb_Name := x\<rparr>)]"

definition zero_label :: labelNode where "zero_label = \<lparr>lb_ID = [], lb_Name = []\<rparr>"

definition dec_labels :: "labelNode list decoder" where
  "dec_labels = only ''issueLabels'' (only ''nodes'' (dec_slice (dec_struct label_fields) zero_label))"

text \<open>A mutation that answers with its success only.\<close>

definition dec_done :: "string \<Rightarrow> bool decoder" where
  "dec_done mutation = only mutation (only ''success'' dec_bool)"

definition node_state :: "issueNode \<Rightarrow> IssueState" where
  "node_state n = (if nd_State n = ''Cancelled'' then IssueStateCancelled else IssueStateOpen)"

definition issue_of :: "issueNode \<Rightarrow> Issue" where
  "issue_of n = \<lparr>is_ID = nd_ID n, is_Title = nd_Title n, is_Body = [], is_State = node_state n, is_Priority = 0,
     is_Labels = nd_Labels n, is_CreatedAt = nd_CreatedAt n\<rparr>"

definition no_success :: "string \<Rightarrow> go_error" where
  "no_success what = sentinel_error ErrLinearClient4xx (''linear api 4xx: '' @ what @ ''.success=false'')"

section \<open>The client\<close>

definition FindIssuesByLabel :: "'s gql_env \<Rightarrow> string \<Rightarrow> 's \<Rightarrow> (go_error + Issue list) \<times> 's" where
  "FindIssuesByLabel env label s =
     (case gql_do env (QueryFind label) (dec_issues (gx_time env)) [] s of
        (Inl e, s') \<Rightarrow> (Inl e, s') | (Inr nodes, s') \<Rightarrow> (Inr (map issue_of nodes), s'))"

definition EnsureLabelByName :: "'s gql_env \<Rightarrow> string \<Rightarrow> string \<Rightarrow> 's \<Rightarrow> (go_error + string) \<times> 's" where
  "EnsureLabelByName env teamID name s =
     (case gql_do env (QueryFindLabel name teamID) dec_labels [] s of
        (Inl e, s1) \<Rightarrow> (Inl (wrapf (''query label by name '' @ quoted name) e), s1)
      | (Inr (n # _), s1) \<Rightarrow> (Inr (lb_ID n), s1)
      | (Inr [], s1) \<Rightarrow>
        (case gql_do env (MutationCreateLabel name teamID) (dec_success ''issueLabelCreate'' ''issueLabel'' (dec_struct label_fields))
                (False, zero_label) s1 of
           (Inl e, s2) \<Rightarrow>
             (case gql_do env (QueryFindLabel name teamID) dec_labels [] s2 of
                (Inr (n # _), s3) \<Rightarrow> (Inr (lb_ID n), s3)
              | (_, s3) \<Rightarrow> (Inl (wrapf (''create label '' @ quoted name) e), s3))
         | (Inr (ok, n), s2) \<Rightarrow>
             if \<not> ok then (Inl (errorf (''issueLabelCreate.success=false for '' @ quoted name)), s2)
             else (Inr (lb_ID n), s2)))"

fun ensure_labels :: "'s gql_env \<Rightarrow> string \<Rightarrow> string list \<Rightarrow> 's \<Rightarrow> (go_error + string list) \<times> 's" where
  "ensure_labels env teamID [] s = (Inr [], s)"
| "ensure_labels env teamID (name # names) s =
     (case EnsureLabelByName env teamID name s of
        (Inl e, s') \<Rightarrow> (Inl (wrapf (''ensure label '' @ quoted name) e), s')
      | (Inr i, s') \<Rightarrow>
        (case ensure_labels env teamID names s' of (Inl e, s'') \<Rightarrow> (Inl e, s'') | (Inr ids, s'') \<Rightarrow> (Inr (i # ids), s'')))"

text \<open>The issue a mutation answers with.\<close>

definition mutated_issue :: "string \<Rightarrow> (go_error + bool \<times> issueNode) \<times> 's \<Rightarrow> (go_error + Issue) \<times> 's" where
  "mutated_issue what r =
     (case r of (Inl e, s') \<Rightarrow> (Inl e, s')
      | (Inr (ok, n), s') \<Rightarrow> (if \<not> ok then (Inl (no_success what), s') else (Inr (issue_of n), s')))"

definition CreateIssue :: "'s gql_env \<Rightarrow> CreateIssueInput \<Rightarrow> 's \<Rightarrow> (go_error + Issue) \<times> 's" where
  "CreateIssue env inp s =
     (case ensure_labels env (ci_TeamID inp) (ci_Labels inp) s of (Inl e, s1) \<Rightarrow> (Inl e, s1)
      | (Inr ids, s1) \<Rightarrow>
        mutated_issue ''issueCreate''
          (gql_do env (MutationCreate (ci_TeamID inp) (ci_Title inp) (ci_Body inp) (ci_Priority inp) ids)
             (dec_success ''issueCreate'' ''issue'' (dec_struct (node_fields (gx_time env)))) (False, zero_node) s1))"

definition UpdateIssue :: "'s gql_env \<Rightarrow> string \<Rightarrow> string \<Rightarrow> 's \<Rightarrow> (go_error + Issue) \<times> 's" where
  "UpdateIssue env i body s =
     mutated_issue ''issueUpdate''
       (gql_do env (MutationUpdate i body)
          (dec_success ''issueUpdate'' ''issue'' (dec_struct (node_fields (gx_time env)))) (False, zero_node) s)"

definition mutation_done :: "string \<Rightarrow> (go_error + bool) \<times> 's \<Rightarrow> go_error option \<times> 's" where
  "mutation_done what r =
     (case r of (Inl e, s') \<Rightarrow> (Some e, s') | (Inr ok, s') \<Rightarrow> (if \<not> ok then (Some (no_success what), s') else (None, s')))"

definition AddComment :: "'s gql_env \<Rightarrow> string \<Rightarrow> string \<Rightarrow> 's \<Rightarrow> go_error option \<times> 's" where
  "AddComment env i body s =
     mutation_done ''commentCreate'' (gql_do env (MutationAddComment i body) (dec_done ''commentCreate'') False s)"

definition ArchiveIssue :: "'s gql_env \<Rightarrow> string \<Rightarrow> 's \<Rightarrow> go_error option \<times> 's" where
  "ArchiveIssue env i s =
     mutation_done ''issueArchive'' (gql_do env (MutationArchive i) (dec_done ''issueArchive'') False s)"

definition NewLinearGraphQLClient :: "'s gql_env \<Rightarrow> 's LinearAPIClient" where
  "NewLinearGraphQLClient env =
     \<lparr>lc_FindIssuesByLabel = FindIssuesByLabel env, lc_CreateIssue = CreateIssue env, lc_UpdateIssue = UpdateIssue env,
      lc_AddComment = AddComment env, lc_ArchiveIssue = ArchiveIssue env, lc_EnsureLabelByName = EnsureLabelByName env\<rparr>"

end
