(* ===== verification/Linear_Lifecycle.thy ===== *)
theory Linear_Lifecycle
  imports Linear_Client Sha256 "HOL-Library.Multiset"
begin

text \<open>
  The Linear integration's use cases (\<open>internal/integrations/linear/application\<close>) and the rest of
  its domain: severities, the label that identifies an alert group, the rendered issue, the
  firing and resolved branches, and the webhook handler with its status mapping.
\<close>

section \<open>Severity and deduplication label\<close>

type_synonym Severity = string

abbreviation (input) SeverityCritical :: Severity where "SeverityCritical \<equiv> ''critical''"
abbreviation (input) SeverityWarning :: Severity where "SeverityWarning \<equiv> ''warning''"

definition ParseSeverity :: "string \<Rightarrow> go_error + Severity" where
  "ParseSeverity s =
     (if s = SeverityCritical then Inr SeverityCritical
      else if s = SeverityWarning then Inr SeverityWarning
      else Inl (errorf (''unsupported severity '' @ quoted s @ '' (expected '' @ quoted SeverityCritical @ '' or '' @
             quoted SeverityWarning @ '')'')))"

definition LinearPriority :: "Severity \<Rightarrow> int" where
  "LinearPriority s = (if s = SeverityCritical then 1 else if s = SeverityWarning then 3 else 0)"

definition DedupLabel :: "string \<Rightarrow> string" where
  "DedupLabel groupKey = ''alert:'' @ take 12 (hex_EncodeToString (Sum256 groupKey))"

definition DedupLabelConst :: string where "DedupLabelConst = ''alert-managed''"

section \<open>Rendering\<close>

definition rfc3339 :: "go_time \<Rightarrow> string" where
  "rfc3339 t =
     (let secs = nat t div 1000000000; sod = secs mod 86400; (y, m, d) = civil_of_days (secs div 86400)
      in pad 4 y @ ''-'' @ pad 2 m @ ''-'' @ pad 2 d @ ''T'' @
         pad 2 (sod div 3600) @ '':'' @ pad 2 (sod div 60 mod 60) @ '':'' @ pad 2 (sod mod 60) @ ''Z'')"

record RenderInput =
  ri_Alertname :: string
  ri_Severity :: Severity
  ri_Capability :: string
  ri_FirstFiredAt :: go_time
  ri_LastUpdate :: go_time
  ri_ActiveCount :: int
  ri_Summary :: string
  ri_Description :: string
  ri_ExternalURL :: string
  ri_Runbook :: string
  ri_Dashboard :: string
  ri_GroupKey :: string

definition BuildTitle :: "Severity \<Rightarrow> string \<Rightarrow> string \<Rightarrow> string" where
  "BuildTitle sev alertname capability =
     (let pre = (if sev = SeverityCritical then ''[CRIT]'' else ''[WARN]'')
      in if capability = [] then pre @ '' '' @ alertname
         else pre @ '' '' @ alertname @ '' '' @ em_dash @ '' '' @ capability)"

definition BuildLabels :: "Severity \<Rightarrow> string \<Rightarrow> string \<Rightarrow> string list" where
  "BuildLabels sev capability groupKey =
     [DedupLabelConst, DedupLabel groupKey, ''severity:'' @ sev] @
     (if capability \<noteq> [] then [''capability:'' @ capability] else [])"

definition newline :: string where "newline = [CHR 0x0A]"

definition BuildBody :: "RenderInput \<Rightarrow> string" where
  "BuildBody inp =
     ''**Alert:** '' @ ri_Alertname inp @ newline @
     ''**Severity:** '' @ ri_Severity inp @ newline @
     (if ri_Capability inp \<noteq> [] then ''**Capability:** '' @ ri_Capability inp @ newline else []) @
     ''**First fired:** '' @ rfc3339 (ri_FirstFiredAt inp) @ newline @
     ''**Last update:** '' @ rfc3339 (ri_LastUpdate inp) @ newline @
     ''**Active alerts in group:** '' @ int_dec (ri_ActiveCount inp) @ newline @ newline @
     ''## Summary'' @ newline @ ''> '' @ ri_Summary inp @ newline @ newline @
     (if ri_Description inp \<noteq> []
      then ''## Description'' @ newline @ ''> '' @ ri_Description inp @ newline @ newline else []) @
     ''## Links'' @ newline @ ''- [Alertmanager view]('' @ ri_ExternalURL inp @ '')'' @ newline @
     (if ri_Runbook inp \<noteq> [] then ''- [Runbook]('' @ ri_Runbook inp @ '')'' @ newline else []) @
     (if ri_Dashboard inp \<noteq> [] then ''- [Dashboard]('' @ ri_Dashboard inp @ '')'' @ newline else []) @
     newline @ ''---'' @ newline @ newline @
     ''<!-- linear-webhook-adapter dedup metadata. Debug only. Do not edit. -->'' @ newline @
     ''<!-- groupKey: '' @ ri_GroupKey inp @ '' -->'' @ newline @
     ''<!-- dedup_label: '' @ DedupLabel (ri_GroupKey inp) @ '' -->'' @ newline"

section \<open>Lifecycle\<close>

record WebhookEvent =
  we_Status :: string
  we_GroupKey :: string
  we_Severity :: Severity
  we_Alertname :: string
  we_Capability :: string
  we_FirstFiredAt :: go_time
  we_ActiveCount :: int
  we_Summary :: string
  we_Description :: string
  we_ExternalURL :: string
  we_Runbook :: string
  we_Dashboard :: string

text \<open>\<open>sort.Slice\<close> leaves the order of equal elements open, so the sort is a field of the configuration.\<close>

record 's LifecycleConfig =
  lf_Client :: "'s LinearAPIClient"
  lf_TeamID :: string
  lf_RecommentMinInterval :: duration
  lf_sort :: "Issue list \<Rightarrow> Issue list"

definition pickMostRecentOpen :: "(Issue list \<Rightarrow> Issue list) \<Rightarrow> Issue list \<Rightarrow> Issue option" where
  "pickMostRecentOpen srt xs =
     (let opn = filter (\<lambda>i. is_State i = IssueStateOpen) xs
      in if opn = [] then None else Some (hd (srt opn)))"

definition render_event :: "WebhookEvent \<Rightarrow> go_time \<Rightarrow> RenderInput" where
  "render_event ev now =
     \<lparr>ri_Alertname = we_Alertname ev, ri_Severity = we_Severity ev, ri_Capability = we_Capability ev,
      ri_FirstFiredAt = we_FirstFiredAt ev, ri_LastUpdate = now, ri_ActiveCount = we_ActiveCount ev,
      ri_Summary = we_Summary ev, ri_Description = we_Description ev, ri_ExternalURL = we_ExternalURL ev,
      ri_Runbook = we_Runbook ev, ri_Dashboard = we_Dashboard ev, ri_GroupKey = we_GroupKey ev\<rparr>"

definition find_failed :: "WebhookEvent \<Rightarrow> go_error \<Rightarrow> go_error" where
  "find_failed ev e = wrapf (''find issues by label '' @ quoted (DedupLabel (we_GroupKey ev))) e"

definition handleFiring :: "'s LifecycleConfig \<Rightarrow> WebhookEvent \<Rightarrow> go_time \<Rightarrow> 's \<Rightarrow> go_error option \<times> 's" where
  "handleFiring cfg ev now s =
     (case lc_FindIssuesByLabel (lf_Client cfg) (DedupLabel (we_GroupKey ev)) s of
        (Inl e, s1) \<Rightarrow> (Some (find_failed ev e), s1)
      | (Inr existing, s1) \<Rightarrow>
        let body = BuildBody (render_event ev now) in
        (case pickMostRecentOpen (lf_sort cfg) existing of
           None \<Rightarrow>
             (case lc_CreateIssue (lf_Client cfg)
                \<lparr>ci_TeamID = lf_TeamID cfg, ci_Title = BuildTitle (we_Severity ev) (we_Alertname ev) (we_Capability ev),
                 ci_Body = body, ci_Labels = BuildLabels (we_Severity ev) (we_Capability ev) (we_GroupKey ev),
                 ci_Priority = LinearPriority (we_Severity ev)\<rparr> s1 of
                (Inl e, s2) \<Rightarrow> (Some (wrapf ''create issue'' e), s2)
              | (Inr _, s2) \<Rightarrow> (None, s2))
         | Some i \<Rightarrow>
             (case lc_UpdateIssue (lf_Client cfg) (is_ID i) body s1 of
                (Inl e, s2) \<Rightarrow> (Some (wrapf (''update issue '' @ is_ID i) e), s2)
              | (Inr _, s2) \<Rightarrow>
                if Sub now (is_CreatedAt i) \<ge> lf_RecommentMinInterval cfg then
                  (case lc_AddComment (lf_Client cfg) (is_ID i)
                     (''Re-firing at '' @ rfc3339 now @ ''; '' @ int_dec (we_ActiveCount ev) @ '' active alerts in group.'') s2 of
                     (Some e, s3) \<Rightarrow> (Some (wrapf (''add re-firing comment to '' @ is_ID i) e), s3)
                   | (None, s3) \<Rightarrow> (None, s3))
                else (None, s2))))"

definition handleResolved :: "'s LifecycleConfig \<Rightarrow> WebhookEvent \<Rightarrow> go_time \<Rightarrow> 's \<Rightarrow> go_error option \<times> 's" where
  "handleResolved cfg ev now s =
     (case lc_FindIssuesByLabel (lf_Client cfg) (DedupLabel (we_GroupKey ev)) s of
        (Inl e, s1) \<Rightarrow> (Some (find_failed ev e), s1)
      | (Inr existing, s1) \<Rightarrow>
        (case pickMostRecentOpen (lf_sort cfg) existing of None \<Rightarrow> (None, s1)
         | Some i \<Rightarrow>
           (let dur = go_quot (Sub now (we_FirstFiredAt ev)) Second * Second
            in case lc_AddComment (lf_Client cfg) (is_ID i)
                 (''Resolved at '' @ rfc3339 now @ '', duration '' @ duration_str dur @ ''.'') s1 of
                 (Some e, s2) \<Rightarrow> (Some (wrapf (''add resolution comment to '' @ is_ID i) e), s2)
               | (None, s2) \<Rightarrow>
                 (case lc_ArchiveIssue (lf_Client cfg) (is_ID i) s2 of
                    (Some e, s3) \<Rightarrow> (Some (wrapf (''archive issue '' @ is_ID i) e), s3)
                  | (None, s3) \<Rightarrow> (None, s3)))))"

definition Handle :: "'s LifecycleConfig \<Rightarrow> WebhookEvent \<Rightarrow> go_time \<Rightarrow> 's \<Rightarrow> go_error option \<times> 's" where
  "Handle cfg ev now s =
     (if we_Status ev = ''firing'' then handleFiring cfg ev now s
      else if we_Status ev = ''resolved'' then handleResolved cfg ev now s
      else (Some (errorf (''unknown status '' @ quoted (we_Status ev) @ '' (expected 'firing' or 'resolved')'')), s))"

text \<open>Events handled one after another, each at the time the clock showed.\<close>

fun Handle_all :: "'s LifecycleConfig \<Rightarrow> (WebhookEvent \<times> go_time) list \<Rightarrow> 's \<Rightarrow> go_error option list \<times> 's" where
  "Handle_all cfg [] s = ([], s)"
| "Handle_all cfg ((ev, now) # evs) s =
     (case Handle cfg ev now s of (r, s') \<Rightarrow> (case Handle_all cfg evs s' of (rs, s'') \<Rightarrow> (r # rs, s'')))"

section \<open>Webhook handler\<close>

record alert =
  al_Status :: string
  al_StartsAt :: go_time
  al_Fingerprint :: string
  al_Labels :: smap

record alertmanagerPayload =
  ap_Version :: string
  ap_GroupKey :: string
  ap_Status :: string
  ap_Receiver :: string
  ap_Alerts :: "alert list"
  ap_GroupLabels :: smap
  ap_CommonLabels :: smap
  ap_CommonAnnotations :: smap
  ap_ExternalURL :: string

definition dec_alert :: "(string \<Rightarrow> go_time option) \<Rightarrow> alert decoder" where
  "dec_alert parse =
     dec_struct [field ''status'' dec_string al_Status (\<lambda>x a. a\<lparr>al_Status := x\<rparr>),
       field ''startsAt'' (dec_time parse) al_StartsAt (\<lambda>x a. a\<lparr>al_StartsAt := x\<rparr>),
       field ''fingerprint'' dec_string al_Fingerprint (\<lambda>x a. a\<lparr>al_Fingerprint := x\<rparr>),
       field ''labels'' dec_smap al_Labels (\<lambda>x a. a\<lparr>al_Labels := x\<rparr>)]"

definition dec_payload :: "(string \<Rightarrow> go_time option) \<Rightarrow> alertmanagerPayload decoder" where
  "dec_payload parse =
     dec_struct [field ''version'' dec_string ap_Version (\<lambda>x p. p\<lparr>ap_Version := x\<rparr>),
       field ''groupKey'' dec_string ap_GroupKey (\<lambda>x p. p\<lparr>ap_GroupKey := x\<rparr>),
       field ''status'' dec_string ap_Status (\<lambda>x p. p\<lparr>ap_Status := x\<rparr>),
       field ''receiver'' dec_string ap_Receiver (\<lambda>x p. p\<lparr>ap_Receiver := x\<rparr>),
       field ''alerts'' (dec_slice (dec_alert parse) \<lparr>al_Status = [], al_StartsAt = 0, al_Fingerprint = [], al_Labels = []\<rparr>)
         ap_Alerts (\<lambda>x p. p\<lparr>ap_Alerts := x\<rparr>),
       field ''groupLabels'' dec_smap ap_GroupLabels (\<lambda>x p. p\<lparr>ap_GroupLabels := x\<rparr>),
       field ''commonLabels'' dec_smap ap_CommonLabels (\<lambda>x p. p\<lparr>ap_CommonLabels := x\<rparr>),
       field ''commonAnnotations'' dec_smap ap_CommonAnnotations (\<lambda>x p. p\<lparr>ap_CommonAnnotations := x\<rparr>),
       field ''externalURL'' dec_string ap_ExternalURL (\<lambda>x p. p\<lparr>ap_ExternalURL := x\<rparr>)]"

definition zero_payload :: alertmanagerPayload where
  "zero_payload = \<lparr>ap_Version = [], ap_GroupKey = [], ap_Status = [], ap_Receiver = [], ap_Alerts = [], ap_GroupLabels = [],
     ap_CommonLabels = [], ap_CommonAnnotations = [], ap_ExternalURL = []\<rparr>"

definition projectPayload :: "go_time \<Rightarrow> alertmanagerPayload \<Rightarrow> go_error + WebhookEvent" where
  "projectPayload now p =
     (if ap_GroupKey p = [] then Inl (errorf ''missing groupKey'')
      else if ap_Status p \<noteq> ''firing'' \<and> ap_Status p \<noteq> ''resolved''
      then Inl (errorf (''status must be 'firing' or 'resolved'' @ [CHR 0x27]))
      else case ParseSeverity (map_get (ap_CommonLabels p) ''severity'') of Inl e \<Rightarrow> Inl e
      | Inr sev \<Rightarrow>
        let alertname = map_get (ap_CommonLabels p) ''alertname'' in
        if alertname = [] then Inl (errorf ''missing commonLabels.alertname'')
        else let first = (case ap_Alerts p of a # _ \<Rightarrow> if al_StartsAt a \<noteq> 0 then al_StartsAt a else now | [] \<Rightarrow> now)
        in Inr \<lparr>we_Status = ap_Status p, we_GroupKey = ap_GroupKey p, we_Severity = sev, we_Alertname = alertname,
                we_Capability = map_get (ap_CommonLabels p) ''capability'', we_FirstFiredAt = first,
                we_ActiveCount = int (length (ap_Alerts p)), we_Summary = map_get (ap_CommonAnnotations p) ''summary'',
                we_Description = map_get (ap_CommonAnnotations p) ''description'', we_ExternalURL = ap_ExternalURL p,
                we_Runbook = map_get (ap_CommonAnnotations p) ''runbook'',
                we_Dashboard = map_get (ap_CommonAnnotations p) ''dashboard''\<rparr>)"

text \<open>Reading the first JSON value of the body is the lexer's; what follows it is discarded.\<close>

record webhook_env =
  wh_json :: "string \<Rightarrow> go_error + jvalue"
  wh_time :: "string \<Rightarrow> go_time option"

record webhook_reply =
  wr_code :: int
  wr_body :: string

definition http_Error :: "string \<Rightarrow> int \<Rightarrow> webhook_reply" where
  "http_Error msg code = \<lparr>wr_code = code, wr_body = msg @ newline\<rparr>"

definition lifecycle_reply :: "go_error option \<Rightarrow> webhook_reply" where
  "lifecycle_reply r =
     (case r of None \<Rightarrow> \<lparr>wr_code = 200, wr_body = ''ok''\<rparr>
      | Some e \<Rightarrow> if errors_Is e ErrLinearClient5xx then http_Error ''upstream linear error'' 502
                  else if errors_Is e ErrLinearClient4xx then http_Error ''linear client error'' 500
                  else http_Error ''lifecycle error'' 500)"

definition decode_payload :: "webhook_env \<Rightarrow> string \<Rightarrow> alertmanagerPayload option" where
  "decode_payload env body =
     (case wh_json env body of Inl _ \<Rightarrow> None | Inr j \<Rightarrow> dec_payload (wh_time env) j zero_payload)"

definition linear_ServeHTTP ::
  "webhook_env \<Rightarrow> (WebhookEvent \<Rightarrow> 's \<Rightarrow> go_error option \<times> 's) \<Rightarrow> go_time \<Rightarrow> string \<Rightarrow> string \<Rightarrow> 's \<Rightarrow> webhook_reply \<times> 's" where
  "linear_ServeHTTP env lc now meth body s =
     (if meth \<noteq> ''POST'' then (http_Error ''method not allowed'' 405, s)
      else case decode_payload env body of None \<Rightarrow> (http_Error ''invalid json'' 400, s)
      | Some p \<Rightarrow>
        (case projectPayload now p of Inl e \<Rightarrow> (http_Error (''invalid payload: '' @ err_text e) 400, s)
         | Inr ev \<Rightarrow> (case lc ev s of (r, s') \<Rightarrow> (lifecycle_reply r, s'))))"

end
