(* ===== verification/Linear_Properties.thy ===== *)
theory Linear_Properties
  imports Linear_Lifecycle
begin

text \<open>
  What the Linear integration guarantees, on what the service documents: the contract of the
  issue-tracker port with the lifecycle's lemmas, the GraphQL client as a provider of that
  contract, and the properties of the lifecycle and of the webhook.
\<close>

section \<open>The port's contract\<close>

definition carries :: "string \<Rightarrow> Issue \<Rightarrow> bool" where
  "carries l i \<longleftrightarrow> l \<in> set (is_Labels i)"

definition tag :: "Issue \<Rightarrow> string \<times> go_time" where
  "tag i = (is_ID i, is_CreatedAt i)"

definition set_body :: "string \<Rightarrow> string \<Rightarrow> Issue \<Rightarrow> Issue" where
  "set_body i body x = (if is_ID x = i then x\<lparr>is_Body := body\<rparr> else x)"

text \<open>
  \<open>opens\<close> are the open issues of the service. A search that succeeds names the open issues with
  the label; a mutation that succeeds did what it says, one that fails did that or nothing.
\<close>

locale issue_tracker =
  fixes lawful :: bool and client :: "'s LinearAPIClient" and opens :: "'s \<Rightarrow> Issue list"
  assumes find_frame: "\<lbrakk>lawful; lc_FindIssuesByLabel client l s = (r, s')\<rbrakk> \<Longrightarrow> opens s' = opens s"
    and find_opens: "\<lbrakk>lawful; lc_FindIssuesByLabel client l s = (Inr xs, s')\<rbrakk> \<Longrightarrow>
      tag ` {x \<in> set xs. is_State x = IssueStateOpen} = tag ` {i \<in> set (opens s). carries l i}"
    and create_law: "\<lbrakk>lawful; lc_CreateIssue client inp s = (c, s')\<rbrakk> \<Longrightarrow>
      opens s' = opens s \<and> isl c \<or>
      (\<exists>i. opens s' = i # opens s \<and> is_Labels i = ci_Labels inp \<and> is_Body i = ci_Body inp)"
    and update_law: "\<lbrakk>lawful; lc_UpdateIssue client k body s = (c, s')\<rbrakk> \<Longrightarrow>
      opens s' = opens s \<and> isl c \<or> opens s' = map (set_body k body) (opens s)"
    and comment_law: "\<lbrakk>lawful; lc_AddComment client k body s = (e, s')\<rbrakk> \<Longrightarrow> opens s' = opens s"
    and archive_law: "\<lbrakk>lawful; lc_ArchiveIssue client k s = (e, s')\<rbrakk> \<Longrightarrow>
      opens s' = opens s \<and> e \<noteq> None \<or> opens s' = filter (\<lambda>i. is_ID i \<noteq> k) (opens s)"

text \<open>What the most recent open issue is, whatever the sort does with equal times.\<close>

definition sorts_recent :: "(Issue list \<Rightarrow> Issue list) \<Rightarrow> bool" where
  "sorts_recent srt \<longleftrightarrow>
     (\<forall>xs. mset (srt xs) = mset xs \<and> sorted_wrt (\<lambda>a b. is_CreatedAt b \<le> is_CreatedAt a) (srt xs))"

lemma pick_None:
  "pickMostRecentOpen srt xs = None \<longleftrightarrow> {x \<in> set xs. is_State x = IssueStateOpen} = {}"
  by (auto simp: pickMostRecentOpen_def Let_def filter_empty_conv)

lemma pick_Some:
  assumes "sorts_recent srt" and "pickMostRecentOpen srt xs = Some i"
  shows "i \<in> {x \<in> set xs. is_State x = IssueStateOpen}"
    and "\<forall>x \<in> {x \<in> set xs. is_State x = IssueStateOpen}. is_CreatedAt x \<le> is_CreatedAt i"
proof -
  let ?o = "filter (\<lambda>i. is_State i = IssueStateOpen) xs"
  from assms have ne: "?o \<noteq> []" and i: "i = hd (srt ?o)"
    by (auto simp: pickMostRecentOpen_def Let_def split: if_splits)
  from assms(1) have m: "mset (srt ?o) = mset ?o" and s: "sorted_wrt (\<lambda>a b. is_CreatedAt b \<le> is_CreatedAt a) (srt ?o)"
    by (auto simp: sorts_recent_def)
  from m have eq: "set (srt ?o) = set ?o" by (rule mset_eq_setD)
  then obtain y ys where y: "srt ?o = y # ys" using ne by (cases "srt ?o") auto
  then have "i \<in> set (srt ?o)" using i by simp
  with eq show "i \<in> {x \<in> set xs. is_State x = IssueStateOpen}" by auto
  have "\<forall>x \<in> set (srt ?o). is_CreatedAt x \<le> is_CreatedAt i" using s i by (simp add: y)
  with eq show "\<forall>x \<in> {x \<in> set xs. is_State x = IssueStateOpen}. is_CreatedAt x \<le> is_CreatedAt i" by auto
qed

section \<open>Labels of different groups\<close>

lemma BuildLabels_dedup: "DedupLabel k \<in> set (BuildLabels sev cap g) \<longleftrightarrow> DedupLabel k = DedupLabel g"
  by (auto simp: BuildLabels_def DedupLabelConst_def DedupLabel_def)

section \<open>The lifecycle over the contract\<close>

text \<open>How many open issues a group has.\<close>

definition open_count :: "string \<Rightarrow> Issue list \<Rightarrow> nat" where
  "open_count k xs = length (filter (carries (DedupLabel k)) xs)"

lemma open_count_set_body [simp]: "open_count k (map (set_body i body) xs) = open_count k xs"
  by (induction xs) (auto simp: open_count_def set_body_def carries_def)

lemma open_count_filter: "open_count k (filter P xs) \<le> open_count k xs"
  by (induction xs) (auto simp: open_count_def)

lemma open_count_zero: "open_count k xs = 0 \<longleftrightarrow> {i \<in> set xs. carries (DedupLabel k) i} = {}"
  by (auto simp: open_count_def filter_empty_conv)

context issue_tracker begin

lemma create_bound:
  assumes lawful and free: "open_count (we_GroupKey ev) (opens s) = 0"
    and run: "lc_CreateIssue client inp s = (r, s')"
    and lab: "ci_Labels inp = BuildLabels (we_Severity ev) (we_Capability ev) (we_GroupKey ev)"
  shows "open_count k (opens s') \<le> max 1 (open_count k (opens s))"
proof -
  consider "opens s' = opens s" | i where "opens s' = i # opens s" "is_Labels i = ci_Labels inp"
    using create_law [OF \<open>lawful\<close> run] by blast
  then show ?thesis
  proof cases
    case 2
    have "carries (DedupLabel k) i \<Longrightarrow> open_count k (opens s) = 0"
      using free by (simp add: carries_def 2(2) lab BuildLabels_dedup open_count_def)
    then show ?thesis by (auto simp: 2(1) open_count_def)
  qed simp
qed

lemma firing_bound:
  assumes lawful and cfg: "lf_Client cfg = client" and run: "handleFiring cfg ev now s = (r, s')"
  shows "open_count k (opens s') \<le> max 1 (open_count k (opens s))"
proof -
  obtain f s1 where f: "lc_FindIssuesByLabel client (DedupLabel (we_GroupKey ev)) s = (f, s1)" by fastforce
  have s1: "opens s1 = opens s" by (rule find_frame [OF \<open>lawful\<close> f])
  show ?thesis
  proof (cases f)
    case (Inl e)
    then show ?thesis using run s1 by (auto simp: handleFiring_def cfg f)
  next
    case (Inr xs)
    note found = find_opens [OF \<open>lawful\<close> f [unfolded Inr]]
    show ?thesis
    proof (cases "pickMostRecentOpen (lf_sort cfg) xs")
      case None
      with found have "{i \<in> set (opens s). carries (DedupLabel (we_GroupKey ev)) i} = {}"
        unfolding pick_None by (metis image_is_empty)
      then have "open_count (we_GroupKey ev) (opens s1) = 0" by (simp only: open_count_zero s1)
      from create_bound [OF \<open>lawful\<close> this] show ?thesis
        using run s1 by (auto simp: handleFiring_def cfg f Inr None Let_def split: prod.splits sum.splits)
    next
      case (Some i)
      obtain u s2 where u: "lc_UpdateIssue client (is_ID i) (BuildBody (render_event ev now)) s1 = (u, s2)" by fastforce
      have s2: "open_count k (opens s2) = open_count k (opens s)"
        using update_law [OF \<open>lawful\<close> u] s1 by auto
      have "opens s' = opens s2"
        using run by (auto simp: handleFiring_def cfg f Inr Some u Let_def split: prod.splits sum.splits option.splits if_splits
            dest: comment_law [OF \<open>lawful\<close>])
      with s2 show ?thesis by simp
    qed
  qed
qed

lemma resolved_bound:
  assumes lawful and cfg: "lf_Client cfg = client" and run: "handleResolved cfg ev now s = (r, s')"
  shows "opens s' = opens s \<or> (\<exists>i. opens s' = filter (\<lambda>x. is_ID x \<noteq> i) (opens s))"
proof -
  obtain f s1 where f: "lc_FindIssuesByLabel client (DedupLabel (we_GroupKey ev)) s = (f, s1)" by fastforce
  have s1: "opens s1 = opens s" by (rule find_frame [OF \<open>lawful\<close> f])
  show ?thesis
  proof (cases "opens s' = opens s")
    case False
    with run s1 obtain xs i where xs: "f = Inr xs" and i: "pickMostRecentOpen (lf_sort cfg) xs = Some i"
      by (auto simp: handleResolved_def cfg f split: sum.splits option.splits)
    with run obtain body e s2 where c: "lc_AddComment client (is_ID i) body s1 = (e, s2)"
      and rest: "s' = s2 \<or> (\<exists>e'. lc_ArchiveIssue client (is_ID i) s2 = (e', s'))"
      by (auto simp: handleResolved_def cfg f Let_def split: prod.splits option.splits)
    have "opens s2 = opens s" using comment_law [OF \<open>lawful\<close> c] s1 by simp
    with rest False archive_law [OF \<open>lawful\<close>] show ?thesis by metis
  qed simp
qed

lemma Handle_bound:
  assumes lawful and "lf_Client cfg = client" and "Handle cfg ev now s = (r, s')"
  shows "open_count k (opens s') \<le> max 1 (open_count k (opens s))"
proof -
  consider "handleFiring cfg ev now s = (r, s')" | "handleResolved cfg ev now s = (r, s')" | "s' = s"
    using assms(3) by (auto simp: Handle_def split: if_splits)
  then show ?thesis
  proof cases
    case 1
    then show ?thesis by (rule firing_bound [OF assms(1,2)])
  next
    case 2
    from resolved_bound [OF assms(1,2) this] have "open_count k (opens s') \<le> open_count k (opens s)"
      using open_count_filter by fastforce
    then show ?thesis by simp
  qed simp
qed

lemma Handle_all_bound:
  assumes lawful and "lf_Client cfg = client"
  shows "open_count k (opens (snd (Handle_all cfg evs s))) \<le> max 1 (open_count k (opens s))"
proof (induction evs arbitrary: s)
  case (Cons e evs)
  obtain ev now where e: "e = (ev, now)" by fastforce
  obtain r s1 where h: "Handle cfg ev now s = (r, s1)" by fastforce
  have "open_count k (opens (snd (Handle_all cfg evs s1))) \<le> max 1 (open_count k (opens s1))" by (rule Cons.IH)
  also have "\<dots> \<le> max 1 (open_count k (opens s))" using Handle_bound [OF assms h, of k] by simp
  finally show ?case by (cases "Handle_all cfg evs s1") (simp add: e h)
qed simp

lemma firing_effect:
  assumes lawful and srt: "sorts_recent (lf_sort cfg)" and cfg: "lf_Client cfg = client"
    and run: "handleFiring cfg ev now s = (None, s')"
  shows "\<exists>i \<in> set (opens s'). carries (DedupLabel (we_GroupKey ev)) i \<and> is_Body i = BuildBody (render_event ev now)"
proof -
  let ?l = "DedupLabel (we_GroupKey ev)" and ?b = "BuildBody (render_event ev now)"
  from run obtain xs s1 where f: "lc_FindIssuesByLabel client ?l s = (Inr xs, s1)"
    by (auto simp: handleFiring_def cfg split: prod.splits sum.splits)
  note found = find_opens [OF \<open>lawful\<close> f] find_frame [OF \<open>lawful\<close> f]
  show ?thesis
  proof (cases "pickMostRecentOpen (lf_sort cfg) xs")
    case None
    with run f cfg obtain inp x where c: "lc_CreateIssue client inp s1 = (Inr x, s')"
      and inp: "ci_Body inp = ?b" "?l \<in> set (ci_Labels inp)"
      by (fastforce simp: handleFiring_def Let_def BuildLabels_def split: prod.splits sum.splits)
    from create_law [OF \<open>lawful\<close> c] inp show ?thesis by (auto simp: carries_def)
  next
    case (Some p)
    from pick_Some(1) [OF srt Some] have "tag p \<in> tag ` {i \<in> set (opens s). carries ?l i}" unfolding found(1) [symmetric] by blast
    then obtain i where i: "i \<in> set (opens s)" "carries ?l i" "is_ID i = is_ID p" by (auto simp: tag_def)
    from run f Some cfg obtain x s2 where u: "lc_UpdateIssue client (is_ID p) ?b s1 = (Inr x, s2)"
      and rest: "s' = s2 \<or> (\<exists>body. lc_AddComment client (is_ID p) body s2 = (None, s'))"
      by (auto simp: handleFiring_def Let_def split: prod.splits sum.splits option.splits if_splits)
    have "opens s' = map (set_body (is_ID p) ?b) (opens s)"
      using update_law [OF \<open>lawful\<close> u] rest comment_law [OF \<open>lawful\<close>] found(2) by auto
    with i show ?thesis by (intro bexI [of _ "set_body (is_ID p) ?b i"]) (auto simp: set_body_def carries_def)
  qed
qed

lemma resolved_effect:
  assumes lawful and srt: "sorts_recent (lf_sort cfg)" and cfg: "lf_Client cfg = client"
    and run: "handleResolved cfg ev now s = (None, s')"
  shows "opens s' = opens s \<and> open_count (we_GroupKey ev) (opens s) = 0 \<or>
    (\<exists>i \<in> set (opens s). carries (DedupLabel (we_GroupKey ev)) i \<and>
       (\<forall>x \<in> set (opens s). carries (DedupLabel (we_GroupKey ev)) x \<longrightarrow> is_CreatedAt x \<le> is_CreatedAt i) \<and>
       opens s' = filter (\<lambda>x. is_ID x \<noteq> is_ID i) (opens s))"
proof -
  let ?l = "DedupLabel (we_GroupKey ev)"
  from run obtain xs s1 where f: "lc_FindIssuesByLabel client ?l s = (Inr xs, s1)"
    by (auto simp: handleResolved_def cfg split: prod.splits sum.splits)
  note found = find_opens [OF \<open>lawful\<close> f] find_frame [OF \<open>lawful\<close> f]
  show ?thesis
  proof (cases "pickMostRecentOpen (lf_sort cfg) xs")
    case None
    then have "s' = s1" using run f cfg by (simp add: handleResolved_def)
    moreover have "open_count (we_GroupKey ev) (opens s) = 0"
      unfolding open_count_zero using found(1) None [unfolded pick_None] by (metis image_is_empty)
    ultimately show ?thesis using found(2) by simp
  next
    case (Some p)
    note pick = pick_Some [OF srt Some]
    from pick(1) have "tag p \<in> tag ` {i \<in> set (opens s). carries ?l i}" unfolding found(1) [symmetric] by blast
    then obtain i where i: "i \<in> set (opens s)" "carries ?l i" "is_ID i = is_ID p" "is_CreatedAt i = is_CreatedAt p"
      by (auto simp: tag_def)
    have latest: "is_CreatedAt x \<le> is_CreatedAt i" if "x \<in> set (opens s)" "carries ?l x" for x
    proof -
      from that have "tag x \<in> tag ` {x \<in> set xs. is_State x = IssueStateOpen}" unfolding found(1) by blast
      with pick(2) i(4) show ?thesis by (auto simp: tag_def)
    qed
    from run f Some cfg obtain body s2 where c: "lc_AddComment client (is_ID p) body s1 = (None, s2)"
      and a: "lc_ArchiveIssue client (is_ID p) s2 = (None, s')"
      by (auto simp: handleResolved_def Let_def split: prod.splits option.splits)
    have "opens s' = filter (\<lambda>x. is_ID x \<noteq> is_ID i) (opens s)"
      using archive_law [OF \<open>lawful\<close> a] comment_law [OF \<open>lawful\<close> c] found(2) i(3) by simp
    with i(1,2) latest show ?thesis by blast
  qed
qed

end

section \<open>The GraphQL client provides the contract\<close>

text \<open>
  What Linear's API documents, on the replies the client accepts: \<open>opens\<close> are the open issues and
  \<open>names\<close> the labels by identifier. A request has its effect or none, and has it when the reply
  reports success. Labels are neither removed nor renamed. A search by label returns the issues
  with that label; a label found or created has the name asked for.
\<close>

definition effect :: "(string \<Rightarrow> string option) \<Rightarrow> gqlRequest \<Rightarrow> Issue list \<Rightarrow> Issue list \<Rightarrow> bool" where
  "effect names req xs ys =
     (case req of
        MutationCreate team title desc prio ids \<Rightarrow>
          (\<exists>i. ys = i # xs \<and> is_Labels i = map (\<lambda>k. the (names k)) ids \<and> is_Body i = desc)
      | MutationUpdate i body \<Rightarrow> ys = map (set_body i body) xs
      | MutationArchive i \<Rightarrow> ys = filter (\<lambda>x. is_ID x \<noteq> i) xs
      | _ \<Rightarrow> ys = xs)"

definition reports_success :: "'s gql_env \<Rightarrow> gqlRequest \<Rightarrow> http_reply \<Rightarrow> bool" where
  "reports_success env req r =
     (case req of
        MutationCreate team title desc prio ids \<Rightarrow>
          (\<exists>n. read_reply env (dec_success ''issueCreate'' ''issue'' (dec_struct (node_fields (gx_time env)))) (False, zero_node) r = Inr (True, n))
      | MutationUpdate i body \<Rightarrow>
          (\<exists>n. read_reply env (dec_success ''issueUpdate'' ''issue'' (dec_struct (node_fields (gx_time env)))) (False, zero_node) r = Inr (True, n))
      | MutationArchive i \<Rightarrow> read_reply env (dec_done ''issueArchive'') False r = Inr True
      | _ \<Rightarrow> False)"

definition truthful :: "'s gql_env \<Rightarrow> Issue list \<Rightarrow> (string \<Rightarrow> string option) \<Rightarrow> gqlRequest \<Rightarrow> http_reply \<Rightarrow> bool" where
  "truthful env xs names req r =
     (case req of
        QueryFind l \<Rightarrow>
          (\<forall>nodes. read_reply env (dec_issues (gx_time env)) [] r = Inr nodes \<longrightarrow>
             (\<lambda>n. (nd_ID n, nd_CreatedAt n)) ` {n \<in> set nodes. nd_State n \<noteq> ''Cancelled''} = tag ` {i \<in> set xs. carries l i})
      | QueryFindLabel name team \<Rightarrow>
          (\<forall>nodes. read_reply env dec_labels [] r = Inr nodes \<longrightarrow> (\<forall>n \<in> set nodes. names (lb_ID n) = Some name))
      | MutationCreateLabel name team \<Rightarrow>
          (\<forall>n. read_reply env (dec_success ''issueLabelCreate'' ''issueLabel'' (dec_struct label_fields)) (False, zero_label) r = Inr (True, n) \<longrightarrow>
             names (lb_ID n) = Some name)
      | _ \<Rightarrow> True)"

definition honest_linear :: "'s gql_env \<Rightarrow> ('s \<Rightarrow> Issue list) \<Rightarrow> ('s \<Rightarrow> string \<Rightarrow> string option) \<Rightarrow> bool" where
  "honest_linear env opens names \<longleftrightarrow>
     (\<forall>req s r s'. gx_post env req s = (r, s') \<longrightarrow>
        names s \<subseteq>\<^sub>m names s' \<and>
        (opens s' = opens s \<and> \<not> reports_success env req r \<or> effect (names s) req (opens s) (opens s')) \<and>
        truthful env (opens s) (names s') req r)"

lemma gql_do_cases:
  assumes "honest_linear env opens names" and "gql_do env req dec zero s = (x, s')"
  obtains (unsent) e where "x = Inl e" "s' = s"
  | (sent) r where "gx_post env req s = (r, s')" "read_reply env dec zero r = x" "names s \<subseteq>\<^sub>m names s'"
      "opens s' = opens s \<and> \<not> reports_success env req r \<or> effect (names s) req (opens s) (opens s')"
      "truthful env (opens s) (names s') req r"
  using assms by (cases "gx_url env"; cases "gx_post env req s") (auto simp: gql_do_def honest_linear_def)

lemma gql_do_frame:
  assumes "honest_linear env opens names" and "gql_do env req dec zero s = (x, s')"
  shows "names s \<subseteq>\<^sub>m names s'" and "opens s' = opens s \<or> effect (names s) req (opens s) (opens s')"
  using assms by (auto elim: gql_do_cases)

lemma find_labels_named:
  assumes "honest_linear env opens names" and "gql_do env (QueryFindLabel name team) dec_labels [] s = (Inr nodes, s')"
    and "n \<in> set nodes"
  shows "names s' (lb_ID n) = Some name"
  using assms(1,2)
proof (cases rule: gql_do_cases)
  case (sent r)
  then show ?thesis using assms(3) by (auto simp: truthful_def)
qed simp

lemma created_label_named:
  assumes "honest_linear env opens names"
    and "gql_do env (MutationCreateLabel name team) (dec_success ''issueLabelCreate'' ''issueLabel'' (dec_struct label_fields))
      (False, zero_label) s = (Inr (True, n), s')"
  shows "names s' (lb_ID n) = Some name"
  using assms by (cases rule: gql_do_cases) (auto simp: truthful_def)

lemma label_requests_frame:
  assumes "honest_linear env opens names" and "gql_do env req dec zero s = (x, s')"
    and "is_QueryFindLabel req \<or> is_MutationCreateLabel req \<or> is_QueryFind req \<or> is_MutationAddComment req"
  shows "opens s' = opens s" "names s \<subseteq>\<^sub>m names s'"
  using gql_do_frame [OF assms(1,2)] assms(3) by (auto simp: effect_def split: gqlRequest.splits)

lemma EnsureLabel_law:
  assumes h: "honest_linear env opens names" and run: "EnsureLabelByName env team name s = (x, s')"
  shows "opens s' = opens s \<and> names s \<subseteq>\<^sub>m names s' \<and> (\<forall>i. x = Inr i \<longrightarrow> names s' i = Some name)"
proof -
  note frame = label_requests_frame [OF h]
  obtain f s1 where f: "gql_do env (QueryFindLabel name team) dec_labels [] s = (f, s1)" by fastforce
  note s1 = frame [OF f, simplified]
  show ?thesis
  proof (cases "f = Inr []")
    case False
    then show ?thesis using run f s1
      by (cases f) (auto simp: EnsureLabelByName_def split: list.splits dest: find_labels_named [OF h, of name team s])
  next
    case True
    let ?d = "dec_success ''issueLabelCreate'' ''issueLabel'' (dec_struct label_fields)"
    obtain c s2 where c: "gql_do env (MutationCreateLabel name team) ?d (False, zero_label) s1 = (c, s2)" by fastforce
    note s2 = frame [OF c, simplified]
    show ?thesis
    proof (cases c)
      case (Inr p)
      then show ?thesis using run f c True s1 s2 created_label_named [OF h, of name team s1]
        by (cases p) (auto simp: EnsureLabelByName_def intro: map_le_trans split: if_splits)
    next
      case (Inl e)
      obtain g s3 where g: "gql_do env (QueryFindLabel name team) dec_labels [] s2 = (g, s3)" by fastforce
      note s3 = frame [OF g, simplified]
      have le: "names s \<subseteq>\<^sub>m names s3" using s1(2) s2(2) s3(2) by (blast intro: map_le_trans)
      have "s' = s3" "\<And>i. x = Inr i \<Longrightarrow> \<exists>n ns. g = Inr (n # ns) \<and> i = lb_ID n"
        using run f c g True Inl by (auto simp: EnsureLabelByName_def split: sum.splits list.splits)
      then show ?thesis using le s1(1) s2(1) s3(1) find_labels_named [OF h, of name team s2] g by fastforce
    qed
  qed
qed

lemma ensure_labels_law:
  assumes "honest_linear env opens names"
  shows "ensure_labels env team ls s = (x, s') \<Longrightarrow>
    opens s' = opens s \<and> names s \<subseteq>\<^sub>m names s' \<and> (\<forall>ids. x = Inr ids \<longrightarrow> map (\<lambda>k. the (names s' k)) ids = ls)"
proof (induction ls arbitrary: s x s')
  case (Cons l ls)
  obtain y s1 where y: "EnsureLabelByName env team l s = (y, s1)" by fastforce
  note e = EnsureLabel_law [OF assms y]
  show ?case
  proof (cases y)
    case (Inl err)
    then show ?thesis using Cons.prems e by (auto simp: y)
  next
    case (Inr i)
    obtain z s2 where z: "ensure_labels env team ls s1 = (z, s2)" by fastforce
    note ih = Cons.IH [OF z]
    have "names s2 i = Some l" using e ih Inr by (metis domI map_le_def)
    then show ?thesis using Cons.prems e ih Inr by (auto simp: y z intro: map_le_trans split: sum.splits)
  qed
qed simp

interpretation linear_gql: issue_tracker "honest_linear env opens names" "NewLinearGraphQLClient env" opens
  for env :: "'s gql_env" and opens names
proof unfold_locales
  fix l and s s' :: 's and r
  assume h: "honest_linear env opens names" and "lc_FindIssuesByLabel (NewLinearGraphQLClient env) l s = (r, s')"
  then obtain x where "gql_do env (QueryFind l) (dec_issues (gx_time env)) [] s = (x, s')"
    by (auto simp: NewLinearGraphQLClient_def FindIssuesByLabel_def split: prod.splits sum.splits)
  from label_requests_frame [OF h this] show "opens s' = opens s" by simp
next
  fix l and s s' :: 's and xs
  assume h: "honest_linear env opens names" and "lc_FindIssuesByLabel (NewLinearGraphQLClient env) l s = (Inr xs, s')"
  then obtain nodes where q: "gql_do env (QueryFind l) (dec_issues (gx_time env)) [] s = (Inr nodes, s')"
    and xs: "xs = map issue_of nodes"
    by (auto simp: NewLinearGraphQLClient_def FindIssuesByLabel_def split: prod.splits sum.splits)
  have open_node: "is_State (issue_of n) = ''Open'' \<longleftrightarrow> nd_State n \<noteq> ''Cancelled''" "tag (issue_of n) = (nd_ID n, nd_CreatedAt n)" for n
    by (simp_all add: issue_of_def node_state_def tag_def)
  have "{x \<in> set xs. is_State x = ''Open''} = issue_of ` {n \<in> set nodes. nd_State n \<noteq> ''Cancelled''}"
    unfolding xs using open_node(1) by auto
  then have "tag ` {x \<in> set xs. is_State x = ''Open''} = (\<lambda>n. (nd_ID n, nd_CreatedAt n)) ` {n \<in> set nodes. nd_State n \<noteq> ''Cancelled''}"
    by (simp add: image_image open_node(2))
  also have "\<dots> = tag ` {i \<in> set (opens s). carries l i}"
    using h q by (cases rule: gql_do_cases) (auto simp: truthful_def)
  finally show "tag ` {x \<in> set xs. is_State x = ''Open''} = tag ` {i \<in> set (opens s). carries l i}" .
next
  fix inp and s s' :: 's and c
  assume h: "honest_linear env opens names" and run: "lc_CreateIssue (NewLinearGraphQLClient env) inp s = (c, s')"
  obtain x s1 where x: "ensure_labels env (ci_TeamID inp) (ci_Labels inp) s = (x, s1)" by fastforce
  note labels = ensure_labels_law [OF h x]
  show "opens s' = opens s \<and> isl c \<or> (\<exists>i. opens s' = i # opens s \<and> is_Labels i = ci_Labels inp \<and> is_Body i = ci_Body inp)"
  proof (cases x)
    case (Inl e)
    then show ?thesis using run labels by (auto simp: NewLinearGraphQLClient_def CreateIssue_def x)
  next
    case (Inr ids)
    let ?req = "MutationCreate (ci_TeamID inp) (ci_Title inp) (ci_Body inp) (ci_Priority inp) ids"
    obtain y s2 where y: "gql_do env ?req (dec_success ''issueCreate'' ''issue'' (dec_struct (node_fields (gx_time env))))
        (False, zero_node) s1 = (y, s2)" by fastforce
    have out: "s' = s2" "isl c \<or> (\<exists>n. y = Inr (True, n))"
      using run Inr y by (auto simp: NewLinearGraphQLClient_def CreateIssue_def x mutated_issue_def split: sum.splits if_splits)
    from h y show ?thesis
    proof (cases rule: gql_do_cases)
      case (unsent e)
      then show ?thesis using out labels by simp
    next
      case (sent r)
      then show ?thesis using out labels Inr by (auto simp: effect_def reports_success_def)
    qed
  qed
next
  fix k body and s s' :: 's and c
  assume h: "honest_linear env opens names" and run: "lc_UpdateIssue (NewLinearGraphQLClient env) k body s = (c, s')"
  obtain y s2 where y: "gql_do env (MutationUpdate k body) (dec_success ''issueUpdate'' ''issue'' (dec_struct (node_fields (gx_time env))))
      (False, zero_node) s = (y, s2)" by fastforce
  have out: "s' = s2" "isl c \<or> (\<exists>n. y = Inr (True, n))"
    using run y by (auto simp: NewLinearGraphQLClient_def UpdateIssue_def mutated_issue_def split: sum.splits if_splits)
  from h y show "opens s' = opens s \<and> isl c \<or> opens s' = map (set_body k body) (opens s)"
    by (cases rule: gql_do_cases) (use out in \<open>auto simp: effect_def reports_success_def\<close>)
next
  fix k body and s s' :: 's and e
  assume h: "honest_linear env opens names" and "lc_AddComment (NewLinearGraphQLClient env) k body s = (e, s')"
  then obtain y where "gql_do env (MutationAddComment k body) (dec_done ''commentCreate'') False s = (y, s')"
    by (auto simp: NewLinearGraphQLClient_def AddComment_def mutation_done_def split: prod.splits sum.splits if_splits)
  from label_requests_frame [OF h this] show "opens s' = opens s" by simp
next
  fix k and s s' :: 's and e
  assume h: "honest_linear env opens names" and run: "lc_ArchiveIssue (NewLinearGraphQLClient env) k s = (e, s')"
  obtain y s2 where y: "gql_do env (MutationArchive k) (dec_done ''issueArchive'') False s = (y, s2)" by fastforce
  have out: "s' = s2" "e \<noteq> None \<or> y = Inr True"
    using run y by (auto simp: NewLinearGraphQLClient_def ArchiveIssue_def mutation_done_def split: sum.splits if_splits)
  from h y show "opens s' = opens s \<and> e \<noteq> None \<or> opens s' = filter (\<lambda>i. is_ID i \<noteq> k) (opens s)"
    by (cases rule: gql_do_cases) (use out in \<open>auto simp: effect_def reports_success_def\<close>)
qed

section \<open>Errors and the reply\<close>

text \<open>A failure the sender should retry: no reply, a server error, or a body that breaks off.\<close>

definition transient :: "http_reply \<Rightarrow> bool" where
  "transient r = (case r of NoReply _ \<Rightarrow> True | Reply code body \<Rightarrow> code \<ge> 500 \<or> (code < 400 \<and> isl body))"

text \<open>The errors of the JSON and URL packages are not the client's own.\<close>

definition foreign_errors :: "'s gql_env \<Rightarrow> bool" where
  "foreign_errors env \<longleftrightarrow>
     (\<forall>t e. gx_json env t = Inl e \<longrightarrow> \<not> errors_Is e ErrLinearClient5xx) \<and>
     (\<forall>j. \<not> errors_Is (gx_mismatch env j) ErrLinearClient5xx) \<and>
     (\<forall>e. gx_url env = Some e \<longrightarrow> \<not> errors_Is e ErrLinearClient5xx)"

lemma errors_Is_linear [simp, go_err]:
  "errors_Is (linear5xx w e) s \<longleftrightarrow> s = ErrLinearClient5xx \<or> errors_Is e s"
  "errors_Is (linear4xx w e) s \<longleftrightarrow> s = ErrLinearClient4xx \<or> errors_Is e s"
  by (auto simp: linear5xx_def linear4xx_def errors_Is_def)

lemma read_reply_5xx:
  assumes "foreign_errors env" and "read_reply env dec zero r = Inl e"
  shows "errors_Is e ErrLinearClient5xx \<longleftrightarrow> transient r"
proof (cases r)
  case (Reply code body)
  then show ?thesis using assms
    by (cases body) (auto simp: read_reply_def transient_def foreign_errors_def decode_as_def
        split: if_splits sum.splits option.splits)
qed (use assms in \<open>auto simp: read_reply_def transient_def\<close>)

definition calm_linear :: "'s gql_env \<Rightarrow> bool" where
  "calm_linear env \<longleftrightarrow> foreign_errors env \<and> (\<forall>req s. \<not> transient (fst (gx_post env req s)))"

lemma gql_do_calm:
  "calm_linear env \<Longrightarrow> gql_do env req dec zero s = (Inl e, s') \<Longrightarrow> \<not> errors_Is e ErrLinearClient5xx"
  using read_reply_5xx [of env dec zero _ e]
  by (auto simp: calm_linear_def gql_do_def foreign_errors_def split: option.splits prod.splits) (metis fst_conv)

lemma not_5xx_no_success [simp]: "\<not> errors_Is (no_success w) ErrLinearClient5xx"
  by (simp add: no_success_def)

lemma EnsureLabel_calm:
  "calm_linear env \<Longrightarrow> EnsureLabelByName env team name s = (Inl e, s') \<Longrightarrow> \<not> errors_Is e ErrLinearClient5xx"
  by (auto simp: EnsureLabelByName_def dest: gql_do_calm split: prod.splits sum.splits list.splits if_splits)

lemma ensure_labels_calm:
  "calm_linear env \<Longrightarrow> ensure_labels env team ls s = (Inl e, s') \<Longrightarrow> \<not> errors_Is e ErrLinearClient5xx"
  by (induction ls arbitrary: s) (auto dest: EnsureLabel_calm split: prod.splits sum.splits)

lemma client_calm:
  assumes "calm_linear env"
  shows "FindIssuesByLabel env l s = (Inl e, s') \<Longrightarrow> \<not> errors_Is e ErrLinearClient5xx"
    and "CreateIssue env inp s = (Inl e, s') \<Longrightarrow> \<not> errors_Is e ErrLinearClient5xx"
    and "UpdateIssue env k body s = (Inl e, s') \<Longrightarrow> \<not> errors_Is e ErrLinearClient5xx"
    and "AddComment env k body s = (Some e, s') \<Longrightarrow> \<not> errors_Is e ErrLinearClient5xx"
    and "ArchiveIssue env k s = (Some e, s') \<Longrightarrow> \<not> errors_Is e ErrLinearClient5xx"
  by (auto simp: FindIssuesByLabel_def CreateIssue_def UpdateIssue_def AddComment_def ArchiveIssue_def mutated_issue_def
      mutation_done_def dest: gql_do_calm [OF assms] ensure_labels_calm [OF assms] split: prod.splits sum.splits if_splits)

lemma Handle_calm:
  assumes "calm_linear env" and "lf_Client cfg = NewLinearGraphQLClient env" and "Handle cfg ev now s = (Some e, s')"
  shows "\<not> errors_Is e ErrLinearClient5xx"
  using assms(3)
  by (auto simp: Handle_def handleFiring_def handleResolved_def find_failed_def assms(2) NewLinearGraphQLClient_def Let_def
      dest: client_calm [OF assms(1)] split: if_splits prod.splits sum.splits option.splits)

lemma Handle_unreachable:
  assumes env: "foreign_errors env" and cfg: "lf_Client cfg = NewLinearGraphQLClient env" and url: "gx_url env = None"
    and status: "we_Status ev \<in> {''firing'', ''resolved''}" and post: "gx_post env (QueryFind (DedupLabel (we_GroupKey ev))) s = (r, s')"
    and "transient r"
  shows "\<exists>e. Handle cfg ev now s = (Some e, s') \<and> errors_Is e ErrLinearClient5xx"
proof -
  have "\<exists>e. read_reply env (dec_issues (gx_time env)) [] r = Inl e"
    using \<open>transient r\<close> by (cases r) (auto simp: transient_def read_reply_def isl_def)
  then obtain e where e: "read_reply env (dec_issues (gx_time env)) [] r = Inl e" by blast
  then have "FindIssuesByLabel env (DedupLabel (we_GroupKey ev)) s = (Inl e, s')"
    by (simp add: FindIssuesByLabel_def gql_do_def url post)
  then have "Handle cfg ev now s = (Some (find_failed ev e), s')"
    using status by (auto simp: Handle_def handleFiring_def handleResolved_def cfg NewLinearGraphQLClient_def)
  with read_reply_5xx [OF env e] \<open>transient r\<close> show ?thesis by (auto simp: find_failed_def)
qed

text \<open>The event of a body that is a valid payload.\<close>

definition valid_event :: "webhook_env \<Rightarrow> go_time \<Rightarrow> string \<Rightarrow> WebhookEvent option" where
  "valid_event wenv now body =
     (case decode_payload wenv body of None \<Rightarrow> None
      | Some p \<Rightarrow> (case projectPayload now p of Inl _ \<Rightarrow> None | Inr ev \<Rightarrow> Some ev))"

section \<open>Properties\<close>

text \<open>
  C35: An alert group never gets a second open issue. Whatever webhook events are handled one
  after another, whichever of the requests to Linear fail, and whether or not a failed request
  took effect, the number of open issues with a group's label is at most one, or at most what
  it was before. That rests on the labels: \<open>CreateIssue\<close> passes identifiers, which
  \<open>EnsureLabelByName\<close> found or created, so the new issue has the group's label and the next
  firing event finds it; and the other labels of an issue are never another group's.
\<close>

theorem linear_no_duplicates:
  assumes "honest_linear env opens names" and "lf_Client cfg = NewLinearGraphQLClient env"
  shows "open_count k (opens (snd (Handle_all cfg evs s))) \<le> max 1 (open_count k (opens s))"
  by (rule linear_gql.Handle_all_bound [OF assms])

text \<open>
  C36: What a successful webhook means. After a firing event that reports no error, an open
  issue with the group's label has exactly the rendered body. After a resolved event that
  reports none, the most recently created open issue of the group was archived and no other
  open issue changed, or the group had no open issue and nothing changed.
\<close>

theorem linear_Handle_effect:
  assumes "honest_linear env opens names" and "lf_Client cfg = NewLinearGraphQLClient env" and "sorts_recent (lf_sort cfg)"
    and "Handle cfg ev now s = (None, s')"
  shows "(we_Status ev = ''firing'' \<longrightarrow>
      (\<exists>i \<in> set (opens s'). carries (DedupLabel (we_GroupKey ev)) i \<and> is_Body i = BuildBody (render_event ev now))) \<and>
    (we_Status ev = ''resolved'' \<longrightarrow>
      opens s' = opens s \<and> open_count (we_GroupKey ev) (opens s) = 0 \<or>
      (\<exists>i \<in> set (opens s). carries (DedupLabel (we_GroupKey ev)) i \<and>
         (\<forall>x \<in> set (opens s). carries (DedupLabel (we_GroupKey ev)) x \<longrightarrow> is_CreatedAt x \<le> is_CreatedAt i) \<and>
         opens s' = filter (\<lambda>x. is_ID x \<noteq> is_ID i) (opens s)))"
proof (intro conjI impI)
  assume "we_Status ev = ''firing''"
  with assms(4) have "handleFiring cfg ev now s = (None, s')" by (simp add: Handle_def)
  then show "\<exists>i \<in> set (opens s'). carries (DedupLabel (we_GroupKey ev)) i \<and> is_Body i = BuildBody (render_event ev now)"
    by (rule linear_gql.firing_effect [OF assms(1,3,2)])
next
  assume "we_Status ev = ''resolved''"
  with assms(4) have "handleResolved cfg ev now s = (None, s')" by (simp add: Handle_def)
  then show "opens s' = opens s \<and> open_count (we_GroupKey ev) (opens s) = 0 \<or>
      (\<exists>i \<in> set (opens s). carries (DedupLabel (we_GroupKey ev)) i \<and>
         (\<forall>x \<in> set (opens s). carries (DedupLabel (we_GroupKey ev)) x \<longrightarrow> is_CreatedAt x \<le> is_CreatedAt i) \<and>
         opens s' = filter (\<lambda>x. is_ID x \<noteq> is_ID i) (opens s))"
    by (rule linear_gql.resolved_effect [OF assms(1,3,2)])
qed

text \<open>
  C37: The status Alertmanager sees, which decides whether it retries. A request that is not a
  POST gets 405 and one whose body is not a valid payload 400, and then nothing is sent to
  Linear. Otherwise the answer is 200 exactly when the lifecycle reports no error, and 502 or
  500 when it does. When no request to Linear meets a transient failure (no reply, a server
  error, a body that breaks off) it is never 502; when the search for the group's issue meets
  one it always is.
\<close>

theorem linear_webhook_status:
  assumes cfg: "lf_Client cfg = NewLinearGraphQLClient env" and own: "foreign_errors env"
    and serve: "linear_ServeHTTP wenv (\<lambda>ev. Handle cfg ev now) now meth body s = (reply, s')"
  shows "(if meth \<noteq> ''POST'' then wr_code reply = 405 \<and> s' = s
     else case valid_event wenv now body of
       None \<Rightarrow> wr_code reply = 400 \<and> s' = s
     | Some ev \<Rightarrow> wr_code reply \<in> {200, 500, 502} \<and> s' = snd (Handle cfg ev now s) \<and>
         (wr_code reply = 200 \<longleftrightarrow> fst (Handle cfg ev now s) = None) \<and>
         (calm_linear env \<longrightarrow> wr_code reply \<noteq> 502) \<and>
         (gx_url env = None \<and> transient (fst (gx_post env (QueryFind (DedupLabel (we_GroupKey ev))) s)) \<longrightarrow> wr_code reply = 502))"
proof (cases "meth = ''POST''")
  case False
  then show ?thesis using serve by (auto simp: linear_ServeHTTP_def http_Error_def)
next
  case True
  show ?thesis
  proof (cases "valid_event wenv now body")
    case None
    then show ?thesis using serve True
      by (auto simp: linear_ServeHTTP_def http_Error_def valid_event_def split: option.splits sum.splits)
  next
    case (Some ev)
    then obtain p where p: "decode_payload wenv body = Some p" and ev: "projectPayload now p = Inr ev"
      by (auto simp: valid_event_def split: option.splits sum.splits)
    have status: "we_Status ev \<in> {''firing'', ''resolved''}"
      using ev by (auto simp: projectPayload_def Let_def split: if_splits sum.splits)
    have out: "reply = lifecycle_reply (fst (Handle cfg ev now s))" "s' = snd (Handle cfg ev now s)"
      using serve True p ev by (auto simp: linear_ServeHTTP_def split: prod.splits)
    have code: "wr_code reply = (case fst (Handle cfg ev now s) of None \<Rightarrow> 200
        | Some e \<Rightarrow> if errors_Is e ErrLinearClient5xx then 502 else 500)"
      by (simp add: out(1) lifecycle_reply_def http_Error_def split: option.split)
    have "calm_linear env \<longrightarrow> wr_code reply \<noteq> 502"
      using Handle_calm [OF _ cfg, of ev now s] by (cases "Handle cfg ev now s") (auto simp: code split: option.split)
    moreover have "gx_url env = None \<and> transient (fst (gx_post env (QueryFind (DedupLabel (we_GroupKey ev))) s)) \<longrightarrow> wr_code reply = 502"
    proof
      assume a: "gx_url env = None \<and> transient (fst (gx_post env (QueryFind (DedupLabel (we_GroupKey ev))) s))"
      obtain r s1 where r: "gx_post env (QueryFind (DedupLabel (we_GroupKey ev))) s = (r, s1)" by fastforce
      with a obtain e where "Handle cfg ev now s = (Some e, s1)" "errors_Is e ErrLinearClient5xx"
        using Handle_unreachable [OF own cfg _ status r, of now] by auto
      then show "wr_code reply = 502" by (simp add: code)
    qed
    moreover have "wr_code reply \<in> {200, 500, 502}" "wr_code reply = 200 \<longleftrightarrow> fst (Handle cfg ev now s) = None"
      by (simp_all add: code split: option.split)
    ultimately show ?thesis using True out(2) by (simp add: Some)
  qed
qed

section \<open>A concrete service\<close>

text \<open>
  A small service: its issues all have the identifier A, a label's identifier is its name, and
  every answer is one document read off the reply's text.
\<close>

definition tiny_json :: "string \<Rightarrow> go_error + jvalue" where
  "tiny_json t =
     Inr (VObj [(''data'', VObj [(''issues'', VObj [(''nodes'', VArr (map (\<lambda>c. VObj [(''id'', VStr [c])]) t))]),
       (''issueLabels'', VObj [(''nodes'', VArr [VObj [(''id'', VStr t)]])]),
       (''issueCreate'', VObj [(''success'', VBool True)]), (''issueUpdate'', VObj [(''success'', VBool True)]),
       (''commentCreate'', VObj [(''success'', VBool True)]), (''issueArchive'', VObj [(''success'', VBool True)])])])"

definition tiny_opens :: "(string list \<times> string) list \<Rightarrow> Issue list" where
  "tiny_opens = map (\<lambda>(ls, b). \<lparr>is_ID = ''A'', is_Title = [], is_Body = b, is_State = IssueStateOpen, is_Priority = 0,
     is_Labels = ls, is_CreatedAt = 0\<rparr>)"

definition tiny_post :: "gqlRequest \<Rightarrow> (string list \<times> string) list \<Rightarrow> http_reply \<times> (string list \<times> string) list" where
  "tiny_post req s =
     (case req of
        QueryFind l \<Rightarrow> (Reply 200 (Inr (map (\<lambda>_. CHR ''A'') (filter (\<lambda>(ls, _). l \<in> set ls) s))), s)
      | QueryFindLabel name team \<Rightarrow> (Reply 200 (Inr name), s)
      | MutationCreateLabel name team \<Rightarrow> (Reply 500 (Inr []), s)
      | MutationCreate team title desc prio ids \<Rightarrow> (Reply 200 (Inr []), (ids, desc) # s)
      | MutationUpdate i body \<Rightarrow> (Reply 200 (Inr []), if i = ''A'' then map (\<lambda>(ls, _). (ls, body)) s else s)
      | MutationArchive i \<Rightarrow> (Reply 200 (Inr []), if i = ''A'' then [] else s)
      | MutationAddComment i body \<Rightarrow> (Reply 200 (Inr []), s))"

definition tiny_linear :: "(string list \<times> string) list gql_env" where
  "tiny_linear = \<lparr>gx_url = None, gx_post = tiny_post, gx_json = tiny_json, gx_mismatch = (\<lambda>_. errorf []), gx_time = (\<lambda>_. None)\<rparr>"

lemma tiny_nodes:
  "dec_elems (dec_struct (node_fields tm @ [label_field])) zero_node (map (\<lambda>c. VObj [(''id'', VStr [c])]) t) =
   Some (map (\<lambda>c. zero_node\<lparr>nd_ID := [c]\<rparr>) t)"
  by (induction t) (simp_all add: json_decoders node_fields_def)

lemma tiny_found:
  "read_reply tiny_linear (dec_issues (gx_time tiny_linear)) [] (Reply 200 (Inr t)) = Inr (map (\<lambda>c. zero_node\<lparr>nd_ID := [c]\<rparr>) t)"
  using tiny_nodes [of _ t]
  by (simp add: read_reply_def tiny_linear_def tiny_json_def decode_as_def dec_gqlResponse_def dec_issues_def only_def
      dec_struct_def field_def field_named_def dec_raw_def dec_slice_def)

lemma tiny_labels:
  "read_reply tiny_linear dec_labels [] (Reply 200 (Inr t)) = Inr [\<lparr>lb_ID = t, lb_Name = []\<rparr>]"
  by (simp add: read_reply_def tiny_linear_def tiny_json_def decode_as_def dec_gqlResponse_def dec_labels_def json_decoders
      label_fields_def zero_label_def lower_char_def char_classes)

lemma tiny_opens_simps [simp]:
  "set (tiny_opens s) = (\<lambda>(ls, b). \<lparr>is_ID = ''A'', is_Title = [], is_Body = b, is_State = IssueStateOpen, is_Priority = 0,
     is_Labels = ls, is_CreatedAt = 0\<rparr>) ` set s"
  "filter (\<lambda>x. is_ID x \<noteq> k) (tiny_opens s) = (if k = ''A'' then [] else tiny_opens s)"
  "map (set_body k body) (tiny_opens s) = tiny_opens (if k = ''A'' then map (\<lambda>(ls, _). (ls, body)) s else s)"
  by (induction s) (auto simp: tiny_opens_def set_body_def)

lemma tiny_opens_nil: "tiny_opens [] = []"
  by (simp add: tiny_opens_def)

lemma tiny_opens_create: "\<exists>i. is_Labels i = ls \<and> tiny_opens ((ls, b) # s) = i # tiny_opens s \<and> is_Body i = b"
  by (simp add: tiny_opens_def)

lemma tiny_honest: "honest_linear tiny_linear tiny_opens (\<lambda>_. Some)"
  unfolding honest_linear_def
proof (intro allI impI conjI)
  fix req s r s' assume "gx_post tiny_linear req s = (r, s')"
  then have run: "tiny_post req s = (r, s')" by (simp add: tiny_linear_def)
  show "Some \<subseteq>\<^sub>m Some" by simp
  show "tiny_opens s' = tiny_opens s \<and> \<not> reports_success tiny_linear req r \<or> effect Some req (tiny_opens s) (tiny_opens s')"
    using run by (cases req) (use tiny_opens_create in \<open>fastforce simp: tiny_post_def effect_def tiny_opens_nil split: if_splits\<close>)+
  show "truthful tiny_linear (tiny_opens s) Some req r"
  proof (cases req)
    case (QueryFind l)
    let ?t = "map (\<lambda>_. CHR ''A'') (filter (\<lambda>(ls, _). l \<in> set ls) s)"
    have nodes: "(\<lambda>n. (nd_ID n, nd_CreatedAt n)) ` {n \<in> set (map (\<lambda>c. zero_node\<lparr>nd_ID := [c]\<rparr>) ?t). nd_State n \<noteq> ''Cancelled''} =
        tag ` {i \<in> set (tiny_opens s). carries l i}"
      by (force simp: zero_node_def tag_def carries_def image_iff)
    have r: "r = Reply 200 (Inr ?t)" using run by (auto simp: QueryFind tiny_post_def)
    show ?thesis
      unfolding QueryFind truthful_def gqlRequest.case r tiny_found
    proof (intro allI impI)
      fix ns assume "Inr (map (\<lambda>c. zero_node\<lparr>nd_ID := [c]\<rparr>) ?t) = (Inr ns :: go_error + issueNode list)"
      then have "ns = map (\<lambda>c. zero_node\<lparr>nd_ID := [c]\<rparr>) ?t" by (simp only: sum.inject)
      then show "(\<lambda>n. (nd_ID n, nd_CreatedAt n)) ` {n \<in> set ns. nd_State n \<noteq> ''Cancelled''} =
          tag ` {i \<in> set (tiny_opens s). carries l i}" by (simp only: nodes)
    qed
  next
    case (MutationCreateLabel name team)
    then show ?thesis using run by (auto simp: tiny_post_def truthful_def read_reply_def)
  qed (use run in \<open>auto simp: tiny_post_def truthful_def tiny_labels\<close>)
qed

definition tiny_cfg :: "(string list \<times> string) list LifecycleConfig" where
  "tiny_cfg = \<lparr>lf_Client = NewLinearGraphQLClient tiny_linear, lf_TeamID = ''T'', lf_RecommentMinInterval = 15 * Minute,
     lf_sort = (\<lambda>xs. rev (sort_key is_CreatedAt xs))\<rparr>"

definition sample_event :: "string \<Rightarrow> WebhookEvent" where
  "sample_event status = \<lparr>we_Status = status, we_GroupKey = ''g'', we_Severity = SeverityCritical, we_Alertname = ''HighErrorRate'',
     we_Capability = [], we_FirstFiredAt = 0, we_ActiveCount = 1, we_Summary = ''s'', we_Description = [],
     we_ExternalURL = ''http://am'', we_Runbook = [], we_Dashboard = []\<rparr>"

lemma tiny_client: "lf_Client tiny_cfg = NewLinearGraphQLClient tiny_linear"
  by (simp add: tiny_cfg_def)

lemma tiny_sorts: "sorts_recent (lf_sort tiny_cfg)"
proof -
  have "sorted_wrt (\<lambda>a b. is_CreatedAt b \<le> is_CreatedAt a) (rev (sort_key is_CreatedAt xs))" for xs :: "Issue list"
    unfolding sorted_wrt_rev using sorted_sort_key [of is_CreatedAt xs] by (simp add: sorted_map)
  then show ?thesis by (simp add: sorts_recent_def tiny_cfg_def)
qed

theorem linear_no_duplicates_witness:
  "open_count ''g'' (tiny_opens (snd (Handle_all tiny_cfg [(sample_event ''firing'', 0), (sample_event ''firing'', 1)] []))) \<le> 1"
  using linear_no_duplicates [OF tiny_honest tiny_client, of "''g''" "[(sample_event ''firing'', 0), (sample_event ''firing'', 1)]" "[]"]
  by (simp add: open_count_def tiny_opens_def)

lemma tiny_resolved: "Handle tiny_cfg (sample_event ''resolved'') 5 [] = (None, [])"
proof -
  have "FindIssuesByLabel tiny_linear l [] = (Inr [], [])" for l
    using tiny_found [of "[]"] by (simp add: FindIssuesByLabel_def gql_do_def) (simp add: tiny_linear_def tiny_post_def)
  then show ?thesis
    by (simp add: Handle_def sample_event_def handleResolved_def tiny_client NewLinearGraphQLClient_def pickMostRecentOpen_def)
qed

lemma tiny_fired:
  "\<exists>s. Handle tiny_cfg (sample_event ''firing'') 5 [] = (None, s)"
proof -
  have find: "FindIssuesByLabel tiny_linear l [] = (Inr [], [])" for l
    using tiny_found [of "[]"] by (simp add: FindIssuesByLabel_def gql_do_def) (simp add: tiny_linear_def tiny_post_def)
  have "EnsureLabelByName tiny_linear team name s = (Inr name, s)" for team name s
    using tiny_labels [of name]
    by (simp add: EnsureLabelByName_def gql_do_def) (simp add: tiny_linear_def tiny_post_def)
  then have labels: "ensure_labels tiny_linear team ls s = (Inr ls, s)" for team ls s
    by (induction ls) simp_all
  have "read_reply tiny_linear (dec_success ''issueCreate'' ''issue'' (dec_struct (node_fields (gx_time tiny_linear)))) (False, zero_node)
      (Reply 200 (Inr [])) = Inr (True, zero_node)"
    by (simp add: read_reply_def tiny_linear_def tiny_json_def decode_as_def dec_gqlResponse_def dec_success_def json_decoders
        lower_char_def char_classes)
  then have "CreateIssue tiny_linear inp s = (Inr (issue_of zero_node), (ci_Labels inp, ci_Body inp) # s)" for inp s
    by (simp add: CreateIssue_def labels gql_do_def mutated_issue_def) (simp add: tiny_linear_def tiny_post_def)
  then show ?thesis
    by (simp add: Handle_def sample_event_def handleFiring_def tiny_client NewLinearGraphQLClient_def pickMostRecentOpen_def find)
qed

theorem linear_Handle_effect_witness:
  "\<exists>s. Handle tiny_cfg (sample_event ''firing'') 5 [] = (None, s) \<and>
     (\<exists>i \<in> set (tiny_opens s). carries (DedupLabel ''g'') i \<and> is_Body i = BuildBody (render_event (sample_event ''firing'') 5))"
proof -
  obtain s where run: "Handle tiny_cfg (sample_event ''firing'') 5 [] = (None, s)" using tiny_fired by blast
  from linear_Handle_effect [OF tiny_honest tiny_client tiny_sorts run] run show ?thesis
    by (auto simp: sample_event_def)
qed

definition sample_webhook :: webhook_env where
  "sample_webhook = \<lparr>wh_json = (\<lambda>_. Inr (VObj [(''groupKey'', VStr ''g''), (''status'', VStr ''resolved''),
     (''commonLabels'', VObj [(''severity'', VStr ''critical''), (''alertname'', VStr ''HighErrorRate'')])])), wh_time = (\<lambda>_. None)\<rparr>"

lemma sample_webhook_event:
  "valid_event sample_webhook 7 body = Some \<lparr>we_Status = ''resolved'', we_GroupKey = ''g'', we_Severity = ''critical'',
     we_Alertname = ''HighErrorRate'', we_Capability = [], we_FirstFiredAt = 7, we_ActiveCount = 0, we_Summary = [],
     we_Description = [], we_ExternalURL = [], we_Runbook = [], we_Dashboard = []\<rparr>"
  by (simp add: valid_event_def decode_payload_def sample_webhook_def dec_payload_def json_decoders zero_payload_def
      projectPayload_def ParseSeverity_def map_get_def)

theorem linear_webhook_status_witness:
  "wr_code (fst (linear_ServeHTTP sample_webhook (\<lambda>ev. Handle tiny_cfg ev 7) 7 ''POST'' ''{}'' [])) \<in> {200, 500, 502} \<and>
   wr_code (fst (linear_ServeHTTP sample_webhook (\<lambda>ev. Handle tiny_cfg ev 7) 7 ''GET'' ''{}'' [])) = 405"
proof -
  have own: "foreign_errors tiny_linear" by (simp add: foreign_errors_def tiny_linear_def tiny_json_def)
  show ?thesis
    using linear_webhook_status [OF tiny_client own prod.collapse [symmetric], where wenv = sample_webhook and now = 7
        and meth = "''POST''" and body = "''{}''" and s = "[]"]
      linear_webhook_status [OF tiny_client own prod.collapse [symmetric], where wenv = sample_webhook and now = 7
        and meth = "''GET''" and body = "''{}''" and s = "[]"]
    by (auto simp: sample_webhook_event)
qed

end
