(* ===== verification/Grafana.thy ===== *)
theory Grafana
  imports Go_Json Observability
begin

text \<open>
  The Grafana annotations integration (\<open>internal/integrations/grafana\<close>): its configuration, the
  mapping of an Alertmanager payload to annotations, the HTTP client and the webhook handler.
  Grafana is a parameter: what it answers to an annotation and the state it is left in.
\<close>

section \<open>Configuration\<close>

record GrafanaConfig =
  gc_GrafanaURL :: string
  gc_ServiceAccountToken :: string
  gc_ListenAddr :: string
  gc_TenantType :: string
  gc_RuntimeTenant :: string

definition isCI :: "(string \<Rightarrow> string) \<Rightarrow> bool" where
  "isCI getenv \<longleftrightarrow> map lower_char (getenv ''CI'') = ''true''"

definition grafana_Validate :: "(string \<Rightarrow> string) \<Rightarrow> (string \<Rightarrow> go_error option) \<Rightarrow> GrafanaConfig \<Rightarrow> go_error option" where
  "grafana_Validate getenv url_Parse c =
     (if gc_GrafanaURL c = [] then Some (errorf ''GRAFANA_URL is required'')
      else if \<not> prefix ''http://'' (gc_GrafanaURL c) \<and> \<not> prefix ''https://'' (gc_GrafanaURL c)
      then Some (errorf (''GRAFANA_URL must start with http:// or https://, got '' @ quoted (gc_GrafanaURL c)))
      else case url_Parse (gc_GrafanaURL c) of Some e \<Rightarrow> Some (wrapf ''GRAFANA_URL is not a valid URL'' e)
      | None \<Rightarrow>
        if isCI getenv then
          (if gc_ServiceAccountToken c = [] then Some (errorf ''GRAFANA_SERVICE_ACCOUNT_TOKEN is required under CI=true'')
           else if gc_TenantType c = [] then Some (errorf ''GRAFANA_TENANT_TYPE is required under CI=true (Layer 4 fingerprint)'')
           else None)
        else None)"

definition grafana_envOr :: "(string \<Rightarrow> string) \<Rightarrow> string \<Rightarrow> string \<Rightarrow> string" where
  "grafana_envOr getenv key fallback = (let v = getenv key in if v \<noteq> [] then v else fallback)"

definition grafana_LoadConfig :: "(string \<Rightarrow> string) \<Rightarrow> (string \<Rightarrow> go_error option) \<Rightarrow> go_error + GrafanaConfig" where
  "grafana_LoadConfig getenv url_Parse =
     (let cfg = \<lparr>gc_GrafanaURL = getenv ''GRAFANA_URL'', gc_ServiceAccountToken = getenv ''GRAFANA_SERVICE_ACCOUNT_TOKEN'',
                 gc_ListenAddr = grafana_envOr getenv ''LISTEN_ADDR'' '':9096'', gc_TenantType = getenv ''GRAFANA_TENANT_TYPE'',
                 gc_RuntimeTenant = getenv ''RUNTIME_TENANT''\<rparr>
      in case grafana_Validate getenv url_Parse cfg of Some e \<Rightarrow> Inl e | None \<Rightarrow> Inr cfg)"

section \<open>Payload and annotations\<close>

record AnnotationRequest =
  an_Time :: int
  an_TimeEnd :: int
  an_Text :: string
  an_Tags :: "string list"

record AlertmanagerAlertV4 =
  av_Status :: string
  av_Labels :: smap
  av_Annotations :: smap
  av_StartsAt :: go_time
  av_EndsAt :: go_time
  av_Fingerprint :: string

record AlertmanagerWebhookV4 =
  aw_Receiver :: string
  aw_Status :: string
  aw_Alerts :: "AlertmanagerAlertV4 list"
  aw_GroupKey :: string

definition dec_alertV4 :: "(string \<Rightarrow> go_time option) \<Rightarrow> AlertmanagerAlertV4 decoder" where
  "dec_alertV4 parse =
     dec_struct [field ''status'' dec_string av_Status (\<lambda>x a. a\<lparr>av_Status := x\<rparr>),
       field ''labels'' dec_smap av_Labels (\<lambda>x a. a\<lparr>av_Labels := x\<rparr>),
       field ''annotations'' dec_smap av_Annotations (\<lambda>x a. a\<lparr>av_Annotations := x\<rparr>),
       field ''startsAt'' (dec_time parse) av_StartsAt (\<lambda>x a. a\<lparr>av_StartsAt := x\<rparr>),
       field ''endsAt'' (dec_time parse) av_EndsAt (\<lambda>x a. a\<lparr>av_EndsAt := x\<rparr>),
       field ''fingerprint'' dec_string av_Fingerprint (\<lambda>x a. a\<lparr>av_Fingerprint := x\<rparr>)]"

definition dec_webhookV4 :: "(string \<Rightarrow> go_time option) \<Rightarrow> AlertmanagerWebhookV4 decoder" where
  "dec_webhookV4 parse =
     dec_struct [field ''receiver'' dec_string aw_Receiver (\<lambda>x p. p\<lparr>aw_Receiver := x\<rparr>),
       field ''status'' dec_string aw_Status (\<lambda>x p. p\<lparr>aw_Status := x\<rparr>),
       field ''alerts'' (dec_slice (dec_alertV4 parse) \<lparr>av_Status = [], av_Labels = [], av_Annotations = [], av_StartsAt = 0,
         av_EndsAt = 0, av_Fingerprint = []\<rparr>) aw_Alerts (\<lambda>x p. p\<lparr>aw_Alerts := x\<rparr>),
       field ''groupKey'' dec_string aw_GroupKey (\<lambda>x p. p\<lparr>aw_GroupKey := x\<rparr>)]"

text \<open>\<open>UnixMilli\<close>: milliseconds from 1970 on, rounded down; the zero time is the first of January of the year 1.\<close>

definition UnixMilli :: "go_time \<Rightarrow> int" where
  "UnixMilli t = (t - 62135596800 * Second) div Millisecond"

definition upper_char :: "char \<Rightarrow> char" where
  "upper_char c = (if is_lower c then char_of (of_char c - (32::nat)) else c)"

definition severityPrefix :: "string \<Rightarrow> string" where
  "severityPrefix severity =
     (let l = map lower_char severity
      in if l = ''critical'' then ''CRIT'' else if l = ''warning'' then ''WARN'' else if l = ''info'' then ''INFO''
         else map upper_char severity)"

definition formatText :: "string \<Rightarrow> string \<Rightarrow> string \<Rightarrow> string" where
  "formatText alertname severity summary =
     (if summary = [] then ''['' @ severityPrefix severity @ ''] '' @ alertname
      else ''['' @ severityPrefix severity @ ''] '' @ alertname @ '' '' @ em_dash @ '' '' @ summary)"

definition zeroOrUnixMilli :: "AlertmanagerAlertV4 \<Rightarrow> int" where
  "zeroOrUnixMilli a =
     (if av_EndsAt a = 0 then 0 else if av_Status a \<noteq> ''resolved'' then 0 else UnixMilli (av_EndsAt a))"

definition annotation_of :: "AlertmanagerAlertV4 \<Rightarrow> AnnotationRequest" where
  "annotation_of a =
     (let alertname = map_get (av_Labels a) ''alertname''; severity = map_get (av_Labels a) ''severity'';
          summary = map_get (av_Annotations a) ''summary''
      in \<lparr>an_Time = UnixMilli (av_StartsAt a), an_TimeEnd = zeroOrUnixMilli a, an_Text = formatText alertname severity summary,
          an_Tags = [alertname, ''severity:'' @ severity, ''status:'' @ av_Status a, ''source:alertmanager'']\<rparr>)"

definition MapAlertmanagerWebhookToAnnotations :: "AlertmanagerWebhookV4 \<Rightarrow> AnnotationRequest list" where
  "MapAlertmanagerWebhookToAnnotations payload = map annotation_of (aw_Alerts payload)"

section \<open>Client\<close>

datatype grafana_sentinel = ErrGrafanaClient5xx | ErrGrafanaClient4xx

record ClientError =
  ge_StatusCode :: int
  ge_Sentinel :: grafana_sentinel
  ge_Cause :: "go_error option"

definition sentinel_text :: "grafana_sentinel \<Rightarrow> string" where
  "sentinel_text s =
     (case s of ErrGrafanaClient5xx \<Rightarrow> ''grafana client: server / transport / 429''
      | ErrGrafanaClient4xx \<Rightarrow> ''grafana client: client error 4xx'')"

definition ClientError_Error :: "ClientError \<Rightarrow> string" where
  "ClientError_Error e =
     sentinel_text (ge_Sentinel e) @ '': status '' @ int_dec (ge_StatusCode e) @
     (case ge_Cause e of Some c \<Rightarrow> '': '' @ err_text c | None \<Rightarrow> [])"

definition ClientError_Is :: "ClientError \<Rightarrow> grafana_sentinel \<Rightarrow> bool" where
  "ClientError_Is e target \<longleftrightarrow> ge_Sentinel e = target"

text \<open>What marshalling the annotation, building the request and sending it give.\<close>

record 's grafana_env =
  ga_marshal :: "AnnotationRequest \<Rightarrow> go_error option"
  ga_url :: "go_error option"
  ga_post :: "AnnotationRequest \<Rightarrow> 's \<Rightarrow> (go_error + int) \<times> 's"

definition PostAnnotation :: "'s grafana_env \<Rightarrow> AnnotationRequest \<Rightarrow> 's \<Rightarrow> ClientError option \<times> 's" where
  "PostAnnotation env req s =
     (case ga_marshal env req of
        Some e \<Rightarrow> (Some \<lparr>ge_StatusCode = 0, ge_Sentinel = ErrGrafanaClient4xx, ge_Cause = Some (wrapf ''marshal'' e)\<rparr>, s)
      | None \<Rightarrow>
        (case ga_url env of
           Some e \<Rightarrow> (Some \<lparr>ge_StatusCode = 0, ge_Sentinel = ErrGrafanaClient5xx, ge_Cause = Some (wrapf ''build request'' e)\<rparr>, s)
         | None \<Rightarrow>
           (case ga_post env req s of
              (Inl e, s') \<Rightarrow>
                (Some \<lparr>ge_StatusCode = 0, ge_Sentinel = ErrGrafanaClient5xx, ge_Cause = Some (wrapf ''transport'' e)\<rparr>, s')
            | (Inr code, s') \<Rightarrow>
                (if code = 200 \<or> code = 201 then None
                 else if code = 429 \<or> code \<ge> 500
                 then Some \<lparr>ge_StatusCode = code, ge_Sentinel = ErrGrafanaClient5xx, ge_Cause = None\<rparr>
                 else if code \<ge> 400 then Some \<lparr>ge_StatusCode = code, ge_Sentinel = ErrGrafanaClient4xx, ge_Cause = None\<rparr>
                 else Some \<lparr>ge_StatusCode = code, ge_Sentinel = ErrGrafanaClient5xx, ge_Cause = Some (errorf ''unexpected status'')\<rparr>,
                 s'))))"

section \<open>Handler\<close>

text \<open>The error a client returns: the typed one of the HTTP client, or any other.\<close>

datatype post_error = Typed ClientError | Other go_error

record error_entry =
  ee_status :: int
  ee_alertname :: string
  ee_severity :: string
  ee_tags :: "string list"
  ee_err :: string

definition log4xx :: "AlertmanagerAlertV4 \<Rightarrow> AnnotationRequest \<Rightarrow> ClientError \<Rightarrow> error_entry" where
  "log4xx a ann e =
     \<lparr>ee_status = ge_StatusCode e, ee_alertname = map_get (av_Labels a) ''alertname'',
      ee_severity = map_get (av_Labels a) ''severity'', ee_tags = an_Tags ann, ee_err = ClientError_Error e\<rparr>"

fun post_all ::
  "(AnnotationRequest \<Rightarrow> 's \<Rightarrow> post_error option \<times> 's) \<Rightarrow> (AlertmanagerAlertV4 \<times> AnnotationRequest) list \<Rightarrow>
   bool \<Rightarrow> error_entry list \<Rightarrow> 's \<Rightarrow> bool \<times> error_entry list \<times> 's" where
  "post_all post [] anyTransient logs s = (anyTransient, logs, s)"
| "post_all post ((a, ann) # rest) anyTransient logs s =
     (case post ann s of
        (None, s') \<Rightarrow> post_all post rest anyTransient logs s'
      | (Some (Typed e), s') \<Rightarrow>
          if ClientError_Is e ErrGrafanaClient5xx then post_all post rest True logs s'
          else if ClientError_Is e ErrGrafanaClient4xx then post_all post rest anyTransient (logs @ [log4xx a ann e]) s'
          else post_all post rest True logs s'
      | (Some (Other e), s') \<Rightarrow> post_all post rest True logs s')"

record grafana_webhook_env =
  gw_json :: "string \<Rightarrow> go_error + jvalue"
  gw_time :: "string \<Rightarrow> go_time option"

definition decode_webhook :: "grafana_webhook_env \<Rightarrow> string \<Rightarrow> AlertmanagerWebhookV4 option" where
  "decode_webhook env body =
     (case gw_json env body of Inl _ \<Rightarrow> None
      | Inr j \<Rightarrow> dec_webhookV4 (gw_time env) j \<lparr>aw_Receiver = [], aw_Status = [], aw_Alerts = [], aw_GroupKey = []\<rparr>)"

record grafana_reply =
  gy_code :: int
  gy_allow :: "string option"
  gy_body :: string

definition grafana_ServeHTTP ::
  "grafana_webhook_env \<Rightarrow> (AnnotationRequest \<Rightarrow> 's \<Rightarrow> post_error option \<times> 's) \<Rightarrow> string \<Rightarrow> string \<Rightarrow> 's \<Rightarrow>
   grafana_reply \<times> error_entry list \<times> 's" where
  "grafana_ServeHTTP env post meth body s =
     (if meth \<noteq> ''POST''
      then (\<lparr>gy_code = 405, gy_allow = Some ''POST'', gy_body = ''method not allowed'' @ [CHR 0x0A]\<rparr>, [], s)
      else case decode_webhook env body of
        None \<Rightarrow> (\<lparr>gy_code = 400, gy_allow = None, gy_body = ''malformed alertmanager webhook payload'' @ [CHR 0x0A]\<rparr>, [], s)
      | Some payload \<Rightarrow>
        (case post_all post (zip (aw_Alerts payload) (MapAlertmanagerWebhookToAnnotations payload)) False [] s of
           (anyTransient, logs, s') \<Rightarrow>
             (if anyTransient
              then \<lparr>gy_code = 502, gy_allow = None, gy_body = ''grafana annotations: transient upstream failure'' @ [CHR 0x0A]\<rparr>
              else \<lparr>gy_code = 204, gy_allow = None, gy_body = []\<rparr>, logs, s')))"

definition http_poster :: "'s grafana_env \<Rightarrow> AnnotationRequest \<Rightarrow> 's \<Rightarrow> post_error option \<times> 's" where
  "http_poster env ann s = (case PostAnnotation env ann s of (e, s') \<Rightarrow> (map_option Typed e, s'))"

section \<open>What the handler does with each alert\<close>

text \<open>The annotations sent one after another, each with what became of it.\<close>

fun deliver :: "'s grafana_env \<Rightarrow> AnnotationRequest list \<Rightarrow> 's \<Rightarrow> ClientError option list \<times> 's" where
  "deliver env [] s = ([], s)"
| "deliver env (ann # anns) s =
     (case PostAnnotation env ann s of (e, s') \<Rightarrow> (case deliver env anns s' of (es, s'') \<Rightarrow> (e # es, s'')))"

definition retriable :: "ClientError option \<Rightarrow> bool" where
  "retriable e \<longleftrightarrow> (\<exists>c. e = Some c \<and> ge_Sentinel c = ErrGrafanaClient5xx)"

definition permanent :: "ClientError option \<Rightarrow> bool" where
  "permanent e \<longleftrightarrow> (\<exists>c. e = Some c \<and> ge_Sentinel c = ErrGrafanaClient4xx)"

definition failure_log :: "AlertmanagerAlertV4 list \<Rightarrow> ClientError option list \<Rightarrow> error_entry list" where
  "failure_log alerts es = map (\<lambda>(a, e). log4xx a (annotation_of a) (the e)) (filter (\<lambda>(a, e). permanent e) (zip alerts es))"

lemma deliver_length: "deliver env anns s = (es, s') \<Longrightarrow> length es = length anns"
  by (induction anns arbitrary: s es) (auto split: prod.splits)

lemma post_all_deliver:
  assumes "deliver env (map annotation_of alerts) s = (es, s')"
  shows "post_all (http_poster env) (zip alerts (map annotation_of alerts)) t logs s =
    (t \<or> (\<exists>e \<in> set es. retriable e), logs @ failure_log alerts es, s')"
  using assms
proof (induction alerts arbitrary: t logs s es)
  case (Cons a alerts)
  obtain e s1 where e: "PostAnnotation env (annotation_of a) s = (e, s1)" by fastforce
  obtain es1 where d: "deliver env (map annotation_of alerts) s1 = (es1, s')" and es: "es = e # es1"
    using Cons.prems by (auto simp: e split: prod.splits)
  note ih = Cons.IH [OF d]
  have p: "http_poster env (annotation_of a) s = (map_option Typed e, s1)" by (simp add: http_poster_def e)
  show ?case
  proof (cases e)
    case (Some c)
    then show ?thesis
      by (cases "ge_Sentinel c")
        (auto simp: p es ih ClientError_Is_def retriable_def permanent_def failure_log_def)
  qed (auto simp: p es ih retriable_def permanent_def failure_log_def)
qed (simp add: failure_log_def)

text \<open>Whether a retry can mend what \<open>http.Client.Do\<close> gave.\<close>

definition mendable :: "go_error + int \<Rightarrow> bool" where
  "mendable r = (case r of Inl _ \<Rightarrow> True | Inr code \<Rightarrow> code = 429 \<or> 500 \<le> code \<or> (code < 400 \<and> code \<noteq> 200 \<and> code \<noteq> 201))"

lemma PostAnnotation_class:
  assumes "ga_marshal env req = None" and "ga_url env = None"
  shows "retriable (fst (PostAnnotation env req s)) \<longleftrightarrow> mendable (fst (ga_post env req s))"
    and "permanent (fst (PostAnnotation env req s)) \<longleftrightarrow>
      (\<exists>code. fst (ga_post env req s) = Inr code \<and> 400 \<le> code \<and> code < 500 \<and> code \<noteq> 429)"
  using assms by (auto simp: PostAnnotation_def permanent_def retriable_def mendable_def split: prod.splits sum.splits)

lemma UnixMilli_mono: "t \<le> u \<Longrightarrow> UnixMilli t \<le> UnixMilli u"
  by (simp add: UnixMilli_def Millisecond_def zdiv_mono1)

section \<open>Properties\<close>

text \<open>
  C38: The annotations webhook delivers every alert and reports exactly what the sender should
  retry. A request that is not a POST gets 405 and a malformed body 400, and nothing is sent.
  Otherwise one annotation per alert is sent, in order, whatever becomes of the others; the
  answer is 502 exactly when one of them failed in a way a retry can mend (no reply, 429, a
  server error, an unexpected status) and 204 otherwise; and every permanent failure (another
  client error) is logged once, in order, with the alert it belongs to.
\<close>

theorem grafana_webhook:
  "(case grafana_ServeHTTP wenv (http_poster env) meth body s of (reply, logs, s1) \<Rightarrow>
     if meth \<noteq> ''POST'' then gy_code reply = 405 \<and> logs = [] \<and> s1 = s
     else case decode_webhook wenv body of None \<Rightarrow> gy_code reply = 400 \<and> logs = [] \<and> s1 = s
     | Some p \<Rightarrow>
         (case deliver env (map annotation_of (aw_Alerts p)) s of (es, s') \<Rightarrow>
            length es = length (aw_Alerts p) \<and> s1 = s' \<and> logs = failure_log (aw_Alerts p) es \<and>
            gy_code reply = (if \<exists>e \<in> set es. retriable e then 502 else 204))) \<and>
   (ga_marshal env ann = None \<and> ga_url env = None \<longrightarrow>
     (retriable (fst (PostAnnotation env ann st)) \<longleftrightarrow> mendable (fst (ga_post env ann st))))"
proof
  show "ga_marshal env ann = None \<and> ga_url env = None \<longrightarrow>
     (retriable (fst (PostAnnotation env ann st)) \<longleftrightarrow> mendable (fst (ga_post env ann st)))"
    by (intro impI PostAnnotation_class(1)) simp_all
next
  consider "meth \<noteq> ''POST''" | "meth = ''POST''" "decode_webhook wenv body = None"
    | p where "meth = ''POST''" "decode_webhook wenv body = Some p" by (cases "decode_webhook wenv body") auto
  then show "case grafana_ServeHTTP wenv (http_poster env) meth body s of (reply, logs, s1) \<Rightarrow>
     if meth \<noteq> ''POST'' then gy_code reply = 405 \<and> logs = [] \<and> s1 = s
     else case decode_webhook wenv body of None \<Rightarrow> gy_code reply = 400 \<and> logs = [] \<and> s1 = s
     | Some p \<Rightarrow>
         (case deliver env (map annotation_of (aw_Alerts p)) s of (es, s') \<Rightarrow>
            length es = length (aw_Alerts p) \<and> s1 = s' \<and> logs = failure_log (aw_Alerts p) es \<and>
            gy_code reply = (if \<exists>e \<in> set es. retriable e then 502 else 204))"
  proof cases
    case (3 p)
    obtain es s' where d: "deliver env (map annotation_of (aw_Alerts p)) s = (es, s')" by fastforce
    show ?thesis using deliver_length [OF d]
      by (simp add: grafana_ServeHTTP_def 3 MapAlertmanagerWebhookToAnnotations_def d post_all_deliver [OF d])
  qed (simp_all add: grafana_ServeHTTP_def)
qed

text \<open>
  A payload maps to one annotation per alert, in order: a point in time while the alert
  fires, and a range only for a resolved alert with an end, whose end is not before its start
  when the alert's is not. The tags are the alert name, severity, status and source.
\<close>

lemma annotations_faithful:
  "length (MapAlertmanagerWebhookToAnnotations p) = length (aw_Alerts p) \<and>
   (\<forall>i < length (aw_Alerts p).
      let a = aw_Alerts p ! i; ann = MapAlertmanagerWebhookToAnnotations p ! i in
      an_Time ann = UnixMilli (av_StartsAt a) \<and> length (an_Tags ann) = 4 \<and> hd (an_Tags ann) = map_get (av_Labels a) ''alertname'' \<and>
      (an_TimeEnd ann \<noteq> 0 \<longrightarrow> av_Status a = ''resolved'' \<and> av_EndsAt a \<noteq> 0) \<and>
      (av_Status a = ''resolved'' \<and> av_EndsAt a \<noteq> 0 \<and> av_StartsAt a \<le> av_EndsAt a \<longrightarrow> an_Time ann \<le> an_TimeEnd ann))"
  by (auto simp: MapAlertmanagerWebhookToAnnotations_def annotation_of_def zeroOrUnixMilli_def Let_def UnixMilli_mono)

section \<open>A concrete payload\<close>

definition sample_alert :: "string \<Rightarrow> AlertmanagerAlertV4" where
  "sample_alert status = \<lparr>av_Status = status, av_Labels = [(''alertname'', ''Down''), (''severity'', ''critical'')], av_Annotations = [],
     av_StartsAt = 62135596800 * Second + 5 * Millisecond, av_EndsAt = 62135596800 * Second + 9 * Millisecond, av_Fingerprint = []\<rparr>"

definition sample_payloadV4 :: AlertmanagerWebhookV4 where
  "sample_payloadV4 = \<lparr>aw_Receiver = [], aw_Status = ''firing'', aw_Alerts = [sample_alert ''firing'', sample_alert ''resolved''], aw_GroupKey = []\<rparr>"

definition sample_grafana :: "nat grafana_env" where
  "sample_grafana = \<lparr>ga_marshal = (\<lambda>_. None), ga_url = None, ga_post = (\<lambda>_ n. (Inr (if n = 0 then 429 else 201), Suc n))\<rparr>"

theorem grafana_webhook_witness:
  "retriable (fst (PostAnnotation sample_grafana (annotation_of (sample_alert ''firing'')) 0)) \<and>
   \<not> retriable (fst (PostAnnotation sample_grafana (annotation_of (sample_alert ''firing'')) 1))"
  using grafana_webhook [where env = sample_grafana and ann = "annotation_of (sample_alert ''firing'')" and st = 0]
    grafana_webhook [where env = sample_grafana and ann = "annotation_of (sample_alert ''firing'')" and st = 1]
  by (simp add: sample_grafana_def mendable_def)

end
