(* ===== verification/Entry_Points.thy ===== *)
theory Entry_Points
  imports Bootstrap Linear_Properties Grafana
begin

text \<open>
  The three processes (\<open>cmd/runtime-adapters\<close>, \<open>cmd/linear-webhook-adapter\<close> and
  \<open>cmd/grafana-annotations-webhook\<close>): the \<open>run\<close> function of each, which returns the exit code,
  with the guards that keep a continuous-integration run away from a production tenant. What
  ends the serving of requests is an argument.
\<close>

section \<open>The runtime\<close>

text \<open>How serving ended: a signal, a server error, or a server closed without one.\<close>

datatype serve_end = Signalled | ServerFailed go_error | ServerClosed

record shutdown_errors =
  sd_server :: "go_error option"
  sd_collector :: "go_error option"
  sd_otel :: "go_error option"

definition runtime_run ::
  "'z fs_state_scheme boot_env \<Rightarrow> config_env \<Rightarrow> serve_end \<Rightarrow> shutdown_errors \<Rightarrow> int outcome \<times> boot_action list" where
  "runtime_run env src ended errs =
     (case Load src of Inl _ \<Rightarrow> (Ret 1, [])
      | Inr cfg \<Rightarrow>
        (case BuildRuntime env cfg [] of
           (Panic v, acts) \<Rightarrow> (Panic v, acts)
         | (Ret (Inl _), acts) \<Rightarrow> (Ret 1, acts)
         | (Ret (Inr rt), acts) \<Rightarrow>
           (case Shutdown (sd_server errs) (sd_collector errs) (sd_otel errs) acts of
              (e, acts') \<Rightarrow> (Ret (case ended of ServerFailed _ \<Rightarrow> 1 | _ \<Rightarrow> if e = None then 0 else 1), acts'))))"

section \<open>The Linear webhook process\<close>

definition linear_enforceModeLock :: "(string \<Rightarrow> string) \<Rightarrow> go_error option" where
  "linear_enforceModeLock getenv =
     (if map lower_char (getenv ''CI'') = ''true'' \<and> getenv ''RUNTIME_TENANT'' \<noteq> ''test''
      then Some (errorf (''CI must run with RUNTIME_TENANT=test: got RUNTIME_TENANT='' @ quoted (getenv ''RUNTIME_TENANT'')))
      else None)"

definition linear_enforceTenantFingerprint :: "(string \<Rightarrow> string) \<Rightarrow> go_error option" where
  "linear_enforceTenantFingerprint getenv =
     (if map lower_char (getenv ''CI'') = ''true'' \<and> getenv ''LINEAR_TENANT_TYPE'' \<noteq> ''test''
      then Some (errorf (''CI must use Linear test tenant only: got LINEAR_TENANT_TYPE='' @ quoted (getenv ''LINEAR_TENANT_TYPE'')))
      else None)"

record linear_config =
  lk_LinearAPIToken :: string
  lk_LinearTeamID :: string
  lk_LinearAPIURL :: string
  lk_LinearTenantType :: string
  lk_RecommentMinInterval :: duration
  lk_ListenAddr :: string

definition linear_loadConfig :: "(string \<Rightarrow> string) \<Rightarrow> (string \<Rightarrow> go_error + duration) \<Rightarrow> go_error + linear_config" where
  "linear_loadConfig getenv parse =
     (let token = getenv ''LINEAR_API_TOKEN''; team = getenv ''LINEAR_TEAM_ID''; url = getenv ''LINEAR_API_URL'';
          addr = getenv ''LISTEN_ADDR''; v = getenv ''LINEAR_RECOMMENT_MIN_INTERVAL''
      in if token = [] then Inl (errorf ''LINEAR_API_TOKEN is required'')
         else if team = [] then Inl (errorf ''LINEAR_TEAM_ID is required'')
         else case (if v \<noteq> [] then parse v else Inr (15 * Minute)) of
           Inl e \<Rightarrow> Inl (wrapf ''LINEAR_RECOMMENT_MIN_INTERVAL'' e)
         | Inr d \<Rightarrow>
           Inr \<lparr>lk_LinearAPIToken = token, lk_LinearTeamID = team,
                lk_LinearAPIURL = (if url = [] then ''https://api.linear.app/graphql'' else url),
                lk_LinearTenantType = getenv ''LINEAR_TENANT_TYPE'', lk_RecommentMinInterval = d,
                lk_ListenAddr = (if addr = [] then '':9095'' else addr)\<rparr>)"

text \<open>What the process serves with, or no value when it exits with 1 before it listens.\<close>

definition linear_start :: "(string \<Rightarrow> string) \<Rightarrow> (string \<Rightarrow> go_error + duration) \<Rightarrow> linear_config option" where
  "linear_start getenv parse =
     (if linear_enforceModeLock getenv \<noteq> None then None
      else if linear_enforceTenantFingerprint getenv \<noteq> None then None
      else case linear_loadConfig getenv parse of Inl _ \<Rightarrow> None | Inr cfg \<Rightarrow> Some cfg)"

definition linear_lifecycle :: "'s gql_env \<Rightarrow> (Issue list \<Rightarrow> Issue list) \<Rightarrow> linear_config \<Rightarrow> 's LifecycleConfig" where
  "linear_lifecycle env srt cfg =
     \<lparr>lf_Client = NewLinearGraphQLClient env, lf_TeamID = lk_LinearTeamID cfg,
      lf_RecommentMinInterval = lk_RecommentMinInterval cfg, lf_sort = srt\<rparr>"

definition linear_run :: "(string \<Rightarrow> string) \<Rightarrow> (string \<Rightarrow> go_error + duration) \<Rightarrow> serve_end \<Rightarrow> go_error option \<Rightarrow> int" where
  "linear_run getenv parse ended down =
     (case linear_start getenv parse of None \<Rightarrow> 1
      | Some _ \<Rightarrow> (case ended of ServerFailed _ \<Rightarrow> 1 | _ \<Rightarrow> if down = None then 0 else 1))"

section \<open>The Grafana webhook process\<close>

definition grafana_enforceModeLock :: "(string \<Rightarrow> string) \<Rightarrow> go_error option" where
  "grafana_enforceModeLock getenv =
     (if map lower_char (getenv ''CI'') = ''true'' \<and> getenv ''RUNTIME_TENANT'' \<noteq> ''test''
      then Some (errorf (''CI must run with RUNTIME_TENANT=test: got RUNTIME_TENANT='' @ quoted (getenv ''RUNTIME_TENANT'')))
      else None)"

definition grafana_enforceTenantFingerprint :: "(string \<Rightarrow> string) \<Rightarrow> go_error option" where
  "grafana_enforceTenantFingerprint getenv =
     (if map lower_char (getenv ''CI'') = ''true'' \<and> getenv ''GRAFANA_TENANT_TYPE'' \<noteq> ''test''
      then Some (errorf (''CI must run with GRAFANA_TENANT_TYPE=test: got GRAFANA_TENANT_TYPE='' @ quoted (getenv ''GRAFANA_TENANT_TYPE'')))
      else None)"

definition grafana_start ::
  "(string \<Rightarrow> string) \<Rightarrow> (string \<Rightarrow> go_error option) \<Rightarrow> log_env \<Rightarrow> GrafanaConfig option" where
  "grafana_start getenv url_Parse lenv =
     (if grafana_enforceModeLock getenv \<noteq> None then None
      else if grafana_enforceTenantFingerprint getenv \<noteq> None then None
      else case log_LoadConfig lenv of Inl _ \<Rightarrow> None
      | Inr logCfg \<Rightarrow> (case log_New lenv logCfg of Inl _ \<Rightarrow> None
      | Inr _ \<Rightarrow> (case grafana_LoadConfig getenv url_Parse of Inl _ \<Rightarrow> None | Inr cfg \<Rightarrow> Some cfg)))"

definition grafana_run ::
  "(string \<Rightarrow> string) \<Rightarrow> (string \<Rightarrow> go_error option) \<Rightarrow> log_env \<Rightarrow> serve_end \<Rightarrow> int" where
  "grafana_run getenv url_Parse lenv ended =
     (case grafana_start getenv url_Parse lenv of None \<Rightarrow> 1
      | Some _ \<Rightarrow> (case ended of ServerFailed _ \<Rightarrow> 1 | _ \<Rightarrow> 0))"

section \<open>Properties\<close>

definition all_closed :: "boot_action list \<Rightarrow> bool" where
  "all_closed acts \<longleftrightarrow> (\<forall>a \<in> set boot_order. count_list acts a = count_list acts (closing a) \<and> count_list acts a \<le> 1)"

lemma all_closed_prefix: "all_closed (take n boot_order @ rev (map closing (take n boot_order)))"
proof -
  have "take n boot_order \<in> {[], [OtelUp], [OtelUp, PoolOpen], boot_order}"
    by (cases n; cases "n - 1"; cases "n - 2") (auto simp: boot_order_def take_Cons' split: if_splits)
  then show ?thesis by (elim insertE emptyE) (simp_all add: all_closed_def boot_order_def closing_def)
qed

lemma all_closed_shutdown: "all_closed (snd (Shutdown a b c boot_order))"
  by (simp add: Shutdown_def all_closed_def boot_order_def closing_def)


text \<open>
  C34: Continuous integration never reaches a production tenant. When the variable \<open>CI\<close> says true,
  in whatever case, none of the three processes opens a connection or serves a request unless
  \<open>RUNTIME_TENANT\<close> is test, and the two webhook processes unless their own tenant type is test
  too; the Grafana one then also has a token.
\<close>

theorem ci_isolation:
  fixes env :: "'z fs_state_scheme boot_env"
  assumes ci: "map lower_char (getenv ''CI'') = ''true''"
  shows "(bo_getenv env = getenv \<and> snd (runtime_run env src ended errs) \<noteq> [] \<longrightarrow> getenv ''RUNTIME_TENANT'' = ''test'') \<and>
    (linear_start getenv parse = Some lcfg \<longrightarrow>
       getenv ''RUNTIME_TENANT'' = ''test'' \<and> lk_LinearTenantType lcfg = ''test'') \<and>
    (grafana_start getenv url_Parse lenv = Some gcfg \<longrightarrow>
       getenv ''RUNTIME_TENANT'' = ''test'' \<and> gc_TenantType gcfg = ''test'' \<and> gc_ServiceAccountToken gcfg \<noteq> [])"
proof (intro conjI impI)
  assume a: "bo_getenv env = getenv \<and> snd (runtime_run env src ended errs) \<noteq> []"
  show "getenv ''RUNTIME_TENANT'' = ''test''"
  proof (rule ccontr)
    assume "getenv ''RUNTIME_TENANT'' \<noteq> ''test''"
    then obtain e where "BuildRuntime env cfg [] = (Ret (Inl e), [])" for cfg
      using a ci by (auto simp: BuildRuntime_def enforceRuntimeModeLock_def)
    then have "snd (runtime_run env src ended errs) = []"
      by (simp add: runtime_run_def split: sum.split)
    with a show False by blast
  qed
next
  assume "linear_start getenv parse = Some lcfg"
  then show "getenv ''RUNTIME_TENANT'' = ''test''" "lk_LinearTenantType lcfg = ''test''"
    using ci by (auto simp: linear_start_def linear_enforceModeLock_def linear_enforceTenantFingerprint_def
        linear_loadConfig_def Let_def split: if_splits sum.splits)
next
  assume "grafana_start getenv url_Parse lenv = Some gcfg"
  then show "getenv ''RUNTIME_TENANT'' = ''test''" "gc_TenantType gcfg = ''test''" "gc_ServiceAccountToken gcfg \<noteq> []"
    using ci by (auto simp: grafana_start_def grafana_enforceModeLock_def grafana_enforceTenantFingerprint_def
        grafana_LoadConfig_def grafana_Validate_def isCI_def Let_def split: if_splits sum.splits option.splits)
qed

section \<open>A concrete environment\<close>

definition ci_env :: "string \<Rightarrow> string" where
  "ci_env k = (if k = ''CI'' then ''TRUE'' else if k = ''RUNTIME_TENANT'' \<or> k = ''LINEAR_TENANT_TYPE'' then ''test''
     else if k = ''LINEAR_API_TOKEN'' \<or> k = ''LINEAR_TEAM_ID'' then ''t'' else [])"

theorem ci_isolation_witness:
  "\<exists>cfg. linear_start ci_env (\<lambda>_. Inl (errorf [])) = Some cfg \<and> lk_LinearTenantType cfg = ''test''"
proof -
  have ci: "map lower_char (ci_env ''CI'') = ''true''" by code_simp
  have "linear_start ci_env (\<lambda>_. Inl (errorf [])) \<noteq> None"
    by (simp add: linear_start_def linear_enforceModeLock_def linear_enforceTenantFingerprint_def linear_loadConfig_def
        ci_env_def Let_def)
  then obtain cfg where "linear_start ci_env (\<lambda>_. Inl (errorf [])) = Some cfg" by blast
  with ci_isolation [where getenv = ci_env, OF ci, where parse = "\<lambda>_. Inl (errorf [])" and lcfg = cfg] show ?thesis by blast
qed

end
