(* ===== verification/Receipt_Typing.thy ===== *)
theory Receipt_Typing
  imports Registration Execute_Properties
begin

text \<open>
  The type invariant of what the service stores and returns. Every result the registered
  normalizers and the service itself build satisfies the rules of \<open>entities.NewExecutionResult\<close>;
  every receipt assembled from it satisfies those of \<open>NewExecutionHandle\<close> and
  \<open>NewExecutionReceipt\<close>; and the receipts table only ever holds documents of such receipts.
\<close>

section \<open>Results of the registered normalizers\<close>

definition normalizes_well :: "'w AdapterNormalizer \<Rightarrow> bool" where
  "normalizes_well f \<longleftrightarrow> (\<forall>cap raw w now res. f cap raw w now = Ret (Inr res) \<longrightarrow> result_ok res)"

lemma shared_results_ok:
  "ctx_result e ms now = Inr res \<Longrightarrow> result_ok res" "validation_result v ms now = Inr res \<Longrightarrow> result_ok res"
  "external_result e ms now = Inr res \<Longrightarrow> result_ok res"
  by (auto simp: ctx_result_def validation_result_def external_result_def split: if_splits dest: NewExecutionResult_ok)

lemmas result_dests = shared_results_ok NewExecutionResult_ok

lemma adapters_normalize_well:
  "normalizes_well (shell_Normalize sc)" "normalizes_well (http_Normalize hc)"
  "normalizes_well (NormalizeRead fc)" "normalizes_well NormalizeWrite"
  by (auto simp: normalizes_well_def shell_Normalize_def shell_normalize_def http_Normalize_def http_normalize_def
      NormalizeRead_def normalize_read_def NormalizeWrite_def normalize_write_def Let_def
      split: option.splits AdapterRawOutcome.splits if_splits dest: result_dests)

lemma git_normalizes_well:
  "normalizes_well NormalizeStatus" "normalizes_well (NormalizeClone env)" "normalizes_well (NormalizeDiff gc)"
  "normalizes_well NormalizeCommit" "normalizes_well NormalizeWorktreeCreate"
  by (auto simp: normalizes_well_def NormalizeStatus_def normalize_status_def NormalizeClone_def normalize_clone_def
      NormalizeDiff_def normalize_diff_def NormalizeCommit_def normalize_commit_def NormalizeWorktreeCreate_def
      normalize_worktree_def Let_def split: option.splits AdapterRawOutcome.splits if_splits dest: result_dests)

definition results_ok :: "'w ResultNormalizer \<Rightarrow> bool" where
  "results_ok n \<longleftrightarrow> (\<forall>cap raw w clk res. rn_Normalize n cap raw w clk = Ret (Inr res) \<longrightarrow> result_ok res)"

lemma results_ok_well: "(\<And>c f. (c, f) \<in> set (rn_byCanonical n) \<Longrightarrow> normalizes_well f) \<Longrightarrow> results_ok n"
  by (fastforce simp: results_ok_def rn_Normalize_def normalizes_well_def split: option.splits dest: map_of_SomeD)

lemma register_all_subset:
  "set (rn_byCanonical (snd (register_all rs n))) \<subseteq> set rs \<union> set (rn_byCanonical n)"
proof (induction rs arbitrary: n)
  case (Cons r rs)
  obtain c f where r: "r = (c, f)" by fastforce
  show ?case
    using rn_Register_cases [of c "Some f" n] Cons.IH [of "n\<lparr>rn_byCanonical := (c, f) # rn_byCanonical n\<rparr>"]
    by (auto simp: r)
qed simp

text \<open>Whatever part of the registration went through.\<close>

lemma registered_results_ok:
  assumes "rn_byCanonical n = []"
  shows "results_ok (the (snd (RegisterAllPhase1 env (Some n) cfg clk)))"
proof (rule results_ok_well)
  fix c f assume "(c, f) \<in> set (rn_byCanonical (the (snd (RegisterAllPhase1 env (Some n) cfg clk))))"
  then have "(c, f) \<in> set (registrations env cfg)"
    using register_all_subset [of "registrations env cfg" n] assms
    by (fastforce simp: RegisterAllPhase1_def split: if_splits sum.splits prod.splits option.splits)
  then show "normalizes_well f" by (auto simp: registrations_def adapters_normalize_well git_normalizes_well)
qed

section \<open>Receipts\<close>

definition handle_for :: "ExecutionRequest \<Rightarrow> ExecutionHandle \<Rightarrow> bool" where
  "handle_for req h \<longleftrightarrow> ulidRegex (HandleID_String (h_handleID h)) \<and> h_correlationID h = req_correlationID req \<and>
     h_adapterID h = cap_adapterID (h_capability h)"

definition receipt_ok :: "ExecutionReceipt \<Rightarrow> bool" where
  "receipt_ok r \<longleftrightarrow> ulidRegex (receipt_key r) \<and> rc_schemaVersion r = SchemaVersionV1 \<and>
     handle_for (rc_request r) (rc_handle r) \<and> result_ok (rc_result r) \<and>
     CorrelationID_String (req_correlationID (rc_request r)) \<noteq> [] \<and> prov_Source (rc_provenance r) \<noteq> [] \<and>
     tm_SubmittedAt (rc_timings r) \<noteq> 0 \<and> rc_persistedAt r \<noteq> None"

lemma NewExecutionHandle_for:
  "NewExecutionHandle g (req_correlationID req) cap clk = Inr h \<Longrightarrow> handle_for req h"
  by (auto simp: validate handle_for_def)

lemma NewExecutionReceipt_typed:
  assumes "NewExecutionReceipt g req h res prov tm clk = Inr r" and "result_ok res" and "handle_for req h"
  shows "receipt_ok (WithPersistedAt t r)"
  using assms by (auto simp: validate receipt_ok_def WithPersistedAt_def)

lemma service_results_ok:
  "ctx_raw_result r d t = Inr res \<Longrightarrow> result_ok res" "panic_raw_result p d t = Inr res \<Longrightarrow> result_ok res"
  "normalization_failure msg d t = Inr res \<Longrightarrow> result_ok res"
  by (auto simp: ctx_raw_result_def panic_raw_result_def normalization_failure_def split: if_splits dest: NewExecutionResult_ok)

lemma build_result_ok:
  assumes "results_ok (sv_normalizer svc)" and "build_result svc l cap raw dur tEnd w now = (Inr res, evs)"
  shows "result_ok res"
proof -
  have n: "result_ok y" if "rn_Normalize (sv_normalizer svc) cap raw w (Some now) = Ret (Inr y)" for y
    using assms(1) that unfolding results_ok_def by blast
  show ?thesis
    using assms(2) n service_results_ok
    by (auto simp: build_result_def Let_def map_sum_Inr split: option.splits AdapterRawOutcome.splits outcome.splits sum.splits)
qed

section \<open>The stored rows\<close>

locale typed_stores = execution_stores Save FindByID rows enc dec Lookup Record entries stamp svc
  for Save :: "'s save_fn" and FindByID :: "'s find_fn" and rows :: "'s \<Rightarrow> string \<Rightarrow> 'v option"
    and enc :: "ExecutionReceipt \<Rightarrow> 'v option" and dec :: "go_time \<Rightarrow> 'v \<Rightarrow> go_error + ExecutionReceipt"
    and Lookup :: "'s lookup_fn" and Record :: "'s record_fn"
    and entries :: "'s \<Rightarrow> string \<Rightarrow> (string \<times> go_time) option" and stamp :: "go_time \<Rightarrow> go_time"
    and svc :: "('w, 's) ExecuteService" +
  assumes results: "results_ok (sv_normalizer svc)"
begin

definition rows_typed :: "'s \<Rightarrow> bool" where
  "rows_typed s \<longleftrightarrow> (\<forall>k v. rows s k = Some v \<longrightarrow> (\<exists>r. enc r = Some v \<and> receipt_key r = k \<and> receipt_ok r))"

lemma rows_typed_cong: "rows s' = rows s \<Longrightarrow> rows_typed s' = rows_typed s"
  by (simp add: rows_typed_def)

lemma save_typed:
  assumes typed: "rows_typed s" and r: "receipt_ok (WithPersistedAt now r)"
  shows "rows_typed (snd (Save c now r s))"
proof -
  obtain x s' where run: "Save c now r s = (Ret x, s')"
    using save_returns [of c now r s] by (metis prod.collapse)
  have key: "receipt_key (WithPersistedAt now r) = receipt_key r" by (simp add: WithPersistedAt_def)
  have "rows s' = rows s \<or> (\<exists>v. enc (WithPersistedAt now r) = Some v \<and> rows s' = (rows s)(receipt_key r \<mapsto> v))"
    using save_success [of c now r s _ s'] save_failure [of c now r s _ s'] run by (cases x) auto
  then show ?thesis using typed r key unfolding run snd_conv rows_typed_def by (metis fun_upd_apply option.inject)
qed

text \<open>A reply from a store: the rows stay typed, and a receipt it carries is well-formed.\<close>

definition typed :: "'s \<Rightarrow> ('w, 's) reply \<Rightarrow> bool" where
  "typed s rep \<longleftrightarrow> (rows_typed s \<longrightarrow> rows_typed (st_store (snd rep))) \<and> (\<forall>r. fst rep = Ret (Inr r) \<longrightarrow> receipt_ok r)"

lemma typed_error: "st_store st = s \<Longrightarrow> typed s (Ret (Inl e), st)"
  by (auto simp: typed_def)

lemma with_id_typed:
  assumes st: "st_store st = s" and k: "\<And>new st'. st_store st' = s \<Longrightarrow> typed s (k new st')"
  shows "typed s (with_id svc st k)"
proof (cases "sv_idGen svc (st_ids st)")
  case (Ret new)
  then show ?thesis using k [of "st\<lparr>st_ids := Suc (st_ids st)\<rparr>" new] st by (simp add: with_id_def)
qed (use st in \<open>auto simp: with_id_def typed_def\<close>)

lemma persist_typed:
  assumes r: "\<And>t. receipt_ok (WithPersistedAt t r)" and f: "\<And>saved st'. rows (st_store (f saved st')) = rows (st_store st')"
    and st: "st_store st = s"
  shows "typed s (case persist svc c l r st of
      (Inl e, st') \<Rightarrow> (Ret (Inl e), st') | (Inr saved, st') \<Rightarrow> (Ret (Inr saved), f saved st'))"
proof -
  obtain x st' where run: "persist svc c l r st = (x, st')" by fastforce
  then have "st_store st' = snd (Save c (read_clock svc st) r (st_store st))"
    by (auto simp: persist_def uses_receipts Let_def split: prod.splits outcome.splits sum.splits)
  then have rows: "rows_typed (st_store st) \<Longrightarrow> rows_typed (st_store st')" using save_typed r by simp
  show ?thesis
  proof (cases x)
    case (Inl e)
    then show ?thesis using rows run st by (simp add: typed_def)
  next
    case (Inr saved)
    then have "saved = WithPersistedAt (read_clock svc st) r" using persist_saved run by blast
    then show ?thesis using Inr rows run r st rows_typed_cong [OF f] by (simp add: typed_def)
  qed
qed

lemma record_key_rows: "rows (st_store (record_key svc l req saved st)) = rows (st_store st)"
proof (cases "req_idempotencyKey req")
  case (Some key)
  obtain x s' where run: "Record None (read_clock svc st) key (rc_receiptID saved) (sv_idempWindow svc) (st_store st) = (x, s')"
    by fastforce
  then have "rows s' = rows (st_store st)" using record_rows by (metis snd_conv)
  then show ?thesis using run by (cases x) (simp_all add: record_key_def Some uses_idempotency)
qed (simp add: record_key_def)

text \<open>Both paths assemble a receipt, save it and go on without touching the rows.\<close>

lemma assembled_typed:
  assumes "result_ok res" and "handle_for req h" and "\<And>saved st'. rows (st_store (f saved st')) = rows (st_store st')"
    and "st_store st = s"
  shows "typed s (case NewExecutionReceipt g req h res (sv_provenance svc) tm clk of
       Inl e \<Rightarrow> (Ret (Inl (wrapf what e)), tick st)
     | Inr receipt \<Rightarrow> (case persist svc c l receipt (tick st) of
         (Inl e, st') \<Rightarrow> (Ret (Inl e), st') | (Inr saved, st') \<Rightarrow> (Ret (Inr saved), f saved st')))"
proof (cases "NewExecutionReceipt g req h res (sv_provenance svc) tm clk")
  case (Inl e)
  then show ?thesis using assms(4) by (simp add: typed_error)
next
  case (Inr receipt)
  from persist_typed [OF NewExecutionReceipt_typed [OF Inr assms(1,2)] assms(3), of "tick st" s] assms(4)
  show ?thesis by (simp add: Inr)
qed

lemma finish_typed:
  "result_ok res \<Longrightarrow> handle_for req h \<Longrightarrow> st_store st = s \<Longrightarrow> typed s (finish svc l req cap h res a b st)"
  unfolding finish_def by (rule with_id_typed, assumption, rule assembled_typed) (simp_all add: record_key_rows)

lemma structural_typed:
  assumes st: "st_store st = s"
  shows "typed s (persistStructural svc cc l req ec msg st)"
proof (cases "NewExecutionResult StatusFailure (DefaultRetryHint ec) ec msg None None None [] [] 0 0 0 (read_clock svc st)")
  case (Inl e)
  then show ?thesis using st by (simp add: persistStructural_def typed_error)
next
  case (Inr res)
  show ?thesis
    unfolding persistStructural_def Let_def Inr sum.case
    by (auto intro!: with_id_typed assembled_typed typed_error NewExecutionResult_ok [OF Inr]
        simp: NewExecutionHandle_for st split: sum.split)
qed

lemma run_adapter_typed:
  assumes h: "handle_for req h"
  shows "typed (st_store st) (run_adapter svc l req cap h ad ctx st)"
proof -
  obtain r w' where run: "SafeExecute (sv_stack svc) ctx ad cap (req_payload req) (st_world st) = (r, w')" by fastforce
  define st4 where "st4 = emit (panic_events svc l cap (effective_raw (ctx_end ctx) r)) (tick ((tick st)\<lparr>st_world := w'\<rparr>))"
  define tEnd where "tEnd = read_clock svc ((tick st)\<lparr>st_world := w'\<rparr>)"
  obtain x evs where b: "build_result svc l cap (effective_raw (ctx_end ctx) r) (Sub tEnd (read_clock svc st)) tEnd w'
      (read_clock svc st4) = (x, evs)" by fastforce
  have eq: "run_adapter svc l req cap h ad ctx st = (case x of Inl e \<Rightarrow> (Ret (Inl e), emit evs (tick st4))
      | Inr res \<Rightarrow> finish svc l req cap h res (read_clock svc st) tEnd (emit evs (tick st4)))"
    by (simp add: run_adapter_def run Let_def b st4_def [symmetric] tEnd_def [symmetric] split: sum.split)
  have st4: "st_store (emit evs (tick st4)) = st_store st" by (simp add: st4_def)
  show ?thesis
  proof (cases x)
    case (Inl e)
    then show ?thesis using typed_error [OF st4] by (simp add: eq)
  next
    case (Inr res)
    with b have "result_ok res" using build_result_ok [OF results] by blast
    from finish_typed [OF this h st4] show ?thesis by (simp add: eq Inr)
  qed
qed

lemma dispatch_typed: "handle_for req h \<Longrightarrow> st_store st = s \<Longrightarrow> typed s (dispatch svc l req cap h ad ctx st)"
  using run_adapter_typed [of req h "emit (active svc cap 1) st" l cap ad ctx]
  by (simp add: dispatch_def case_prod_beta typed_def)

lemma resolve_typed: "typed (st_store st) (resolve svc cc l req st)"
  unfolding resolve_def Let_def
  by (auto intro!: structural_typed dispatch_typed with_id_typed simp: NewExecutionHandle_for split: sum.split option.split)

text \<open>A replay returns what it read: the decoding of a stored row.\<close>

lemma lookup_stage_typed:
  assumes typed: "rows_typed (st_store st)" and run: "lookup_stage svc cc l req st = (out, st')"
  shows "rows_typed (st_store st') \<and>
    (\<forall>r. out = Ret (Inr r) \<longrightarrow> receipt_ok r \<or> (\<exists>k v t. rows (st_store st') k = Some v \<and> dec t v = Inr r))"
proof (cases "req_idempotencyKey req")
  case None
  then show ?thesis using assms resolve_typed [of st cc l req] by (auto simp: lookup_stage_def typed_def)
next
  case (Some key)
  obtain res s' where look: "is_Lookup (sv_idempotency svc) (cc_lookup cc) (read_clock svc st) key (st_store st) = (res, s')"
    by fastforce
  define st1 where "st1 = (tick st)\<lparr>st_store := s'\<rparr>"
  note eq = lookup_stage_key [OF Some look st1_def, of l]
  have s': "rows s' = rows (st_store st)"
    using lookup_rows [of "cc_lookup cc" "read_clock svc st" key "st_store st"] look by (simp add: uses_idempotency)
  have st1: "rows_typed (st_store st1)" using typed rows_typed_cong [OF s'] by (simp add: st1_def)
  show ?thesis
  proof (cases "\<exists>rid. res = Ret (Inr (Some rid))")
    case True
    then obtain rid where hit: "res = Ret (Inr (Some rid))" by blast
    obtain s2 where f: "FindByID (cc_find cc) (read_clock svc st1) rid (st_store st1) = (out, s2)" and st': "st_store st' = s2"
      using run by (auto simp: eq hit uses_receipts case_prod_beta prod_eq_iff)
    have rows2: "rows s2 = rows (st_store st1)" using find_frame f by (metis snd_conv)
    then show ?thesis using find_success [of "cc_find cc" "read_clock svc st1" rid "st_store st1"] f st' st1 rows_typed_cong [OF rows2]
      by fastforce
  next
    case False
    then have "typed (st_store st1) (lookup_stage svc cc l req st)"
      using resolve_typed [of st1 cc l req] structural_typed [of "emit _ st1" "st_store st1"]
      by (cases res) (auto simp: eq split: sum.split option.split)
    then show ?thesis using st1 run by (auto simp: typed_def)
  qed
qed

lemma Execute_typed:
  assumes typed: "rows_typed (st_store st)" and run: "Execute svc cc req st = Some (out, st')"
  shows "rows_typed (st_store st') \<and>
    (\<forall>r. out = Ret (Inr r) \<longrightarrow> receipt_ok r \<or> (\<exists>k v t. rows (st_store st') k = Some v \<and> dec t v = Inr r))"
  using run
proof (cases rule: Execute_cases)
  case (ran l lim lim' st2)
  then show ?thesis using lookup_stage_typed [of "st\<lparr>st_limiter := lim\<rparr>" cc l req out st2] typed by simp
qed (use typed in auto)

end

section \<open>The services\<close>

definition pg_typed :: "pg_env \<Rightarrow> pg_db \<Rightarrow> bool" where
  "pg_typed env db \<longleftrightarrow> (\<forall>k v. pg_rows db k = Some v \<longrightarrow> (\<exists>r. pg_enc env r = Some v \<and> receipt_key r = k \<and> receipt_ok r))"

text \<open>The service with the normalizer registration leaves: the locale's premise is discharged by it.\<close>

definition phase1_service ::
  "'z fs_state_scheme adapter_envs \<Rightarrow> RegistrationConfig \<Rightarrow> int \<Rightarrow> ('z fs_state_scheme, 's) ExecuteService \<Rightarrow>
   ('z fs_state_scheme, 's) ExecuteService" where
  "phase1_service aenv cfg lim svc =
     svc\<lparr>sv_normalizer := the (snd (RegisterAllPhase1 aenv (Some \<lparr>rn_inlineLimit = lim, rn_byCanonical = []\<rparr>) cfg True))\<rparr>"

interpretation pg_typing: typed_stores "pg_Save env" "pg_FindByID env" pg_rows "pg_enc env" Receipt_UnmarshalJSON
  "pg_Lookup env" "pg_Record env" pg_entries "pg_timestamp env" "on_pg env (phase1_service aenv cfg lim svc)" for env aenv cfg lim svc
  by unfold_locales (simp add: on_pg_def phase1_service_def registered_results_ok)

interpretation mem_typing: typed_stores mem_Save mem_FindByID "\<lambda>s. map_of (mm_receipts s)" Some "\<lambda>_. Inr"
  mem_Lookup mem_Record mem_entries "\<lambda>t. t" "on_memory (phase1_service aenv cfg lim svc)" for aenv cfg lim svc
  by unfold_locales (simp add: on_memory_def phase1_service_def registered_results_ok)

lemma pg_typed_rows: "pg_typing.rows_typed env db = pg_typed env db"
  by (simp add: pg_typing.rows_typed_def pg_typed_def)

text \<open>
  C5: The receipts table is well-typed, always. With the normalizer start-up registers, and
  whatever the adapters, the database and the clock do, a call keeps the invariant that every
  document in the table encodes a receipt whose identifiers are ULIDs under its own key, whose
  handle belongs to its request, whose status, error class and message agree, whose message and
  metadata are within their limits and whose counts are not negative; and the receipt a call
  returns is such a receipt, or the decoding of a document in the table.
\<close>

theorem Execute_receipts_typed:
  assumes "pg_typed env (st_store st)"
    and "Execute (on_pg env (phase1_service aenv cfg lim svc)) cc req st = Some (out, st')"
  shows "pg_typed env (st_store st') \<and>
    (\<forall>r. out = Ret (Inr r) \<longrightarrow> receipt_ok r \<or>
       (\<exists>k v t. pg_rows (st_store st') k = Some v \<and> Receipt_UnmarshalJSON t v = Inr r))"
  using pg_typing.Execute_typed [OF _ assms(2)] assms(1) by (simp add: pg_typed_rows)

text \<open>Over the in-memory doubles a replay returns the stored receipt itself, so every receipt is well-formed.\<close>

lemma mem_receipts_typed:
  assumes "\<forall>(k, r) \<in> set (mm_receipts (st_store st)). receipt_key r = k \<and> receipt_ok r"
    and "Execute (on_memory (phase1_service aenv cfg lim svc)) cc req st = Some (Ret (Inr r), st')"
  shows "receipt_ok r"
proof -
  have "mem_typing.rows_typed (st_store st)"
    using assms(1) by (fastforce simp: mem_typing.rows_typed_def dest: map_of_SomeD)
  from mem_typing.Execute_typed [OF this assms(2)] show ?thesis by (auto simp: mem_typing.rows_typed_def)
qed

theorem Execute_receipts_typed_witness:
  "\<forall>aenv :: fs_state adapter_envs. \<forall>cfg svc. \<exists>out st'.
     Execute (on_pg sample_calm (phase1_service aenv cfg 16 svc)) sample_cc sample_request
       \<lparr>st_world = sample_fs, st_store = sample_db, st_limiter = st_limiter sample_state, st_ticks = 0, st_ids = 0, st_events = []\<rparr> =
       Some (out, st') \<and> pg_typed sample_calm (st_store st')"
proof (intro allI)
  fix aenv :: "fs_state adapter_envs" and cfg svc
  let ?st = "\<lparr>st_world = sample_fs, st_store = sample_db, st_limiter = st_limiter sample_state, st_ticks = 0, st_ids = 0, st_events = []\<rparr>"
  have empty: "pg_typed sample_calm (st_store ?st)" by (simp add: pg_typed_def sample_db_def pg_rows_def)
  obtain out st' where run: "Execute (on_pg sample_calm (phase1_service aenv cfg 16 svc)) sample_cc sample_request ?st = Some (out, st')"
    using Execute_total [of ?st "on_pg sample_calm (phase1_service aenv cfg 16 svc)" sample_cc sample_request] sample_limiter(1)
    by auto
  show "\<exists>out st'. Execute (on_pg sample_calm (phase1_service aenv cfg 16 svc)) sample_cc sample_request ?st = Some (out, st') \<and>
      pg_typed sample_calm (st_store st')"
    using Execute_receipts_typed [OF empty run] run by blast
qed

end
