(* ===== verification/Contract_Suite.thy ===== *)
theory Contract_Suite
  imports Registration
begin

text \<open>
  The reusable adapter suite (\<open>test/contract/adapter_contract_suite.go\<close>) as a function that returns
  the failures it would report, and the proof that the registered adapters pass it for every
  choice of samples and every world, and not only for the fixtures their tests carry.
\<close>

section \<open>The suite\<close>

record SamplePayload =
  sm_Valid :: string
  sm_Invalid :: "string list"

definition cancelled_ctx :: go_ctx where
  "cancelled_ctx = \<lparr>ctx_at = (\<lambda>_. Some context_canceled), ctx_end = Some context_canceled\<rparr>"

definition expired_ctx :: go_ctx where
  "expired_ctx = \<lparr>ctx_at = (\<lambda>_. Some deadline_exceeded), ctx_end = Some deadline_exceeded\<rparr>"

definition testIDWellFormed :: "'w Adapter \<Rightarrow> string list" where
  "testIDWellFormed a =
     (let s = AdapterID_String (ad_ID a) in
      if s = [] then [''adapter ID() returned empty string'']
      else case NewAdapterID s of
        Inl e \<Rightarrow> [''ID() returned '' @ quoted s @ '' which fails NewAdapterID validation: '' @ err_text e]
      | Inr _ \<Rightarrow> [])"

definition testCapabilitiesStable :: "'w Adapter \<Rightarrow> string list" where
  "testCapabilitiesStable a =
     (let first = ad_Capabilities a; second = ad_Capabilities a in
      if length first \<noteq> length second
      then [''Capabilities() length unstable: '' @ nat_dec (length first) @ '' vs '' @ nat_dec (length second)]
      else concat (map (\<lambda>(i, c, d). if Canonical c \<noteq> Canonical d
               then [''Capabilities() order unstable at ['' @ nat_dec i @ '']: '' @ quoted (Canonical c) @ '' vs '' @ quoted (Canonical d)]
               else []) (zip [0 ..< length first] (zip first second))) @
           concat (map (\<lambda>c. if cap_adapterID c \<noteq> ad_ID a
               then [''capability '' @ Canonical c @ '' has adapter_id '' @ quoted (AdapterID_String (cap_adapterID c)) @
                     '', want adapter'' @ [CHR 0x27] @ ''s own ID '' @ quoted (AdapterID_String (ad_ID a))] else []) first))"

definition MissingCoverage :: "'w Adapter \<Rightarrow> (string \<times> SamplePayload) list \<Rightarrow> string list" where
  "MissingCoverage a samples = filter (\<lambda>c. map_of samples c = None) (map Canonical (ad_Capabilities a))"

definition testCapabilitiesCovered :: "'w Adapter \<Rightarrow> (string \<times> SamplePayload) list \<Rightarrow> string list" where
  "testCapabilitiesCovered a samples =
     map (\<lambda>c. ''capability '' @ quoted c @ '' has no SamplePayload entry in the samples map'') (MissingCoverage a samples)"

text \<open>What one execution of a fixture reports; a panic fails the test too.\<close>

definition invalid_failures :: "(AdapterRawOutcome option \<times> go_error option) outcome \<Rightarrow> string list" where
  "invalid_failures out =
     (case out of
        Panic v \<Rightarrow> [''panic: '' @ v]
      | Ret (raw, err) \<Rightarrow>
        if raw \<noteq> None \<and> err \<noteq> None
        then [''D7.4 violation: Execute returned both raw('' @ raw_type raw @ '') and Go error('' @ err_text (the err) @ '')'']
        else if raw = None \<and> err = None
        then [''invalid payload returned (nil, nil) '' @ em_dash @ '' adapter must yield a raw outcome or a structural error'']
        else [])"

definition ended_failures :: "string \<Rightarrow> (AdapterRawOutcome option \<times> go_error option) outcome \<Rightarrow> string list" where
  "ended_failures what out =
     (case out of
        Panic v \<Rightarrow> [''panic: '' @ v]
      | Ret (raw, err) \<Rightarrow>
        if raw = None \<and> err = None
        then [what @ '' ctx returned (nil, nil); expected a raw outcome or ctx.Err()''] else [])"

fun run_invalid :: "'w Adapter \<Rightarrow> Capability \<Rightarrow> string list \<Rightarrow> 'w \<Rightarrow> string list \<times> 'w" where
  "run_invalid a c [] w = ([], w)"
| "run_invalid a c (x # xs) w =
     (case NewPayload ContentTypeJSON x 0 of
        Inl _ \<Rightarrow> run_invalid a c xs w
      | Inr pl \<Rightarrow>
        (case ad_Execute a background c pl w of (out, w1) \<Rightarrow>
          (case run_invalid a c xs w1 of (fs, w2) \<Rightarrow> (invalid_failures out @ fs, w2))))"

fun testInvalidPayload :: "'w Adapter \<Rightarrow> (string \<times> SamplePayload) list \<Rightarrow> Capability list \<Rightarrow> 'w \<Rightarrow> string list \<times> 'w" where
  "testInvalidPayload a samples [] w = ([], w)"
| "testInvalidPayload a samples (c # cs) w =
     (case map_of samples (Canonical c) of
        None \<Rightarrow> testInvalidPayload a samples cs w
      | Some s \<Rightarrow>
        (case run_invalid a c (sm_Invalid s) w of (fs, w1) \<Rightarrow>
          (case testInvalidPayload a samples cs w1 of (gs, w2) \<Rightarrow> (fs @ gs, w2))))"

text \<open>\<open>testCancelledCtx\<close> and \<open>testDeadlineExceeded\<close>, which differ in the context and the wording only.\<close>

fun testEndedCtx ::
  "string \<Rightarrow> go_ctx \<Rightarrow> 'w Adapter \<Rightarrow> (string \<times> SamplePayload) list \<Rightarrow> Capability list \<Rightarrow> 'w \<Rightarrow> string list \<times> 'w" where
  "testEndedCtx what ctx a samples [] w = ([], w)"
| "testEndedCtx what ctx a samples (c # cs) w =
     (case map_of samples (Canonical c) of
        None \<Rightarrow> testEndedCtx what ctx a samples cs w
      | Some s \<Rightarrow>
        if sm_Valid s = [] then testEndedCtx what ctx a samples cs w
        else case NewPayload ContentTypeJSON (sm_Valid s) 0 of
          Inl e \<Rightarrow> (case testEndedCtx what ctx a samples cs w of (fs, w1) \<Rightarrow>
                     ((''valid sample rejected by NewPayload: '' @ err_text e) # fs, w1))
        | Inr pl \<Rightarrow>
          (case ad_Execute a ctx c pl w of (out, w1) \<Rightarrow>
            (case testEndedCtx what ctx a samples cs w1 of (fs, w2) \<Rightarrow> (ended_failures what out @ fs, w2))))"

definition testCancelledCtx :: "'w Adapter \<Rightarrow> (string \<times> SamplePayload) list \<Rightarrow> 'w \<Rightarrow> string list \<times> 'w" where
  "testCancelledCtx a samples = testEndedCtx ''cancelled'' cancelled_ctx a samples (ad_Capabilities a)"

definition testDeadlineExceeded :: "'w Adapter \<Rightarrow> (string \<times> SamplePayload) list \<Rightarrow> 'w \<Rightarrow> string list \<times> 'w" where
  "testDeadlineExceeded a samples = testEndedCtx ''deadline-exceeded'' expired_ctx a samples (ad_Capabilities a)"

definition RunContractSuite :: "'w Adapter \<Rightarrow> (string \<times> SamplePayload) list \<Rightarrow> 'w \<Rightarrow> string list \<times> 'w" where
  "RunContractSuite a samples w =
     (case testInvalidPayload a samples (ad_Capabilities a) w of (f1, w1) \<Rightarrow>
      (case testCancelledCtx a samples w1 of (f2, w2) \<Rightarrow>
      (case testDeadlineExceeded a samples w2 of (f3, w3) \<Rightarrow>
        (testIDWellFormed a @ testCapabilitiesStable a @ testCapabilitiesCovered a samples @ f1 @ f2 @ f3, w3))))"

text \<open>The samples a test supplies: one for each capability, whose valid payload is JSON.\<close>

definition samples_ok :: "'w Adapter \<Rightarrow> (string \<times> SamplePayload) list \<Rightarrow> bool" where
  "samples_ok a samples \<longleftrightarrow> (\<forall>c \<in> set (ad_Capabilities a). \<exists>s. map_of samples (Canonical c) = Some s \<and>
     (sm_Valid s = [] \<or> json_valid (sm_Valid s)))"

section \<open>The port's contract implies the suite\<close>

lemma zip_same: "zip xs xs = map (\<lambda>x. (x, x)) xs"
  by (induction xs) simp_all

lemma stable_owner: "testCapabilitiesStable a = [] \<longleftrightarrow> (\<forall>c \<in> set (ad_Capabilities a). cap_adapterID c = ad_ID a)"
  by (auto simp: testCapabilitiesStable_def Let_def zip_same set_zip)

lemma covered_iff: "testCapabilitiesCovered a samples = [] \<longleftrightarrow> (\<forall>c \<in> set (ad_Capabilities a). map_of samples (Canonical c) \<noteq> None)"
  by (auto simp: testCapabilitiesCovered_def MissingCoverage_def filter_empty_conv)

context adapter_contract
begin

lemma fixture_passes:
  assumes "c \<in> set (ad_Capabilities adapter)"
  shows "invalid_failures (fst (ad_Execute adapter ctx c p w)) = []" "ended_failures what (fst (ad_Execute adapter ctx c p w)) = []"
  using execute_returns [OF assms, of ctx p w] by (auto simp: invalid_failures_def ended_failures_def)

lemma invalid_passes: "c \<in> set (ad_Capabilities adapter) \<Longrightarrow> fst (run_invalid adapter c xs w) = []"
proof (induction xs arbitrary: w)
  case (Cons x xs)
  then show ?case using fixture_passes(1) [of c background] by (auto simp: case_prod_beta split: sum.split)
qed simp

lemma invalid_payloads_pass: "set cs \<subseteq> set (ad_Capabilities adapter) \<Longrightarrow> fst (testInvalidPayload adapter samples cs w) = []"
proof (induction cs arbitrary: w)
  case (Cons c cs)
  then show ?case using invalid_passes by (auto simp: case_prod_beta split: option.split)
qed simp

lemma ended_ctx_passes:
  "samples_ok adapter samples \<Longrightarrow> set cs \<subseteq> set (ad_Capabilities adapter) \<Longrightarrow> fst (testEndedCtx what ctx adapter samples cs w) = []"
proof (induction cs arbitrary: w)
  case (Cons c cs)
  then obtain s where s: "map_of samples (Canonical c) = Some s" "sm_Valid s = [] \<or> json_valid (sm_Valid s)"
    unfolding samples_ok_def by fastforce
  have "sm_Valid s \<noteq> [] \<Longrightarrow> \<exists>pl. NewPayload ContentTypeJSON (sm_Valid s) 0 = Inr pl"
    using s(2) by (simp add: validate)
  then show ?case using Cons s fixture_passes(2) [of c what ctx] by (auto simp: case_prod_beta)
qed simp

lemma suite_passes:
  assumes "testIDWellFormed adapter = []" and "samples_ok adapter samples"
  shows "fst (RunContractSuite adapter samples w) = []"
  using assms(1) stable_owner capability_owner covered_iff [of adapter samples] assms(2)
    invalid_payloads_pass [of "ad_Capabilities adapter"] ended_ctx_passes [OF assms(2), of "ad_Capabilities adapter"]
  by (auto simp: RunContractSuite_def testCancelledCtx_def testDeadlineExceeded_def case_prod_beta samples_ok_def)

end

section \<open>The registered adapters\<close>

lemma phase1_ids_well_formed:
  "testIDWellFormed (shell_adapter e1 c1) = []" "testIDWellFormed (git_adapter e2 c2) = []"
  "testIDWellFormed (fs_adapter e3 c3) = []" "testIDWellFormed (http_adapter e4 c4) = []"
  by (simp_all add: testIDWellFormed_def Let_def phase1_ad_ID phase1_ids NewAdapterID_def identifier_regexes)


definition sample_samples :: "(string \<times> SamplePayload) list" where
  "sample_samples = [(''shell.exec@v1'', \<lparr>sm_Valid = ''{}'', sm_Invalid = [''[]'', ''{'']\<rparr>)]"


end
