(* ===== verification/Chaos_Receiver.thy ===== *)
theory Chaos_Receiver
  imports Go_Prelude
begin

text \<open>
  The diagnostic webhook receiver of the fault-injection tests (\<open>ops/chaos/receiver/main.go\<close>): the
  ring buffer of the last thousand alerts and the two handlers over it. \<open>http.ServeMux\<close> has
  chosen the pattern; what \<open>encoding/json\<close> and \<open>time.Parse\<close> make of their inputs is given. The mutex
  makes each buffer operation one step.
\<close>

section \<open>The ring buffer\<close>

definition ringCap :: int where "ringCap = 1000"

record AlertPayload =
  al_Received :: go_time
  al_Body :: string

record ringBuffer =
  rb_buf :: "AlertPayload list"
  rb_head :: int
  rb_size :: int

definition zero_payload :: AlertPayload where "zero_payload = \<lparr>al_Received = 0, al_Body = []\<rparr>"

definition new_ring :: ringBuffer where
  "new_ring = \<lparr>rb_buf = replicate (nat ringCap) zero_payload, rb_head = 0, rb_size = 0\<rparr>"

definition ring_append :: "AlertPayload \<Rightarrow> ringBuffer \<Rightarrow> ringBuffer" where
  "ring_append p r =
     (let r1 = r\<lparr>rb_buf := (rb_buf r)[nat (rb_head r) := p], rb_head := (rb_head r + 1) mod ringCap\<rparr> in
      if rb_size r1 < ringCap then r1\<lparr>rb_size := rb_size r1 + 1\<rparr> else r1)"

definition ring_start :: "ringBuffer \<Rightarrow> int" where
  "ring_start r = (rb_head r - rb_size r + ringCap) mod ringCap"

fun snapshot_loop :: "go_time \<Rightarrow> ringBuffer \<Rightarrow> nat list \<Rightarrow> AlertPayload list" where
  "snapshot_loop since r [] = []"
| "snapshot_loop since r (i # is) =
     (let x = rb_buf r ! nat ((ring_start r + int i) mod ringCap) in
      if since \<noteq> 0 \<and> al_Received x < since then snapshot_loop since r is else x # snapshot_loop since r is)"

definition ring_snapshot :: "go_time \<Rightarrow> ringBuffer \<Rightarrow> AlertPayload list" where
  "ring_snapshot since r = (if rb_size r = 0 then [] else snapshot_loop since r [0 ..< nat (rb_size r)])"

definition ring_clear :: "ringBuffer \<Rightarrow> ringBuffer" where
  "ring_clear r = r\<lparr>rb_head := 0, rb_size := 0\<rparr>"

section \<open>Handlers\<close>

record receiver_env =
  re_Decode :: "string \<Rightarrow> go_error + string"
  re_Parse :: "string \<Rightarrow> go_time option"

record receiver_req =
  rq_method :: string
  rq_body :: string
  rq_since :: string
  rq_now :: go_time

datatype receiver_body = NoBody | TextBody string | Received "AlertPayload list"

text \<open>\<open>http.Error\<close> ends its text with a newline.\<close>

definition http_text :: "string \<Rightarrow> receiver_body" where
  "http_text msg = TextBody (msg @ [CHR 0x0A])"

definition alerts_handler :: "receiver_env \<Rightarrow> receiver_req \<Rightarrow> ringBuffer \<Rightarrow> (int \<times> receiver_body) \<times> ringBuffer" where
  "alerts_handler env q rb =
     (if rq_method q = ''POST'' then
        (case re_Decode env (rq_body q) of
           Inl _ \<Rightarrow> ((400, http_text ''invalid JSON''), rb)
         | Inr raw \<Rightarrow> ((200, NoBody), ring_append \<lparr>al_Received = rq_now q, al_Body = raw\<rparr> rb))
      else if rq_method q = ''DELETE'' then ((204, NoBody), ring_clear rb)
      else ((405, http_text ''method not allowed''), rb))"

definition inspect_handler :: "receiver_env \<Rightarrow> receiver_req \<Rightarrow> ringBuffer \<Rightarrow> (int \<times> receiver_body) \<times> ringBuffer" where
  "inspect_handler env q rb =
     (if rq_method q \<noteq> ''GET'' then ((405, http_text ''method not allowed''), rb)
      else case (if rq_since q = [] then Some 0 else re_Parse env (rq_since q)) of
        None \<Rightarrow> ((400, http_text ''invalid since: must be RFC3339''), rb)
      | Some since \<Rightarrow> ((200, Received (ring_snapshot since rb)), rb))"

definition receiver_router ::
  "receiver_env \<Rightarrow> string \<Rightarrow> receiver_req \<Rightarrow> ringBuffer \<Rightarrow> (int \<times> receiver_body) \<times> ringBuffer" where
  "receiver_router env pat q rb =
     (if pat = ''/alerts'' then alerts_handler env q rb
      else if pat = ''/inspect'' then inspect_handler env q rb
      else ((404, http_text ''404 page not found''), rb))"

fun receiver_run :: "receiver_env \<Rightarrow> (string \<times> receiver_req) list \<Rightarrow> ringBuffer \<Rightarrow> ringBuffer" where
  "receiver_run env [] rb = rb"
| "receiver_run env ((pat, q) # qs) rb = receiver_run env qs (snd (receiver_router env pat q rb))"

section \<open>The sequence a buffer stands for\<close>

definition ring_ok :: "ringBuffer \<Rightarrow> bool" where
  "ring_ok r \<longleftrightarrow> length (rb_buf r) = nat ringCap \<and> 0 \<le> rb_head r \<and> rb_head r < ringCap \<and> 0 \<le> rb_size r \<and> rb_size r \<le> ringCap"

definition contents :: "ringBuffer \<Rightarrow> AlertPayload list" where
  "contents r = map (\<lambda>i. rb_buf r ! nat ((ring_start r + int i) mod ringCap)) [0 ..< nat (rb_size r)]"

definition last_n :: "nat \<Rightarrow> 'a list \<Rightarrow> 'a list" where
  "last_n n xs = drop (length xs - n) xs"

lemma last_n_snoc: "0 < n \<Longrightarrow> last_n n (last_n n xs @ [x]) = last_n n (xs @ [x])"
  by (cases "n \<le> length xs") (simp_all add: last_n_def Suc_diff_le)

lemma new_ring_ok: "ring_ok new_ring" "contents new_ring = []"
  by (simp_all add: ring_ok_def new_ring_def contents_def ringCap_def)

lemma ring_clear_ok: "ring_ok r \<Longrightarrow> ring_ok (ring_clear r)" "contents (ring_clear r) = []"
  by (simp_all add: ring_ok_def ring_clear_def contents_def ringCap_def)

lemma append_ok: "ring_ok r \<Longrightarrow> ring_ok (ring_append p r)"
  by (auto simp: ring_ok_def ring_append_def Let_def ringCap_def)

text \<open>The position of the i-th oldest entry, counted back from the head.\<close>

lemma ring_index: "(ring_start r + int i) mod ringCap = (rb_head r - (rb_size r - int i)) mod ringCap"
proof -
  have "(ring_start r + int i) mod ringCap = (rb_head r - rb_size r + ringCap + int i) mod ringCap"
    unfolding ring_start_def by (rule mod_add_left_eq)
  also have "rb_head r - rb_size r + ringCap + int i = (rb_head r - (rb_size r - int i)) + ringCap" by simp
  finally show ?thesis by simp
qed

lemma index_head:
  assumes "0 \<le> h" "h < ringCap" "0 < d" "d < ringCap"
  shows "(h - d) mod ringCap \<noteq> h"
proof
  assume "(h - d) mod ringCap = h"
  then have "(h - d) mod ringCap = h mod ringCap" using assms by simp
  then have "ringCap dvd d" by (simp add: mod_eq_dvd_iff)
  then show False using assms(3,4) by (simp add: zdvd_not_zless)
qed

lemma contents_append:
  assumes ok: "ring_ok r"
  shows "contents (ring_append p r) = last_n (nat ringCap) (contents r @ [p])"
proof (rule nth_equalityI)
  let ?full = "rb_size r = ringCap"
  have bounds: "0 \<le> rb_head r" "rb_head r < ringCap" "0 \<le> rb_size r" "rb_size r \<le> ringCap" "length (rb_buf r) = nat ringCap"
    using ok by (simp_all add: ring_ok_def)
  have size': "rb_size (ring_append p r) = (if ?full then ringCap else rb_size r + 1)"
    and head': "rb_head (ring_append p r) = (rb_head r + 1) mod ringCap"
    and buf': "rb_buf (ring_append p r) = (rb_buf r)[nat (rb_head r) := p]"
    using bounds by (auto simp: ring_append_def Let_def)
  show len: "length (contents (ring_append p r)) = length (last_n (nat ringCap) (contents r @ [p]))"
    using bounds by (auto simp: contents_def last_n_def size' ringCap_def)
  fix i assume "i < length (contents (ring_append p r))"
  then have i: "int i < rb_size (ring_append p r)" by (simp add: contents_def)
  define j where "j = i + (if ?full then 1 else 0)"
  have pos: "(ring_start (ring_append p r) + int i) mod ringCap = (rb_head r - (rb_size r - int j)) mod ringCap"
    unfolding ring_index head' mod_diff_left_eq by (auto simp: size' j_def algebra_simps)
  have left: "contents (ring_append p r) ! i = (rb_buf r)[nat (rb_head r) := p] ! nat ((rb_head r - (rb_size r - int j)) mod ringCap)"
    using i by (simp add: contents_def pos buf')
  have "length (contents r @ [p]) - nat ringCap = (if ?full then 1 else 0)"
    using bounds by (auto simp: contents_def ringCap_def)
  then have right: "last_n (nat ringCap) (contents r @ [p]) ! i = (contents r @ [p]) ! j"
    using nth_drop [of "if ?full then 1 else 0" "contents r @ [p]" i]
    by (simp add: last_n_def j_def add.commute del: drop_append split: if_splits)
  show "contents (ring_append p r) ! i = last_n (nat ringCap) (contents r @ [p]) ! i"
  proof (cases "int j < rb_size r")
    case True
    then have "(rb_head r - (rb_size r - int j)) mod ringCap \<noteq> rb_head r"
      using bounds i by (intro index_head) (auto simp: size' j_def)
    moreover have "0 \<le> (rb_head r - (rb_size r - int j)) mod ringCap" by (simp add: ringCap_def)
    ultimately have "nat ((rb_head r - (rb_size r - int j)) mod ringCap) \<noteq> nat (rb_head r)"
      using bounds(1) by (metis nat_0_le)
    then show ?thesis using True unfolding left right
      by (simp add: nth_append contents_def ring_index)
  next
    case False
    then have "rb_size r - int j = 0" using i bounds by (auto simp: size' j_def split: if_splits)
    then show ?thesis using bounds False unfolding left right
      by (simp add: nth_append contents_def ringCap_def)
  qed
qed

lemma snapshot_contents: "ring_snapshot since r = filter (\<lambda>x. since = 0 \<or> since \<le> al_Received x) (contents r)"
proof -
  have "snapshot_loop since r is =
      filter (\<lambda>x. since = 0 \<or> since \<le> al_Received x) (map (\<lambda>i. rb_buf r ! nat ((ring_start r + int i) mod ringCap)) is)" for "is"
    by (induction "is") (auto simp: Let_def)
  then show ?thesis by (simp add: ring_snapshot_def contents_def)
qed

section \<open>The receiver as a log\<close>

text \<open>The specification: every accepted alert since the last \<open>DELETE\<close>, oldest first.\<close>

definition accepted :: "receiver_env \<Rightarrow> string \<times> receiver_req \<Rightarrow> AlertPayload list \<Rightarrow> AlertPayload list" where
  "accepted env x xs =
     (case x of (pat, q) \<Rightarrow>
        if pat = ''/alerts'' \<and> rq_method q = ''POST'' \<and> \<not> isl (re_Decode env (rq_body q))
        then xs @ [\<lparr>al_Received = rq_now q, al_Body = projr (re_Decode env (rq_body q))\<rparr>]
        else if pat = ''/alerts'' \<and> rq_method q = ''DELETE'' then [] else xs)"

definition ring_log :: "ringBuffer \<Rightarrow> AlertPayload list \<Rightarrow> bool" where
  "ring_log r xs \<longleftrightarrow> ring_ok r \<and> contents r = last_n (nat ringCap) xs"

lemma router_log: "ring_log rb xs \<Longrightarrow> ring_log (snd (receiver_router env pat q rb)) (accepted env (pat, q) xs)"
  using contents_append append_ok ring_clear_ok last_n_snoc [of "nat ringCap" xs]
  by (auto simp: ring_log_def receiver_router_def alerts_handler_def inspect_handler_def accepted_def isl_def ringCap_def
      last_n_def split: sum.splits option.splits)

lemma run_log: "ring_log rb xs \<Longrightarrow> ring_log (receiver_run env qs rb) (fold (accepted env) qs xs)"
proof (induction env qs rb arbitrary: xs rule: receiver_run.induct)
  case (2 env pat q qs rb)
  then show ?case using router_log [OF 2(2), of env pat q] by simp
qed simp

text \<open>
  The ring buffer implements a bounded log: an inspection of a receiver answers exactly the last
  thousand alerts accepted since the last deletion, oldest first, from its time bound on.
\<close>

lemma receiver_refines_log:
  assumes "rq_method q = ''GET''" and "(if rq_since q = [] then Some 0 else re_Parse env (rq_since q)) = Some since"
  shows "fst (receiver_router env ''/inspect'' q (receiver_run env qs new_ring)) =
    (200, Received (filter (\<lambda>x. since = 0 \<or> since \<le> al_Received x) (last_n (nat ringCap) (fold (accepted env) qs []))))"
proof -
  have "ring_log new_ring []" by (simp add: ring_log_def new_ring_ok last_n_def)
  from run_log [OF this] have "contents (receiver_run env qs new_ring) = last_n (nat ringCap) (fold (accepted env) qs [])"
    by (simp add: ring_log_def)
  then show ?thesis using assms by (auto simp: receiver_router_def inspect_handler_def snapshot_contents split: if_splits)
qed

definition sample_receiver :: receiver_env where
  "sample_receiver = \<lparr>re_Decode = (\<lambda>s. if s = [] then Inl (errorf ''EOF'') else Inr s), re_Parse = (\<lambda>_. Some 5)\<rparr>"

definition sample_alert_req :: "string \<Rightarrow> go_time \<Rightarrow> string \<times> receiver_req" where
  "sample_alert_req body t = (''/alerts'', \<lparr>rq_method = ''POST'', rq_body = body, rq_since = [], rq_now = t\<rparr>)"

lemma receiver_refines_log_example:
  "fst (receiver_router sample_receiver ''/inspect'' \<lparr>rq_method = ''GET'', rq_body = [], rq_since = ''1970'', rq_now = 9\<rparr>
     (receiver_run sample_receiver [sample_alert_req ''{}'' 3, sample_alert_req [] 4, sample_alert_req ''[]'' 6] new_ring)) =
   (200, Received [\<lparr>al_Received = 6, al_Body = ''[]''\<rparr>])"
  by (subst receiver_refines_log [where since = 5])
    (simp_all add: sample_receiver_def sample_alert_req_def accepted_def last_n_def ringCap_def isl_def)

end
