(* ===== verification/Test_Doubles.thy ===== *)
theory Test_Doubles
  imports Execute_Properties
begin

text \<open>
  The programmable adapter (\<open>internal/ports/outbound/testdoubles/stub_adapter.go\<close>) and the clocks
  (\<open>internal/domain/shared/clock.go\<close>). The stub's mutex makes programming and reading a program one
  step each.
\<close>

section \<open>Clocks\<close>

text \<open>\<open>RealClock\<close> reads the operating system's clock, which is a parameter everywhere.\<close>

record FakeClock = fk_T :: go_time

definition FakeClock_Now :: "FakeClock \<Rightarrow> go_time" where "FakeClock_Now f = fk_T f"

definition Advance :: "duration \<Rightarrow> FakeClock \<Rightarrow> FakeClock" where "Advance d f = f\<lparr>fk_T := fk_T f + d\<rparr>"

lemma FakeClock_Advance [simp]: "FakeClock_Now (Advance d f) = FakeClock_Now f + d"
  by (simp add: FakeClock_Now_def Advance_def)

lemma Advance_forward: "0 \<le> d \<Longrightarrow> FakeClock_Now f \<le> FakeClock_Now (Advance d f)"
  by simp

section \<open>The stub adapter\<close>

record StubProgram =
  sp_Raw :: "AdapterRawOutcome option"
  sp_Err :: "go_error option"

record StubAdapter =
  su_id :: AdapterID
  su_capabilities :: "Capability list"
  su_programs :: "(string \<times> StubProgram) list"

definition NewStubAdapter :: "AdapterID \<Rightarrow> Capability list \<Rightarrow> StubAdapter outcome" where
  "NewStubAdapter aid caps =
     (case List.find (\<lambda>c. cap_adapterID c \<noteq> aid) caps of
        Some c \<Rightarrow> Panic (''StubAdapter: capability '' @ Canonical c @ '' belongs to adapter '' @
                    AdapterID_String (cap_adapterID c) @ '', not '' @ AdapterID_String aid)
      | None \<Rightarrow> Ret \<lparr>su_id = aid, su_capabilities = caps, su_programs = []\<rparr>)"

definition Program :: "string \<Rightarrow> StubProgram \<Rightarrow> StubAdapter \<Rightarrow> StubAdapter" where
  "Program canonical p s = s\<lparr>su_programs := AList.update canonical p (su_programs s)\<rparr>"

definition stub_Execute :: "StubAdapter \<Rightarrow> 'w execute_fn" where
  "stub_Execute s ctx cap p w =
     (case ctx_at ctx 0 of
        Some _ \<Rightarrow> (Ret (None, ctx_at ctx 1), w)
      | None \<Rightarrow>
        (case map_of (su_programs s) (Canonical cap) of
           None \<Rightarrow> (Ret (None, Some (errorf (''StubAdapter: no program for '' @ Canonical cap))), w)
         | Some pr \<Rightarrow> (case sp_Err pr of Some e \<Rightarrow> (Ret (None, Some e), w) | None \<Rightarrow> (Ret (sp_Raw pr, None), w))))"

definition stub_adapter :: "StubAdapter \<Rightarrow> 'w Adapter" where
  "stub_adapter s = \<lparr>ad_ID = su_id s, ad_Capabilities = su_capabilities s, ad_Execute = stub_Execute s\<rparr>"

section \<open>What tests rely on\<close>

lemma stub_capabilities_owned:
  "NewStubAdapter aid caps = Ret s \<Longrightarrow> c \<in> set (ad_Capabilities (stub_adapter s)) \<Longrightarrow> cap_adapterID c = ad_ID (stub_adapter s)"
  by (auto simp: NewStubAdapter_def stub_adapter_def find_None_iff split: option.splits)

lemma Program_other: "c \<noteq> Canonical cap \<Longrightarrow> stub_Execute (Program c pr s) ctx cap p w = stub_Execute s ctx cap p w"
  by (simp add: stub_Execute_def Program_def update_conv' split: option.split)

text \<open>
  A program is what the last \<open>Program\<close> for the capability set, the stub never touches the world
  and never panics, and under a context that ended it answers the context's error.
\<close>

lemma stub_programmed:
  assumes "ctx_at ctx 0 = None"
  shows "stub_Execute (Program (Canonical cap) pr s) ctx cap p w =
    (Ret (case sp_Err pr of Some e \<Rightarrow> (None, Some e) | None \<Rightarrow> (sp_Raw pr, None)), w)"
  using assms by (simp add: stub_Execute_def Program_def update_conv' split: option.split)

lemma stub_quiet: "\<exists>x. stub_Execute s ctx cap p w = (Ret x, w)"
  by (auto simp: stub_Execute_def split: option.split)

lemma stub_ended: "ctx_ok ctx \<Longrightarrow> ctx_at ctx 0 = Some e \<Longrightarrow> stub_Execute s ctx cap p w = (Ret (None, Some e), w)"
  by (simp add: stub_Execute_def ctx_ok_def)

text \<open>
  Over a stub a call never changes the world, and what the service makes of a programmed error is
  an adapter's internal failure that carries the error's text.
\<close>

lemma stub_world:
  assumes "Execute svc cc req st = Some (out, st')"
    and "\<And>a. a \<in> snd ` set (sv_adapters svc) \<Longrightarrow> \<exists>s. a = stub_adapter s"
  shows "st_world st' = st_world st"
  using assms(1)
proof (cases rule: Execute_cases)
  case (ran l lim lim' st2)
  have "w' = w" if once: "dispatched_once svc cc req w w'" for w w'
  proof -
    obtain cap ad where ad: "map_of (sv_adapters svc) (AdapterID_String (cap_adapterID cap)) = Some ad"
      and w': "w' = snd (ad_Execute ad (cc_exec cc (budget svc req cap)) cap (req_payload req) w)"
      using once by (auto simp: dispatched_once_def)
    from map_of_SomeD [OF ad] have "ad \<in> snd ` set (sv_adapters svc)" by force
    from assms(2) [OF this] obtain s where s: "ad = stub_adapter s" by blast
    show "w' = w"
      using stub_quiet [of s "cc_exec cc (budget svc req cap)" cap "req_payload req" w] by (auto simp: w' s stub_adapter_def)
  qed
  then show ?thesis using ran lookup_stage_world [of svc cc l req "st\<lparr>st_limiter := lim\<rparr>"] by auto
qed simp

lemma stub_error_classified:
  assumes "sp_Err pr = Some e" and "ctx_at ctx 0 = None" and "ctx_end ctx = None"
  shows "effective_raw (ctx_end ctx) (fst (SafeExecute stack ctx (stub_adapter (Program (Canonical cap) pr s)) cap p w)) =
    Some (PanicRaw \<lparr>pr_recoveredValue = ''<nil>'', pr_stack = [], pr_structuralErr = Some e\<rparr>)"
  using assms stub_programmed [OF assms(2), of cap pr s p w]
  by (simp add: SafeExecute_def stub_adapter_def effective_raw_def)

end
