(* ===== verification/Log_Context.thy ===== *)
theory Log_Context
  imports Inbound_Trace Log_Output
begin

text \<open>
  The logger in a request's context: \<open>ContextWith\<close> and \<open>FromContext\<close>
  (\<open>internal/infrastructure/obs/log/ctx.go\<close>), the emission methods of \<open>logger.go\<close> and the handler
  that adds the active span's identifiers to every record (\<open>handler.go\<close>). The standard
  library's handlers are their level, the attributes bound to them and whether they discard.
\<close>

section \<open>Handlers\<close>

record slog_record =
  sr_level :: Level
  sr_msg :: string
  sr_attrs :: smap

datatype slog_handler = Std Level smap | Discarding Level smap | OTelContextHandler slog_handler

definition NewOTelContextHandler :: "slog_handler option \<Rightarrow> slog_handler outcome" where
  "NewOTelContextHandler inner =
     (case inner of None \<Rightarrow> Panic ''log.NewOTelContextHandler: inner handler is nil'' | Some h \<Rightarrow> Ret (OTelContextHandler h))"

definition level_rank :: "Level \<Rightarrow> int" where
  "level_rank l = (case l of LevelDebug \<Rightarrow> -4 | LevelInfo \<Rightarrow> 0 | LevelWarn \<Rightarrow> 4 | LevelError \<Rightarrow> 8)"

fun handler_Enabled :: "slog_handler \<Rightarrow> Level \<Rightarrow> bool" where
  "handler_Enabled (Std lvl _) l = (level_rank lvl \<le> level_rank l)"
| "handler_Enabled (Discarding lvl _) l = (level_rank lvl \<le> level_rank l)"
| "handler_Enabled (OTelContextHandler h) l = handler_Enabled h l"

definition sc_IsValid :: "SpanContext \<Rightarrow> bool" where
  "sc_IsValid sc \<longleftrightarrow> \<not> allZero (sc_TraceID sc) \<and> \<not> allZero (sc_SpanID sc)"

text \<open>What a record becomes on the output, none when it is discarded.\<close>

fun handler_Handle :: "slog_handler \<Rightarrow> SpanContext option \<Rightarrow> slog_record \<Rightarrow> slog_record list" where
  "handler_Handle (Std _ bound) sc r = [r\<lparr>sr_attrs := bound @ sr_attrs r\<rparr>]"
| "handler_Handle (Discarding _ _) sc r = []"
| "handler_Handle (OTelContextHandler h) sc r =
     (case sc of
        Some c \<Rightarrow> if sc_IsValid c
          then handler_Handle h sc (r\<lparr>sr_attrs := sr_attrs r @
                 [(''trace_id'', hex_encode (sc_TraceID c)), (''span_id'', hex_encode (sc_SpanID c))]\<rparr>)
          else handler_Handle h sc r
      | None \<Rightarrow> handler_Handle h sc r)"

fun handler_WithAttrs :: "smap \<Rightarrow> slog_handler \<Rightarrow> slog_handler" where
  "handler_WithAttrs attrs (Std lvl bound) = Std lvl (bound @ attrs)"
| "handler_WithAttrs attrs (Discarding lvl bound) = Discarding lvl (bound @ attrs)"
| "handler_WithAttrs attrs (OTelContextHandler h) = OTelContextHandler (handler_WithAttrs attrs h)"

section \<open>The logger\<close>

definition NewNop :: slog_handler where "NewNop = Discarding LevelInfo []"

definition NewWithHandler :: "slog_handler option \<Rightarrow> slog_handler" where
  "NewWithHandler h = (case h of None \<Rightarrow> NewNop | Some h' \<Rightarrow> h')"

definition logger_With :: "smap \<Rightarrow> slog_handler \<Rightarrow> slog_handler" where
  "logger_With attrs l = (if attrs = [] then l else handler_WithAttrs attrs l)"

definition logger_emit :: "slog_handler \<Rightarrow> SpanContext option \<Rightarrow> Level \<Rightarrow> string \<Rightarrow> smap \<Rightarrow> slog_record list" where
  "logger_emit l sc lvl msg attrs =
     (if \<not> handler_Enabled l lvl then []
      else handler_Handle l sc \<lparr>sr_level = lvl, sr_msg = msg, sr_attrs = attrs\<rparr>)"

text \<open>The root logger \<open>New\<close> returns, over the handler it configured.\<close>

definition root_logger :: "log_handler \<Rightarrow> slog_handler" where
  "root_logger h = OTelContextHandler (Std (lh_level h) [])"

text \<open>A context is nil, or it has a value under the logger's key or not; the value may be a nil logger.\<close>

type_synonym log_ctx = "slog_handler option option option"

definition ContextWith :: "log_ctx \<Rightarrow> slog_handler option \<Rightarrow> log_ctx" where
  "ContextWith ctx l = Some (Some (Some (case l of None \<Rightarrow> NewNop | Some l' \<Rightarrow> l')))"

definition FromContext :: "log_ctx \<Rightarrow> slog_handler" where
  "FromContext ctx = (case ctx of None \<Rightarrow> NewNop | Some None \<Rightarrow> NewNop | Some (Some None) \<Rightarrow> NewNop | Some (Some (Some l)) \<Rightarrow> l)"

section \<open>What reaches the log\<close>

lemma FromContext_ContextWith: "FromContext (ContextWith ctx l) = (case l of None \<Rightarrow> NewNop | Some l' \<Rightarrow> l')"
  by (simp add: FromContext_def ContextWith_def)

lemma nop_silent [simp]: "logger_emit (logger_With a NewNop) sc lvl msg attrs = []"
  by (simp add: logger_emit_def logger_With_def NewNop_def)

lemma handler_With_root:
  "logger_With attrs (root_logger h) = OTelContextHandler (Std (lh_level h) attrs)"
  by (simp add: logger_With_def root_logger_def)

text \<open>
  A record at or above the configured level is written once, with the bound attributes, its own,
  and under a valid span the span's identifiers; one below is not written.
\<close>

lemma emit_traced:
  assumes "sc_IsValid sc"
  shows "logger_emit (logger_With bound (root_logger h)) (Some sc) lvl msg attrs =
    (if level_rank (lh_level h) \<le> level_rank lvl
     then [\<lparr>sr_level = lvl, sr_msg = msg, sr_attrs = bound @ attrs @
            [(''trace_id'', hex_encode (sc_TraceID sc)), (''span_id'', hex_encode (sc_SpanID sc))]\<rparr>] else [])"
  using assms by (simp add: handler_With_root logger_emit_def)

text \<open>
  Behind the trace middleware, a request that carries a request identifier and no trace header
  logs the trace identifier derived from that identifier, the same in every service that
  derives it, as long as the random source gives a span identifier that is not zero.
\<close>

lemma request_id_reaches_log:
  assumes req: "map_get headers ''Traceparent'' = []" "map_get headers ''X-Request-Id'' = rid" "rid \<noteq> []"
    and random: "8 \<le> length src" "\<not> allZero (take 8 src)"
    and level: "level_rank (lh_level h) \<le> level_rank lvl"
  shows "\<exists>sc tid. fst (resolveTraceContext ot headers src) = Some sc \<and> traceIDFromRequestID rid = Inr tid \<and>
    (\<exists>r. logger_emit (logger_With bound (root_logger h)) (Some sc) lvl msg attrs = [r] \<and>
       (''trace_id'', hex_encode tid) \<in> set (sr_attrs r))"
proof -
  obtain tid where tid: "traceIDFromRequestID rid = Inr tid" "\<not> allZero tid" using traceID_ok by blast
  have "fst (resolveTraceContext ot headers src) = Some (remote_span tid (take 8 src))"
    using req random(1) tid(1)
    by (simp add: resolveTraceContext_def resolve_fallback_def spanContextFromRequestID_def io_ReadFull_def)
  moreover have "sc_IsValid (remote_span tid (take 8 src))" using tid random by (simp add: sc_IsValid_def remote_span_def)
  ultimately show ?thesis using tid(1) level by (auto simp: emit_traced remote_span_def)
qed

end
