(* ===== verification/Chaos_E2E.thy ===== *)
theory Chaos_E2E
  imports Chaos_Receiver Go_Json Go_Path
begin

text \<open>
  The driver of the fault-injection end-to-end tests (\<open>test/chaos/e2e\<close>): the client that polls the
  diagnostic receiver (\<open>receiver_client.go\<close>), the compose lifecycle (\<open>compose_lifecycle.go\<close>) and its
  helpers. What is outside the process is a parameter over a state \<open>'w\<close>: the clock, the HTTP
  exchanges, pauses, commands and directories. Reading JSON text and printing and parsing RFC 3339
  times are parameters; decoding the value read is not. Both polling loops are instances of one
  loop, which returns whenever time passes in the pauses.
\<close>

section \<open>Polling\<close>

text \<open>A \<open>for\<close> loop without a condition: the body either returns from the function or goes round.\<close>

partial_function (option) poll :: "('w \<Rightarrow> 'r + 'w) \<Rightarrow> 'w \<Rightarrow> 'r option" where
  [code]: "poll body w = (case body w of Inl r \<Rightarrow> Some r | Inr w' \<Rightarrow> poll body w')"

text \<open>A number of whole rounds from one state to another.\<close>

inductive rounds :: "('w \<Rightarrow> 'r + 'w) \<Rightarrow> nat \<Rightarrow> 'w \<Rightarrow> 'w \<Rightarrow> bool" for body where
  rounds_0: "rounds body 0 w w"
| rounds_Suc: "body w = Inr w' \<Longrightarrow> rounds body n w' w'' \<Longrightarrow> rounds body (Suc n) w w''"

text \<open>
  A loop whose every round starts no later than a limit and ends at least one step later returns,
  after at most as many rounds as steps fit before the limit, with the result of its body in the
  state these rounds reach.
\<close>

lemma poll_returns:
  fixes now :: "'w \<Rightarrow> int"
  assumes "0 < d" and round: "\<And>w w'. body w = Inr w' \<Longrightarrow> now w \<le> limit \<and> now w + d \<le> now w'"
  shows "\<exists>r n w'. poll body w = Some r \<and> rounds body n w w' \<and> body w' = Inl r \<and> (0 < n \<longrightarrow> now w + (int n - 1) * d \<le> limit)"
proof (induction "nat (limit + d - now w)" arbitrary: w rule: less_induct)
  case less
  show ?case
  proof (cases "body w")
    case (Inl r)
    then show ?thesis by (auto simp: poll.simps [of body w] intro: rounds_0)
  next
    case (Inr w')
    note step = round [OF Inr]
    then have "nat (limit + d - now w') < nat (limit + d - now w)" using assms(1) by simp
    from less.hyps [OF this] obtain r n w'' where *: "poll body w' = Some r" "rounds body n w' w''" "body w'' = Inl r"
      and b: "0 < n \<longrightarrow> now w' + (int n - 1) * d \<le> limit" by blast
    have "now w + int n * d \<le> limit" using step b by (cases "n = 0") (auto simp: algebra_simps)
    with * show ?thesis using Inr rounds_Suc [OF Inr *(2)]
      by (intro exI [of _ r] exI [of _ "Suc n"] exI [of _ w'']) (simp add: poll.simps [of body w])
  qed
qed

section \<open>The client of the receiver\<close>

text \<open>The payload as the client decodes it; a \<open>json.RawMessage\<close> is the value it spells, or empty.\<close>

record ClientPayload =
  cp_Received :: go_time
  cp_Body :: "jvalue option"

type_synonym AMAlert = smap

type_synonym AMWebhookPayload = "AMAlert list"

record ExpectedAlert =
  xa_AlertName :: string
  xa_Capability :: string
  xa_Severity :: string
  xa_SLOName :: string

text \<open>What \<open>Do\<close> gives: no response, or a status with the bytes read of the body and the error that ended it.\<close>

datatype e2e_reply = NoAnswer go_error | Answer int string "go_error option"

text \<open>
  \<open>ee_Pause d\<close> is the \<open>select\<close> between the context and \<open>time.After(d)\<close>: the context's error, or
  nothing once \<open>d\<close> has passed. \<open>ee_Request\<close> is the error of \<open>http.NewRequestWithContext\<close> on a URL.
  The two HTTP clients differ in their timeouts only, which are the environment's matter.
\<close>

record 'w e2e_env =
  ee_Now :: "'w \<Rightarrow> go_time \<times> 'w"
  ee_Request :: "string \<Rightarrow> go_error option"
  ee_Do :: "string \<Rightarrow> string \<Rightarrow> 'w \<Rightarrow> e2e_reply \<times> 'w"
  ee_Pause :: "duration \<Rightarrow> 'w \<Rightarrow> go_error option \<times> 'w"
  ee_Sleep :: "duration \<Rightarrow> 'w \<Rightarrow> 'w"
  ee_Format :: "go_time \<Rightarrow> string"
  ee_Parse :: "string \<Rightarrow> go_time option"
  ee_json :: "string \<Rightarrow> go_error + jvalue"
  ee_mismatch :: "jvalue \<Rightarrow> go_error"

text \<open>\<open>url.QueryEscape\<close> and its inverse, which \<open>URL.Query\<close> applies to a value.\<close>

definition upper_hex :: "nat \<Rightarrow> char" where
  "upper_hex n = (if n < 10 then char_of (48 + n) else char_of (55 + n))"

definition escape_char :: "char \<Rightarrow> string" where
  "escape_char c =
     (if is_lower c \<or> is_upper c \<or> is_digit c \<or> c \<in> set ''-_.~'' then [c]
      else if c = CHR '' '' then ''+''
      else [CHR ''%'', upper_hex (of_char c div 16), upper_hex (of_char c mod 16)])"

definition QueryEscape :: "string \<Rightarrow> string" where
  "QueryEscape s = concat (map escape_char s)"

definition unhex :: "char \<Rightarrow> nat option" where
  "unhex c =
     (if is_digit c then Some (of_char c - 48)
      else if between 97 102 c then Some (of_char c - 87)
      else if between 65 70 c then Some (of_char c - 55) else None)"

fun QueryUnescape :: "string \<Rightarrow> string option" where
  "QueryUnescape [] = Some []"
| "QueryUnescape (c # s) =
     (if c = CHR ''%'' then
        (case s of h # l # s' \<Rightarrow>
           (case (unhex h, unhex l, QueryUnescape s') of
              (Some a, Some b, Some r) \<Rightarrow> Some (char_of (16 * a + b) # r)
            | _ \<Rightarrow> None)
         | _ \<Rightarrow> None)
      else case QueryUnescape s of None \<Rightarrow> None
        | Some r \<Rightarrow> Some ((if c = CHR ''+'' then CHR '' '' else c) # r))"

definition alertMatches :: "AMAlert \<Rightarrow> ExpectedAlert \<Rightarrow> bool" where
  "alertMatches a ex =
     (if xa_AlertName ex \<noteq> [] \<and> map_get a ''alertname'' \<noteq> xa_AlertName ex then False
      else if xa_Capability ex \<noteq> [] \<and> map_get a ''capability'' \<noteq> xa_Capability ex then False
      else if xa_Severity ex \<noteq> [] \<and> map_get a ''severity'' \<noteq> xa_Severity ex then False
      else if xa_SLOName ex \<noteq> [] \<and> map_get a ''sloth_slo'' \<noteq> xa_SLOName ex then False
      else True)"

definition dec_AMWebhookPayload :: "AMWebhookPayload decoder" where
  "dec_AMWebhookPayload = only ''alerts'' (dec_slice (only ''labels'' dec_smap) [])"

definition payloadMatches :: "ClientPayload \<Rightarrow> ExpectedAlert \<Rightarrow> bool" where
  "payloadMatches p ex =
     (case cp_Body p of None \<Rightarrow> False
      | Some j \<Rightarrow> (case dec_AMWebhookPayload j [] of None \<Rightarrow> False
      | Some wh \<Rightarrow> list_ex (\<lambda>a. alertMatches a ex) wh))"

definition zero_ClientPayload :: ClientPayload where
  "zero_ClientPayload = \<lparr>cp_Received = 0, cp_Body = None\<rparr>"

definition dec_ClientPayload :: "'w e2e_env \<Rightarrow> ClientPayload decoder" where
  "dec_ClientPayload env =
     dec_struct [field ''received'' (dec_time (ee_Parse env)) cp_Received (\<lambda>x p. p\<lparr>cp_Received := x\<rparr>),
       field ''body'' dec_raw cp_Body (\<lambda>x p. p\<lparr>cp_Body := x\<rparr>)]"

text \<open>The end of both queries: the body is read and the envelope decoded.\<close>

definition read_envelope :: "'w e2e_env \<Rightarrow> string \<Rightarrow> go_error option \<Rightarrow> go_error + ClientPayload list" where
  "read_envelope env body rerr =
     (case rerr of Some e \<Rightarrow> Inl (wrapf ''read /inspect body'' e)
      | None \<Rightarrow> (case ee_json env body of Inl e \<Rightarrow> Inl (wrapf ''decode /inspect response'' e)
      | Inr j \<Rightarrow> (case only ''received'' (dec_slice (dec_ClientPayload env) zero_ClientPayload) j [] of
          None \<Rightarrow> Inl (wrapf ''decode /inspect response'' (ee_mismatch env j))
        | Some ps \<Rightarrow> Inr ps)))"

definition ListAlerts :: "'w e2e_env \<Rightarrow> string \<Rightarrow> 'w \<Rightarrow> (go_error + ClientPayload list) \<times> 'w" where
  "ListAlerts env base w =
     (case ee_Request env (base @ ''/inspect'') of Some e \<Rightarrow> (Inl e, w)
      | None \<Rightarrow> (case ee_Do env ''GET'' (base @ ''/inspect'') w of
          (NoAnswer e, w') \<Rightarrow> (Inl (wrapf ''GET /inspect'' e), w')
        | (Answer code body rerr, w') \<Rightarrow>
            (if code \<noteq> 200 then Inl (errorf (''GET /inspect: unexpected status '' @ int_dec code))
             else read_envelope env body rerr, w')))"

definition inspect_url :: "'w e2e_env \<Rightarrow> string \<Rightarrow> go_time \<Rightarrow> string" where
  "inspect_url env base since =
     (let u = base @ ''/inspect'' in
      if since \<noteq> 0 then u @ ''?since='' @ QueryEscape (ee_Format env since) else u)"

definition AlertsMatchingSince ::
  "'w e2e_env \<Rightarrow> string \<Rightarrow> ExpectedAlert \<Rightarrow> go_time \<Rightarrow> 'w \<Rightarrow> (go_error + ClientPayload list) \<times> 'w" where
  "AlertsMatchingSince env base ex since w =
     (let u = inspect_url env base since in
      case ee_Request env u of Some e \<Rightarrow> (Inl e, w)
      | None \<Rightarrow> (case ee_Do env ''GET'' u w of
          (NoAnswer e, w') \<Rightarrow> (Inl (wrapf ''GET /inspect'' e), w')
        | (Answer code body rerr, w') \<Rightarrow>
            (if code \<noteq> 200
             then Inl (errorf (''GET /inspect: status '' @ int_dec code @ '' body='' @ body))
             else (case read_envelope env body rerr of Inl e \<Rightarrow> Inl e
               | Inr ps \<Rightarrow> Inr (filter (\<lambda>p. payloadMatches p ex) ps)), w')))"

definition AlertsMatching :: "'w e2e_env \<Rightarrow> string \<Rightarrow> ExpectedAlert \<Rightarrow> 'w \<Rightarrow> (go_error + ClientPayload list) \<times> 'w" where
  "AlertsMatching env base ex w = AlertsMatchingSince env base ex 0 w"

definition client_Clear :: "'w e2e_env \<Rightarrow> string \<Rightarrow> 'w \<Rightarrow> go_error option \<times> 'w" where
  "client_Clear env base w =
     (case ee_Request env (base @ ''/alerts'') of Some e \<Rightarrow> (Some e, w)
      | None \<Rightarrow> (case ee_Do env ''DELETE'' (base @ ''/alerts'') w of
          (NoAnswer e, w') \<Rightarrow> (Some (wrapf ''DELETE /alerts'' e), w')
        | (Answer code _ _, w') \<Rightarrow>
            (if code \<noteq> 204 then Some (errorf (''DELETE /alerts: unexpected status '' @ int_dec code)) else None, w')))"

section \<open>Waiting for an alert\<close>

text \<open>\<open>Duration.Round\<close> to a positive multiple.\<close>

definition duration_Round :: "duration \<Rightarrow> duration \<Rightarrow> duration" where
  "duration_Round d m =
     (let r = \<bar>d\<bar> mod m in
      if d < 0
      then (if 2 * r < m then d + r else if - (2 ^ 63) \<le> d - m + r then d - m + r else - (2 ^ 63))
      else (if 2 * r < m then d - r else if d + m - r < 2 ^ 63 then d + m - r else 2 ^ 63 - 1))"

definition pollEvery :: duration where "pollEvery = 2 * Second"

record wait_result =
  wr_Payload :: ClientPayload
  wr_Latency :: duration
  wr_Breached :: bool
  wr_Err :: "go_error option"

text \<open>\<open>time.Since(start)\<close>.\<close>

definition time_Since :: "'w e2e_env \<Rightarrow> go_time \<Rightarrow> 'w \<Rightarrow> duration \<times> 'w" where
  "time_Since env start w = (case ee_Now env w of (t, w') \<Rightarrow> (Sub t start, w'))"

definition not_received :: "ExpectedAlert \<Rightarrow> duration \<Rightarrow> duration \<Rightarrow> go_error" where
  "not_received ex elapsed deadline =
     errorf (''alert '' @ quoted (xa_AlertName ex) @ '' not received after '' @
       duration_str (duration_Round elapsed Second) @ '' (deadline='' @ duration_str deadline @ ''): '' @
       ''check Prometheus rules, Alertmanager routing, or receiver-stub connectivity'')"

definition wait_body ::
  "'w e2e_env \<Rightarrow> string \<Rightarrow> ExpectedAlert \<Rightarrow> duration \<Rightarrow> duration \<Rightarrow> go_time \<Rightarrow> 'w \<Rightarrow> (wait_result \<times> 'w) + 'w" where
  "wait_body env base ex target deadline start w =
     (case ee_Now env w of (t, w1) \<Rightarrow>
      if t > start + deadline
      then (case time_Since env start w1 of (elapsed, w2) \<Rightarrow>
        Inl (\<lparr>wr_Payload = zero_ClientPayload, wr_Latency = elapsed, wr_Breached = False,
               wr_Err = Some (not_received ex elapsed deadline)\<rparr>, w2))
      else (case AlertsMatching env base ex w1 of
        (Inr (a # _), w2) \<Rightarrow>
          (case time_Since env start w2 of (latency, w3) \<Rightarrow>
            Inl (\<lparr>wr_Payload = a, wr_Latency = latency, wr_Breached = latency > target, wr_Err = None\<rparr>, w3))
      | (_, w2) \<Rightarrow>
          (case ee_Pause env pollEvery w2 of
             (Some e, w3) \<Rightarrow>
               (case time_Since env start w3 of (elapsed, w4) \<Rightarrow>
                 Inl (\<lparr>wr_Payload = zero_ClientPayload, wr_Latency = elapsed, wr_Breached = False, wr_Err = Some e\<rparr>, w4))
           | (None, w3) \<Rightarrow> Inr w3)))"

definition WaitForAlert ::
  "'w e2e_env \<Rightarrow> string \<Rightarrow> ExpectedAlert \<Rightarrow> duration \<Rightarrow> duration \<Rightarrow> 'w \<Rightarrow> (wait_result \<times> 'w) option" where
  "WaitForAlert env base ex target deadline w =
     (case ee_Now env w of (start, w1) \<Rightarrow> poll (wait_body env base ex target deadline start) w1)"

section \<open>The compose lifecycle\<close>

text \<open>\<open>t.Fatalf\<close> ends the test; \<open>t.Logf\<close> adds a line.\<close>

datatype 'a verdict = Done 'a | Fatalf string

record 'w test_state =
  ts_world :: 'w
  ts_log :: "string list"

definition Logf :: "string \<Rightarrow> 'w test_state \<Rightarrow> 'w test_state" where
  "Logf l s = s\<lparr>ts_log := ts_log s @ [l]\<rparr>"

record compose_cmd =
  cd_name :: string
  cd_args :: "string list"
  cd_dir :: string
  cd_env :: "string list option"

text \<open>The working directory, the files there are, and what a command prints and returns.\<close>

record 'w compose_env =
  ce_Getwd :: "go_error + string"
  ce_exists :: "string \<Rightarrow> bool"
  ce_Environ :: "string list"
  ce_ToUpper :: "string \<Rightarrow> string"
  ce_run :: "compose_cmd \<Rightarrow> 'w \<Rightarrow> (string \<times> go_error option) \<times> 'w"

fun find_up :: "(string \<Rightarrow> bool) \<Rightarrow> nat \<Rightarrow> string \<Rightarrow> string option" where
  "find_up has 0 dir = None"
| "find_up has (Suc n) dir =
     (if has (filepath_Join dir ''go.mod'') then Some dir
      else (let parent = filepath_Dir dir in if parent = dir then None else find_up has n parent))"

definition findRepoRoot :: "'w compose_env \<Rightarrow> string verdict" where
  "findRepoRoot env =
     (case ce_Getwd env of Inl e \<Rightarrow> Fatalf (''findRepoRoot: getwd: '' @ err_text e)
      | Inr cwd \<Rightarrow> (case find_up (ce_exists env) 10 cwd of Some d \<Rightarrow> Done d
          | None \<Rightarrow> Fatalf (''findRepoRoot: could not find go.mod starting from '' @ cwd)))"

definition composeFiles :: "'w compose_env \<Rightarrow> (string \<times> string) verdict" where
  "composeFiles env =
     (case findRepoRoot env of Fatalf m \<Rightarrow> Fatalf m
      | Done root \<Rightarrow> Done (foldl filepath_Join root [''ops'', ''local'', ''compose.yaml''],
                          foldl filepath_Join root [''ops'', ''local'', ''compose.chaos.yaml'']))"

text \<open>The key of an entry of the environment: what precedes the first equals sign, or all of it.\<close>

definition env_key :: "string \<Rightarrow> string" where
  "env_key kv = takeWhile (\<lambda>c. c \<noteq> CHR ''='') kv"

definition mergeEnv :: "(string \<Rightarrow> string) \<Rightarrow> string list \<Rightarrow> smap \<Rightarrow> string list" where
  "mergeEnv up base extra =
     (let overrideKeys = map (\<lambda>(k, v). up k) extra in
      filter (\<lambda>kv. up (env_key kv) \<notin> set overrideKeys) base @ map (\<lambda>(k, v). k @ ''='' @ v) extra)"

definition arrow :: string where "arrow = [CHR 0xE2, CHR 0x86, CHR 0x92]"

definition ErrorOf :: "go_error option \<Rightarrow> string" where
  "ErrorOf e = (case e of None \<Rightarrow> ''<nil>'' | Some e \<Rightarrow> err_text e)"

definition ComposeUp :: "'w compose_env \<Rightarrow> smap \<Rightarrow> 'w test_state \<Rightarrow> unit verdict \<times> 'w test_state" where
  "ComposeUp env extra s =
     (case composeFiles env of Fatalf m \<Rightarrow> (Fatalf m, s)
      | Done (base, overlay) \<Rightarrow>
        (case ce_run env \<lparr>cd_name = ''docker'',
                cd_args = [''compose'', ''-f'', base, ''-f'', overlay, ''up'', ''-d'', ''--build''],
                cd_dir = [], cd_env = Some (mergeEnv (ce_ToUpper env) (ce_Environ env) extra)\<rparr> (ts_world s) of
           ((out, Some e), w) \<Rightarrow>
             (Fatalf (''ComposeUp failed: '' @ err_text e @ [CHR 0x0A] @ out), s\<lparr>ts_world := w\<rparr>)
         | ((out, None), w) \<Rightarrow> (Done (), Logf (''ComposeUp succeeded:'' @ [CHR 0x0A] @ out) (s\<lparr>ts_world := w\<rparr>))))"

definition ComposeDown :: "'w compose_env \<Rightarrow> 'w test_state \<Rightarrow> unit verdict \<times> 'w test_state" where
  "ComposeDown env s =
     (case composeFiles env of Fatalf m \<Rightarrow> (Fatalf m, s)
      | Done (base, overlay) \<Rightarrow>
        (case ce_run env \<lparr>cd_name = ''docker'', cd_args = [''compose'', ''-f'', base, ''-f'', overlay, ''down'', ''-v''],
                cd_dir = [], cd_env = None\<rparr> (ts_world s) of
           ((out, Some e), w) \<Rightarrow>
             (Done (), Logf (''ComposeDown error (ignored): '' @ err_text e @ [CHR 0x0A] @ out) (s\<lparr>ts_world := w\<rparr>))
         | ((out, None), w) \<Rightarrow> (Done (), Logf (''ComposeDown succeeded:'' @ [CHR 0x0A] @ out) (s\<lparr>ts_world := w\<rparr>))))"

definition DumpDiagnostics :: "'w compose_env \<Rightarrow> 'w test_state \<Rightarrow> unit verdict \<times> 'w test_state" where
  "DumpDiagnostics env s =
     (case findRepoRoot env of Fatalf m \<Rightarrow> (Fatalf m, s)
      | Done root \<Rightarrow>
        (let dumpDir = filepath_Join root ''chaos-dump'';
             script = foldl filepath_Join root [''ops'', ''chaos'', ''scripts'', ''dump.sh''] in
         case ce_run env \<lparr>cd_name = script, cd_args = [], cd_dir = root,
                cd_env = Some (ce_Environ env @ [''OUT_DIR='' @ dumpDir])\<rparr> (ts_world s) of
           ((out, err), w) \<Rightarrow>
             (Done (), Logf (''chaos-dump (err='' @ ErrorOf err @ '') '' @ arrow @ '' '' @ dumpDir @ '':'' @ [CHR 0x0A] @ out)
                (s\<lparr>ts_world := w\<rparr>))))"

section \<open>Waiting for the services\<close>

definition probes :: "(string \<times> string) list" where
  "probes =
     [(''prometheus'', ''http://localhost:9090/-/ready''), (''alertmanager'', ''http://localhost:9093/-/healthy''),
      (''receiver-stub'', ''http://localhost:8088/inspect''), (''runtime-adapters'', ''http://localhost:8080/healthz'')]"

text \<open>The body is drained and its errors ignored.\<close>

definition isReady :: "'w e2e_env \<Rightarrow> string \<Rightarrow> 'w \<Rightarrow> bool \<times> 'w" where
  "isReady env u w =
     (case ee_Do env ''GET'' u w of (NoAnswer _, w') \<Rightarrow> (False, w') | (Answer code _ _, w') \<Rightarrow> (code = 200, w'))"

fun probe_all :: "'w e2e_env \<Rightarrow> (string \<times> string) list \<Rightarrow> 'w test_state \<Rightarrow> bool \<times> 'w test_state" where
  "probe_all env [] s = (True, s)"
| "probe_all env ((n, u) # ps) s =
     (case isReady env u (ts_world s) of (ready, w) \<Rightarrow>
      (let s1 = s\<lparr>ts_world := w\<rparr>;
           s2 = (if ready then s1 else Logf (''WaitForHealthy: '' @ n @ '' not ready yet ('' @ u @ '')'') s1) in
       case probe_all env ps s2 of (rest, s3) \<Rightarrow> (ready \<and> rest, s3)))"

definition healthy_body ::
  "'w e2e_env \<Rightarrow> duration \<Rightarrow> go_time \<Rightarrow> 'w test_state \<Rightarrow> (unit verdict \<times> 'w test_state) + 'w test_state" where
  "healthy_body env deadline deadlineAt s =
     (case ee_Now env (ts_world s) of (t, w1) \<Rightarrow>
      if t > deadlineAt
      then Inl (Fatalf (''WaitForHealthy: services not ready after '' @ duration_str deadline), s\<lparr>ts_world := w1\<rparr>)
      else (case probe_all env probes (s\<lparr>ts_world := w1\<rparr>) of
        (True, s2) \<Rightarrow> Inl (Done (), Logf ''WaitForHealthy: all services ready'' s2)
      | (False, s2) \<Rightarrow> Inr (s2\<lparr>ts_world := ee_Sleep env pollEvery (ts_world s2)\<rparr>)))"

definition WaitForHealthy :: "'w e2e_env \<Rightarrow> duration \<Rightarrow> 'w test_state \<Rightarrow> (unit verdict \<times> 'w test_state) option" where
  "WaitForHealthy env deadline s =
     (case ee_Now env (ts_world s) of (t, w) \<Rightarrow>
        poll (healthy_body env deadline (t + deadline)) (s\<lparr>ts_world := w\<rparr>))"

section \<open>The loops return\<close>

text \<open>
  Documented behaviour of Go's clock and timers: readings never go back, whatever happens in
  between, and a pause of \<open>d\<close> that is not cut short, like a sleep of \<open>d\<close>, lasts at least \<open>d\<close>.
\<close>

definition ticking :: "'w e2e_env \<Rightarrow> bool" where
  "ticking env \<longleftrightarrow>
     (\<forall>w. fst (ee_Now env w) \<le> fst (ee_Now env (snd (ee_Now env w)))) \<and>
     (\<forall>m u w. fst (ee_Now env w) \<le> fst (ee_Now env (snd (ee_Do env m u w)))) \<and>
     (\<forall>d w w'. ee_Pause env d w = (None, w') \<longrightarrow> fst (ee_Now env w) + d \<le> fst (ee_Now env w')) \<and>
     (\<forall>d w. fst (ee_Now env w) + d \<le> fst (ee_Now env (ee_Sleep env d w)))"

lemma pollEvery_pos: "0 < pollEvery"
  by (simp add: pollEvery_def Second_def)

lemma AlertsMatching_time:
  assumes "ticking env"
  shows "fst (ee_Now env w) \<le> fst (ee_Now env (snd (AlertsMatching env base ex w)))"
proof -
  have "fst (ee_Now env w) \<le> fst (ee_Now env (snd (ee_Do env ''GET'' u w)))" for u
    using assms by (simp add: ticking_def)
  from this [of "inspect_url env base 0"] show ?thesis
    by (auto simp: AlertsMatching_def AlertsMatchingSince_def Let_def split: option.splits prod.splits e2e_reply.splits)
qed

lemma wait_round:
  assumes tick: "ticking env" and "wait_body env base ex target deadline start w = Inr w'"
  shows "fst (ee_Now env w) \<le> start + deadline \<and> fst (ee_Now env w) + pollEvery \<le> fst (ee_Now env w')"
proof -
  obtain t w1 where now: "ee_Now env w = (t, w1)" by (cases "ee_Now env w")
  obtain r w2 where q: "AlertsMatching env base ex w1 = (r, w2)" by (cases "AlertsMatching env base ex w1")
  have "t \<le> start + deadline" and "ee_Pause env pollEvery w2 = (None, w')"
    using assms(2) now q by (auto simp: wait_body_def split: if_splits prod.splits sum.splits list.splits option.splits)
  moreover have "t \<le> fst (ee_Now env w1)" using tick now unfolding ticking_def by (metis fst_conv snd_conv)
  moreover have "fst (ee_Now env w1) \<le> fst (ee_Now env w2)" using AlertsMatching_time [OF tick, of w1 base ex] q by simp
  moreover have "fst (ee_Now env w2) + pollEvery \<le> fst (ee_Now env w')"
    using tick \<open>ee_Pause env pollEvery w2 = (None, w')\<close> by (simp add: ticking_def)
  ultimately show ?thesis using now by simp
qed

lemma Logf_world [simp]: "ts_world (Logf l s) = ts_world s"
  by (simp add: Logf_def)

lemma isReady_time:
  assumes "ticking env"
  shows "fst (ee_Now env w) \<le> fst (ee_Now env (snd (isReady env u w)))"
proof -
  have "snd (isReady env u w) = snd (ee_Do env ''GET'' u w)" by (simp add: isReady_def split: prod.splits e2e_reply.splits)
  then show ?thesis using assms by (simp add: ticking_def)
qed

lemma probe_all_time:
  assumes "ticking env"
  shows "fst (ee_Now env (ts_world s)) \<le> fst (ee_Now env (ts_world (snd (probe_all env ps s))))"
proof (induction ps arbitrary: s)
  case (Cons p ps)
  obtain n u where p: "p = (n, u)" by (cases p)
  obtain s2 where s2: "snd (probe_all env (p # ps) s) = snd (probe_all env ps s2)"
    "ts_world s2 = snd (isReady env u (ts_world s))"
    by (simp add: p Let_def case_prod_beta)
  show ?case unfolding s2(1) using isReady_time [OF assms, of "ts_world s" u] Cons [of s2] by (simp add: s2(2))
qed simp

lemma healthy_round:
  assumes tick: "ticking env" and "healthy_body env deadline limit s = Inr s'"
  shows "fst (ee_Now env (ts_world s)) \<le> limit \<and>
    fst (ee_Now env (ts_world s)) + pollEvery \<le> fst (ee_Now env (ts_world s'))"
proof -
  obtain t w1 where now: "ee_Now env (ts_world s) = (t, w1)" by (cases "ee_Now env (ts_world s)")
  define s2 where "s2 = snd (probe_all env probes (s\<lparr>ts_world := w1\<rparr>))"
  have "t \<le> limit" and s': "s' = s2\<lparr>ts_world := ee_Sleep env pollEvery (ts_world s2)\<rparr>"
    using assms(2) now by (auto simp: healthy_body_def s2_def split: if_splits prod.splits bool.splits)
  moreover have "t \<le> fst (ee_Now env w1)" using tick now unfolding ticking_def by (metis fst_conv snd_conv)
  moreover have "fst (ee_Now env w1) \<le> fst (ee_Now env (ts_world s2))"
    using probe_all_time [OF tick, of "s\<lparr>ts_world := w1\<rparr>" probes] by (simp add: s2_def)
  moreover have "fst (ee_Now env (ts_world s2)) + pollEvery \<le> fst (ee_Now env (ts_world s'))"
    using tick by (simp add: ticking_def s')
  ultimately show ?thesis using now by simp
qed

text \<open>The wait for the services ends: all four answered 200 in one round, or the deadline had passed.\<close>

lemma WaitForHealthy_returns:
  assumes "ticking env" and "ee_Now env (ts_world s) = (t, w)"
  shows "\<exists>v s' n s1. WaitForHealthy env deadline s = Some (v, s') \<and>
    rounds (healthy_body env deadline (t + deadline)) n (s\<lparr>ts_world := w\<rparr>) s1 \<and>
    (if fst (ee_Now env (ts_world s1)) > t + deadline
     then v = Fatalf (''WaitForHealthy: services not ready after '' @ duration_str deadline)
     else v = Done () \<and> fst (probe_all env probes (s1\<lparr>ts_world := snd (ee_Now env (ts_world s1))\<rparr>)))"
proof -
  obtain r n s1 where "poll (healthy_body env deadline (t + deadline)) (s\<lparr>ts_world := w\<rparr>) = Some r"
    and n: "rounds (healthy_body env deadline (t + deadline)) n (s\<lparr>ts_world := w\<rparr>) s1"
    and r: "healthy_body env deadline (t + deadline) s1 = Inl r"
    using poll_returns [where body = "healthy_body env deadline (t + deadline)" and now = "\<lambda>s. fst (ee_Now env (ts_world s))",
        OF pollEvery_pos healthy_round [OF assms(1), where deadline = deadline and limit = "t + deadline"]] by blast
  then have "WaitForHealthy env deadline s = Some (fst r, snd r)" using assms(2) by (simp add: WaitForHealthy_def)
  moreover have "if fst (ee_Now env (ts_world s1)) > t + deadline
     then fst r = Fatalf (''WaitForHealthy: services not ready after '' @ duration_str deadline)
     else fst r = Done () \<and> fst (probe_all env probes (s1\<lparr>ts_world := snd (ee_Now env (ts_world s1))\<rparr>))"
    using r by (auto simp: healthy_body_def split: if_splits prod.splits bool.splits)
  ultimately show ?thesis using n by blast
qed

lemma AlertsMatching_matches:
  assumes "AlertsMatching env base ex w = (Inr as, w')" and "a \<in> set as"
  shows "payloadMatches a ex"
  using assms by (auto simp: AlertsMatching_def AlertsMatchingSince_def Let_def
      split: option.splits prod.splits e2e_reply.splits if_splits sum.splits)

text \<open>What the last round makes of the state it starts in.\<close>

lemma wait_last:
  assumes "wait_body env base ex target deadline start w = Inl (res, w')"
  shows "(case wr_Err res of
       None \<Rightarrow> payloadMatches (wr_Payload res) ex \<and> (wr_Breached res \<longleftrightarrow> wr_Latency res > target) \<and>
         fst (ee_Now env w) \<le> start + deadline \<and>
         (\<exists>rest w2. AlertsMatching env base ex (snd (ee_Now env w)) = (Inr (wr_Payload res # rest), w2))
     | Some e \<Rightarrow> wr_Payload res = zero_ClientPayload \<and> \<not> wr_Breached res \<and>
         (if fst (ee_Now env w) > start + deadline then e = not_received ex (wr_Latency res) deadline
          else fst (ee_Pause env pollEvery (snd (AlertsMatching env base ex (snd (ee_Now env w))))) = Some e))"
  using assms AlertsMatching_matches [of env base ex]
  by (auto simp: wait_body_def time_Since_def split: if_splits prod.splits sum.splits list.splits option.splits)

text \<open>
  C40: Waiting for an alert always ends, after at most one poll for every two seconds before the
  deadline and one more, as long as the clock does not run backwards and pauses last, whatever the
  receiver answers. It returns without an error only the first alert of the answer to a query
  begun no later than the deadline, one that has all the expected labels, and flags it exactly
  when its latency exceeds the target. An error comes with no alert and no flag: it is that of the
  context, or the deadline has passed.
\<close>

theorem WaitForAlert_verdict:
  assumes "ticking env" and "ee_Now env w = (start, w0)"
  shows "\<exists>res w' n w1. WaitForAlert env base ex target deadline w = Some (res, w') \<and>
    rounds (wait_body env base ex target deadline start) n w0 w1 \<and> (int n - 1) * pollEvery \<le> max deadline 0 \<and>
    (case wr_Err res of
       None \<Rightarrow> payloadMatches (wr_Payload res) ex \<and> (wr_Breached res \<longleftrightarrow> wr_Latency res > target) \<and>
         fst (ee_Now env w1) \<le> start + deadline \<and>
         (\<exists>rest w2. AlertsMatching env base ex (snd (ee_Now env w1)) = (Inr (wr_Payload res # rest), w2))
     | Some e \<Rightarrow> wr_Payload res = zero_ClientPayload \<and> \<not> wr_Breached res \<and>
         (if fst (ee_Now env w1) > start + deadline then e = not_received ex (wr_Latency res) deadline
          else fst (ee_Pause env pollEvery (snd (AlertsMatching env base ex (snd (ee_Now env w1))))) = Some e))"
proof -
  obtain r n w1 where p: "poll (wait_body env base ex target deadline start) w0 = Some r"
    and n: "rounds (wait_body env base ex target deadline start) n w0 w1"
    and r: "wait_body env base ex target deadline start w1 = Inl r"
    and b: "0 < n \<longrightarrow> fst (ee_Now env w0) + (int n - 1) * pollEvery \<le> start + deadline"
    using poll_returns [where body = "wait_body env base ex target deadline start" and now = "\<lambda>w. fst (ee_Now env w)",
        OF pollEvery_pos wait_round [OF assms(1), where base = base and ex = ex and target = target and deadline = deadline and start = start]]
    by blast
  have "start \<le> fst (ee_Now env w0)" using assms unfolding ticking_def by (metis fst_conv snd_conv)
  then have "(int n - 1) * pollEvery \<le> max deadline 0"
    using b pollEvery_pos by (cases "n = 0") (auto simp: max_def)
  moreover have "WaitForAlert env base ex target deadline w = Some (fst r, snd r)" using p assms(2) by (simp add: WaitForAlert_def)
  moreover note wait_last [of env base ex target deadline start w1 "fst r" "snd r", simplified, OF r]
  ultimately show ?thesis using n by (intro exI [of _ "fst r"] exI [of _ "snd r"] exI [of _ n] exI [of _ w1]) auto
qed

definition sample_clock :: "int e2e_env" where
  "sample_clock = \<lparr>ee_Now = (\<lambda>w. (w, w + 1)), ee_Request = (\<lambda>_. None),
     ee_Do = (\<lambda>m u w. (if w < 5000000000 then NoAnswer (errorf ''connection refused'') else Answer 200 ''x'' None, w + 7)),
     ee_Pause = (\<lambda>d w. (None, w + d)), ee_Sleep = (\<lambda>d w. w + d), ee_Format = (\<lambda>_. []), ee_Parse = (\<lambda>_. Some 3),
     ee_json = (\<lambda>_. Inr (VObj [(''received'', VArr [VObj [(''body'', VObj [(''alerts'',
        VArr [VObj [(''labels'', VObj [(''alertname'', VStr ''Slow'')])]])])]])])),
     ee_mismatch = (\<lambda>_. errorf [])\<rparr>"

definition sample_expected :: ExpectedAlert where
  "sample_expected = \<lparr>xa_AlertName = ''Slow'', xa_Capability = [], xa_Severity = [], xa_SLOName = []\<rparr>"

lemma sample_ticking: "ticking sample_clock"
  by (auto simp: ticking_def sample_clock_def)

theorem WaitForAlert_verdict_witness:
  "\<exists>res w' n w1. WaitForAlert sample_clock ''http://r'' sample_expected 4000000000 60000000000 0 = Some (res, w') \<and>
     (int n - 1) * pollEvery \<le> 60000000000 \<and> wr_Err res = None \<and> wr_Breached res \<and>
     payloadMatches (wr_Payload res) sample_expected \<and> fst (ee_Now sample_clock w1) \<le> 60000000000"
proof -
  obtain res w' n w1 where w: "WaitForAlert sample_clock ''http://r'' sample_expected 4000000000 60000000000 0 = Some (res, w')"
    and n: "(int n - 1) * pollEvery \<le> max 60000000000 0"
    and c: "case wr_Err res of
       None \<Rightarrow> payloadMatches (wr_Payload res) sample_expected \<and> (wr_Breached res \<longleftrightarrow> wr_Latency res > 4000000000) \<and>
         fst (ee_Now sample_clock w1) \<le> 0 + 60000000000 \<and>
         (\<exists>rest w2. AlertsMatching sample_clock ''http://r'' sample_expected (snd (ee_Now sample_clock w1)) = (Inr (wr_Payload res # rest), w2))
     | Some e \<Rightarrow> wr_Payload res = zero_ClientPayload \<and> \<not> wr_Breached res \<and>
         (if fst (ee_Now sample_clock w1) > 0 + 60000000000 then e = not_received sample_expected (wr_Latency res) 60000000000
          else fst (ee_Pause sample_clock pollEvery (snd (AlertsMatching sample_clock ''http://r'' sample_expected
                 (snd (ee_Now sample_clock w1))))) = Some e)"
    using WaitForAlert_verdict [OF sample_ticking, of 0 0 1 "''http://r''" sample_expected 4000000000 60000000000]
    by (auto simp: sample_clock_def)
  have "map_option (\<lambda>(r, _). (wr_Err r = None, wr_Breached r))
      (WaitForAlert sample_clock ''http://r'' sample_expected 4000000000 60000000000 0) = Some (True, True)" by code_simp
  then have "wr_Err res = None \<and> wr_Breached res" using w by simp
  then show ?thesis using w n c by auto
qed

text \<open>
  The deadline bounds when the last query begins and not when it ends: a query that takes longer
  still passes, with a latency beyond the deadline.
\<close>

lemma late_alert_passes:
  "map_option (\<lambda>(r, _). wr_Err r = None \<and> wr_Latency r > 60000000000)
     (WaitForAlert (sample_clock\<lparr>ee_Do := (\<lambda>m u w. (Answer 200 ''x'' None, w + 70000000000))\<rparr>) ''http://r'' sample_expected
        4000000000 60000000000 0) = Some True"
  by code_simp

section \<open>Client and receiver together\<close>

lemma unhex_upper_hex: "n < 16 \<Longrightarrow> unhex (upper_hex n) = Some n"
  by (auto simp: unhex_def upper_hex_def is_digit_def between_def)

lemma unescape_char: "QueryUnescape (escape_char c @ s) = map_option (\<lambda>r. c # r) (QueryUnescape s)"
proof (cases "is_lower c \<or> is_upper c \<or> is_digit c \<or> c \<in> set ''-_.~''")
  case True
  then have "c \<noteq> CHR ''%''" "c \<noteq> CHR ''+''" by (auto simp: is_lower_def is_upper_def is_digit_def between_def)
  then show ?thesis using True by (auto simp: escape_char_def split: option.splits)
next
  case False
  have "of_char c div 16 < (16 :: nat)" using nat_of_char_less_256 [of c] by (simp del: nat_of_char_less_256)
  moreover have "char_of (16 * (of_char c div 16) + of_char c mod 16 :: nat) = c" by simp
  ultimately show ?thesis
    using False by (auto simp: escape_char_def unhex_upper_hex split: option.splits)
qed

lemma QueryUnescape_QueryEscape: "QueryUnescape (QueryEscape s) = Some s"
  by (induction s) (simp_all add: QueryEscape_def unescape_char)

text \<open>
  The receiver as the client reaches it at \<open>base\<close>: the path selects the handler, the query is
  unescaped, and the reply's body is the text \<open>enc\<close> writes.
\<close>

definition receiver_Do ::
  "receiver_env \<Rightarrow> (receiver_body \<Rightarrow> string) \<Rightarrow> string \<Rightarrow> go_time \<Rightarrow> string \<Rightarrow> string \<Rightarrow> ringBuffer \<Rightarrow> e2e_reply \<times> ringBuffer" where
  "receiver_Do renv enc base now m u rb =
     (let rest = drop (length base) u;
          path = takeWhile (\<lambda>c. c \<noteq> CHR ''?'') rest;
          query = drop (length path + 1) rest;
          since = (if prefix ''since='' query then case QueryUnescape (drop 6 query) of None \<Rightarrow> [] | Some v \<Rightarrow> v else [])
      in case receiver_router renv path \<lparr>rq_method = m, rq_body = [], rq_since = since, rq_now = now\<rparr> rb of
           ((code, body), rb') \<Rightarrow> (Answer code (enc body) None, rb'))"

text \<open>An entry as the receiver writes it, given how it prints times and what value a raw body spells.\<close>

definition payload_value :: "(go_time \<Rightarrow> string) \<Rightarrow> (string \<Rightarrow> jvalue) \<Rightarrow> AlertPayload \<Rightarrow> jvalue" where
  "payload_value stamp val p = VObj [(''received'', VStr (stamp (al_Received p))), (''body'', val (al_Body p))]"

definition client_view :: "(string \<Rightarrow> jvalue) \<Rightarrow> AlertPayload \<Rightarrow> ClientPayload" where
  "client_view val p = \<lparr>cp_Received = al_Received p, cp_Body = Some (val (al_Body p))\<rparr>"

lemma dec_payloads:
  assumes "\<forall>p \<in> set xs. ee_Parse env (stamp (al_Received p)) = Some (al_Received p)"
  shows "dec_elems (dec_ClientPayload env) zero_ClientPayload (map (payload_value stamp val) xs) = Some (map (client_view val) xs)"
  using assms
  by (induction xs) (simp_all add: dec_ClientPayload_def payload_value_def client_view_def json_decoders zero_ClientPayload_def)

lemma read_envelope_Received:
  assumes "ee_json env txt = Inr (VObj [(''received'', VArr (map (payload_value stamp val) xs))])"
    and "\<forall>p \<in> set xs. ee_Parse env (stamp (al_Received p)) = Some (al_Received p)"
  shows "read_envelope env txt None = Inr (map (client_view val) xs)"
  using dec_payloads [OF assms(2)] assms(1) by (simp add: read_envelope_def only_def dec_struct_def field_named_def dec_slice_def)

text \<open>The log after some requests: the last thousand alerts accepted since the last deletion.\<close>

definition receiver_log :: "receiver_env \<Rightarrow> (string \<times> receiver_req) list \<Rightarrow> AlertPayload list" where
  "receiver_log renv qs = last_n (nat ringCap) (fold (accepted renv) qs [])"

definition delete_req :: "go_time \<Rightarrow> string \<times> receiver_req" where
  "delete_req now = (''/alerts'', \<lparr>rq_method = ''DELETE'', rq_body = [], rq_since = [], rq_now = now\<rparr>)"

lemma receiver_run_append: "receiver_run renv (qs @ qs') rb = receiver_run renv qs' (receiver_run renv qs rb)"
  by (induction renv qs rb rule: receiver_run.induct) simp_all

lemma inspect_Do:
  assumes "since = 0 \<and> bound = 0 \<or> since \<noteq> 0 \<and> ee_Format env since \<noteq> [] \<and> re_Parse renv (ee_Format env since) = Some bound"
  shows "receiver_Do renv enc base now ''GET'' (inspect_url env base since) (receiver_run renv qs new_ring) =
    (Answer 200 (enc (Received (filter (\<lambda>x. bound = 0 \<or> bound \<le> al_Received x) (receiver_log renv qs)))) None,
     receiver_run renv qs new_ring)"
proof -
  have url: "takeWhile (\<lambda>c. c \<noteq> CHR ''?'') (drop (length base) (inspect_url env base since)) = ''/inspect''"
    by (simp add: inspect_url_def Let_def)
  have router: "receiver_router renv ''/inspect'' \<lparr>rq_method = ''GET'', rq_body = [], rq_since = q, rq_now = now\<rparr>
      (receiver_run renv qs new_ring) =
      ((200, Received (filter (\<lambda>x. bound = 0 \<or> bound \<le> al_Received x) (receiver_log renv qs))), receiver_run renv qs new_ring)"
    if "(if q = [] then Some 0 else re_Parse renv q) = Some bound" for q
  proof -
    have "snd (receiver_router renv ''/inspect'' r rb) = rb" for r rb
      by (simp add: receiver_router_def inspect_handler_def split: option.splits)
    moreover have "fst (receiver_router renv ''/inspect'' \<lparr>rq_method = ''GET'', rq_body = [], rq_since = q, rq_now = now\<rparr>
        (receiver_run renv qs new_ring)) = (200, Received (filter (\<lambda>x. bound = 0 \<or> bound \<le> al_Received x) (receiver_log renv qs)))"
      using that unfolding receiver_log_def by (intro receiver_refines_log) (auto split: if_splits)
    ultimately show ?thesis by (metis prod.collapse)
  qed
  show ?thesis
  proof (cases "since = 0")
    case True
    then show ?thesis using assms router [of "[]"] unfolding receiver_Do_def Let_def url by (simp add: inspect_url_def)
  next
    case False
    then show ?thesis using assms router [of "ee_Format env since"] unfolding receiver_Do_def Let_def url
      by (simp add: inspect_url_def QueryUnescape_QueryEscape)
  qed
qed

text \<open>
  C39: The client and the receiver together are a bounded log. After any requests to a fresh receiver,
  a query answers exactly the alerts with the expected labels among the last thousand accepted
  since the last deletion, oldest first and with the receiver's time stamps, and with a time bound
  those received at or after the time that bound spells; the query changes nothing. Clearing never
  fails and is a deletion, so that nothing accepted before it is seen again.
\<close>

theorem client_sees_log:
  assumes env: "ee_Do env = receiver_Do renv enc base now" "\<And>u. ee_Request env u = None"
    and bound: "since = 0 \<and> bound = 0 \<or> since \<noteq> 0 \<and> ee_Format env since \<noteq> [] \<and> re_Parse renv (ee_Format env since) = Some bound"
    and xs: "xs = filter (\<lambda>x. bound = 0 \<or> bound \<le> al_Received x) (receiver_log renv qs)"
    and json: "ee_json env (enc (Received xs)) = Inr (VObj [(''received'', VArr (map (payload_value stamp val) xs))])"
    and stamps: "\<forall>p \<in> set xs. ee_Parse env (stamp (al_Received p)) = Some (al_Received p)"
  shows "AlertsMatchingSince env base ex since (receiver_run renv qs new_ring) =
      (Inr (filter (\<lambda>p. payloadMatches p ex) (map (client_view val) xs)), receiver_run renv qs new_ring) \<and>
    client_Clear env base (receiver_run renv qs new_ring) = (None, receiver_run renv (qs @ [delete_req now]) new_ring) \<and>
    receiver_log renv (qs @ delete_req now # qs') = receiver_log renv qs'"
proof (intro conjI)
  show "AlertsMatchingSince env base ex since (receiver_run renv qs new_ring) =
      (Inr (filter (\<lambda>p. payloadMatches p ex) (map (client_view val) xs)), receiver_run renv qs new_ring)"
    using inspect_Do [OF bound, of enc base now qs, folded xs] read_envelope_Received [OF json stamps]
    by (simp add: AlertsMatchingSince_def env)
  have "snd (receiver_router renv ''/alerts'' (snd (delete_req now)) rb) = ring_clear rb" for rb
    by (simp add: receiver_router_def alerts_handler_def delete_req_def)
  then show "client_Clear env base (receiver_run renv qs new_ring) = (None, receiver_run renv (qs @ [delete_req now]) new_ring)"
    by (simp add: client_Clear_def env receiver_Do_def receiver_run_append delete_req_def receiver_router_def alerts_handler_def)
  show "receiver_log renv (qs @ delete_req now # qs') = receiver_log renv qs'"
    by (simp add: receiver_log_def accepted_def delete_req_def)
qed

definition slow_alert :: jvalue where
  "slow_alert = VObj [(''alerts'', VArr [VObj [(''labels'', VObj [(''alertname'', VStr ''Slow'')])]])]"

definition sample_link :: "ringBuffer e2e_env" where
  "sample_link = \<lparr>ee_Now = (\<lambda>w. (7, w)), ee_Request = (\<lambda>_. None),
     ee_Do = receiver_Do sample_receiver (\<lambda>_. ''reply'') ''http://r'' 7,
     ee_Pause = (\<lambda>d w. (None, w)), ee_Sleep = (\<lambda>d w. w), ee_Format = (\<lambda>_. ''5''), ee_Parse = (\<lambda>_. Some 6),
     ee_json = (\<lambda>_. Inr (VObj [(''received'', VArr [VObj [(''received'', VStr ''6''), (''body'', slow_alert)]])])),
     ee_mismatch = (\<lambda>_. errorf [])\<rparr>"

theorem client_sees_log_witness:
  "AlertsMatchingSince sample_link ''http://r'' sample_expected 5
     (receiver_run sample_receiver [sample_alert_req ''{}'' 3, sample_alert_req [] 4, sample_alert_req ''[]'' 6] new_ring) =
   (Inr [\<lparr>cp_Received = 6, cp_Body = Some slow_alert\<rparr>],
    receiver_run sample_receiver [sample_alert_req ''{}'' 3, sample_alert_req [] 4, sample_alert_req ''[]'' 6] new_ring)"
proof -
  let ?qs = "[sample_alert_req ''{}'' 3, sample_alert_req [] 4, sample_alert_req ''[]'' 6]"
  let ?xs = "[\<lparr>al_Received = 6, al_Body = ''[]''\<rparr>]"
  have "?xs = filter (\<lambda>x. (5 :: int) = 0 \<or> 5 \<le> al_Received x) (receiver_log sample_receiver ?qs)"
    by (simp add: receiver_log_def accepted_def sample_receiver_def sample_alert_req_def last_n_def ringCap_def isl_def)
  from client_sees_log [where env = sample_link and enc = "\<lambda>_. ''reply''" and stamp = "\<lambda>_. ''6''" and val = "\<lambda>_. slow_alert"
      and now = 7 and base = "''http://r''" and ex = sample_expected, OF _ _ _ this]
  have "AlertsMatchingSince sample_link ''http://r'' sample_expected 5 (receiver_run sample_receiver ?qs new_ring) =
      (Inr (filter (\<lambda>p. payloadMatches p sample_expected) (map (client_view (\<lambda>_. slow_alert)) ?xs)), receiver_run sample_receiver ?qs new_ring)"
    by (simp add: sample_link_def sample_receiver_def payload_value_def)
  moreover have "filter (\<lambda>p. payloadMatches p sample_expected) (map (client_view (\<lambda>_. slow_alert)) ?xs) =
      [\<lparr>cp_Received = 6, cp_Body = Some slow_alert\<rparr>]"
    by code_simp
  ultimately show ?thesis by simp
qed

text \<open>The expected labels that are named must all be present; with none named, any alert matches.\<close>

lemma alertMatches_iff:
  "alertMatches a ex \<longleftrightarrow> (\<forall>(k, v) \<in> set [(''alertname'', xa_AlertName ex), (''capability'', xa_Capability ex),
     (''severity'', xa_Severity ex), (''sloth_slo'', xa_SLOName ex)]. v \<noteq> [] \<longrightarrow> map_get a k = v)"
  by (auto simp: alertMatches_def)

section \<open>The environment and the repository root\<close>

text \<open>The process reads the last entry of a key, as \<open>exec.Cmd\<close> documents.\<close>

definition env_value :: "string list \<Rightarrow> string \<Rightarrow> string option" where
  "env_value es k = map_option (drop (length k + 1)) (List.find (\<lambda>e. prefix (k @ ''='') e) (rev es))"

lemma env_key_entry: "CHR ''='' \<notin> set k \<Longrightarrow> env_key (k @ CHR ''='' # v) = k"
  by (induction k) (auto simp: env_key_def)

lemma mergeEnv_overrides:
  assumes "(k, v) \<in> set extra" and "distinct (map fst extra)" and keys: "\<forall>(k, v) \<in> set extra. CHR ''='' \<notin> set k"
  shows "env_value (mergeEnv up base extra) k = Some v"
proof -
  have "List.find (\<lambda>e. prefix (k @ ''='') e) (rev (map (\<lambda>(k, v). k @ ''='' @ v) extra) @ ys) = Some (k @ ''='' @ v)" for ys
    using assms
  proof (induction extra rule: rev_induct)
    case (snoc x xs)
    obtain k' v' where x: "x = (k', v')" by (cases x)
    show ?case
    proof (cases "k' = k")
      case True
      then have "v' = v" using snoc.prems x by (force simp: image_iff)
      then show ?thesis using True x by simp
    next
      case False
      have "CHR ''='' \<notin> set k'" "CHR ''='' \<notin> set k" using snoc.prems x by auto
      then have "\<not> prefix (k @ ''='') (k' @ ''='' @ v')"
        using False env_key_entry [of k] env_key_entry [of k' v'] by (auto simp: prefix_def)
      then show ?thesis using snoc x False by auto
    qed
  qed simp
  then show ?thesis by (simp add: env_value_def mergeEnv_def)
qed

text \<open>The directory found is the nearest ancestor with a \<open>go.mod\<close>, at most nine levels up.\<close>

lemma find_up_nearest:
  "find_up has n dir = Some d \<Longrightarrow>
   \<exists>k < n. d = (filepath_Dir ^^ k) dir \<and> has (filepath_Join d ''go.mod'') \<and>
     (\<forall>j < k. \<not> has (filepath_Join ((filepath_Dir ^^ j) dir) ''go.mod''))"
proof (induction has n dir rule: find_up.induct)
  case (2 has n dir)
  show ?case
  proof (cases "has (filepath_Join dir ''go.mod'')")
    case True
    then show ?thesis using 2(2) by (intro exI [of _ 0]) simp
  next
    case False
    then have "find_up has n (filepath_Dir dir) = Some d" and "filepath_Dir dir \<noteq> dir"
      using 2(2) by (auto simp: Let_def split: if_splits)
    with 2(1) [OF False refl] obtain k where "k < n" "d = (filepath_Dir ^^ k) (filepath_Dir dir)" "has (filepath_Join d ''go.mod'')"
      "\<forall>j < k. \<not> has (filepath_Join ((filepath_Dir ^^ j) (filepath_Dir dir)) ''go.mod'')" by auto
    then show ?thesis using False
      by (intro exI [of _ "Suc k"]) (auto simp: funpow_Suc_right less_Suc_eq_0_disj simp del: funpow.simps)
  qed
qed simp

end
