(* ===== verification/Ids_Json.thy ===== *)
theory Ids_Json
  imports Ids Wire Go_Json
begin

text \<open>
  The JSON methods of the identifiers (\<open>internal/domain/shared/ids.go\<close>) and of the enumerations
  (\<open>error_class.go\<close>, \<open>execution_status.go\<close>, \<open>retry_hint.go\<close>, \<open>adapter_id.go\<close>, \<open>artifact.go\<close> and
  \<open>provenance.go\<close>): each is written as a JSON string, and reading one back runs the constructor, so
  a decoded value is always valid.
  \<open>json.Marshal\<close> of a string replaces what is not UTF-8.
\<close>

definition marshal_string :: "string \<Rightarrow> jvalue" where
  "marshal_string s = VStr (to_valid_utf8 s)"

definition unmarshal_string :: "(string \<Rightarrow> go_error + 'a) \<Rightarrow> jvalue \<Rightarrow> go_error + 'a" where
  "unmarshal_string new j =
     (case dec_string j [] of None \<Rightarrow> Inl (errorf ''json: cannot unmarshal value into Go value of type string'')
      | Some s \<Rightarrow> new s)"

definition ReceiptID_MarshalJSON :: "ReceiptID \<Rightarrow> jvalue" where
  "ReceiptID_MarshalJSON r = marshal_string (ReceiptID_String r)"

definition ReceiptID_UnmarshalJSON :: "jvalue \<Rightarrow> go_error + ReceiptID" where
  "ReceiptID_UnmarshalJSON = unmarshal_string NewReceiptID"

definition HandleID_MarshalJSON :: "HandleID \<Rightarrow> jvalue" where
  "HandleID_MarshalJSON h = marshal_string (HandleID_String h)"

definition HandleID_UnmarshalJSON :: "jvalue \<Rightarrow> go_error + HandleID" where
  "HandleID_UnmarshalJSON = unmarshal_string NewHandleID"

definition CorrelationID_MarshalJSON :: "CorrelationID \<Rightarrow> jvalue" where
  "CorrelationID_MarshalJSON c = marshal_string (CorrelationID_String c)"

definition CorrelationID_UnmarshalJSON :: "jvalue \<Rightarrow> go_error + CorrelationID" where
  "CorrelationID_UnmarshalJSON = unmarshal_string NewCorrelationID"

definition IdempotencyKey_MarshalJSON :: "IdempotencyKey \<Rightarrow> jvalue" where
  "IdempotencyKey_MarshalJSON k = marshal_string (IdempotencyKey_String k)"

definition IdempotencyKey_UnmarshalJSON :: "jvalue \<Rightarrow> go_error + IdempotencyKey" where
  "IdempotencyKey_UnmarshalJSON = unmarshal_string NewIdempotencyKey"

section \<open>Enumerations\<close>

definition AdapterID_MarshalJSON :: "AdapterID \<Rightarrow> jvalue" where
  "AdapterID_MarshalJSON a = marshal_string (AdapterID_String a)"

definition AdapterID_UnmarshalJSON :: "jvalue \<Rightarrow> go_error + AdapterID" where
  "AdapterID_UnmarshalJSON = unmarshal_string NewAdapterID"

definition ErrorClass_MarshalJSON :: "ErrorClass \<Rightarrow> jvalue" where
  "ErrorClass_MarshalJSON e = marshal_string e"

definition ErrorClass_UnmarshalJSON :: "jvalue \<Rightarrow> go_error + ErrorClass" where
  "ErrorClass_UnmarshalJSON = unmarshal_string ParseErrorClass"

definition ExecutionStatus_MarshalJSON :: "ExecutionStatus \<Rightarrow> jvalue" where
  "ExecutionStatus_MarshalJSON s = marshal_string s"

definition ExecutionStatus_UnmarshalJSON :: "jvalue \<Rightarrow> go_error + ExecutionStatus" where
  "ExecutionStatus_UnmarshalJSON = unmarshal_string ParseExecutionStatus"

definition RetryHint_MarshalJSON :: "RetryHint \<Rightarrow> jvalue" where
  "RetryHint_MarshalJSON r = marshal_string r"

definition RetryHint_UnmarshalJSON :: "jvalue \<Rightarrow> go_error + RetryHint" where
  "RetryHint_UnmarshalJSON = unmarshal_string ParseRetryHint"

definition ArtifactType_MarshalJSON :: "ArtifactType \<Rightarrow> jvalue" where
  "ArtifactType_MarshalJSON t = marshal_string t"

definition ArtifactType_UnmarshalJSON :: "jvalue \<Rightarrow> go_error + ArtifactType" where
  "ArtifactType_UnmarshalJSON = unmarshal_string ParseArtifactType"

definition ProvenanceSource_MarshalJSON :: "ProvenanceSource \<Rightarrow> jvalue" where
  "ProvenanceSource_MarshalJSON p = marshal_string p"

definition ProvenanceSource_UnmarshalJSON :: "jvalue \<Rightarrow> go_error + ProvenanceSource" where
  "ProvenanceSource_UnmarshalJSON = unmarshal_string ParseProvenanceSource"

section \<open>Round trips\<close>

text \<open>A type whose constructor checks a string is a codec: valid values survive, and nothing else decodes.\<close>

locale json_id =
  fixes new :: "string \<Rightarrow> go_error + 'a" and str :: "'a \<Rightarrow> string" and valid :: "string \<Rightarrow> bool"
  assumes new_Inr: "new s = Inr x \<longleftrightarrow> valid s \<and> str x = s"
    and ascii: "valid s \<Longrightarrow> list_all (\<lambda>c. of_char c < (128 :: nat)) s"
begin

lemma roundtrip: "valid (str x) \<Longrightarrow> unmarshal_string new (marshal_string (str x)) = Inr x"
  using ascii [of "str x"] by (simp add: unmarshal_string_def marshal_string_def dec_string_def utf8_valid_ascii new_Inr)

lemma decoded_valid: "unmarshal_string new j = Inr x \<Longrightarrow> valid (str x)"
  by (auto simp: unmarshal_string_def new_Inr split: option.splits)

end

lemma match_seq_ascii:
  "match_seq ps s \<Longrightarrow> (\<And>p c. p \<in> set ps \<Longrightarrow> p c \<Longrightarrow> of_char c < (128 :: nat)) \<Longrightarrow> list_all (\<lambda>c. of_char c < (128 :: nat)) s"
  unfolding match_seq_def by (induction rule: list_all2_induct) auto

lemma ulid_ascii: "ulidRegex s \<Longrightarrow> list_all (\<lambda>c. of_char c < (128 :: nat)) s"
  unfolding ulidRegex_def by (erule match_seq_ascii) (auto simp: ulid_char_def is_digit_def between_def)

lemma uuid_ascii: "uuidRegex s \<Longrightarrow> list_all (\<lambda>c. of_char c < (128 :: nat)) s"
  unfolding uuidRegex_def by (erule match_seq_ascii) (auto simp: hex_char_def hyphen_def is_digit_def between_def)

interpretation receipt_id: json_id NewReceiptID ReceiptID_String ulidRegex
  by unfold_locales (auto simp: NewReceiptID_def validateULID_def ReceiptID.expand ulid_ascii)

interpretation handle_id: json_id NewHandleID HandleID_String ulidRegex
  by unfold_locales (auto simp: NewHandleID_def validateULID_def HandleID.expand ulid_ascii)

interpretation correlation_id: json_id NewCorrelationID CorrelationID_String ulidRegex
  by unfold_locales (auto simp: NewCorrelationID_def validateULID_def CorrelationID.expand ulid_ascii)

interpretation idempotency_key: json_id NewIdempotencyKey IdempotencyKey_String "\<lambda>s. ulidRegex s \<or> uuidRegex s"
  by unfold_locales (auto simp: NewIdempotencyKey_def IdempotencyKey.expand ulid_ascii uuid_ascii)

lemma ids_roundtrip:
  "ulidRegex (ReceiptID_String r) \<Longrightarrow> ReceiptID_UnmarshalJSON (ReceiptID_MarshalJSON r) = Inr r"
  "ulidRegex (HandleID_String h) \<Longrightarrow> HandleID_UnmarshalJSON (HandleID_MarshalJSON h) = Inr h"
  "ulidRegex (CorrelationID_String c) \<Longrightarrow> CorrelationID_UnmarshalJSON (CorrelationID_MarshalJSON c) = Inr c"
  "ulidRegex (IdempotencyKey_String k) \<or> uuidRegex (IdempotencyKey_String k) \<Longrightarrow>
     IdempotencyKey_UnmarshalJSON (IdempotencyKey_MarshalJSON k) = Inr k"
  by (simp_all add: ReceiptID_UnmarshalJSON_def ReceiptID_MarshalJSON_def HandleID_UnmarshalJSON_def HandleID_MarshalJSON_def
      CorrelationID_UnmarshalJSON_def CorrelationID_MarshalJSON_def IdempotencyKey_UnmarshalJSON_def IdempotencyKey_MarshalJSON_def
      receipt_id.roundtrip handle_id.roundtrip correlation_id.roundtrip idempotency_key.roundtrip)

lemma ids_decoded_valid:
  "ReceiptID_UnmarshalJSON j = Inr r \<Longrightarrow> ulidRegex (ReceiptID_String r)"
  "HandleID_UnmarshalJSON j = Inr h \<Longrightarrow> ulidRegex (HandleID_String h)"
  "CorrelationID_UnmarshalJSON j = Inr c \<Longrightarrow> ulidRegex (CorrelationID_String c)"
  "IdempotencyKey_UnmarshalJSON j = Inr k \<Longrightarrow> ulidRegex (IdempotencyKey_String k) \<or> uuidRegex (IdempotencyKey_String k)"
  by (simp_all add: ReceiptID_UnmarshalJSON_def HandleID_UnmarshalJSON_def CorrelationID_UnmarshalJSON_def
      IdempotencyKey_UnmarshalJSON_def receipt_id.decoded_valid handle_id.decoded_valid correlation_id.decoded_valid
      idempotency_key.decoded_valid)

text \<open>The enumerations are the same codec, on the strings of their closed lists.\<close>

lemma adapterID_ascii: "adapterIDRegex s \<Longrightarrow> list_all (\<lambda>c. of_char c < (128 :: nat)) s"
proof -
  assume "adapterIDRegex s"
  then have "is_lower c \<or> is_digit c \<or> c = CHR ''_''" if "c \<in> set s" for c
    using head_tail_set [of _ _ _ _ s c] that unfolding adapterIDRegex_def by blast
  then show ?thesis by (fastforce simp: list_all_iff char_classes)
qed

interpretation adapter_id: json_id NewAdapterID AdapterID_String adapterIDRegex
  by unfold_locales (auto simp: NewAdapterID_def AdapterID.expand adapterID_ascii)

interpretation error_class: json_id ParseErrorClass "\<lambda>s. s" "\<lambda>s. s \<in> set allErrorClasses"
  by unfold_locales (auto simp: validate enum_defs)

interpretation execution_status: json_id ParseExecutionStatus "\<lambda>s. s" "\<lambda>s. s \<in> set allStatuses"
  by unfold_locales (auto simp: validate enum_defs)

interpretation retry_hint: json_id ParseRetryHint "\<lambda>s. s" "\<lambda>s. s \<in> set allRetryHints"
  by unfold_locales (auto simp: validate enum_defs)

interpretation artifact_type: json_id ParseArtifactType "\<lambda>s. s" "\<lambda>s. s \<in> set allArtifactTypes"
  by unfold_locales (auto simp: validate allArtifactTypes_def)

interpretation provenance_source: json_id ParseProvenanceSource "\<lambda>s. s" "\<lambda>s. s \<in> set allProvenanceSources"
  by unfold_locales (auto simp: validate allProvenanceSources_def)

lemma enums_roundtrip:
  "adapterIDRegex (AdapterID_String a) \<Longrightarrow> AdapterID_UnmarshalJSON (AdapterID_MarshalJSON a) = Inr a"
  "e \<in> set allErrorClasses \<Longrightarrow> ErrorClass_UnmarshalJSON (ErrorClass_MarshalJSON e) = Inr e"
  "s \<in> set allStatuses \<Longrightarrow> ExecutionStatus_UnmarshalJSON (ExecutionStatus_MarshalJSON s) = Inr s"
  "r \<in> set allRetryHints \<Longrightarrow> RetryHint_UnmarshalJSON (RetryHint_MarshalJSON r) = Inr r"
  "t \<in> set allArtifactTypes \<Longrightarrow> ArtifactType_UnmarshalJSON (ArtifactType_MarshalJSON t) = Inr t"
  "p \<in> set allProvenanceSources \<Longrightarrow> ProvenanceSource_UnmarshalJSON (ProvenanceSource_MarshalJSON p) = Inr p"
  by (simp_all add: AdapterID_UnmarshalJSON_def AdapterID_MarshalJSON_def ErrorClass_UnmarshalJSON_def ErrorClass_MarshalJSON_def
      ExecutionStatus_UnmarshalJSON_def ExecutionStatus_MarshalJSON_def RetryHint_UnmarshalJSON_def RetryHint_MarshalJSON_def
      ArtifactType_UnmarshalJSON_def ArtifactType_MarshalJSON_def ProvenanceSource_UnmarshalJSON_def ProvenanceSource_MarshalJSON_def
      adapter_id.roundtrip error_class.roundtrip execution_status.roundtrip retry_hint.roundtrip artifact_type.roundtrip
      provenance_source.roundtrip)

lemma enums_decoded_valid:
  "ErrorClass_UnmarshalJSON j = Inr e \<Longrightarrow> e \<in> set allErrorClasses"
  "ExecutionStatus_UnmarshalJSON j = Inr s \<Longrightarrow> s \<in> set allStatuses"
  "RetryHint_UnmarshalJSON j = Inr r \<Longrightarrow> r \<in> set allRetryHints"
  "ArtifactType_UnmarshalJSON j = Inr t \<Longrightarrow> t \<in> set allArtifactTypes"
  "ProvenanceSource_UnmarshalJSON j = Inr p \<Longrightarrow> p \<in> set allProvenanceSources"
  by (simp_all add: ErrorClass_UnmarshalJSON_def ExecutionStatus_UnmarshalJSON_def RetryHint_UnmarshalJSON_def
      ArtifactType_UnmarshalJSON_def ProvenanceSource_UnmarshalJSON_def error_class.decoded_valid execution_status.decoded_valid
      retry_hint.decoded_valid artifact_type.decoded_valid provenance_source.decoded_valid)

end
