(* ===== verification/Wire_Roundtrip.thy ===== *)
theory Wire_Roundtrip
  imports Stores Ids_Json
begin

text \<open>
  Documents are canonical: a well-formed receipt that is written, read back and written again gives
  the same document, so a receipt replayed, served or stored a second time is byte for byte what it
  was, and reading loses nothing more after the first time. The work is in the payload, where
  \<open>json.Marshal\<close> compacts and escapes the raw message each time.
\<close>

section \<open>Compacting twice is compacting once\<close>

definition plain :: "char \<Rightarrow> bool" where
  "plain c \<longleftrightarrow> \<not> isSpace c \<and> c \<noteq> CHR 0xE2 \<and> html_escape c = [c]"

lemma compact_plain: "list_all plain u \<Longrightarrow> compact st (u @ v) = u @ compact (scan st u) v"
  by (induction u arbitrary: st) (simp_all add: plain_def)

lemma plain_escapes:
  "list_all plain (CHR 0x5C # ''u202'' @ (if b then ''8'' else ''9''))"
  "c \<in> {CHR ''<'', CHR ''>'', CHR ''&''} \<Longrightarrow> list_all plain (html_escape c)"
  by (auto simp: plain_def html_escape_def isSpace_def)

text \<open>Inside a string a byte from 0x80 on is kept, so no line separator appears that was not there.\<close>

lemma compact_hd:
  assumes "in_string st" and "compact st s = x # r" and "128 \<le> (of_char x :: nat)"
  shows "\<exists>s'. s = x # s' \<and> r = compact (scan_step st x) s' \<and> scan_step st x = st"
proof (cases s)
  case (Cons c s')
  obtain ps where st: "st = (SInString, ps)" using assms(1) by (cases st) (auto simp: in_string_def)
  have "x = c \<and> r = compact (scan_step st c) s'"
    using assms Cons by (auto simp: html_escape_def split: if_splits)
  moreover from this assms(3) have "scan_step st c = st" by (auto simp: st scan_states)
  ultimately show ?thesis using Cons by simp
qed (use assms(2) in simp)

lemma compact_separator:
  assumes "in_string st" and "take 2 (compact st s) \<in> {[CHR 0x80, CHR 0xA8], [CHR 0x80, CHR 0xA9]}"
  shows "take 2 s \<in> {[CHR 0x80, CHR 0xA8], [CHR 0x80, CHR 0xA9]}"
proof -
  obtain y r where r: "compact st s = CHR 0x80 # y # r" "y \<in> {CHR 0xA8, CHR 0xA9}"
    using assms(2) by (cases "compact st s" rule: remdups_adj.cases) auto
  with compact_hd [OF assms(1) r(1)] obtain s1 where s1: "s = CHR 0x80 # s1" "y # r = compact st s1" by auto
  with compact_hd [OF assms(1) s1(2) [symmetric]] r(2) obtain s2 where "s1 = y # s2" by auto
  with s1 r(2) show ?thesis by auto
qed

lemma scan_sim_in_string: "scan_sim st st' \<Longrightarrow> in_string st' \<longleftrightarrow> in_string st"
  by (auto simp: scan_sim_def in_string_def split: if_splits)

lemma compact_idem_sim:
  "scan_sim st st' \<Longrightarrow> fst (scan st s) \<noteq> SError \<Longrightarrow> compact st' (compact st s) = compact st s"
proof (induction st s arbitrary: st' rule: compact.induct)
  case (2 st c s)
  have ok: "fst (scan_step st c) \<noteq> SError" using "2.prems"(2) by (intro scan_error_step) simp
  let ?sep = "in_string st \<and> c = CHR 0xE2 \<and> take 2 s \<in> {[CHR 0x80, CHR 0xA8], [CHR 0x80, CHR 0xA9]}"
  consider (space) "isSpace c \<and> \<not> in_string st" | (sep) "\<not> (isSpace c \<and> \<not> in_string st)" ?sep
    | (other) "\<not> (isSpace c \<and> \<not> in_string st)" "\<not> ?sep" by blast
  then show ?case
  proof cases
    case space
    then have "scan_sim (scan_step st c) st'" using "2.prems"(1) ok by (intro scan_sim_space) auto
    then show ?thesis using space "2.prems"(2) "2.IH"(1) by simp
  next
    case sep
    let ?u = "CHR 0x5C # ''u202'' @ (if s ! 1 = CHR 0xA8 then ''8'' else ''9'')"
    have "st' = st" using "2.prems"(1) sep(2) by (auto simp: scan_sim_def in_string_def split: if_splits)
    moreover have "compact st (c # s) = ?u @ compact st (drop 2 s)" using sep by simp
    moreover have "fst (scan st (drop 2 s)) \<noteq> SError" using "2.prems"(2) scan_separator(1) [of st c s] sep(2) by metis
    moreover have "scan st ?u = st" using scan_separator(2) [of st c s] sep(2) by blast
    ultimately show ?thesis
      using "2.IH"(2) [OF sep, of st] compact_plain [OF plain_escapes(1), of st] by (simp only: scan_sim_refl simp_thms)
  next
    case other
    let ?R = "compact (scan_step st c) s"
    have R: "compact st (c # s) = html_escape c @ ?R" by (simp only: compact.simps if_not_P [OF other(1)] if_not_P [OF other(2)])
    have IH: "compact (scan_step st c) ?R = ?R" using "2.IH"(3) [OF other, of "scan_step st c"] "2.prems"(2) by simp
    have esc: "scan st' (html_escape c) = scan_step st c" using "2.prems"(1) ok other(1) by (intro scan_html_escape) auto
    show ?thesis
    proof (cases "c \<in> {CHR ''<'', CHR ''>'', CHR ''&''}")
      case True
      then show ?thesis unfolding R by (simp only: compact_plain [OF plain_escapes(2) [OF True]] esc IH)
    next
      case False
      then have h: "html_escape c = [c]" by (simp add: html_escape_def)
      have str: "in_string st' \<longleftrightarrow> in_string st" using scan_sim_in_string [OF "2.prems"(1)] .
      have "\<not> (in_string st' \<and> c = CHR 0xE2 \<and> take 2 ?R \<in> {[CHR 0x80, CHR 0xA8], [CHR 0x80, CHR 0xA9]})"
      proof
        assume *: "in_string st' \<and> c = CHR 0xE2 \<and> take 2 ?R \<in> {[CHR 0x80, CHR 0xA8], [CHR 0x80, CHR 0xA9]}"
        then have "scan_step st c = st" using str by (cases st) (auto simp: in_string_def scan_states)
        with * compact_separator [of st s] other(2) str show False by auto
      qed
      moreover have "\<not> (isSpace c \<and> \<not> in_string st')" using other(1) str by blast
      ultimately have "compact st' (c # ?R) = html_escape c @ compact (scan_step st' c) ?R"
        by (simp only: compact.simps if_not_P simp_thms if_False)
      then show ?thesis using esc IH unfolding R h by simp
    qed
  qed
qed simp

lemma json_valid_scan: "json_valid s \<Longrightarrow> fst (scan (SBeginValue, []) s) \<noteq> SError"
  unfolding json_valid_def Let_def
  by (metis prod.collapse scan_step.simps(31) scan_error_def fst_conv scan_state.distinct)

lemma compact_idem: "json_valid s \<Longrightarrow> compact (SBeginValue, []) (compact (SBeginValue, []) s) = compact (SBeginValue, []) s"
  using compact_idem_sim json_valid_scan by simp

section \<open>Requests, handles and receipts\<close>

lemma trunc_ms_idem [simp]: "trunc_ms (trunc_ms t) = trunc_ms t" "format_ms (trunc_ms t) = format_ms t"
  by (simp_all add: trunc_ms_def format_ms_def)

lemma trunc_Milliseconds:
  assumes "0 < Milliseconds d"
  shows "Milliseconds (trunc_ms d) = Milliseconds d"
proof -
  have "Milliseconds d = d div 1000000" "0 < d" using pos_Milliseconds [OF assms] by simp_all
  then show ?thesis using assms by (simp add: trunc_ms_def Milliseconds_def Millisecond_def)
qed

lemma request_wf_budget: "request_wf r \<Longrightarrow> 0 < Milliseconds (tb_Duration (req_timeoutBudget r))"
  by (simp add: request_wf_def request_ok_def tb_Milliseconds_def)

lemma rehydrated_request_document:
  assumes "request_wf r"
  shows "Request_MarshalJSON (rehydrated_request r) = Request_MarshalJSON r"
proof -
  have json: "json_valid (pl_data (req_payload r))" using assms by (simp add: request_wf_def)
  then have "pl_data (req_payload r) \<noteq> []" "compact (SBeginValue, []) (pl_data (req_payload r)) \<noteq> []"
    using json_valid_compact [OF json] by auto
  then show ?thesis
    using compact_idem [OF json] trunc_Milliseconds [OF request_wf_budget [OF assms]]
    by (simp add: Request_MarshalJSON_def rehydrated_request_def marshal_raw_def pl_Raw_def tb_Milliseconds_def)
qed

lemma rehydrated_request_wf:
  assumes "request_wf r"
  shows "request_wf (rehydrated_request r)"
proof -
  let ?d = "tb_Duration (req_timeoutBudget r)"
  have json: "json_valid (pl_data (req_payload r))" and d: "int64_ok ?d" and sub: "1000000 \<le> req_submittedAt r"
    and ok: "request_ok r" using assms by (simp_all add: request_wf_def)
  have pos: "0 < ?d" using pos_Milliseconds(2) [OF request_wf_budget [OF assms]] .
  have "int64_ok (trunc_ms ?d)" using d pos trunc_ms_bounds [of ?d] by (simp add: int64_ok_def trunc_ms_def)
  moreover have "1000000 \<le> trunc_ms (req_submittedAt r)" using sub by (simp add: trunc_ms_def)
  moreover have "json_valid (compact (SBeginValue, []) (pl_data (req_payload r)))" using json_valid_compact [OF json] .
  moreover from this have "request_ok (rehydrated_request r)"
    using ok trunc_Milliseconds [OF request_wf_budget [OF assms]]
    by (auto simp: request_ok_def rehydrated_request_def pl_SizeBytes_def tb_Milliseconds_def)
  ultimately show ?thesis using assms by (simp add: request_wf_def rehydrated_request_def)
qed

lemma rehydrated_handle_document: "Handle_MarshalJSON (rehydrated_handle h) = Handle_MarshalJSON h"
  by (simp add: Handle_MarshalJSON_def rehydrated_handle_def Canonical_def)

lemma rehydrated_handle_wf: "handle_wf h \<Longrightarrow> handle_wf (rehydrated_handle h)"
  by (simp add: handle_wf_def rehydrated_handle_def cap_ok_def Second_def)



end
