(* ===== verification/Execute_Interleaving.thy ===== *)
theory Execute_Interleaving
  imports Execute_Properties
begin

text \<open>
  Concurrent calls of \<open>Execute\<close> (\<open>internal/application/services/execute_service.go\<close>). The service
  holds no lock: goroutines share the limiter, the stores, the clock, the identifier generator, the
  instruments and the world. A call is cut into atomic steps, each of which uses the stores at
  most once or runs the adapter; a call that runs alone computes \<open>Execute\<close>, and any number of calls
  interleave step by step in any order.
\<close>

section \<open>The steps of a call\<close>

text \<open>
  Where a goroutine is: it has not entered, holds a slot before the idempotency lookup, found a
  recorded key, resolves the capability, has a structural failure to save, is about to run the
  adapter, has a result to save, has a receipt whose key is to be recorded, is about to release
  its slot, or has returned.
\<close>

datatype 'w pc =
    Arrived call_ctx ExecutionRequest
  | Admitted call_ctx Logger ExecutionRequest
  | Replaying call_ctx ReceiptID
  | Resolving call_ctx Logger ExecutionRequest
  | Failing call_ctx Logger ExecutionRequest ErrorClass string
  | Running Logger ExecutionRequest Capability ExecutionHandle "'w Adapter" go_ctx
  | Finishing Logger ExecutionRequest Capability ExecutionHandle ExecutionResult go_time go_time
  | Recording Logger ExecutionRequest Capability ExecutionReceipt
  | Leaving "(go_error + ExecutionReceipt) outcome"
  | Returned "(go_error + ExecutionReceipt) outcome"

type_synonym ('w, 's) move = "'w pc \<times> ('w, 's) exec_state"

definition enter_step :: "('w, 's) ExecuteService \<Rightarrow> call_ctx \<Rightarrow> ExecutionRequest \<Rightarrow> ('w, 's) exec_state \<Rightarrow> ('w, 's) move" where
  "enter_step svc cc req st =
     (let l = log_With [(''correlation_id'', CorrelationID_String (req_correlationID req))] (cc_logger cc) in
      case TryAcquire (st_limiter st) of
        (Some e, lim) \<Rightarrow>
          (Returned (Ret (Inl e)), emit (if errors_Is e ErrTooManyExecutions
             then metrics svc [Add ''runtime_adapters.concurrency.rejects'' [] 1] else []) (st\<lparr>st_limiter := lim\<rparr>))
      | (None, lim) \<Rightarrow> (Admitted cc l req, st\<lparr>st_limiter := lim\<rparr>))"

definition lookup_step ::
  "('w, 's) ExecuteService \<Rightarrow> call_ctx \<Rightarrow> Logger \<Rightarrow> ExecutionRequest \<Rightarrow> ('w, 's) exec_state \<Rightarrow> ('w, 's) move" where
  "lookup_step svc cc l req st =
     (case req_idempotencyKey req of None \<Rightarrow> (Resolving cc l req, st)
      | Some key \<Rightarrow>
        (case is_Lookup (sv_idempotency svc) (cc_lookup cc) (read_clock svc st) key (st_store st) of
           (out, s') \<Rightarrow>
           (let st1 = (tick st)\<lparr>st_store := s'\<rparr> in
            case out of
              Panic v \<Rightarrow>
                (Failing cc l req ErrAdapterInternalError ''idempotency replay panic recovered'',
                 emit [logged l LevelError ''idempotency lookup panic recovered''
                         [(''panic_location'', ''idempotency_replay''), (''panic_value'', v)]] st1)
            | Ret (Inr (Some rid)) \<Rightarrow> (Replaying cc rid, st1)
            | Ret _ \<Rightarrow> (Resolving cc l req, st1))))"

definition replay_step :: "('w, 's) ExecuteService \<Rightarrow> call_ctx \<Rightarrow> ReceiptID \<Rightarrow> ('w, 's) exec_state \<Rightarrow> ('w, 's) move" where
  "replay_step svc cc rid st =
     (case rr_FindByID (sv_receipts svc) (cc_find cc) (read_clock svc st) rid (st_store st) of
        (x, s2) \<Rightarrow> (Leaving x, (tick st)\<lparr>st_store := s2\<rparr>))"

definition resolve_step ::
  "('w, 's) ExecuteService \<Rightarrow> call_ctx \<Rightarrow> Logger \<Rightarrow> ExecutionRequest \<Rightarrow> ('w, 's) exec_state \<Rightarrow> ('w, 's) move" where
  "resolve_step svc cc l req st =
     (case reg_Lookup (sv_registry svc) (CapabilityCanonical req) of
        Inl e \<Rightarrow> (Failing cc l req ErrCapabilityUnknown (err_text e), st)
      | Inr cap \<Rightarrow>
        (let l1 = log_With [(''capability'', Canonical cap), (''adapter'', AdapterID_String (cap_adapterID cap))] l;
             eff = minDuration [tb_Duration (req_timeoutBudget req), cap_defaultTimeout cap, sv_maxTimeout svc];
             st1 = st\<lparr>st_ids := Suc (st_ids st)\<rparr> in
         if eff \<le> 0
         then (Failing cc l1 req ErrValidationFailure (''effective timeout budget '' @ le_sign @ '' 0''), st)
         else case sv_idGen svc (st_ids st) of
           Panic v \<Rightarrow> (Leaving (Panic v), st1)
         | Ret hid \<Rightarrow>
           (case NewExecutionHandle (Some hid) (req_correlationID req) cap (Some (read_clock svc st1)) of
              Inl e \<Rightarrow> (Failing cc l1 req ErrAdapterInternalError (''handle generation: '' @ err_text e), tick st1)
            | Inr h \<Rightarrow>
              (let l2 = log_With [(''handle_id'', HandleID_String (h_handleID h))] l1 in
               case map_of (sv_adapters svc) (AdapterID_String (cap_adapterID cap)) of
                 None \<Rightarrow> (Failing cc l2 req ErrCapabilityUnknown
                           (''no adapter registered for '' @ AdapterID_String (cap_adapterID cap)), tick st1)
               | Some adapter \<Rightarrow> (Running l2 req cap h adapter (cc_exec cc eff), tick st1)))))"

definition fail_step ::
  "('w, 's) ExecuteService \<Rightarrow> call_ctx \<Rightarrow> Logger \<Rightarrow> ExecutionRequest \<Rightarrow> ErrorClass \<Rightarrow> string \<Rightarrow> ('w, 's) exec_state \<Rightarrow> ('w, 's) move" where
  "fail_step svc cc l req ec msg st = (case persistStructural svc cc l req ec msg st of (out, st') \<Rightarrow> (Leaving out, st'))"

definition run_step ::
  "('w, 's) ExecuteService \<Rightarrow> Logger \<Rightarrow> ExecutionRequest \<Rightarrow> Capability \<Rightarrow> ExecutionHandle \<Rightarrow> 'w Adapter \<Rightarrow>
   go_ctx \<Rightarrow> ('w, 's) exec_state \<Rightarrow> ('w, 's) move" where
  "run_step svc l req cap h adapter execCtx st0 =
     (let st = emit (active svc cap 1) st0; tStart = read_clock svc st; st1 = tick st in
      case SafeExecute (sv_stack svc) execCtx adapter cap (req_payload req) (st_world st1) of (r, w') \<Rightarrow>
      (let st2 = st1\<lparr>st_world := w'\<rparr>; tEnd = read_clock svc st2; st3 = tick st2;
           raw = effective_raw (ctx_end execCtx) r;
           st4 = emit (panic_events svc l cap raw) st3
       in case build_result svc l cap raw (Sub tEnd tStart) tEnd w' (read_clock svc st4) of
            (Inl e, evs) \<Rightarrow> (Leaving (Ret (Inl e)), emit (active svc cap (-1)) (emit evs (tick st4)))
          | (Inr res, evs) \<Rightarrow> (Finishing l req cap h res tStart tEnd, emit evs (tick st4))))"

definition finish_step ::
  "('w, 's) ExecuteService \<Rightarrow> Logger \<Rightarrow> ExecutionRequest \<Rightarrow> Capability \<Rightarrow> ExecutionHandle \<Rightarrow> ExecutionResult \<Rightarrow>
   go_time \<Rightarrow> go_time \<Rightarrow> ('w, 's) exec_state \<Rightarrow> ('w, 's) move" where
  "finish_step svc l req cap h res tStart tEnd st =
     (let st1 = st\<lparr>st_ids := Suc (st_ids st)\<rparr>; leave = (\<lambda>out st'. (Leaving out, emit (active svc cap (-1)) st')) in
      case sv_idGen svc (st_ids st) of Panic v \<Rightarrow> leave (Panic v) st1
      | Ret rid \<Rightarrow>
        (case NewExecutionReceipt (Some rid) req h res (sv_provenance svc)
                (mustBuildTimings (req_submittedAt req) tStart tEnd None) (Some (read_clock svc st1)) of
           Inl e \<Rightarrow> leave (Ret (Inl (wrapf ''receipt assembly'' e))) (tick st1)
         | Inr receipt \<Rightarrow>
           (case persist svc None l receipt (tick st1) of
              (Inl e, st2) \<Rightarrow> leave (Ret (Inl e)) st2
            | (Inr saved, st2) \<Rightarrow> (Recording l req cap saved, st2))))"

definition record_step ::
  "('w, 's) ExecuteService \<Rightarrow> Logger \<Rightarrow> ExecutionRequest \<Rightarrow> Capability \<Rightarrow> ExecutionReceipt \<Rightarrow> ('w, 's) exec_state \<Rightarrow> ('w, 's) move" where
  "record_step svc l req cap saved st =
     (Leaving (Ret (Inr saved)),
      emit (active svc cap (-1)) (emit (completion_events svc l (Canonical cap) saved) (record_key svc l req saved st)))"

text \<open>A step of a goroutine; one that has returned has none, and one whose release blocks has none either.\<close>

fun step :: "('w, 's) ExecuteService \<Rightarrow> 'w pc \<Rightarrow> ('w, 's) exec_state \<Rightarrow> ('w, 's) move option" where
  "step svc (Arrived cc req) st = Some (enter_step svc cc req st)"
| "step svc (Admitted cc l req) st = Some (lookup_step svc cc l req st)"
| "step svc (Replaying cc rid) st = Some (replay_step svc cc rid st)"
| "step svc (Resolving cc l req) st = Some (resolve_step svc cc l req st)"
| "step svc (Failing cc l req ec msg) st = Some (fail_step svc cc l req ec msg st)"
| "step svc (Running l req cap h ad ctx) st = Some (run_step svc l req cap h ad ctx st)"
| "step svc (Finishing l req cap h res a b) st = Some (finish_step svc l req cap h res a b st)"
| "step svc (Recording l req cap saved) st = Some (record_step svc l req cap saved st)"
| "step svc (Leaving out) st = map_option (\<lambda>lim. (Returned out, st\<lparr>st_limiter := lim\<rparr>)) (Release (st_limiter st))"
| "step svc (Returned out) st = None"

section \<open>A call alone is \<open>Execute\<close>\<close>

definition leave :: "('w, 's) reply \<Rightarrow> ('w, 's) reply option" where
  "leave rep = map_option (\<lambda>lim. (fst rep, (snd rep)\<lparr>st_limiter := lim\<rparr>)) (Release (st_limiter (snd rep)))"

text \<open>What is left of the call at each place, as the service's own definitions compute it.\<close>

fun rest :: "('w, 's) ExecuteService \<Rightarrow> 'w pc \<Rightarrow> ('w, 's) exec_state \<Rightarrow> ('w, 's) reply option" where
  "rest svc (Arrived cc req) st = Execute svc cc req st"
| "rest svc (Admitted cc l req) st = leave (lookup_stage svc cc l req st)"
| "rest svc (Replaying cc rid) st =
     leave (case rr_FindByID (sv_receipts svc) (cc_find cc) (read_clock svc st) rid (st_store st) of
              (x, s2) \<Rightarrow> (x, (tick st)\<lparr>st_store := s2\<rparr>))"
| "rest svc (Resolving cc l req) st = leave (resolve svc cc l req st)"
| "rest svc (Failing cc l req ec msg) st = leave (persistStructural svc cc l req ec msg st)"
| "rest svc (Running l req cap h ad ctx) st = leave (dispatch svc l req cap h ad ctx st)"
| "rest svc (Finishing l req cap h res a b) st =
     leave (case finish svc l req cap h res a b st of (out, st') \<Rightarrow> (out, emit (active svc cap (-1)) st'))"
| "rest svc (Recording l req cap saved) st =
     leave (Ret (Inr saved),
       emit (active svc cap (-1)) (emit (completion_events svc l (Canonical cap) saved) (record_key svc l req saved st)))"
| "rest svc (Leaving out) st = leave (out, st)"
| "rest svc (Returned out) st = Some (out, st)"

lemma enter_rest: "enter_step svc cc req st = (p, st') \<Longrightarrow> rest svc p st' = Execute svc cc req st"
  by (auto simp: enter_step_def Execute_def Let_def leave_def map_option_case split: prod.splits option.splits)

lemma lookup_rest: "lookup_step svc cc l req st = (p, st') \<Longrightarrow> rest svc p st' = leave (lookup_stage svc cc l req st)"
  by (auto simp: lookup_step_def lookup_stage_def Let_def split: prod.splits option.splits outcome.splits sum.splits)

lemma resolve_rest: "resolve_step svc cc l req st = (p, st') \<Longrightarrow> rest svc p st' = leave (resolve svc cc l req st)"
  by (auto simp: resolve_step_def resolve_def with_id_def Let_def split: prod.splits option.splits outcome.splits sum.splits if_splits)

lemma run_rest: "run_step svc l req cap h ad ctx st = (p, st') \<Longrightarrow> rest svc p st' = leave (dispatch svc l req cap h ad ctx st)"
  by (auto simp: run_step_def dispatch_def run_adapter_def Let_def split: prod.splits sum.splits)

lemma finish_rest:
  "finish_step svc l req cap h res a b st = (p, st') \<Longrightarrow>
   rest svc p st' = leave (case finish svc l req cap h res a b st of (out, st') \<Rightarrow> (out, emit (active svc cap (-1)) st'))"
  by (auto simp: finish_step_def finish_def with_id_def Let_def split: prod.splits sum.splits outcome.splits)

lemma step_rest: "step svc p st = Some (p', st') \<Longrightarrow> rest svc p' st' = rest svc p st"
proof (cases p)
  case (Leaving out)
  moreover assume "step svc p st = Some (p', st')"
  ultimately show ?thesis by (auto simp: leave_def)
qed (auto simp: enter_rest lookup_rest resolve_rest run_rest finish_rest replay_step_def fail_step_def record_step_def
      split: prod.splits)

fun rank :: "'w pc \<Rightarrow> nat" where
  "rank (Arrived _ _) = 7"
| "rank (Admitted _ _ _) = 6"
| "rank (Resolving _ _ _) = 5"
| "rank (Running _ _ _ _ _ _) = 4"
| "rank (Finishing _ _ _ _ _ _ _) = 3"
| "rank (Replaying _ _) = 2"
| "rank (Failing _ _ _ _ _) = 2"
| "rank (Recording _ _ _ _) = 2"
| "rank (Leaving _) = 1"
| "rank (Returned _) = 0"

lemma step_ranks:
  "rank (fst (enter_step svc cc req st)) < 7"
  "rank (fst (lookup_step svc cc l req st)) < 6"
  "rank (fst (replay_step svc cc rid st)) < 2"
  "rank (fst (fail_step svc cc l req ec msg st)) < 2"
  "rank (fst (run_step svc l req cap h ad ctx st)) < 4"
  "rank (fst (finish_step svc l req cap h res a b st)) < 3"
  "rank (fst (record_step svc l req cap saved st)) < 2"
  by (simp_all add: enter_step_def lookup_step_def replay_step_def fail_step_def run_step_def finish_step_def record_step_def
      Let_def split: prod.split option.split outcome.split sum.split)

lemma resolve_rank: "rank (fst (resolve_step svc cc l req st)) < 5"
  by (simp add: resolve_step_def Let_def split: option.split outcome.split sum.split)

lemma step_rank:
  assumes "step svc p st = Some (p', st')"
  shows "rank p' < rank p"
proof -
  have "p' = fst (the (step svc p st))" using assms by simp
  then show ?thesis using assms by (cases p) (simp_all add: step_ranks resolve_rank, auto)
qed

lemma step_None: "step svc p st = None \<longleftrightarrow> (\<exists>out. p = Returned out) \<or> (\<exists>out. p = Leaving out \<and> Release (st_limiter st) = None)"
  by (cases p) auto

definition alone :: "('w, 's) ExecuteService \<Rightarrow> ('w, 's) move \<Rightarrow> ('w, 's) move \<Rightarrow> bool" where
  "alone svc = (\<lambda>x y. step svc (fst x) (snd x) = Some y)\<^sup>*\<^sup>*"

lemma alone_rest: "alone svc x y \<Longrightarrow> rest svc (fst y) (snd y) = rest svc (fst x) (snd x)"
  unfolding alone_def by (induction rule: rtranclp_induct) (auto dest: step_rest)

lemma alone_ends: "rest svc p st = Some (out, st') \<Longrightarrow> alone svc (p, st) (Returned out, st')"
proof (induction "rank p" arbitrary: p st rule: less_induct)
  case less
  show ?case
  proof (cases "step svc p st")
    case None
    then show ?thesis using less.prems by (auto simp: step_None leave_def alone_def)
  next
    case (Some y)
    obtain p2 st2 where y: "y = (p2, st2)" by (cases y)
    have "alone svc (p2, st2) (Returned out, st')"
      using less.hyps [OF step_rank [OF Some [unfolded y]]] step_rest [OF Some [unfolded y]] less.prems by simp
    moreover have "step svc (fst (p, st)) (snd (p, st)) = Some (p2, st2)" using Some y by simp
    ultimately show ?thesis unfolding alone_def by (rule converse_rtranclp_into_rtranclp [rotated])
  qed
qed

text \<open>The cut is faithful: run without interruption, the steps compute the service's \<open>Execute\<close>.\<close>

lemma steps_refine_Execute: "alone svc (Arrived cc req, st) (Returned out, st') \<longleftrightarrow> Execute svc cc req st = Some (out, st')"
  using alone_rest [of svc "(Arrived cc req, st)" "(Returned out, st')"] alone_ends [of svc "Arrived cc req" st out st'] by auto

section \<open>What a step does to the shared state\<close>

text \<open>
  The frame of the service, for relations that the emission of the active-executions instrument
  respects on its own: then they are kept by every step between entering and leaving.
\<close>

locale service_steps = service_frame svc R
    for svc :: "('w, 's) ExecuteService" and R :: "('w, 's) exec_state \<Rightarrow> ('w, 's) exec_state \<Rightarrow> bool" +
  assumes world_act: "R st (st\<lparr>st_world := snd (ad_Execute (ad :: 'w Adapter) ctx cap p (st_world st))\<rparr>)"
    and emit_any: "R st (emit evs st)"
begin

lemma then_any: "R a b \<Longrightarrow> R a (emit evs b)"
  by (rule chain [OF _ emit_any])

lemma lookup_step_rel: "R st (snd (lookup_step svc cc l req st))"
proof (cases "req_idempotencyKey req")
  case (Some key)
  have "R st ((tick st)\<lparr>st_store := snd (is_Lookup (sv_idempotency svc) (cc_lookup cc) (read_clock svc st) key (st_store st))\<rparr>)"
    using lookup_act [of "tick st" "cc_lookup cc" "read_clock svc st" key] by (auto intro: tick_then)
  then show ?thesis using Some
    by (auto simp: lookup_step_def Let_def case_prod_beta then_any split: outcome.split sum.split option.split)
qed (simp add: lookup_step_def same)

lemma replay_step_rel: "R st (snd (replay_step svc cc rid st))"
  using find_act [of "tick st" "cc_find cc" "read_clock svc st" rid] by (auto simp: replay_step_def case_prod_beta intro: tick_then)

lemma resolve_step_rel: "R st (snd (resolve_step svc cc l req st))"
  by (auto simp: resolve_step_def Let_def intro: same ids_act then_tick [OF ids_act] split: sum.split outcome.split option.split)

lemma fail_step_rel: "R st (snd (fail_step svc cc l req ec msg st))"
  using persistStructural_rel by (simp add: fail_step_def case_prod_beta)

lemma run_step_rel: "R st (snd (run_step svc l req cap h ad ctx st))"
proof -
  let ?st = "tick (emit (active svc cap 1) st)"
  have w: "snd (SafeExecute stk ctx ad cap p w) = snd (ad_Execute ad ctx cap p w)" for stk p w by (rule SafeExecute_world)
  have "R ?st (?st\<lparr>st_world := snd (ad_Execute ad ctx cap (req_payload req) (st_world ?st))\<rparr>)" by (rule world_act)
  then have "R st (?st\<lparr>st_world := snd (ad_Execute ad ctx cap (req_payload req) (st_world ?st))\<rparr>)"
    using chain [OF emit_any] chain [OF tick_act] by blast
  then show ?thesis
    by (auto simp: run_step_def Let_def case_prod_beta w intro!: then_any then_tick split: sum.split)
qed

lemma finish_step_rel: "R st (snd (finish_step svc l req cap h res a b st))"
proof -
  let ?st = "st\<lparr>st_ids := Suc (st_ids st)\<rparr>"
  have "R st (snd (persist svc None l r (tick ?st)))" for r
    using chain [OF ids_act chain [OF tick_act persist_rel]] by blast
  then show ?thesis
    by (auto simp: finish_step_def Let_def case_prod_beta intro!: then_any then_tick ids_act split: sum.split outcome.split)
qed

lemma record_step_rel: "R st (snd (record_step svc l req cap saved st))"
  by (auto simp: record_step_def intro!: then_any record_key_rel)

lemma inner_step_rel:
  assumes "step svc p st = Some (p', st')" and "\<And>cc req. p \<noteq> Arrived cc req" and "\<And>out. p \<noteq> Leaving out"
  shows "R st st'"
  using assms lookup_step_rel replay_step_rel resolve_step_rel fail_step_rel run_step_rel finish_step_rel record_step_rel
  by (cases p) (auto dest: sym simp: prod_eq_iff)

end

interpretation limiter_steps: service_steps svc "\<lambda>st st'. st_limiter st' = st_limiter st" for svc
  by unfold_locales simp_all

sublocale execution_stores \<subseteq> growing: service_steps svc "\<lambda>st st'. \<forall>k v. rows (st_store st) k = Some v \<longrightarrow> rows (st_store st') k = Some v"
proof
  show "\<forall>k v. rows (st_store st) k = Some v \<longrightarrow>
      rows (st_store (st\<lparr>st_store := snd (rr_Save (sv_receipts svc) c now r (st_store st))\<rparr>)) k = Some v" for st c now r
  proof -
    obtain x s' where run: "Save c now r (st_store st) = (Ret x, s')"
      using save_returns [of c now r "st_store st"] by (metis prod.collapse)
    show ?thesis
    proof (cases x)
      case (Inl e)
      then show ?thesis using save_failure [OF run [unfolded Inl]] run by (auto simp: uses_receipts)
    next
      case (Inr r')
      then show ?thesis using save_success [OF run [unfolded Inr]] run by (auto simp: uses_receipts)
    qed
  qed
qed (simp_all add: uses_receipts uses_idempotency find_frame lookup_rows record_rows)

section \<open>Receipts, the gauge and the limiter\<close>

text \<open>The receipt a call is about to return or has returned.\<close>

fun carries :: "'w pc \<Rightarrow> ExecutionReceipt option" where
  "carries (Recording _ _ _ saved) = Some saved"
| "carries (Leaving (Ret (Inr r))) = Some r"
| "carries (Returned (Ret (Inr r))) = Some r"
| "carries _ = None"

lemma carries_out [simp]:
  "carries (Leaving out) = Some r \<longleftrightarrow> out = Ret (Inr r)" "carries (Returned out) = Some r \<longleftrightarrow> out = Ret (Inr r)"
  by (cases out; (rename_tac y, case_tac y)?; auto)+

context execution_stores
begin

text \<open>A receipt that is in the repository, or that a row of it decodes to.\<close>

definition kept :: "ExecutionReceipt \<Rightarrow> ('w, 's) exec_state \<Rightarrow> bool" where
  "kept r st \<longleftrightarrow> stored r st \<or> (\<exists>k v t. rows (st_store st) k = Some v \<and> dec t v = Inr r)"

lemma kept_limiter [simp]: "kept r (st\<lparr>st_limiter := lim\<rparr>) = kept r st" "kept r (emit evs st) = kept r st"
  by (simp_all add: kept_def)

lemma kept_mono: "kept r st \<Longrightarrow> \<forall>k v. rows (st_store st) k = Some v \<longrightarrow> rows (st_store st') k = Some v \<Longrightarrow> kept r st'"
  unfolding kept_def stored_def by blast

lemma step_kept:
  assumes "step svc p st = Some (p', st')" and "kept r st"
  shows "kept r st'"
proof (cases "(\<exists>cc req. p = Arrived cc req) \<or> (\<exists>out. p = Leaving out)")
  case True
  then show ?thesis using assms by (auto simp: enter_step_def Let_def split: prod.splits option.splits)
next
  case False
  then show ?thesis using kept_mono [OF assms(2)] growing.inner_step_rel [OF assms(1)] by blast
qed

lemma step_carries:
  assumes step: "step svc p st = Some (p', st')" and before: "carries p = Some r \<longrightarrow> kept r st" and after: "carries p' = Some r"
  shows "kept r st'"
proof (cases "carries p = Some r")
  case True
  then show ?thesis using step_kept [OF step] before by blast
next
  case new: False
  show ?thesis
  proof (cases p)
    case (Replaying cc rid)
    obtain x s2 where f: "FindByID (cc_find cc) (read_clock svc st) rid (st_store st) = (x, s2)" by fastforce
    then have "p' = Leaving x" "st_store st' = s2" using step Replaying by (auto simp: replay_step_def uses_receipts)
    with after f have f': "FindByID (cc_find cc) (read_clock svc st) rid (st_store st) = (Ret (Inr r), s2)" by simp
    have "rows s2 = rows (st_store st)" using find_frame f' by (metis snd_conv)
    then show ?thesis using find_success [OF f'] \<open>st_store st' = s2\<close> unfolding kept_def by metis
  next
    case (Failing cc l req ec msg)
    then show ?thesis
      using step after persistStructural_sound [of cc l req ec msg st]
      by (auto simp: fail_step_def kept_def sound_def split: prod.splits)
  next
    case (Finishing l req cap h res a b)
    then show ?thesis
      using step after persist_saved
      by (auto simp: finish_step_def kept_def Let_def split: prod.splits outcome.splits sum.splits)
  next
    case (Recording l req cap saved)
    then show ?thesis using step after new by (auto simp: record_step_def)
  next
    case (Leaving out)
    then show ?thesis using step after new by auto
  qed (use step after in \<open>auto simp: enter_step_def lookup_step_def resolve_step_def run_step_def Let_def
      split: prod.splits option.splits outcome.splits sum.splits if_splits\<close>)
qed

end

text \<open>Calls that hold a slot, that are counted as active, and that run the adapter next.\<close>

fun holding :: "'w pc \<Rightarrow> bool" where
  "holding (Arrived _ _) = False"
| "holding (Returned _) = False"
| "holding _ = True"

fun in_flight :: "'w pc \<Rightarrow> bool" where
  "in_flight (Finishing _ _ _ _ _ _ _) = True"
| "in_flight (Recording _ _ _ _) = True"
| "in_flight _ = False"

fun runs :: "'w pc \<Rightarrow> bool" where
  "runs (Running _ _ _ _ _ _) = True"
| "runs _ = False"

lemma runs_rank: "runs p \<longleftrightarrow> rank p = 4"
  by (cases p) simp_all

abbreviation gauge :: "('w, 's) exec_state \<Rightarrow> int" where
  "gauge st \<equiv> counter active_executions (st_events st)"

lemma gauge_active: "counter active_executions (active svc cap d) = (if sv_metrics svc then d else 0)"
  by (simp add: active_def metrics_def active_executions_def)

lemma run_step_gauge:
  assumes "run_step svc l req cap h ad ctx st = (p', st')"
  shows "gauge st' = gauge st + (if sv_metrics svc then of_bool (in_flight p') else 0)"
proof -
  have "counter active_executions (panic_events svc l cap raw) = 0" for raw by (simp add: quiet_counter)
  moreover have "counter active_executions evs = 0" if "build_result svc l cap raw dur tEnd w now = (x, evs)" for raw dur tEnd w now x evs
    using that by (intro quiet_counter quiet_build_result)
  ultimately show ?thesis using assms
    by (auto simp: run_step_def Let_def gauge_active split: prod.splits sum.splits)
qed

lemma finish_step_gauge:
  assumes "finish_step svc l req cap h res a b st = (p', st')"
  shows "gauge st' = gauge st + (if sv_metrics svc then of_bool (in_flight p') - 1 else 0)"
proof -
  have "gauge st2 = gauge st1" if "persist svc c l r (tick st1) = (x, st2)" for c r st1 st2 and x :: "go_error + ExecutionReceipt"
    using active_balanced.persist_rel [where svc = svc and st = "tick st1" and c = c and l = l and r = r] that by simp
  from this [of _ _ "st\<lparr>st_ids := Suc (st_ids st)\<rparr>"] show ?thesis using assms
    by (auto simp: finish_step_def Let_def gauge_active split: prod.splits sum.splits outcome.splits)
qed

lemma step_gauge:
  assumes "step svc p st = Some (p', st')"
  shows "gauge st' = gauge st + (if sv_metrics svc then of_bool (in_flight p') - of_bool (in_flight p) else 0)"
proof (cases p)
  case (Arrived cc req)
  then show ?thesis using assms by (auto simp: enter_step_def Let_def quiet_counter split: prod.splits option.splits)
next
  case (Admitted cc l req)
  then show ?thesis using assms
    by (auto simp: lookup_step_def Let_def split: prod.splits option.splits outcome.splits sum.splits)
next
  case (Resolving cc l req)
  then show ?thesis using assms
    by (auto simp: resolve_step_def Let_def split: option.splits outcome.splits sum.splits if_splits)
next
  case (Failing cc l req ec msg)
  then show ?thesis using assms active_balanced.persistStructural_rel [where svc = svc and st = st and cc = cc and l = l and req = req and ec = ec and msg = msg]
    by (auto simp: fail_step_def split: prod.splits)
next
  case (Running l req cap h ad ctx)
  then show ?thesis using assms run_step_gauge by fastforce
next
  case (Finishing l req cap h res a b)
  then show ?thesis using assms finish_step_gauge by fastforce
next
  case (Recording l req cap saved)
  then show ?thesis using assms active_balanced.record_key_rel [where svc = svc and st = st and l = l and req = req and saved = saved]
    by (auto simp: record_step_def gauge_active quiet_counter)
qed (use assms in \<open>auto simp: replay_step_def split: prod.splits\<close>)

text \<open>Only the dispatch touches the world.\<close>

lemma step_world:
  assumes "step svc p st = Some (p', st')" and "\<not> runs p"
  shows "st_world st' = st_world st"
proof (cases p)
  case (Failing cc l req ec msg)
  then show ?thesis using assms world_kept.persistStructural_rel [where svc = svc and st = st and cc = cc and l = l and req = req and ec = ec and msg = msg]
    by (auto simp: fail_step_def split: prod.splits)
next
  case (Finishing l req cap h res a b)
  have "st_world st2 = st_world st" if "persist svc None l r (tick (st\<lparr>st_ids := n\<rparr>)) = (x, st2)" for r n st2 x
    using world_kept.persist_rel [where svc = svc and st = "tick (st\<lparr>st_ids := n\<rparr>)" and c = None and l = l and r = r] that by simp
  then show ?thesis using assms Finishing
    by (auto simp: finish_step_def Let_def split: prod.splits sum.splits outcome.splits)
next
  case (Recording l req cap saved)
  then show ?thesis using assms world_kept.record_key_rel [where svc = svc and st = st and l = l and req = req and saved = saved] by (auto simp: record_step_def)
qed (use assms in \<open>auto simp: enter_step_def lookup_step_def replay_step_def resolve_step_def Let_def
      split: prod.splits option.splits outcome.splits sum.splits if_splits\<close>)

lemma steps_holding:
  "holding (fst (lookup_step svc cc l req st))" "holding (fst (replay_step svc cc rid st))"
  "holding (fst (resolve_step svc cc l req st))" "holding (fst (fail_step svc cc l req ec msg st))"
  "holding (fst (run_step svc l req cap h ad ctx st))" "holding (fst (finish_step svc l req cap h res a b st))"
  "holding (fst (record_step svc l req cap saved st))"
  by (simp_all add: lookup_step_def replay_step_def resolve_step_def fail_step_def run_step_def finish_step_def record_step_def
      Let_def split: prod.split option.split outcome.split sum.split)

lemma inner_holding:
  assumes "step svc p st = Some (p', st')" and "\<And>cc req. p \<noteq> Arrived cc req" and "\<And>out. p \<noteq> Leaving out"
  shows "holding p \<and> holding p'"
proof -
  have "p' = fst (the (step svc p st))" using assms by simp
  then show ?thesis using assms by (cases p) (simp_all add: steps_holding, blast+)
qed

lemma step_limiter:
  assumes "step svc p st = Some (p', st')" and ok: "limiter_ok (st_limiter st)"
    and "holding p \<longrightarrow> 0 < lm_slots (st_limiter st)"
  shows "limiter_ok (st_limiter st') \<and> lm_max (st_limiter st') = lm_max (st_limiter st) \<and>
    int (lm_slots (st_limiter st')) = int (lm_slots (st_limiter st)) + of_bool (holding p') - of_bool (holding p)"
proof (cases p)
  case (Arrived cc req)
  obtain x lim where t: "TryAcquire (st_limiter st) = (x, lim)" by fastforce
  then show ?thesis
    using assms(1) Arrived limiter.acquired [OF ok] limiter.refused [OF ok] ok
    by (cases x) (auto simp: enter_step_def Let_def)
next
  case (Leaving out)
  then show ?thesis using assms(1,3) limiter.released [OF ok] by auto
qed (use limiter_steps.inner_step_rel [OF assms(1)] inner_holding [OF assms(1)] ok in simp_all)

section \<open>Any number of calls\<close>

text \<open>
  The calls that have arrived, in their order, with the shared state and the trace of the steps
  taken: the number of the call and where it was. Calls arrive and step in any order.
\<close>

inductive sys_run ::
  "('w, 's) ExecuteService \<Rightarrow> ('w, 's) exec_state \<Rightarrow> (nat \<times> 'w pc) list \<Rightarrow> 'w pc list \<Rightarrow> ('w, 's) exec_state \<Rightarrow> bool"
  for svc st0 where
  sys_init: "sys_run svc st0 [] [] st0"
| sys_call: "sys_run svc st0 tr ps st \<Longrightarrow> sys_run svc st0 tr (ps @ [Arrived cc req]) st"
| sys_step: "sys_run svc st0 tr ps st \<Longrightarrow> i < length ps \<Longrightarrow> step svc (ps ! i) st = Some (p', st') \<Longrightarrow>
    sys_run svc st0 (tr @ [(i, ps ! i)]) (ps[i := p']) st'"

lemma filter_update:
  "i < length ps \<Longrightarrow> int (length (filter P (ps[i := x]))) = int (length (filter P ps)) + of_bool (P x) - of_bool (P (ps ! i))"
proof (induction ps arbitrary: i)
  case (Cons a ps)
  then show ?case by (cases i) simp_all
qed simp

lemma filter_nth_pos: "i < length ps \<Longrightarrow> P (ps ! i) \<Longrightarrow> 0 < length (filter P ps)"
  using nth_mem [of i ps] by (auto simp: filter_empty_conv)

text \<open>The slots taken are the calls that hold one.\<close>

lemma sys_limiter:
  assumes "sys_run svc st0 tr ps st" and "limiter_ok (st_limiter st0)" and "lm_slots (st_limiter st0) = 0"
  shows "limiter_ok (st_limiter st) \<and> lm_max (st_limiter st) = lm_max (st_limiter st0) \<and>
    lm_slots (st_limiter st) = length (filter holding ps)"
  using assms
proof (induction rule: sys_run.induct)
  case (sys_step tr ps st i p' st')
  have "holding (ps ! i) \<longrightarrow> 0 < lm_slots (st_limiter st)"
    using sys_step.IH [OF sys_step.prems] filter_nth_pos [OF sys_step.hyps(2)] by simp
  from step_limiter [OF sys_step.hyps(3) _ this] show ?case
    using sys_step.IH [OF sys_step.prems] filter_update [OF sys_step.hyps(2), of holding p'] by simp
qed simp_all

lemma sys_gauge:
  "sys_run svc st0 tr ps st \<Longrightarrow>
   gauge st = gauge st0 + (if sv_metrics svc then int (length (filter in_flight ps)) else 0)"
proof (induction rule: sys_run.induct)
  case (sys_step tr ps st i p' st')
  then show ?case using step_gauge [OF sys_step.hyps(3)] filter_update [OF sys_step.hyps(2), of in_flight p'] by simp
qed simp_all

lemma sys_length: "sys_run svc st0 tr ps st \<Longrightarrow> length tr + sum_list (map rank ps) \<le> 7 * length ps"
proof (induction rule: sys_run.induct)
  case (sys_step tr ps st i p' st')
  have "sum_list (map rank (ps[i := p'])) + rank (ps ! i) = sum_list (map rank ps) + rank p'"
    using sys_step.hyps(2) sum_list_update [of i "map rank ps" "rank p'"] elem_le_sum_list [of i "map rank ps"]
    by (simp add: map_update)
  then show ?case using step_rank [OF sys_step.hyps(3)] sys_step.IH by simp
qed simp_all

text \<open>A call never comes back to a place it has left.\<close>

definition past :: "nat \<Rightarrow> (nat \<times> 'w pc) list \<Rightarrow> nat list" where
  "past i tr = map (\<lambda>x. rank (snd x)) (filter (\<lambda>x. fst x = i) tr)"

lemma sys_past:
  "sys_run svc st0 tr ps st \<Longrightarrow> if i < length ps then sorted_wrt (>) (past i tr @ [rank (ps ! i)]) else past i tr = []"
proof (induction arbitrary: i rule: sys_run.induct)
  case (sys_call tr ps st cc req)
  show ?case using sys_call.IH [of i] by (cases "i = length ps") (auto simp: nth_append split: if_splits)
next
  case (sys_step tr ps st j p' st')
  show ?case
  proof (cases "i = j")
    case True
    then show ?thesis using sys_step.IH [of i] sys_step.hyps(2) step_rank [OF sys_step.hyps(3)]
      by (fastforce simp: past_def sorted_wrt_append)
  next
    case False
    then show ?thesis using sys_step.IH [of i] by (auto simp: past_def)
  qed
qed (simp add: past_def)

lemma falling_once: "sorted_wrt (>) (xs :: nat list) \<Longrightarrow> length (filter (\<lambda>n. n = c) xs) \<le> 1"
proof (induction xs)
  case (Cons a xs)
  then have "a = c \<Longrightarrow> filter (\<lambda>n. n = c) xs = []" by (auto simp: filter_empty_conv)
  then show ?case using Cons by (cases "a = c") simp_all
qed simp

lemma runs_once:
  assumes "sys_run svc st0 tr ps st"
  shows "length (filter (\<lambda>x. fst x = i \<and> runs (snd x)) tr) \<le> 1"
proof -
  have "sorted_wrt (>) (past i tr)" using sys_past [OF assms, of i] by (auto simp: sorted_wrt_append split: if_splits)
  moreover have "length (filter (\<lambda>x. fst x = i \<and> runs (snd x)) tr) = length (filter (\<lambda>n. n = 4) (past i tr))"
    by (simp add: past_def runs_rank filter_map comp_def conj_commute)
  ultimately show ?thesis using falling_once by simp
qed

context execution_stores
begin

lemma sys_carries: "sys_run svc st0 tr ps st \<Longrightarrow> p \<in> set ps \<Longrightarrow> carries p = Some r \<Longrightarrow> kept r st"
proof (induction arbitrary: p r rule: sys_run.induct)
  case (sys_step tr ps st i p' st')
  show ?case
  proof (cases "p \<in> set ps")
    case True
    then show ?thesis using sys_step.IH sys_step.prems(2) step_kept [OF sys_step.hyps(3)] by blast
  next
    case False
    then have "p = p'" using sys_step.prems(1) set_update_subset_insert [of ps i p'] by blast
    then show ?thesis
      using step_carries [OF sys_step.hyps(3)] sys_step.IH [OF nth_mem [OF sys_step.hyps(2)]] sys_step.prems(2) by blast
  qed
qed auto

end

text \<open>
  C8: Any number of calls may run at once, over PostgreSQL with any faults, and interleave in any
  order. At most as many as the limiter allows are inside at any moment; none ever blocks: a call
  that has not returned can always take its next step, and all together take at most seven steps
  per call, so every call returns. No call runs its adapter twice. A receipt that a call has
  returned is in the table, and stays there whatever the others do, under its own identifier or as
  the row a replay read. The active-executions instrument shows exactly the calls between the
  dispatch and the end.
\<close>

theorem Execute_interleaved:
  assumes run: "sys_run (on_pg env svc) st0 tr ps st" and "limiter_ok (st_limiter st0)" and "lm_slots (st_limiter st0) = 0"
  shows "length (filter holding ps) \<le> lm_max (st_limiter st0) \<and>
    (\<forall>p \<in> set ps. (\<exists>out. p = Returned out) \<or> (\<exists>p' st'. step (on_pg env svc) p st = Some (p', st'))) \<and>
    length tr \<le> 7 * length ps \<and>
    (\<forall>i. length (filter (\<lambda>x. fst x = i \<and> runs (snd x)) tr) \<le> 1) \<and>
    (\<forall>r. Returned (Ret (Inr r)) \<in> set ps \<longrightarrow>
       (\<exists>v. pg_enc env r = Some v \<and> pg_rows (st_store st) (receipt_key r) = Some v) \<or>
       (\<exists>k v t. pg_rows (st_store st) k = Some v \<and> Receipt_UnmarshalJSON t v = Inr r)) \<and>
    gauge st = gauge st0 + (if sv_metrics svc then int (length (filter in_flight ps)) else 0)"
proof (intro conjI ballI allI impI)
  note lim = sys_limiter [OF assms]
  show "length (filter holding ps) \<le> lm_max (st_limiter st0)" using lim limiter.within by metis
  show "(\<exists>out. p = Returned out) \<or> (\<exists>p' st'. step (on_pg env svc) p st = Some (p', st'))" if "p \<in> set ps" for p
  proof (cases "step (on_pg env svc) p st")
    case None
    have "Release (st_limiter st) \<noteq> None" if "holding p"
    proof -
      have "filter holding ps \<noteq> []" using that \<open>p \<in> set ps\<close> by (auto simp: filter_empty_conv)
      then show ?thesis using lim limiter.released [of "st_limiter st"] by fastforce
    qed
    then show ?thesis using None by (auto simp: step_None)
  qed (simp add: split_paired_Ex [symmetric])
  show "length tr \<le> 7 * length ps" using sys_length [OF run] by simp
  show "length (filter (\<lambda>x. fst x = i \<and> runs (snd x)) tr) \<le> 1" for i by (rule runs_once [OF run])
  show "(\<exists>v. pg_enc env r = Some v \<and> pg_rows (st_store st) (receipt_key r) = Some v) \<or>
      (\<exists>k v t. pg_rows (st_store st) k = Some v \<and> Receipt_UnmarshalJSON t v = Inr r)"
    if "Returned (Ret (Inr r)) \<in> set ps" for r
    using pg_stores.sys_carries [OF run that] by (simp add: pg_stores.kept_def pg_stores.stored_def)
  show "gauge st = gauge st0 + (if sv_metrics svc then int (length (filter in_flight ps)) else 0)"
    using sys_gauge [OF run] by (simp add: on_pg_def)
qed

section \<open>Schedules\<close>

text \<open>The steps of given calls in a given order, as a function.\<close>

fun schedule ::
  "('w, 's) ExecuteService \<Rightarrow> nat list \<Rightarrow> (nat \<times> 'w pc) list \<times> 'w pc list \<times> ('w, 's) exec_state \<Rightarrow>
   ((nat \<times> 'w pc) list \<times> 'w pc list \<times> ('w, 's) exec_state) option" where
  "schedule svc [] x = Some x"
| "schedule svc (i # is) (tr, ps, st) =
     (if i < length ps
      then case step svc (ps ! i) st of None \<Rightarrow> None
        | Some (p', st') \<Rightarrow> schedule svc is (tr @ [(i, ps ! i)], ps[i := p'], st')
      else None)"

lemma schedule_run:
  "schedule svc is (tr, ps, st) = Some (tr', ps', st') \<Longrightarrow> sys_run svc st0 tr ps st \<Longrightarrow> sys_run svc st0 tr' ps' st'"
proof (induction "is" arbitrary: tr ps st)
  case (Cons i "is")
  from Cons.prems(1) obtain p2 st2 where i: "i < length ps" "step svc (ps ! i) st = Some (p2, st2)"
    and "schedule svc is (tr @ [(i, ps ! i)], ps[i := p2], st2) = Some (tr', ps', st')"
    by (auto split: if_splits option.splits)
  from Cons.IH [OF this(3) sys_run.sys_step [OF Cons.prems(2) i]] show ?case .
qed simp

lemma arrivals_run: "sys_run svc st0 [] (map (\<lambda>(cc, req). Arrived cc req) xs) st0"
  by (induction xs rule: rev_induct) (auto intro: sys_run.intros)

text \<open>A call that is not interrupted steps through as it would alone.\<close>

lemma sys_alone:
  assumes "alone svc (p, st) (p', st')" and "sys_run svc st0 tr (ps @ p # qs) st"
  shows "\<exists>tr'. sys_run svc st0 tr' (ps @ p' # qs) st'"
proof -
  have "\<exists>tr'. sys_run svc st0 tr' (ps @ fst y # qs) (snd y)"
    if "(\<lambda>x y. step svc (fst x) (snd x) = Some y)\<^sup>*\<^sup>* (p, st) y" for y
    using that
  proof (induction rule: rtranclp_induct)
    case (step y z)
    then obtain tr' where "sys_run svc st0 tr' (ps @ fst y # qs) (snd y)" by blast
    from sys_run.sys_step [OF this, of "length ps" "fst z" "snd z"] step.hyps(2) show ?case
      by (auto simp: list_update_append)
  qed (use assms(2) in auto)
  then show ?thesis using assms(1) unfolding alone_def by fastforce
qed

lemma Execute_in_turn:
  "Execute svc cc req st = Some (out, st') \<Longrightarrow> sys_run svc st0 tr (ps @ Arrived cc req # qs) st \<Longrightarrow>
   \<exists>tr'. sys_run svc st0 tr' (ps @ Returned out # qs) st'"
  using sys_alone steps_refine_Execute by blast

definition sample_pg_state :: "(string list, pg_db) exec_state" where
  "sample_pg_state = \<lparr>st_world = [], st_store = sample_db, st_limiter = st_limiter sample_state, st_ticks = 0, st_ids = 0, st_events = []\<rparr>"

theorem Execute_interleaved_witness:
  "\<exists>tr p st. sys_run sample_pg_service sample_pg_state tr [Returned (Ret (Inr (run_receipt sample_pg_run))), p] st \<and>
     holding p \<and> length tr \<le> 14 \<and> length (filter (\<lambda>x. fst x = 0 \<and> runs (snd x)) tr) \<le> 1 \<and>
     ((\<exists>v. pg_enc sample_calm (run_receipt sample_pg_run) = Some v \<and>
         pg_rows (st_store st) (receipt_key (run_receipt sample_pg_run)) = Some v) \<or>
      (\<exists>k v t. pg_rows (st_store st) k = Some v \<and> Receipt_UnmarshalJSON t v = Inr (run_receipt sample_pg_run))) \<and>
     gauge st = 0"
proof -
  let ?svc = sample_pg_service and ?a = "Arrived sample_cc sample_request" and ?r = "Returned (Ret (Inr (run_receipt sample_pg_run)))"
  have ok: "limiter_ok (st_limiter sample_pg_state)" "lm_slots (st_limiter sample_pg_state) = 0"
    by (simp_all add: sample_pg_state_def sample_state_def limiter_ok_def)
  have "Execute ?svc sample_cc sample_request sample_pg_state = Some (Ret (Inr (run_receipt sample_pg_run)), run_state sample_pg_run)"
    using returned_receiptD [OF sample_pg_returns] by (simp add: sample_pg_run_def sample_pg_state_def)
  moreover have "sys_run ?svc sample_pg_state [] ([] @ ?a # [?a]) sample_pg_state"
    using arrivals_run [of ?svc sample_pg_state "[(sample_cc, sample_request), (sample_cc, sample_request)]"] by simp
  ultimately obtain tr where one: "sys_run ?svc sample_pg_state tr [?r, ?a] (run_state sample_pg_run)"
    using Execute_in_turn [where ps = "[]" and qs = "[?a]"] by fastforce
  obtain p st where two: "enter_step ?svc sample_cc sample_request (run_state sample_pg_run) = (p, st)" by fastforce
  have free: "lm_slots (st_limiter (run_state sample_pg_run)) = 0"
    "lm_max (st_limiter (run_state sample_pg_run)) = 1" "limiter_ok (st_limiter (run_state sample_pg_run))"
    using sys_limiter [OF one ok] by (simp_all add: sample_pg_state_def sample_state_def)
  have p: "holding p" "\<not> in_flight p" "\<not> runs (?a :: string list pc)" using two free by (auto simp: enter_step_def TryAcquire_def send_slot_def Let_def split: prod.splits option.splits if_splits)
  have "sys_run ?svc sample_pg_state (tr @ [(1, ?a)]) [?r, p] st"
    using sys_run.sys_step [OF one, of 1 p st] two by simp
  note all = this Execute_interleaved [OF this [unfolded sample_pg_service_def] ok]
  show ?thesis
  proof (intro exI conjI)
    show "sys_run ?svc sample_pg_state (tr @ [(1, ?a)]) [?r, p] st" by (rule all(1))
    show "gauge st = 0"
      using all(2) p(2) by (simp add: sample_pg_state_def)
  qed (use all(2) p in simp_all)
qed

text \<open>
  Lookup and record are two operations of the idempotency store with the whole execution between
  them. Two calls under one key that both look it up before either has recorded it both run the
  adapter, and both payloads reach the world.
\<close>

definition race_state :: "(string list, memory) exec_state" where
  "race_state = sample_state\<lparr>st_limiter := \<lparr>lm_max = 2, lm_slots = 0, lm_inUse = 0\<rparr>\<rparr>"

definition race :: "((nat \<times> string list pc) list \<times> string list pc list \<times> (string list, memory) exec_state) option" where
  "race = schedule sample_service [0, 1, 0, 1, 0, 1, 0, 1] ([], [Arrived sample_cc sample_request, Arrived sample_cc sample_request], race_state)"

lemma same_key_runs_twice:
  "req_idempotencyKey sample_request \<noteq> None"
  "map_option (\<lambda>(tr, _, st). (map fst (filter (\<lambda>x. runs (snd x)) tr), st_world st)) race =
   Some ([0, 1], [pl_Raw (req_payload sample_request), pl_Raw (req_payload sample_request), ''seed''])"
  subgoal by (simp add: sample_request_def)
  subgoal by code_simp
  done

end
