(* ===== verification/Spec2Isabelle.thy ===== *)
theory Spec2Isabelle
  imports Entry_Points Receipt_Typing Contract_Suite Chaos_Receiver Test_Doubles Log_Context Chaos_E2E Wire_Roundtrip Execute_Interleaving
begin

text \<open>
  Sophia runtime adapters: a verification library of the Go program under \<open>src/\<close>.

  \<^bold>\<open>The program.\<close> A service accepts an execution request (a capability such as
  \<open>shell.exec@v1\<close>, a payload, a timeout budget, perhaps an idempotency key), runs it through one
  of four outbound adapters (shell, git, filesystem, HTTP), turns what the adapter reports into
  a normalized result, persists a receipt in PostgreSQL before it answers, and replays the
  receipt when the key comes again. It is reached over HTTP or through an in-process client. Two
  further processes turn Alertmanager webhooks into Linear issues and Grafana annotations; a
  fault-injection layer can wrap adapters and the receipt store, and a small receiver records
  alerts during drills.

  \<^bold>\<open>Layers and theories\<close>, each theory naming the files it follows:

  \<^item> \<open>Go_Prelude\<close>, \<open>Go_Strconv\<close>, \<open>Go_Path\<close>, \<open>Go_Json\<close>: what the sources use of the language and its
    standard library. Errors are records with a text and the sentinels \<open>errors.Is\<close> finds; a panic is
    a value of \<open>outcome\<close>; a duration is an integer whose 64-bit wrap-around is written out
    (\<open>wrap64\<close>); a string is its bytes; a context is what its \<open>Err()\<close> answers in turn.
  \<^item> \<open>Ids\<close>, \<open>Ids_Json\<close>, \<open>Value_Objects\<close>, \<open>Entities\<close>, \<open>Wire\<close>, \<open>Raw_Outcomes\<close>: the domain
    (\<open>internal/domain\<close>). Every validating constructor with its errors, the capability registry and
    catalog, the JSON syntax check as a byte scanner, the hand-written JSON forms, and the
    registry of normalizers; \<open>Wire_Roundtrip\<close> shows that documents are canonical.
  \<^item> \<open>Adapter_Port\<close> with its locale \<open>adapter_contract\<close>, interpreted on \<open>Shell_Adapter\<close>,
    \<open>Filesystem_Adapter\<close>, \<open>Git_Adapter\<close> and \<open>Http_Adapter\<close> (\<open>internal/adapters/outbound\<close>); \<open>Registration\<close>
    wires them, \<open>Contract_Suite\<close> is the suite of \<open>test/contract\<close>.
  \<^item> \<open>Stores\<close>: the ports for receipts and keys as locales \<open>receipt_repository\<close> and
    \<open>idempotency_store\<close>, interpreted on the PostgreSQL stores and on the in-memory doubles;
    \<open>Migrations\<close> and \<open>Test_Doubles\<close> beside them.
  \<^item> \<open>Concurrency\<close>, \<open>Observability\<close>, \<open>Execute_Service\<close>: the application (\<open>internal/application\<close>). The
    state of a call is the world, the stores, the limiter, the readings of clock and generator and
    the events emitted; \<open>Execute\<close> follows the eleven steps of the source with every early return,
    recovered panic and deferred action. \<open>Execute_Properties\<close> and \<open>Receipt_Typing\<close> prove what it
    guarantees. \<open>Execute_Interleaving\<close> cuts a call into atomic steps, proves that run alone they
    compute \<open>Execute\<close>, and runs any number of calls over one shared state.
  \<^item> \<open>Inbound_Http\<close>, \<open>Inbound_Trace\<close>, \<open>Router\<close>: handlers, middleware, trace context, the client and the
    router (\<open>internal/adapters/inbound\<close>).
  \<^item> \<open>Config\<close>, \<open>Log_Output\<close>, \<open>Log_Context\<close>, \<open>Telemetry\<close>, \<open>Chaos\<close>, \<open>Chaos_Decorators\<close>: the infrastructure
    (\<open>internal/infrastructure\<close>).
  \<^item> \<open>Sha256\<close>, \<open>Linear_Client\<close>, \<open>Linear_Lifecycle\<close>, \<open>Linear_Properties\<close>, \<open>Grafana\<close>: the
    integrations (\<open>internal/integrations\<close>).
  \<^item> \<open>Chaos_Receiver\<close> and \<open>Chaos_E2E\<close>: the receiver of the drills (\<open>ops/chaos/receiver\<close>), and the client
    that polls it with the compose lifecycle around it (\<open>test/chaos/e2e\<close>), separately and composed.
  \<^item> \<open>Bootstrap\<close> and \<open>Entry_Points\<close>: the composition root and the three processes.

  \<^bold>\<open>What is shown.\<close> Of the service: at most one side effect per request, under the effective
  timeout; the receipt is in the table when a call returns it; the table holds well-formed
  receipts only; a recorded key is replayed; outcomes are classified in the documented order; a
  call always returns, with the limiter and the in-flight gauge as it found them; its emissions
  keep the metric contract. Facts about every state change of a call are proved once, in the
  locales \<open>service_frame\<close> and \<open>service_run\<close> over an arbitrary preorder the primitive actions
  respect, and those about stores once in \<open>execution_stores\<close> and \<open>typed_stores\<close>, then
  interpreted. Of the adapters: path containment after symbolic links, atomic writes under any
  failing system call, bounded reads, no request to a private address in strict mode, clean-up
  of worktrees, classification, and the port's contract for all of them. Of the stores:
  durability, append-only rows, the first writer of a key wins, documents that survive being read
  and written again. Of concurrent
  calls: every interleaving of the limiter's atomic steps, and every interleaving of the steps of
  any number of calls (\<open>sys_run\<close>): the limit holds, none blocks, each runs its adapter at most once,
  and what one has returned the others leave in the table. Of the boundary: the endpoints, the router as a whole, the
  agreement of client and HTTP, trace identifiers. Of the rest: fault injection is fail-closed
  and transparent where it names nothing, the log mirror cannot disturb the log, start-up
  succeeds for what \<open>Load\<close> accepts and leaks nothing, no process leaves the test tenant in
  continuous integration, the alert integrations neither lose nor duplicate what they are sent
  and answer so that Alertmanager retries what a retry can mend, the receiver and its client
  together are a bounded log, and waiting for an alert ends.

  \<^bold>\<open>Parameters.\<close> Code that is not in the repository is an argument with the behaviour relied on
  as a named hypothesis: go-git, os/exec, DNS and net/http, pgx and PostgreSQL's \<open>jsonb\<close>, the
  migration library, chi's path matching, the OpenTelemetry SDK, YAML, the Linear and Grafana
  services, and the readings of clocks and random sources. The text lexers of \<open>encoding/json\<close> and
  the parsers of floating-point durations and RFC 3339 times are arguments too, except where a
  property depends on them (payload validation, compaction).

  \<^bold>\<open>Bounds.\<close> No definition needs fuel for the program's loops: each recurs on data or has a
  termination proof, except the two polling loops of the drills, which are partial functions into
  an option and are proved to return when the clock advances. The bounds taken from the source are
  the walks to the module root, which stop after twenty directories in the fault-injection loader
  and after ten in the drills. A call that would block for
  ever (a release of a slot nobody holds) has no value, and it is proved that this does not
  happen.

  \<^bold>\<open>Not modelled.\<close> The output formats of \<open>log/slog\<close> and its groups, which nothing uses; signal
  handling and listening, which are an argument of the processes; the SQL of the migrations and
  the queries' text, whose effect on the two tables is what is modelled; what docker does with the
  commands of the drills; an adapter's run observed by another call while it lasts: in the
  interleavings a step uses the stores at most once or runs the adapter, and is atomic.
\<close>

end
